(* ===== verification/Prelude.thy ===== *)
theory Prelude
  imports Main "HOL-Library.Sublist"
begin

text \<open>
  What every component of the TurboCI model shares: results, Rust's string operations
  and decimal numbers.

  A Rust \<open>String\<close> is modelled by its UTF-8 bytes, one \<open>char\<close> per byte, so that
  \<open>len()\<close>, slicing and offsets mean what they mean in the code. ASCII tests on characters are
  tests on bytes (no byte of a multi-byte character is below 128); the functions that look at
  Unicode white space (\<open>trim\<close>, \<open>split_whitespace\<close>, \<open>char::is_whitespace\<close>) decode the byte
  sequences of the White_Space characters.
\<close>

named_theorems str_simps \<open>characteristic equations of the string operations\<close>

section \<open>Results\<close>

type_synonym ('e, 'a) result = "'e + 'a"

text \<open>\<open>Result::and_then\<close>, the \<open>?\<close> operator.\<close>

definition rbind :: "('e, 'a) result \<Rightarrow> ('a \<Rightarrow> ('e, 'b) result) \<Rightarrow> ('e, 'b) result" where
  "rbind r f = (case r of Inl e \<Rightarrow> Inl e | Inr a \<Rightarrow> f a)"

definition ok_or :: "'e \<Rightarrow> 'a option \<Rightarrow> ('e, 'a) result" where
  "ok_or e x = (case x of None \<Rightarrow> Inl e | Some a \<Rightarrow> Inr a)"

lemma rbind_simps [simp]: "rbind (Inl e) f = Inl e" "rbind (Inr a) f = f a"
  by (simp_all add: rbind_def)

lemma ok_or_simps [simp]: "ok_or e None = Inl e" "ok_or e (Some a) = Inr a"
  by (simp_all add: ok_or_def)

lemma rbind_Inr_conv: "rbind r f = Inr b \<longleftrightarrow> (\<exists>a. r = Inr a \<and> f a = Inr b)"
  by (cases r) auto

lemma rbind_Inl_conv: "rbind r f = Inl e \<longleftrightarrow> r = Inl e \<or> (\<exists>a. r = Inr a \<and> f a = Inl e)"
  by (cases r) auto

section \<open>Bytes and ASCII classes\<close>

abbreviation byte :: "char \<Rightarrow> nat" where
  "byte c \<equiv> of_char c"

definition is_ascii_digit :: "char \<Rightarrow> bool" where
  "is_ascii_digit c \<longleftrightarrow> 48 \<le> byte c \<and> byte c \<le> 57"

definition is_ascii_upper :: "char \<Rightarrow> bool" where
  "is_ascii_upper c \<longleftrightarrow> 65 \<le> byte c \<and> byte c \<le> 90"

definition is_ascii_lower :: "char \<Rightarrow> bool" where
  "is_ascii_lower c \<longleftrightarrow> 97 \<le> byte c \<and> byte c \<le> 122"

definition is_ascii_alpha :: "char \<Rightarrow> bool" where
  "is_ascii_alpha c \<longleftrightarrow> is_ascii_upper c \<or> is_ascii_lower c"

definition is_ascii_alnum :: "char \<Rightarrow> bool" where
  "is_ascii_alnum c \<longleftrightarrow> is_ascii_alpha c \<or> is_ascii_digit c"

definition is_ascii_hexdigit :: "char \<Rightarrow> bool" where
  "is_ascii_hexdigit c \<longleftrightarrow> is_ascii_digit c \<or> (65 \<le> byte c \<and> byte c \<le> 70) \<or> (97 \<le> byte c \<and> byte c \<le> 102)"

definition ascii_lowercase :: "char \<Rightarrow> char" where
  "ascii_lowercase c = (if is_ascii_upper c then char_of (byte c + 32) else c)"

definition to_ascii_lowercase :: "string \<Rightarrow> string" where
  "to_ascii_lowercase s = map ascii_lowercase s"

lemmas ascii_defs = is_ascii_digit_def is_ascii_upper_def is_ascii_lower_def is_ascii_alpha_def
  is_ascii_alnum_def is_ascii_hexdigit_def

lemma byte_inj: "byte c = byte d \<longleftrightarrow> c = d"
  by simp

definition dq :: char where "dq = CHR 0x22"
definition sq :: char where "sq = CHR 0x27"
definition nl :: char where "nl = CHR 0x0A"
definition bs :: char where "bs = CHR 0x5C"

lemmas char_consts = dq_def sq_def nl_def bs_def

section \<open>White space\<close>

text \<open>
  Length in bytes of the Unicode White_Space character \<open>s\<close> starts with, 0 when it starts with
  none: U+0009-000D, U+0020, U+0085, U+00A0, U+1680, U+2000-200A, U+2028, U+2029, U+202F,
  U+205F and U+3000.
\<close>

definition ascii_ws :: "nat \<Rightarrow> bool" where
  "ascii_ws b \<longleftrightarrow> (9 \<le> b \<and> b \<le> 13) \<or> b = 32"

definition ws2 :: "nat \<Rightarrow> nat \<Rightarrow> bool" where
  "ws2 a b \<longleftrightarrow> a = 0xC2 \<and> (b = 0x85 \<or> b = 0xA0)"

definition ws3 :: "nat \<Rightarrow> nat \<Rightarrow> nat \<Rightarrow> bool" where
  "ws3 a b c \<longleftrightarrow> (a = 0xE1 \<and> b = 0x9A \<and> c = 0x80)
     \<or> (a = 0xE2 \<and> b = 0x80 \<and> ((0x80 \<le> c \<and> c \<le> 0x8A) \<or> c = 0xA8 \<or> c = 0xA9 \<or> c = 0xAF))
     \<or> (a = 0xE2 \<and> b = 0x81 \<and> c = 0x9F) \<or> (a = 0xE3 \<and> b = 0x80 \<and> c = 0x80)"

fun ws_len :: "string \<Rightarrow> nat" where
  "ws_len [] = 0"
| "ws_len (a # s) = (if ascii_ws (byte a) then 1 else
     (case s of [] \<Rightarrow> 0
      | b # t \<Rightarrow> if ws2 (byte a) (byte b) then 2 else
          (case t of [] \<Rightarrow> 0 | c # _ \<Rightarrow> if ws3 (byte a) (byte b) (byte c) then 3 else 0)))"

text \<open>The same at the end of a string, given reversed.\<close>

fun ws_len_rev :: "string \<Rightarrow> nat" where
  "ws_len_rev [] = 0"
| "ws_len_rev (a # s) = (if ascii_ws (byte a) then 1 else
     (case s of [] \<Rightarrow> 0
      | b # t \<Rightarrow> if ws2 (byte b) (byte a) then 2 else
          (case t of [] \<Rightarrow> 0 | c # _ \<Rightarrow> if ws3 (byte c) (byte b) (byte a) then 3 else 0)))"

lemma ws_len_le: "ws_len s \<le> length s"
  by (cases s rule: ws_len.cases) (auto split: list.splits)

lemma ws_len_rev_le: "ws_len_rev s \<le> length s"
  by (cases s rule: ws_len_rev.cases) (auto split: list.splits)

function trim_start :: "string \<Rightarrow> string" where
  "trim_start s = (if ws_len s = 0 then s else trim_start (drop (ws_len s) s))"
  by pat_completeness auto
termination
proof (relation "measure length")
  show "wf (measure length)" by simp
next
  fix s :: string
  assume "ws_len s \<noteq> 0"
  moreover from this have "s \<noteq> []" by auto
  ultimately show "(drop (ws_len s) s, s) \<in> measure length" by (cases s) auto
qed

function trim_rev :: "string \<Rightarrow> string" where
  "trim_rev s = (if ws_len_rev s = 0 then s else trim_rev (drop (ws_len_rev s) s))"
  by pat_completeness auto
termination
proof (relation "measure length")
  show "wf (measure length)" by simp
next
  fix s :: string
  assume "ws_len_rev s \<noteq> 0"
  moreover from this have "s \<noteq> []" by auto
  ultimately show "(drop (ws_len_rev s) s, s) \<in> measure length" by (cases s) auto
qed

declare trim_start.simps [simp del] trim_rev.simps [simp del]

definition trim_end :: "string \<Rightarrow> string" where
  "trim_end s = rev (trim_rev (rev s))"

definition trim :: "string \<Rightarrow> string" where
  "trim s = trim_end (trim_start s)"

lemma trim_start_suffix: "suffix (trim_start s) s"
proof (induction s rule: trim_start.induct)
  case (1 s)
  show ?case
  proof (cases "ws_len s = 0")
    case True
    then show ?thesis by (subst trim_start.simps) simp
  next
    case False
    with 1 have "suffix (trim_start (drop (ws_len s) s)) s"
      using suffix_drop suffix_order.trans by blast
    with False show ?thesis by (subst trim_start.simps) simp
  qed
qed

lemma trim_start_done: "ws_len (trim_start s) = 0"
proof (induction s rule: trim_start.induct)
  case (1 s)
  then show ?case by (subst trim_start.simps) (simp add: trim_start.simps[of s])
qed

lemma trim_start_idle: "ws_len s = 0 \<Longrightarrow> trim_start s = s"
  by (simp add: trim_start.simps)

lemma trim_rev_suffix: "suffix (trim_rev s) s"
proof (induction s rule: trim_rev.induct)
  case (1 s)
  show ?case
  proof (cases "ws_len_rev s = 0")
    case True
    then show ?thesis by (subst trim_rev.simps) simp
  next
    case False
    with 1 have "suffix (trim_rev (drop (ws_len_rev s) s)) s"
      using suffix_drop suffix_order.trans by blast
    with False show ?thesis by (subst trim_rev.simps) simp
  qed
qed

lemma trim_end_prefix: "prefix (trim_end s) s"
  using trim_rev_suffix[of "rev s"] by (simp add: trim_end_def suffix_to_prefix)

lemma set_trim: "set (trim s) \<subseteq> set s"
proof -
  have "set (trim s) \<subseteq> set (trim_start s)"
    unfolding trim_def by (rule set_mono_prefix[OF trim_end_prefix])
  also have "\<dots> \<subseteq> set s" by (rule set_mono_suffix[OF trim_start_suffix])
  finally show ?thesis .
qed

text \<open>\<open>str::find(char::is_whitespace)\<close> and \<open>str::split_whitespace\<close>.\<close>

fun find_ws :: "string \<Rightarrow> nat option" where
  "find_ws [] = None"
| "find_ws (c # s) = (if ws_len (c # s) > 0 then Some 0 else map_option Suc (find_ws s))"

lemma find_ws_le: "find_ws s = Some i \<Longrightarrow> i < length s"
  by (induction s arbitrary: i) (auto simp del: ws_len.simps split: if_splits)

function split_whitespace :: "string \<Rightarrow> string list" where
  "split_whitespace s =
     (let t = trim_start s in
      if t = [] then []
      else (case find_ws t of None \<Rightarrow> [t] | Some i \<Rightarrow> take i t # split_whitespace (drop i t)))"
  by pat_completeness auto
termination
proof (relation "measure length")
  show "wf (measure length)" by simp
next
  fix s t i
  assume t: "t = trim_start s" "t \<noteq> []" and i: "find_ws t = Some i"
  have "i \<noteq> 0"
  proof
    assume "i = 0"
    with i t(2) have "ws_len t > 0"
      by (cases t) (auto simp del: ws_len.simps split: if_splits)
    then show False using trim_start_done t(1) by simp
  qed
  then have "length (drop i t) < length t" using t(2) by simp
  moreover have "length t \<le> length s" using trim_start_suffix t(1) suffix_length_le by blast
  ultimately show "(drop i t, s) \<in> measure length" by simp
qed

declare split_whitespace.simps [simp del]

section \<open>Searching, splitting, replacing\<close>

definition starts_with :: "string \<Rightarrow> string \<Rightarrow> bool" where
  "starts_with s p \<longleftrightarrow> prefix p s"

definition ends_with :: "string \<Rightarrow> string \<Rightarrow> bool" where
  "ends_with s p \<longleftrightarrow> suffix p s"

definition strip_prefix :: "string \<Rightarrow> string \<Rightarrow> string option" where
  "strip_prefix p s = (if prefix p s then Some (drop (length p) s) else None)"

definition strip_suffix :: "string \<Rightarrow> string \<Rightarrow> string option" where
  "strip_suffix p s = (if suffix p s then Some (take (length s - length p) s) else None)"

lemma strip_prefix_Some: "strip_prefix p s = Some r \<longleftrightarrow> s = p @ r"
  by (auto simp: strip_prefix_def prefix_def)

text \<open>\<open>str::find\<close> of a string: the first byte offset.\<close>

fun find_str :: "string \<Rightarrow> string \<Rightarrow> nat option" where
  "find_str p [] = (if p = [] then Some 0 else None)"
| "find_str p (c # s) = (if prefix p (c # s) then Some 0 else map_option Suc (find_str p s))"

definition contains :: "string \<Rightarrow> string \<Rightarrow> bool" where
  "contains s p \<longleftrightarrow> find_str p s \<noteq> None"

lemma find_str_Some:
  "find_str p s = Some i \<Longrightarrow> i + length p \<le> length s \<and> prefix p (drop i s)"
  by (induction p s arbitrary: i rule: find_str.induct)
    (auto split: if_splits dest: prefix_length_le)

lemma find_str_least: "find_str p s = Some i \<Longrightarrow> j < i \<Longrightarrow> \<not> prefix p (drop j s)"
proof (induction p s arbitrary: i j rule: find_str.induct)
  case (2 p c s)
  then show ?case by (cases j) (auto split: if_splits)
qed (auto split: if_splits)

lemma find_str_None: "find_str p s = None \<longleftrightarrow> (\<forall>i. \<not> prefix p (drop i s))"
proof (induction p s rule: find_str.induct)
  case (2 p c s)
  show ?case
  proof
    assume "find_str p (c # s) = None"
    with 2 have "\<not> prefix p (c # s)" and "\<forall>i. \<not> prefix p (drop i s)"
      by (auto split: if_splits)
    then show "\<forall>i. \<not> prefix p (drop i (c # s))"
      by (metis drop_Cons' )
  next
    assume "\<forall>i. \<not> prefix p (drop i (c # s))"
    then have "\<not> prefix p (c # s)" and "\<forall>i. \<not> prefix p (drop i s)"
      by (metis drop_0, metis drop_Suc_Cons)
    with 2 show "find_str p (c # s) = None" by simp
  qed
qed auto

lemma contains_iff: "contains s p \<longleftrightarrow> (\<exists>a b. s = a @ p @ b)"
proof
  assume "contains s p"
  then obtain i where "find_str p s = Some i" by (auto simp: contains_def)
  then have "prefix p (drop i s)" using find_str_Some by blast
  then obtain b where "drop i s = p @ b" by (auto simp: prefix_def)
  then have "s = take i s @ p @ b" by (metis append_take_drop_id)
  then show "\<exists>a b. s = a @ p @ b" by blast
next
  assume "\<exists>a b. s = a @ p @ b"
  then obtain a b where "s = a @ p @ b" by blast
  then have "prefix p (drop (length a) s)" by simp
  then show "contains s p" using find_str_None by (auto simp: contains_def)
qed

text \<open>\<open>str::split_once\<close>: around the first occurrence.\<close>

definition split_once :: "string \<Rightarrow> string \<Rightarrow> (string \<times> string) option" where
  "split_once p s = map_option (\<lambda>i. (take i s, drop (i + length p) s)) (find_str p s)"

lemma split_once_Some: "split_once p s = Some (a, b) \<Longrightarrow> s = a @ p @ b"
proof -
  assume "split_once p s = Some (a, b)"
  then obtain i where i: "find_str p s = Some i" and a: "a = take i s"
    and b: "b = drop (i + length p) s" by (auto simp: split_once_def)
  from find_str_Some[OF i] obtain r where r: "drop i s = p @ r" by (auto simp: prefix_def)
  then have "b = r" using b by (metis add.commute append_eq_conv_conj drop_drop)
  then show ?thesis using a r by (metis append_take_drop_id)
qed

text \<open>\<open>str::split(c)\<close>: always at least one piece; \<open>[..].join(sep)\<close>.\<close>

fun split_on :: "char \<Rightarrow> string \<Rightarrow> string list" where
  "split_on d [] = [[]]"
| "split_on d (c # s) =
     (if c = d then [] # split_on d s
      else (case split_on d s of [] \<Rightarrow> [[c]] | p # ps \<Rightarrow> (c # p) # ps))"

fun join :: "string \<Rightarrow> string list \<Rightarrow> string" where
  "join sep [] = []"
| "join sep [x] = x"
| "join sep (x # y # ys) = x @ sep @ join sep (y # ys)"

lemma split_on_nonempty [simp]: "split_on d s \<noteq> []"
  by (induction s) (auto split: list.splits)

lemma join_Cons: "xs \<noteq> [] \<Longrightarrow> join sep (x # xs) = x @ sep @ join sep xs"
  by (cases xs) auto

lemma join_split_on: "join [d] (split_on d s) = s"
proof (induction s)
  case (Cons c s)
  show ?case
  proof (cases "c = d")
    case True
    with Cons show ?thesis by (simp add: join_Cons)
  next
    case False
    obtain p ps where p: "split_on d s = p # ps" by (cases "split_on d s") auto
    with False Cons show ?thesis by (cases ps) auto
  qed
qed simp

lemma split_on_no_sep: "p \<in> set (split_on d s) \<Longrightarrow> d \<notin> set p"
  by (induction s arbitrary: p) (auto split: list.splits if_splits)

lemma set_split_on: "p \<in> set (split_on d s) \<Longrightarrow> set p \<subseteq> set s"
proof (induction s arbitrary: p)
  case (Cons c s)
  obtain q qs where "split_on d s = q # qs" by (cases "split_on d s") auto
  with Cons show ?case by (auto split: if_splits) blast+
qed simp

lemma split_on_append: "d \<notin> set a \<Longrightarrow> split_on d (a @ d # b) = a # split_on d b"
  by (induction a) auto

lemma split_on_single: "d \<notin> set a \<Longrightarrow> split_on d a = [a]"
  by (induction a) auto

text \<open>\<open>str::replace(char, string)\<close>.\<close>

definition replace_char :: "char \<Rightarrow> string \<Rightarrow> string \<Rightarrow> string" where
  "replace_char c r s = concat (map (\<lambda>x. if x = c then r else [x]) s)"

lemma replace_char_simps [simp]:
  "replace_char c r [] = []"
  "replace_char c r (x # s) = (if x = c then r else [x]) @ replace_char c r s"
  by (simp_all add: replace_char_def)

lemma replace_char_absent: "c \<notin> set r \<Longrightarrow> c \<notin> set (replace_char c r s)"
  by (induction s) auto

lemma replace_char_id: "c \<notin> set s \<Longrightarrow> replace_char c r s = s"
  by (induction s) auto

section \<open>UTF-8 boundaries\<close>

definition is_cont :: "char \<Rightarrow> bool" where
  "is_cont c \<longleftrightarrow> 128 \<le> byte c \<and> byte c < 192"

text \<open>\<open>str::is_char_boundary\<close>.\<close>

definition is_char_boundary :: "string \<Rightarrow> nat \<Rightarrow> bool" where
  "is_char_boundary s i \<longleftrightarrow> i = 0 \<or> i = length s \<or> (i < length s \<and> \<not> is_cont (s ! i))"

lemma is_char_boundary_0 [simp]: "is_char_boundary s 0"
  by (simp add: is_char_boundary_def)

lemma is_char_boundary_length [simp]: "is_char_boundary s (length s)"
  by (simp add: is_char_boundary_def)

text \<open>The loops \<open>while !s.is_char_boundary(i) { i -= 1 }\<close> and \<open>{ i += 1 }\<close>.\<close>

fun boundary_down :: "string \<Rightarrow> nat \<Rightarrow> nat" where
  "boundary_down s 0 = 0"
| "boundary_down s (Suc i) = (if is_char_boundary s (Suc i) then Suc i else boundary_down s i)"

function boundary_up :: "string \<Rightarrow> nat \<Rightarrow> nat" where
  "boundary_up s i = (if is_char_boundary s i \<or> length s \<le> i then i else boundary_up s (Suc i))"
  by pat_completeness auto
termination
  by (relation "measure (\<lambda>(s, i). length s - i)") auto

declare boundary_up.simps [simp del]

lemma boundary_down_le: "boundary_down s i \<le> i"
  by (induction i) auto

lemma boundary_down_ok: "is_char_boundary s (boundary_down s i)"
  by (induction i) auto

lemma boundary_up_ge: "i \<le> boundary_up s i"
proof (induction s i rule: boundary_up.induct)
  case (1 s i)
  then show ?case by (subst boundary_up.simps) auto
qed

lemma boundary_up_le: "i \<le> length s \<Longrightarrow> boundary_up s i \<le> length s"
proof (induction s i rule: boundary_up.induct)
  case (1 s i)
  then show ?case by (subst boundary_up.simps) auto
qed

lemma boundary_up_ok: "i \<le> length s \<Longrightarrow> is_char_boundary s (boundary_up s i)"
proof (induction s i rule: boundary_up.induct)
  case (1 s i)
  then show ?case by (subst boundary_up.simps) (auto simp: boundary_up.simps[of s i])
qed

section \<open>Numbers\<close>

definition digit_char :: "nat \<Rightarrow> char" where
  "digit_char d = char_of (48 + d)"

text \<open>Decimal printing of an unsigned integer, \<open>to_string\<close>.\<close>

function dec :: "nat \<Rightarrow> string" where
  "dec n = (if n < 10 then [digit_char n] else dec (n div 10) @ [digit_char (n mod 10)])"
  by pat_completeness auto
termination
  by (relation "measure id") auto

declare dec.simps [simp del]

definition dec_int :: "int \<Rightarrow> string" where
  "dec_int i = (if i < 0 then ''-'' @ dec (nat (- i)) else dec (nat i))"

definition digits_val :: "string \<Rightarrow> nat" where
  "digits_val s = foldl (\<lambda>n c. 10 * n + (byte c - 48)) 0 s"

text \<open>
  \<open>str::parse\<close> for the unsigned type with largest value \<open>m\<close>: an optional \<open>+\<close>, at least one
  digit, no overflow.
\<close>

definition parse_digits :: "nat \<Rightarrow> string \<Rightarrow> nat option" where
  "parse_digits m s = (if s \<noteq> [] \<and> list_all is_ascii_digit s \<and> digits_val s \<le> m
     then Some (digits_val s) else None)"

definition parse_uint :: "nat \<Rightarrow> string \<Rightarrow> nat option" where
  "parse_uint m s = (case s of c # t \<Rightarrow> if c = CHR ''+'' then parse_digits m t else parse_digits m s
                     | [] \<Rightarrow> None)"

definition u16_max :: nat where "u16_max = 2 ^ 16 - 1"
definition u32_max :: nat where "u32_max = 2 ^ 32 - 1"
definition u64_max :: nat where "u64_max = 2 ^ 64 - 1"
definition i64_max :: nat where "i64_max = 2 ^ 63 - 1"

lemmas int_maxes = u16_max_def u32_max_def u64_max_def i64_max_def

lemma byte_digit_char [simp]: "d < 10 \<Longrightarrow> byte (digit_char d) = 48 + d"
  by (simp add: digit_char_def)

lemma digit_char_digit: "d < 10 \<Longrightarrow> is_ascii_digit (digit_char d)"
  by (simp add: is_ascii_digit_def)

lemma dec_nonempty [simp]: "dec n \<noteq> []"
  by (subst dec.simps) simp

lemma dec_digits: "list_all is_ascii_digit (dec n)"
proof (induction n rule: dec.induct)
  case (1 n)
  then show ?case by (subst dec.simps) (simp add: digit_char_digit)
qed

lemma digits_val_snoc: "digits_val (s @ [c]) = 10 * digits_val s + (byte c - 48)"
  by (simp add: digits_val_def)

lemma digits_val_dec [simp]: "digits_val (dec n) = n"
proof (induction n rule: dec.induct)
  case (1 n)
  show ?case
  proof (cases "n < 10")
    case True
    then show ?thesis by (subst dec.simps) (simp add: digits_val_def)
  next
    case False
    with 1 show ?thesis by (subst dec.simps) (simp add: digits_val_snoc)
  qed
qed

lemma dec_hd: "is_ascii_digit (hd (dec n))"
  using dec_digits[of n] by (cases "dec n") auto

text \<open>Printing and parsing back.\<close>

lemma parse_uint_dec_if: "parse_uint m (dec n) = (if n \<le> m then Some n else None)"
proof -
  obtain c t where c: "dec n = c # t" by (cases "dec n") auto
  have "is_ascii_digit c" using dec_hd[of n] c by simp
  then have "c \<noteq> CHR ''+''" by (auto simp: is_ascii_digit_def)
  then have "parse_uint m (dec n) = parse_digits m (dec n)"
    by (simp add: parse_uint_def c)
  then show ?thesis using dec_digits[of n] by (simp add: parse_digits_def)
qed

lemma parse_uint_dec: "n \<le> m \<Longrightarrow> parse_uint m (dec n) = Some n"
  by (simp add: parse_uint_dec_if)

lemma dec_inj: "dec m = dec n \<longleftrightarrow> m = n"
  by (metis digits_val_dec)

lemma parse_uint_le: "parse_uint m s = Some n \<Longrightarrow> n \<le> m"
  by (auto simp: parse_uint_def parse_digits_def split: list.splits if_splits)

text \<open>Instants and durations are nanoseconds.\<close>

definition nanos :: nat where "nanos = 1000000000"

section \<open>Lists\<close>

text \<open>\<open>iter().rev().find(p)\<close>.\<close>

definition rfind :: "('a \<Rightarrow> bool) \<Rightarrow> 'a list \<Rightarrow> 'a option" where
  "rfind p xs = find p (rev xs)"

text \<open>\<open>filter_map\<close> and \<open>find_map\<close>.\<close>

fun filter_map :: "('a \<Rightarrow> 'b option) \<Rightarrow> 'a list \<Rightarrow> 'b list" where
  "filter_map f [] = []"
| "filter_map f (x # xs) = (case f x of None \<Rightarrow> filter_map f xs | Some y \<Rightarrow> y # filter_map f xs)"

fun find_map :: "('a \<Rightarrow> 'b option) \<Rightarrow> 'a list \<Rightarrow> 'b option" where
  "find_map f [] = None"
| "find_map f (x # xs) = (case f x of None \<Rightarrow> find_map f xs | Some y \<Rightarrow> Some y)"

lemma set_filter_map: "y \<in> set (filter_map f xs) \<longleftrightarrow> (\<exists>x \<in> set xs. f x = Some y)"
  by (induction xs) (auto split: option.splits)

lemma find_map_Some: "find_map f xs = Some y \<Longrightarrow> \<exists>x \<in> set xs. f x = Some y"
  by (induction xs) (auto split: option.splits)

lemma find_map_None: "find_map f xs = None \<longleftrightarrow> (\<forall>x \<in> set xs. f x = None)"
  by (induction xs) (auto split: option.splits)

lemma find_Some_in: "find p xs = Some x \<Longrightarrow> x \<in> set xs \<and> p x"
  by (auto simp: find_Some_iff)

lemma rfind_Some_in: "rfind p xs = Some x \<Longrightarrow> x \<in> set xs \<and> p x"
  using find_Some_in[of p "rev xs" x] by (simp add: rfind_def)

lemma rfind_append_last: "p x \<Longrightarrow> rfind p (xs @ [x]) = Some x"
  by (simp add: rfind_def)

section \<open>Paths\<close>

text \<open>
  \<open>std::path\<close> on Unix. A path is its string; \<open>components\<close> skips empty parts and every \<open>.\<close>
  but a leading one.
\<close>

datatype component = RootDir | CurDir | ParentDir | Normal string

definition path_absolute :: "string \<Rightarrow> bool" where
  "path_absolute p \<longleftrightarrow> prefix ''/'' p"

definition path_part :: "string \<Rightarrow> component" where
  "path_part x = (if x = ''..'' then ParentDir else Normal x)"

definition components :: "string \<Rightarrow> component list" where
  "components p =
     (let parts = split_on (CHR ''/'') p in
      (if path_absolute p then [RootDir] else if hd parts = ''.'' then [CurDir] else [])
      @ map path_part (filter (\<lambda>x. x \<noteq> [] \<and> x \<noteq> ''.'') parts))"

text \<open>\<open>Path::join\<close>, \<open>Path::ends_with\<close>, \<open>Path::file_name\<close> and the components of \<open>Path::parent\<close>.\<close>

definition path_join :: "string \<Rightarrow> string \<Rightarrow> string" where
  "path_join a b = (if path_absolute b then b else if a = [] \<or> last a = CHR ''/'' then a @ b
                    else a @ ''/'' @ b)"

definition path_ends_with :: "string \<Rightarrow> string \<Rightarrow> bool" where
  "path_ends_with p q \<longleftrightarrow> suffix (components q) (components p)"

definition path_file_name :: "string \<Rightarrow> string option" where
  "path_file_name p = (case rev (components p) of Normal n # _ \<Rightarrow> Some n | _ \<Rightarrow> None)"

definition parent_components :: "string \<Rightarrow> component list option" where
  "parent_components p = (case rev (components p) of [] \<Rightarrow> None | RootDir # _ \<Rightarrow> None
                          | _ # cs \<Rightarrow> Some (rev cs))"

lemma components_single:
  assumes "CHR ''/'' \<notin> set k" "k \<noteq> []" "k \<noteq> ''.''" "k \<noteq> ''..''"
  shows "components k = [Normal k]"
proof -
  have "\<not> path_absolute k" using assms(1) by (cases k) (auto simp: path_absolute_def)
  then show ?thesis using assms by (simp add: components_def split_on_single path_part_def)
qed

lemma split_on_join2:
  "split_on d (a @ d # b) = split_on d a @ split_on d b"
  by (induction a) (auto split: list.splits)

lemma components_snoc:
  assumes k: "CHR ''/'' \<notin> set k" "k \<noteq> []" "k \<noteq> ''.''" "k \<noteq> ''..''" and a: "a \<noteq> []"
  shows "components (a @ ''/'' @ k) = components a @ [Normal k]"
proof -
  have "path_absolute (a @ ''/'' @ k) = path_absolute a"
    using a by (cases a) (auto simp: path_absolute_def)
  moreover have "split_on (CHR ''/'') (a @ CHR ''/'' # k) = split_on (CHR ''/'') a @ [k]"
    using k(1) by (simp add: split_on_join2 split_on_single)
  ultimately show ?thesis using k by (simp add: components_def Let_def path_part_def)
qed

section \<open>Error chains\<close>

text \<open>
  An error of \<open>anyhow\<close> with its contexts, the outermost first: \<open>{}\<close> prints the outermost, \<open>{:#}\<close> all.
  Where the code prints an error in one way only, the model keeps the text printed.
\<close>

type_synonym chain = "string list"

fun outermost :: "chain \<Rightarrow> string" where
  "outermost [] = []"
| "outermost (e # es) = e"

definition full_chain :: "chain \<Rightarrow> string" where
  "full_chain es = join '': '' es"

section \<open>Folds and units\<close>

lemma foldl_rule: "P a \<Longrightarrow> (\<And>p x. P p \<Longrightarrow> P (f p x)) \<Longrightarrow> P (foldl f a xs)"
  by (induction xs arbitrary: a) auto

lemma unit_case: "(case u of () \<Rightarrow> x) = x"
  by (split unit.split) blast

section \<open>Debug text\<close>

text \<open>
  \<open>{:?}\<close> of a string. Printable characters beyond ASCII stay as they are (so do the few
  unprintable ones, which Rust escapes).
\<close>

fun hex_digits :: "nat \<Rightarrow> string" where
  "hex_digits n = (let d = n mod 16; c = char_of (if d < 10 then 48 + d else 87 + d)
                   in if n < 16 then [c] else hex_digits (n div 16) @ [c])"

declare hex_digits.simps [simp del]

definition debug_char :: "char \<Rightarrow> string" where
  "debug_char c = (let b = byte c in
     if b = 34 then [bs, dq] else if b = 92 then [bs, bs] else if b = 10 then [bs, CHR ''n'']
     else if b = 13 then [bs, CHR ''r''] else if b = 9 then [bs, CHR ''t'']
     else if b = 0 then [bs, CHR ''0'']
     else if b < 32 \<or> b = 127 then [bs] @ ''u{'' @ hex_digits b @ ''}'' else [c])"

definition debug_str :: "string \<Rightarrow> string" where
  "debug_str s = [dq] @ concat (map debug_char s) @ [dq]"

definition debug_strs :: "string list \<Rightarrow> string" where
  "debug_strs ss = ''['' @ join '', '' (map debug_str ss) @ '']''"

end
