(* ===== verification/Gitlab_Types.thy ===== *)
theory Gitlab_Types
  imports Prelude
begin

text \<open>
  The data GitLab and the runner exchange (\<open>src/gitlab/mod.rs\<close>): JSON values and the field
  deserialisers, the job and its parts as records, the executor's capabilities, the states a
  running job can be in, and how responses are read. Numbers are \<open>nat\<close>; the widths of the
  Rust fields (\<open>u64\<close> ids, \<open>u32\<close> timeouts) matter only where they are parsed or computed with.
  Field names carry a prefix for their record. \<open>JobInfo\<close>'s queue statistics and the
  \<open>retry\<close> and \<open>ports\<close> values, which no code reads, are left out of the records.
\<close>

section \<open>JSON\<close>

text \<open>
  \<open>serde_json::Value\<close>. A number keeps its text; an object keeps its members in the order the
  map iterates them.
\<close>

datatype json =
    JNull
  | JBool bool
  | JNum string
  | JStr string
  | JArr "json list"
  | JObj "(string \<times> json) list"

fun json_str :: "json \<Rightarrow> string option" where
  "json_str (JStr s) = Some s"
| "json_str _ = None"

fun json_arr :: "json \<Rightarrow> json list option" where
  "json_arr (JArr xs) = Some xs"
| "json_arr _ = None"

fun json_obj :: "json \<Rightarrow> (string \<times> json) list option" where
  "json_obj (JObj kvs) = Some kvs"
| "json_obj _ = None"

text \<open>\<open>value.get(key)\<close>, and \<open>value[key]\<close> which gives \<open>null\<close> for what is missing.\<close>

fun json_get :: "string \<Rightarrow> json \<Rightarrow> json option" where
  "json_get k (JObj kvs) = map_of kvs k"
| "json_get k _ = None"

definition json_index :: "json \<Rightarrow> string \<Rightarrow> json" where
  "json_index j k = (case json_get k j of None \<Rightarrow> JNull | Some v \<Rightarrow> v)"

definition hex_lower :: "nat \<Rightarrow> char" where
  "hex_lower d = (if d < 10 then char_of (48 + d) else char_of (87 + d))"

definition hex_upper :: "nat \<Rightarrow> char" where
  "hex_upper d = (if d < 10 then char_of (48 + d) else char_of (55 + d))"

text \<open>\<open>Value::to_string\<close>: compact JSON text.\<close>

definition json_escape_char :: "char \<Rightarrow> string" where
  "json_escape_char c =
     (let b = byte c in
      if b = 34 then [bs, dq] else if b = 92 then [bs, bs]
      else if b = 8 then [bs, CHR ''b''] else if b = 12 then [bs, CHR ''f'']
      else if b = 10 then [bs, CHR ''n''] else if b = 13 then [bs, CHR ''r'']
      else if b = 9 then [bs, CHR ''t'']
      else if b < 32 then [bs] @ ''u00'' @ [hex_lower (b div 16), hex_lower (b mod 16)]
      else [c])"

definition json_quote :: "string \<Rightarrow> string" where
  "json_quote s = [dq] @ concat (map json_escape_char s) @ [dq]"

fun json_text :: "json \<Rightarrow> string" where
  "json_text JNull = ''null''"
| "json_text (JBool b) = (if b then ''true'' else ''false'')"
| "json_text (JNum n) = n"
| "json_text (JStr s) = json_quote s"
| "json_text (JArr xs) = ''['' @ join '','' (map json_text xs) @ '']''"
| "json_text (JObj kvs) =
     ''{'' @ join '','' (map (\<lambda>kv. json_quote (fst kv) @ '':'' @ json_text (snd kv)) kvs) @ ''}''"

section \<open>Field deserialisers\<close>

text \<open>The argument is the value of a field that is present (serde calls them only then).\<close>

fun deserialize_null_string :: "json \<Rightarrow> string option" where
  "deserialize_null_string JNull = None"
| "deserialize_null_string (JStr s) = Some s"
| "deserialize_null_string other = Some (json_text other)"

text \<open>\<open>null_as_default\<close> at \<open>String\<close>, the only type it is used at.\<close>

fun null_as_default_string :: "json \<Rightarrow> (string, string) result" where
  "null_as_default_string JNull = Inr []"
| "null_as_default_string (JStr s) = Inr s"
| "null_as_default_string _ = Inl ''invalid type, expected a string''"

fun json_strings :: "json list \<Rightarrow> string list option" where
  "json_strings [] = Some []"
| "json_strings (j # js) =
     (case json_str j of None \<Rightarrow> None | Some s \<Rightarrow> map_option ((#) s) (json_strings js))"

fun string_or_list :: "json \<Rightarrow> (string, string list) result" where
  "string_or_list JNull = Inr []"
| "string_or_list (JStr s) = Inr [s]"
| "string_or_list (JArr xs) =
     ok_or ''data did not match any variant of untagged enum OneOrMany'' (json_strings xs)"
| "string_or_list _ = Inl ''data did not match any variant of untagged enum OneOrMany''"

definition default_cache_policy :: string where
  "default_cache_policy = ''pull-push''"

section \<open>Jobs\<close>

record variable =
  var_key :: string
  var_value :: "string option"
  var_public :: bool
  var_masked :: bool
  var_raw :: bool
  var_file :: bool
  var_internal :: bool

record job_info =
  ji_name :: string
  ji_stage :: string
  ji_project_id :: nat
  ji_project_name :: string

record git_info =
  gi_repo_url :: string
  gi_ref_name :: string
  gi_ref_type :: string
  gi_sha :: string
  gi_before_sha :: string
  gi_depth :: "nat option"
  gi_refspecs :: "string list"
  gi_repo_object_format :: "string option"
  gi_protected :: "bool option"

record runner_variables =
  ri_ci_concurrent_id :: "nat option"
  ri_ci_concurrent_project_id :: "nat option"
  ri_timeout :: "nat option"
  ri_runner_session_url :: "string option"

record step =
  step_name :: string
  step_script :: "string list"
  step_before_script :: "string list"
  step_after_script :: "string list"
  step_timeout :: nat
  step_when :: string
  step_allow_failure :: bool

record image =
  img_name :: string
  img_entrypoint :: "string list option"
  img_pull_policy :: "string list"

record service =
  svc_name :: string
  svc_alias :: "string option"
  svc_entrypoint :: "string list option"
  svc_command :: "string list option"
  svc_pull_policy :: "string list"
  svc_variables :: "variable list"

record artifact =
  art_name :: "string option"
  art_untracked :: bool
  art_paths :: "string list"
  art_exclude :: "string list"
  art_when :: "string option"
  art_expire_in :: "string option"
  art_type :: "string option"
  art_format :: "string option"

record cache =
  cache_key :: string
  cache_untracked :: "bool option"
  cache_paths :: "string list"
  cache_policy :: string
  cache_when :: "string option"
  cache_fallback_keys :: "string list"

record credential =
  cred_type :: string
  cred_url :: string
  cred_username :: string
  cred_password :: string

record dependency =
  dep_id :: nat
  dep_name :: string
  dep_token :: string
  dep_artifacts_file :: "json option"

record job =
  job_id :: nat
  job_token :: string
  job_allow_git_fetch :: bool
  job_job_info :: "job_info option"
  job_git_info :: "git_info option"
  job_runner_info :: "runner_variables option"
  job_variables :: "variable list"
  job_steps :: "step list"
  job_image :: "image option"
  job_services :: "service list"
  job_artifacts :: "artifact list option"
  job_cache :: "cache list"
  job_credentials :: "credential list"
  job_dependencies :: "dependency list"
  job_timeout :: nat
  job_hooks :: "json list"
  job_project_slot :: nat

text \<open>
  \<open>Job::timeout_secs\<close>: a timeout in \<open>runner_info\<close> hides the job's own field, also when it is 0.
\<close>

definition timeout_secs :: "job \<Rightarrow> nat option" where
  "timeout_secs j =
     (let t = (case Option.bind (job_runner_info j) ri_timeout of
                 Some t \<Rightarrow> t | None \<Rightarrow> job_timeout j)
      in if t > 0 then Some t else None)"

lemma timeout_secs_pos: "timeout_secs j = Some t \<Longrightarrow> 0 < t"
  by (auto simp: timeout_secs_def Let_def split: if_splits)

section \<open>What the runner reports about itself\<close>

record runner_features =
  ft_variables :: bool
  ft_image :: bool
  ft_services :: bool
  ft_artifacts :: bool
  ft_cache :: bool
  ft_fallback_cache_keys :: bool
  ft_shared :: bool
  ft_upload_multiple_artifacts :: bool
  ft_upload_raw_artifacts :: bool
  ft_session :: bool
  ft_terminal :: bool
  ft_refspecs :: bool
  ft_masking :: bool
  ft_proxy :: bool
  ft_raw_variables :: bool
  ft_artifacts_exclude :: bool
  ft_multi_build_steps :: bool
  ft_trace_reset :: bool
  ft_trace_checksum :: bool
  ft_trace_size :: bool
  ft_vault_secrets :: bool
  ft_cancelable :: bool
  ft_return_exit_code :: bool
  ft_service_variables :: bool
  ft_cancel_gracefully :: bool

definition for_executor :: "string \<Rightarrow> runner_features" where
  "for_executor executor = \<lparr>
     ft_variables = True, ft_image = (executor = ''docker''),
     ft_services = (executor = ''docker''), ft_artifacts = True, ft_cache = True,
     ft_fallback_cache_keys = True, ft_shared = (executor = ''shell''),
     ft_upload_multiple_artifacts = True, ft_upload_raw_artifacts = True,
     ft_session = False, ft_terminal = False, ft_refspecs = True, ft_masking = True,
     ft_proxy = False, ft_raw_variables = True, ft_artifacts_exclude = True,
     ft_multi_build_steps = True, ft_trace_reset = False, ft_trace_checksum = False,
     ft_trace_size = False, ft_vault_secrets = False, ft_cancelable = True,
     ft_return_exit_code = True, ft_service_variables = False,
     ft_cancel_gracefully = True \<rparr>"

text \<open>\<open>go_os\<close> and the daemon's architecture names; the platform constants are arguments.\<close>

definition go_os :: "string \<Rightarrow> string" where
  "go_os os = (if os = ''macos'' then ''darwin'' else os)"

record runner_report =
  rr_name :: string
  rr_version :: string
  rr_revision :: "string option"
  rr_platform :: string
  rr_architecture :: string
  rr_executor :: string
  rr_features :: "runner_features option"

definition runner_info_new :: "string \<Rightarrow> string \<Rightarrow> string \<Rightarrow> string \<Rightarrow> runner_report" where
  "runner_info_new version os arch executor = \<lparr>
     rr_name = ''turboci-runner'', rr_version = version, rr_revision = Some version,
     rr_platform = go_os os, rr_architecture = arch, rr_executor = executor,
     rr_features = Some (for_executor executor) \<rparr>"

section \<open>States of a running job\<close>

datatype failure_reason =
  ScriptFailure | RunnerSystemFailure | JobExecutionTimeout | ImagePullFailure | JobCanceled

datatype job_state = Pending | RunningJob | Success | Failed | Canceled

fun reason_text :: "failure_reason \<Rightarrow> string" where
  "reason_text ScriptFailure = ''script_failure''"
| "reason_text RunnerSystemFailure = ''runner_system_failure''"
| "reason_text JobExecutionTimeout = ''job_execution_timeout''"
| "reason_text ImagePullFailure = ''image_pull_failure''"
| "reason_text JobCanceled = ''job_canceled''"

fun state_text :: "job_state \<Rightarrow> string" where
  "state_text Pending = ''pending''"
| "state_text RunningJob = ''running''"
| "state_text Success = ''success''"
| "state_text Failed = ''failed''"
| "state_text Canceled = ''canceled''"

text \<open>\<open>RemoteState\<close> derives \<open>Ord\<close>: declaration order.\<close>

datatype remote_state = Running | Canceling | Aborted

fun remote_rank :: "remote_state \<Rightarrow> nat" where
  "remote_rank Running = 0"
| "remote_rank Canceling = 1"
| "remote_rank Aborted = 2"

lemma remote_rank_inj: "remote_rank a = remote_rank b \<Longrightarrow> a = b"
  by (cases a; cases b) auto

instantiation remote_state :: linorder
begin
definition less_eq_remote_state :: "remote_state \<Rightarrow> remote_state \<Rightarrow> bool" where
  "less_eq_remote_state a b \<longleftrightarrow> remote_rank a \<le> remote_rank b"
definition less_remote_state :: "remote_state \<Rightarrow> remote_state \<Rightarrow> bool" where
  "less_remote_state a b \<longleftrightarrow> remote_rank a < remote_rank b"
instance
  by standard (auto simp: less_eq_remote_state_def less_remote_state_def dest: remote_rank_inj)
end

lemma Aborted_top: "s \<le> Aborted"
  by (cases s) (auto simp: less_eq_remote_state_def)

lemma Running_bot: "Running \<le> s"
  by (simp add: less_eq_remote_state_def)

lemma Aborted_le_iff: "Aborted \<le> s \<longleftrightarrow> s = Aborted"
  by (cases s) (auto simp: less_eq_remote_state_def)

lemma Canceling_le_iff: "Canceling \<le> s \<longleftrightarrow> s \<noteq> Running"
  by (cases s) (auto simp: less_eq_remote_state_def)

section \<open>Responses\<close>

record response =
  rsp_status :: nat
  rsp_headers :: "(string \<times> string) list"
  rsp_chunks :: "(string, string) result list"

text \<open>Header names are case-insensitive; \<open>to_str\<close> gives up on bytes that are not visible ASCII.\<close>

definition visible_ascii :: "string \<Rightarrow> bool" where
  "visible_ascii s \<longleftrightarrow> list_all (\<lambda>c. byte c = 9 \<or> (32 \<le> byte c \<and> byte c < 127)) s"

definition header :: "string \<Rightarrow> response \<Rightarrow> string option" where
  "header n r =
     (case find (\<lambda>h. to_ascii_lowercase (fst h) = to_ascii_lowercase n) (rsp_headers r) of
        None \<Rightarrow> None
      | Some h \<Rightarrow> if visible_ascii (snd h) then Some (snd h) else None)"

definition remote_from_response :: "response \<Rightarrow> remote_state" where
  "remote_from_response r =
     (if rsp_status r = 403 then Aborted
      else (case header ''Job-Status'' r of
              Some s \<Rightarrow> if s = ''canceling'' then Canceling
                        else if s = ''canceled'' \<or> s = ''failed'' then Aborted else Running
            | None \<Rightarrow> Running))"

definition response_update_interval :: "response \<Rightarrow> nat option" where
  "response_update_interval r =
     (case header ''X-GitLab-Trace-Update-Interval'' r of
        None \<Rightarrow> None
      | Some t \<Rightarrow> (case parse_uint u64_max t of
          None \<Rightarrow> None | Some secs \<Rightarrow> if secs > 0 then Some secs else None))"

definition is_server_error :: "nat \<Rightarrow> bool" where
  "is_server_error s \<longleftrightarrow> 500 \<le> s \<and> s < 600"

definition is_client_error :: "nat \<Rightarrow> bool" where
  "is_client_error s \<longleftrightarrow> 400 \<le> s \<and> s < 500"

definition is_success :: "nat \<Rightarrow> bool" where
  "is_success s \<longleftrightarrow> 200 \<le> s \<and> s < 300"

text \<open>
  \<open>TokenResponse::expires_at\<close>; the RFC 3339 parser (\<open>chrono\<close>) is the argument \<open>rfc3339\<close>.
\<close>

record token_response =
  tr_token :: "string option"
  tr_token_expires_at :: "string option"

definition expires_at ::
  "(string \<Rightarrow> int option) \<Rightarrow> token_response \<Rightarrow> (string, int option) result" where
  "expires_at rfc3339 t =
     (case tr_token_expires_at t of
        None \<Rightarrow> Inr None
      | Some at \<Rightarrow>
          if at = [] then Inr None
          else (case rfc3339 at of
                  None \<Rightarrow> Inl (''Invalid token_expires_at '' @ json_quote at)
                | Some secs \<Rightarrow> Inr (Some secs)))"

end
