(* ===== verification/Cancel.thy ===== *)
theory Cancel
  imports Gitlab_Types
begin

text \<open>
  Cancellation (\<open>src/runner_daemon/cancel.rs\<close>) and the daemon's shutdown mode
  (\<open>src/runner_daemon/mod.rs\<close>). Both are a watched value that \<open>send_if_modified\<close> only lets
  escalate; the locale \<open>escalating\<close> is that contract, proved once and interpreted for both.
  \<open>Stop\<close> is the flag that ends blocking work.
\<close>

section \<open>The contract: a value that only escalates\<close>

locale escalating =
  fixes update :: "'s::linorder \<Rightarrow> 's \<Rightarrow> 's"
  assumes update_up: "s \<le> update s x"
    and update_reaches: "x \<le> update s x"
    and update_choice: "update s x = s \<or> update s x = x"
begin

lemma update_is_max: "update s x = max s x"
  using update_up[of s x] update_reaches[of x s] update_choice[of s x]
  by (auto simp: max_def)

lemma fold_ge: "s \<le> foldl update s xs"
proof (induction xs arbitrary: s)
  case (Cons x xs)
  show ?case using update_up[of s x] Cons[of "update s x"] by simp
qed simp

lemma fold_is_Max: "foldl update s xs = Max (set (s # xs))"
proof (induction xs arbitrary: s)
  case (Cons x xs)
  then show ?case by (cases "xs = []") (auto simp: update_is_max max.assoc)
qed simp

text \<open>The order in which requests arrive does not matter.\<close>

lemma fold_order: "set xs = set ys \<Longrightarrow> foldl update s xs = foldl update s ys"
  by (simp add: fold_is_Max)

lemma fold_reached: "l \<le> foldl update s xs \<longleftrightarrow> l \<le> s \<or> (\<exists>x \<in> set xs. l \<le> x)"
  by (simp add: fold_is_Max Max_ge_iff)

end

section \<open>CancelSignal\<close>

definition cancel_default :: remote_state where
  "cancel_default = Running"

definition cancel_update :: "remote_state \<Rightarrow> remote_state \<Rightarrow> remote_state" where
  "cancel_update current state = (if state > current then state else current)"

text \<open>\<open>reached(level)\<close> resolves once this holds.\<close>

definition cancel_reached :: "remote_state \<Rightarrow> remote_state \<Rightarrow> bool" where
  "cancel_reached level state \<longleftrightarrow> level \<le> state"

interpretation cs: escalating cancel_update
  by unfold_locales (auto simp: cancel_update_def)

section \<open>Shutdown\<close>

datatype shutdown = RunningDaemon | Graceful | Abort

fun shutdown_rank :: "shutdown \<Rightarrow> nat" where
  "shutdown_rank RunningDaemon = 0"
| "shutdown_rank Graceful = 1"
| "shutdown_rank Abort = 2"

lemma shutdown_rank_inj: "shutdown_rank a = shutdown_rank b \<Longrightarrow> a = b"
  by (cases a; cases b) auto

instantiation shutdown :: linorder
begin
definition less_eq_shutdown :: "shutdown \<Rightarrow> shutdown \<Rightarrow> bool" where
  "less_eq_shutdown a b \<longleftrightarrow> shutdown_rank a \<le> shutdown_rank b"
definition less_shutdown :: "shutdown \<Rightarrow> shutdown \<Rightarrow> bool" where
  "less_shutdown a b \<longleftrightarrow> shutdown_rank a < shutdown_rank b"
instance
  by standard (auto simp: less_eq_shutdown_def less_shutdown_def dest: shutdown_rank_inj)
end

definition shutdown_request :: "shutdown \<Rightarrow> shutdown \<Rightarrow> shutdown" where
  "shutdown_request current mode = (if mode > current then mode else current)"

interpretation sd: escalating shutdown_request
  by unfold_locales (auto simp: shutdown_request_def)

text \<open>Signals of the process (\<open>spawn_signal_handler\<close> in \<open>src/main.rs\<close>).\<close>

datatype unix_signal = SIGQUIT | SIGTERM | SIGINT

fun signal_mode :: "unix_signal \<Rightarrow> shutdown" where
  "signal_mode SIGQUIT = Graceful"
| "signal_mode SIGTERM = Abort"
| "signal_mode SIGINT = Abort"

definition handle_signals :: "shutdown \<Rightarrow> unix_signal list \<Rightarrow> shutdown" where
  "handle_signals s sigs = foldl shutdown_request s (map signal_mode sigs)"

section \<open>Stop\<close>

text \<open>\<open>Stop::check\<close> on the flag's value.\<close>

definition stop_check :: "bool \<Rightarrow> (string, unit) result" where
  "stop_check stopped =
     (if stopped then Inl ''stopped: the job timed out or was canceled'' else Inr ())"

lemma stop_check_ok: "stop_check b = Inr () \<longleftrightarrow> \<not> b"
  by (simp add: stop_check_def)

end
