(* ===== verification/Utf8.thy ===== *)
theory Utf8
  imports Prelude
begin

text \<open>
  UTF-8 as Rust's standard library validates it (\<open>str::from_utf8\<close>, \<open>String::from_utf8_lossy\<close>) and the
  streaming decoder of the executors (\<open>Utf8Decoder\<close> in \<open>src/runner_daemon/executor.rs\<close>), which
  keeps a character split across two chunks for the next one.
\<close>

section \<open>Validation\<close>

text \<open>
  What the bytes at the front are: a complete character of \<open>n\<close> bytes, \<open>n\<close> bytes that can start no
  character, or the start of a character the input ends in.
\<close>

datatype utf8_char = Complete nat | Invalid nat | Incomplete

definition second3_ok :: "nat \<Rightarrow> nat \<Rightarrow> bool" where
  "second3_ok a b \<longleftrightarrow> (a = 0xE0 \<and> 0xA0 \<le> b \<and> b \<le> 0xBF) \<or>
     (0xE1 \<le> a \<and> a \<le> 0xEC \<and> 0x80 \<le> b \<and> b \<le> 0xBF) \<or> (a = 0xED \<and> 0x80 \<le> b \<and> b \<le> 0x9F) \<or>
     (0xEE \<le> a \<and> a \<le> 0xEF \<and> 0x80 \<le> b \<and> b \<le> 0xBF)"

definition second4_ok :: "nat \<Rightarrow> nat \<Rightarrow> bool" where
  "second4_ok a b \<longleftrightarrow> (a = 0xF0 \<and> 0x90 \<le> b \<and> b \<le> 0xBF) \<or>
     (0xF1 \<le> a \<and> a \<le> 0xF3 \<and> 0x80 \<le> b \<and> b \<le> 0xBF) \<or> (a = 0xF4 \<and> 0x80 \<le> b \<and> b \<le> 0x8F)"

fun step2 :: "string \<Rightarrow> utf8_char" where
  "step2 [] = Incomplete"
| "step2 (b # _) = (if is_cont b then Complete 2 else Invalid 1)"

fun step3 :: "char \<Rightarrow> string \<Rightarrow> utf8_char" where
  "step3 a [] = Incomplete"
| "step3 a [b] = (if second3_ok (byte a) (byte b) then Incomplete else Invalid 1)"
| "step3 a (b # c # _) = (if \<not> second3_ok (byte a) (byte b) then Invalid 1
     else if is_cont c then Complete 3 else Invalid 2)"

fun step4 :: "char \<Rightarrow> string \<Rightarrow> utf8_char" where
  "step4 a [] = Incomplete"
| "step4 a [b] = (if second4_ok (byte a) (byte b) then Incomplete else Invalid 1)"
| "step4 a [b, c] = (if \<not> second4_ok (byte a) (byte b) then Invalid 1
     else if is_cont c then Incomplete else Invalid 2)"
| "step4 a (b # c # d # _) = (if \<not> second4_ok (byte a) (byte b) then Invalid 1
     else if \<not> is_cont c then Invalid 2 else if is_cont d then Complete 4 else Invalid 3)"

fun utf8_step :: "string \<Rightarrow> utf8_char" where
  "utf8_step [] = Incomplete"
| "utf8_step (a # s) =
     (let n = byte a in
      if n < 128 then Complete 1
      else if 0xC2 \<le> n \<and> n \<le> 0xDF then step2 s
      else if 0xE0 \<le> n \<and> n \<le> 0xEF then step3 a s
      else if 0xF0 \<le> n \<and> n \<le> 0xF4 then step4 a s
      else Invalid 1)"

lemma step2_bounds: "step2 s = Complete n \<Longrightarrow> n \<le> Suc (length s) \<and> 0 < n" "step2 s = Invalid n \<Longrightarrow> n = 1"
  "step2 s = Incomplete \<Longrightarrow> length s < 3"
  by (cases s; auto split: if_splits)+

lemma step3_bounds: "step3 a s = Complete n \<Longrightarrow> n \<le> Suc (length s) \<and> 0 < n"
  "step3 a s = Invalid n \<Longrightarrow> n \<le> Suc (length s) \<and> 0 < n" "step3 a s = Incomplete \<Longrightarrow> length s < 3"
  by (cases "(a, s)" rule: step3.cases; auto split: if_splits)+

lemma step4_bounds: "step4 a s = Complete n \<Longrightarrow> n \<le> Suc (length s) \<and> 0 < n"
  "step4 a s = Invalid n \<Longrightarrow> n \<le> Suc (length s) \<and> 0 < n" "step4 a s = Incomplete \<Longrightarrow> length s < 3"
  by (cases "(a, s)" rule: step4.cases; auto split: if_splits)+

lemma utf8_step_bounds:
  "utf8_step s = Complete n \<Longrightarrow> n \<le> length s \<and> 0 < n"
  "utf8_step s = Invalid n \<Longrightarrow> n \<le> length s \<and> 0 < n"
  "utf8_step s = Incomplete \<Longrightarrow> length s < 4"
  using step2_bounds step3_bounds step4_bounds
  by (cases s; fastforce simp: Let_def split: if_splits)+

lemma step2_append: "step2 s \<noteq> Incomplete \<Longrightarrow> step2 (s @ t) = step2 s"
  by (cases s) auto

lemma step3_append: "step3 a s \<noteq> Incomplete \<Longrightarrow> step3 a (s @ t) = step3 a s"
  by (cases "(a, s)" rule: step3.cases; cases t) (auto split: if_splits)

lemma step4_append: "step4 a s \<noteq> Incomplete \<Longrightarrow> step4 a (s @ t) = step4 a s"
  by (cases "(a, s)" rule: step4.cases; cases t; cases "tl t") (auto split: if_splits)

lemma utf8_step_append: "utf8_step s \<noteq> Incomplete \<Longrightarrow> utf8_step (s @ t) = utf8_step s"
  by (cases s) (auto simp: Let_def step2_append step3_append step4_append split: if_splits)

text \<open>
  \<open>str::from_utf8\<close>: where the valid prefix ends and what stops it: \<open>None\<close> at the end of the
  input, \<open>Some Incomplete\<close> when the error has no length (\<open>error_len() = None\<close>), else
  \<open>Some (Invalid n)\<close>.
\<close>

function utf8_scan :: "string \<Rightarrow> nat \<times> utf8_char option" where
  "utf8_scan s =
     (if s = [] then (0, None)
      else (case utf8_step s of
              Complete n \<Rightarrow> (case utf8_scan (drop n s) of (k, e) \<Rightarrow> (n + k, e))
            | Invalid n \<Rightarrow> (0, Some (Invalid n))
            | Incomplete \<Rightarrow> (0, Some Incomplete)))"
  by pat_completeness auto
termination
  by (relation "measure length") (auto dest: utf8_step_bounds)

declare utf8_scan.simps [simp del]

definition utf8_valid :: "string \<Rightarrow> bool" where
  "utf8_valid s \<longleftrightarrow> snd (utf8_scan s) = None"

definition replacement :: string where
  "replacement = [char_of (0xEF :: nat), char_of (0xBF :: nat), char_of (0xBD :: nat)]"

text \<open>\<open>String::from_utf8_lossy\<close>: every maximal invalid part becomes U+FFFD.\<close>

function from_utf8_lossy :: "string \<Rightarrow> string" where
  "from_utf8_lossy s =
     (if s = [] then []
      else (case utf8_step s of
              Complete n \<Rightarrow> take n s @ from_utf8_lossy (drop n s)
            | Invalid n \<Rightarrow> replacement @ from_utf8_lossy (drop n s)
            | Incomplete \<Rightarrow> replacement))"
  by pat_completeness auto
termination
  by (relation "measure length") (auto dest: utf8_step_bounds)

declare from_utf8_lossy.simps [simp del]

lemma scan_Nil [simp]: "utf8_scan [] = (0, None)"
  by (simp add: utf8_scan.simps)

lemma scan_Complete:
  "utf8_step s = Complete n \<Longrightarrow>
   utf8_scan s = (n + fst (utf8_scan (drop n s)), snd (utf8_scan (drop n s)))"
  using utf8_step_bounds(1)[of s n] by (subst utf8_scan.simps) (auto split: prod.splits)

lemma utf8_valid_Nil [simp]: "utf8_valid []"
  by (simp add: utf8_valid_def)

lemma utf8_valid_step:
  "s \<noteq> [] \<Longrightarrow> utf8_valid s \<longleftrightarrow> (\<exists>n. utf8_step s = Complete n \<and> utf8_valid (drop n s))"
  by (cases "utf8_step s") (auto simp: utf8_valid_def utf8_scan.simps[of s] split_beta)

text \<open>The scan of a string that can be completed to a valid one stops only for want of input.\<close>

lemma scan_of_valid:
  "utf8_valid (s @ t) \<Longrightarrow> utf8_scan s = (k, e) \<Longrightarrow>
   k \<le> length s \<and> utf8_valid (drop k s @ t) \<and>
   (e = None \<and> k = length s \<or> e = Some Incomplete \<and> utf8_step (drop k s) = Incomplete)"
proof (induction s arbitrary: k e rule: utf8_scan.induct)
  case (1 s)
  show ?case
  proof (cases "s = []")
    case True
    with 1 show ?thesis by simp
  next
    case False
    show ?thesis
    proof (cases "utf8_step s")
      case (Complete n)
      then have n: "n \<le> length s" "0 < n" using utf8_step_bounds by auto
      have "utf8_step (s @ t) = Complete n" using Complete by (simp add: utf8_step_append)
      then have v: "utf8_valid (drop n s @ t)"
        using "1.prems"(1) False n by (simp add: utf8_valid_step)
      from "1.prems"(2) Complete obtain k' where k': "utf8_scan (drop n s) = (k', e)" "k = n + k'"
        by (auto simp: scan_Complete prod_eq_iff)
      from "1.IH"[OF False Complete v k'(1)] show ?thesis
        using n k'(2) by (auto simp: add.commute)
    next
      case (Invalid n)
      then have "utf8_step (s @ t) = Invalid n" by (simp add: utf8_step_append)
      then show ?thesis using "1.prems"(1) False by (simp add: utf8_valid_step)
    next
      case Incomplete
      then show ?thesis using "1.prems" False by (auto simp: utf8_scan.simps[of s])
    qed
  qed
qed

lemma scan_le: "fst (utf8_scan s) \<le> length s"
proof (induction s rule: utf8_scan.induct)
  case (1 s)
  show ?case
  proof (cases "s = []")
    case False
    with 1 show ?thesis
      by (cases "utf8_step s") (auto simp: utf8_scan.simps[of s] split: prod.splits dest: utf8_step_bounds)
  qed simp
qed

lemma scan_Incomplete: "utf8_scan s = (k, Some Incomplete) \<Longrightarrow> length s - k < 4"
proof (induction s arbitrary: k rule: utf8_scan.induct)
  case (1 s)
  show ?case
  proof (cases "utf8_step s")
    case (Complete n)
    then have "s \<noteq> []" by auto
    moreover obtain k' where "utf8_scan (drop n s) = (k', Some Incomplete)" "k = n + k'"
      using "1.prems" Complete by (auto simp: scan_Complete prod_eq_iff)
    ultimately show ?thesis using "1.IH" Complete by fastforce
  next
    case (Invalid n)
    then show ?thesis using "1.prems" by (auto simp: utf8_scan.simps[of s] split: if_splits)
  next
    case Incomplete
    then show ?thesis using "1.prems" utf8_step_bounds(3)[of s]
      by (auto simp: utf8_scan.simps[of s] split: if_splits)
  qed
qed

lemma lossy_valid: "utf8_valid s \<Longrightarrow> from_utf8_lossy s = s"
proof (induction s rule: from_utf8_lossy.induct)
  case (1 s)
  show ?case
  proof (cases "s = []")
    case True
    then show ?thesis by (simp add: from_utf8_lossy.simps)
  next
    case False
    then obtain n where "utf8_step s = Complete n" "utf8_valid (drop n s)"
      using "1.prems" utf8_valid_step by blast
    with "1.IH"(1) False show ?thesis by (subst from_utf8_lossy.simps) simp
  qed
qed

section \<open>The streaming decoder\<close>

text \<open>One call of \<open>decode\<close>: the pending bytes and a chunk give the text and the new pending bytes.\<close>

definition decode :: "string \<Rightarrow> string \<Rightarrow> string \<times> string" where
  "decode pending bytes =
     (let p = pending @ bytes in
      case utf8_scan p of
        (k, None) \<Rightarrow> (p, [])
      | (k, Some Incomplete) \<Rightarrow> (take k p, drop k p)
      | (k, Some _) \<Rightarrow> (from_utf8_lossy p, []))"

definition decode_finish :: "string \<Rightarrow> string" where
  "decode_finish pending = from_utf8_lossy pending"

fun decode_all :: "string \<Rightarrow> string list \<Rightarrow> string" where
  "decode_all pending [] = decode_finish pending"
| "decode_all pending (c # cs) =
     (case decode pending c of (text, rest) \<Rightarrow> text @ decode_all rest cs)"

lemma decode_valid: "utf8_valid (pending @ concat cs) \<Longrightarrow> decode_all pending cs = pending @ concat cs"
proof (induction cs arbitrary: pending)
  case Nil
  then show ?case by (simp add: decode_finish_def lossy_valid)
next
  case (Cons c cs)
  obtain k e where ke: "utf8_scan (pending @ c) = (k, e)" by fastforce
  from Cons.prems have "utf8_valid ((pending @ c) @ concat cs)" by simp
  from scan_of_valid[OF this ke] have v: "utf8_valid (drop k (pending @ c) @ concat cs)"
    and e: "e = None \<and> k = length (pending @ c) \<or> e = Some Incomplete" by auto
  have "decode pending c = (take k (pending @ c), drop k (pending @ c))"
    using e ke by (auto simp: decode_def)
  then have "decode_all pending (c # cs) =
      take k (pending @ c) @ decode_all (drop k (pending @ c)) cs" by simp
  also have "\<dots> = take k (pending @ c) @ drop k (pending @ c) @ concat cs"
    using Cons.IH[OF v] by simp
  finally show ?case by (simp only: append_assoc[symmetric] append_take_drop_id) simp
qed

text \<open>However the output of a script is cut into chunks, also inside a character, decoding
  valid UTF-8 chunk by chunk and flushing at the end gives back exactly the bytes.\<close>

theorem decode_all_valid:
  assumes "utf8_valid (pending @ concat cs)"
  shows "decode_all pending cs = pending @ concat cs"
  using assms by (rule decode_valid)

theorem decode_all_valid_witness:
  "decode_all [] [[char_of (0xE2::nat)], [char_of (0x9C::nat), char_of (0x93::nat)], ''ok''] =
     [char_of (0xE2::nat), char_of (0x9C::nat), char_of (0x93::nat)] @ ''ok''"
proof -
  have "utf8_valid ([] @ concat [[char_of (0xE2::nat)], [char_of (0x9C::nat), char_of (0x93::nat)], ''ok''])"
    by (simp add: utf8_valid_step is_cont_def second3_ok_def)
  from decode_all_valid[OF this] show ?thesis by simp
qed

text \<open>The decoder never keeps more than the three bytes an unfinished character can have.\<close>

theorem decode_pending_bound: "length (snd (decode pending bytes)) \<le> 3"
proof -
  obtain k e where ke: "utf8_scan (pending @ bytes) = (k, e)" by fastforce
  show ?thesis
  proof (cases "e = Some Incomplete")
    case True
    with ke scan_Incomplete[of "pending @ bytes" k] show ?thesis by (auto simp: decode_def)
  next
    case False
    with ke show ?thesis by (auto simp: decode_def Let_def split: option.splits utf8_char.splits)
  qed
qed

end
