(* ===== verification/Gitlab_Client.thy ===== *)
theory Gitlab_Client
  imports Cancel Utf8
begin

text \<open>
  The GitLab API client (\<open>src/gitlab/mod.rs\<close>). The HTTP client (\<open>reqwest\<close>), the clock and the
  files it streams are the record \<open>http\<close>: functions on a state of the outside world, whose type
  is a parameter. \<open>http_send\<close> is one request; an \<open>Inl\<close> is a transport error. The JSON parsers
  that \<open>serde\<close> derives are arguments. Logging is not modelled.
\<close>

section \<open>Requests and the outside world\<close>

datatype http_method = GET | POST | PUT | PATCH

text \<open>A multipart upload names the file it streams, its length and the name it goes by.\<close>

datatype request_body = NoBody | JsonBody json | RawBody string | FilePart string nat string

record request =
  rq_method :: http_method
  rq_url :: string
  rq_query :: "(string \<times> string) list"
  rq_headers :: "(string \<times> string) list"
  rq_body :: request_body
  rq_timeout :: "nat option"

record 'w http =
  http_send :: "request \<Rightarrow> 'w \<Rightarrow> (string, response) result \<times> 'w"
  http_sleep :: "nat \<Rightarrow> 'w \<Rightarrow> 'w"
  http_open :: "string \<Rightarrow> 'w \<Rightarrow> (string, unit) result \<times> 'w"
  http_create :: "string \<Rightarrow> 'w \<Rightarrow> (string, unit) result \<times> 'w"
  http_write :: "string \<Rightarrow> string \<Rightarrow> 'w \<Rightarrow> (string, unit) result \<times> 'w"
  http_status_text :: "nat \<Rightarrow> string"
  http_now :: "'w \<Rightarrow> nat"
  http_unix_secs :: "'w \<Rightarrow> nat"

text \<open>\<open>response.text()\<close>: the body's chunks up to an error, decoded.\<close>

fun body_bytes :: "(string, string) result list \<Rightarrow> (string, string) result" where
  "body_bytes [] = Inr []"
| "body_bytes (Inl e # _) = Inl e"
| "body_bytes (Inr c # cs) = rbind (body_bytes cs) (\<lambda>rest. Inr (c @ rest))"

definition body_text :: "response \<Rightarrow> (string, string) result" where
  "body_text r = rbind (body_bytes (rsp_chunks r)) (\<lambda>b. Inr (from_utf8_lossy b))"

definition body_text_or_default :: "response \<Rightarrow> string" where
  "body_text_or_default r = (case body_text r of Inl _ \<Rightarrow> [] | Inr t \<Rightarrow> t)"

text \<open>\<open>Permanent\<close> is the error retrying cannot fix.\<close>

datatype op_error = Permanent string | Retryable string

fun error_text :: "op_error \<Rightarrow> string" where
  "error_text (Permanent m) = m"
| "error_text (Retryable m) = m"

definition with_context :: "string \<Rightarrow> string \<Rightarrow> string" where
  "with_context what cause = what @ '': '' @ cause"

record gitlab_client =
  gl_url :: string
  gl_system_id :: string
  gl_executor :: string
  gl_version :: string
  gl_os :: string
  gl_arch :: string

definition with_executor :: "gitlab_client \<Rightarrow> string \<Rightarrow> gitlab_client" where
  "with_executor c executor = c\<lparr>gl_executor := executor\<rparr>"

definition with_system_id :: "gitlab_client \<Rightarrow> string \<Rightarrow> gitlab_client" where
  "with_system_id c system_id = c\<lparr>gl_system_id := system_id\<rparr>"

section \<open>Retrying\<close>

text \<open>
  \<open>retry_with_backoff\<close>: \<open>left\<close> attempts are left after this one. \<open>op\<close> is the whole operation.
\<close>

fun retry_from ::
  "'w http \<Rightarrow> ('w \<Rightarrow> (op_error, 'a) result \<times> 'w) \<Rightarrow> nat \<Rightarrow> nat \<Rightarrow> 'w \<Rightarrow> (op_error, 'a) result \<times> 'w" where
  "retry_from io op attempt 0 w = op w"
| "retry_from io op attempt (Suc left) w =
     (case op w of
        (Inr a, w') \<Rightarrow> (Inr a, w')
      | (Inl (Permanent m), w') \<Rightarrow> (Inl (Permanent m), w')
      | (Inl (Retryable m), w') \<Rightarrow>
          retry_from io op (attempt + 1) left (http_sleep io (100 * 2 ^ (attempt - 1)) w'))"

definition retry_with_backoff ::
  "'w http \<Rightarrow> ('w \<Rightarrow> (op_error, 'a) result \<times> 'w) \<Rightarrow> 'w \<Rightarrow> (op_error, 'a) result \<times> 'w" where
  "retry_with_backoff io op w = retry_from io op 1 2 w"

lemma retry_rule:
  assumes "P w" and op: "\<And>w. P w \<Longrightarrow> P (snd (op w)) \<and> Q (fst (op w)) (snd (op w))"
    and sleep: "\<And>w ms. P w \<Longrightarrow> P (http_sleep io ms w)"
  shows "P (snd (retry_with_backoff io op w)) \<and>
    Q (fst (retry_with_backoff io op w)) (snd (retry_with_backoff io op w))"
proof -
  have "P w \<Longrightarrow> P (snd (retry_from io op attempt left w)) \<and>
      Q (fst (retry_from io op attempt left w)) (snd (retry_from io op attempt left w))"
    for attempt left w
  proof (induction left arbitrary: attempt w)
    case 0
    then show ?case using op by simp
  next
    case (Suc left)
    obtain r w' where r: "op w = (r, w')" by fastforce
    with op[OF Suc.prems] have "P w'" "Q r w'" by auto
    then show ?case using r Suc.IH sleep by (auto split: sum.splits op_error.splits)
  qed
  then show ?thesis using assms(1) unfolding retry_with_backoff_def by blast
qed

section \<open>Job state updates\<close>

definition job_url :: "gitlab_client \<Rightarrow> nat \<Rightarrow> string" where
  "job_url c jid = gl_url c @ ''/api/v4/jobs/'' @ dec jid"

text \<open>A \<open>serde_json\<close> map iterates its keys in order; a canceled job names no failure reason.\<close>

definition update_body ::
  "string \<Rightarrow> job_state \<Rightarrow> failure_reason option \<Rightarrow> int option \<Rightarrow> json" where
  "update_body token state reason exit_code = JObj
     ((case exit_code of None \<Rightarrow> [] | Some code \<Rightarrow> [(''exit_code'', JNum (dec_int code))]) @
      (case reason of
         None \<Rightarrow> []
       | Some r \<Rightarrow> if r = JobCanceled then [] else [(''failure_reason'', JStr (reason_text r))]) @
      [(''state'', JStr (state_text state)), (''token'', JStr token)])"

definition MAX_ATTEMPTS :: nat where "MAX_ATTEMPTS = 8"

definition update_delay :: "nat \<Rightarrow> nat" where
  "update_delay attempt = 250 * 2 ^ min (attempt - 1) 4"

text \<open>What a reply to the update means: done, give up, or try again.\<close>

datatype update_verdict = Done | GiveUp string | TryAgain string

definition update_verdict :: "'w http \<Rightarrow> (string, response) result \<Rightarrow> update_verdict" where
  "update_verdict io reply =
     (case reply of
        Inl e \<Rightarrow> TryAgain (with_context ''Failed to update job status'' e)
      | Inr rsp \<Rightarrow>
          (let status = rsp_status rsp; text = http_status_text io status in
           if status = 200 then Done
           else if status = 202 then TryAgain ''Job update accepted but not completed''
           else if status = 403 \<or> status = 404 then GiveUp (''Job update rejected: '' @ text)
           else if is_server_error status then TryAgain (''Job update failed: '' @ text)
           else GiveUp (''Job update failed: '' @ text @ '' '' @ body_text_or_default rsp)))"

fun update_attempts ::
  "'w http \<Rightarrow> request \<Rightarrow> nat list \<Rightarrow> string \<Rightarrow> 'w \<Rightarrow> (string, unit) result \<times> 'w" where
  "update_attempts io rq [] last_error w = (Inl last_error, w)"
| "update_attempts io rq (attempt # attempts) last_error w =
     (let w1 = (if attempt > 0 then http_sleep io (update_delay attempt) w else w) in
      case http_send io rq w1 of
        (reply, w2) \<Rightarrow>
          (case update_verdict io reply of
             Done \<Rightarrow> (Inr (), w2)
           | GiveUp m \<Rightarrow> (Inl m, w2)
           | TryAgain m \<Rightarrow> update_attempts io rq attempts m w2))"

definition put_json :: "gitlab_client \<Rightarrow> nat \<Rightarrow> json \<Rightarrow> request" where
  "put_json c jid body = \<lparr>rq_method = PUT, rq_url = job_url c jid, rq_query = [],
     rq_headers = [], rq_body = JsonBody body, rq_timeout = None\<rparr>"

definition update_job ::
  "'w http \<Rightarrow> gitlab_client \<Rightarrow> nat \<Rightarrow> string \<Rightarrow> job_state \<Rightarrow> failure_reason option \<Rightarrow> int option \<Rightarrow>
     'w \<Rightarrow> (string, unit) result \<times> 'w" where
  "update_job io c jid token state reason exit_code w =
     update_attempts io (put_json c jid (update_body token state reason exit_code))
       [0..<MAX_ATTEMPTS] ''Job update not attempted'' w"

text \<open>The world an attempt finds: every reply so far asked to try again.\<close>

primrec update_world :: "'w http \<Rightarrow> request \<Rightarrow> nat \<Rightarrow> 'w \<Rightarrow> 'w" where
  "update_world io rq 0 w = w"
| "update_world io rq (Suc k) w =
     http_sleep io (update_delay (Suc k)) (snd (http_send io rq (update_world io rq k w)))"

fun verdict_result :: "update_verdict \<Rightarrow> (string, unit) result" where
  "verdict_result Done = Inr ()"
| "verdict_result (GiveUp m) = Inl m"
| "verdict_result (TryAgain m) = Inl m"

fun is_final :: "update_verdict \<Rightarrow> bool" where
  "is_final (TryAgain _) = False"
| "is_final _ = True"

text \<open>From the second attempt on, the sleep is part of the world the attempt finds.\<close>

lemma update_attempts_find:
  assumes w: "(if k > 0 then http_sleep io (update_delay k) w' else w') = update_world io rq k w"
    and "k < n"
  shows "update_attempts io rq [k..<n] last_error w' =
    (let reply = (\<lambda>k. http_send io rq (update_world io rq k w));
         k' = (case find (\<lambda>k. is_final (update_verdict io (fst (reply k)))) [k..<n] of
                 Some k' \<Rightarrow> k' | None \<Rightarrow> n - 1)
     in (verdict_result (update_verdict io (fst (reply k'))), snd (reply k')))"
  using assms
proof (induction "n - k" arbitrary: k w' last_error)
  case (Suc d)
  obtain r w2 where r: "http_send io rq (update_world io rq k w) = (r, w2)" by fastforce
  have k: "[k..<n] = k # [Suc k..<n]" using Suc.prems(2) by (simp add: upt_conv_Cons)
  show ?case
  proof (cases "update_verdict io r")
    case (TryAgain m)
    then have step: "update_attempts io rq [k..<n] last_error w' = update_attempts io rq [Suc k..<n] m w2"
      using Suc.prems(1) r k by simp
    show ?thesis
    proof (cases "Suc k < n")
      case True
      have "update_world io rq (Suc k) w = http_sleep io (update_delay (Suc k)) w2" using r by simp
      then show ?thesis using Suc.hyps(1)[of "Suc k" w2 m] Suc.hyps(2) True step TryAgain r k by simp
    next
      case False
      then have "n = Suc k" using Suc.prems(2) by simp
      then show ?thesis using step TryAgain r by simp
    qed
  qed (use Suc.prems(1) r k in simp_all)
qed simp

text \<open>
  C18: reporting a job's state makes at most eight requests. The first reply that is final (200,
  or a rejection: 403, 404 or any other status that is neither 202 nor a server error) gives the
  result; until then every attempt waits its delay of 250 ms doubled up to 4 s; and if no reply
  is final, the last one gives the error.
\<close>

theorem update_job_outcome:
  "update_job io c jid token state reason exit_code w =
    (let rq = put_json c jid (update_body token state reason exit_code);
         reply = (\<lambda>k. http_send io rq (update_world io rq k w));
         k = (case find (\<lambda>k. is_final (update_verdict io (fst (reply k)))) [0..<8] of
                Some k \<Rightarrow> k | None \<Rightarrow> 7)
     in (verdict_result (update_verdict io (fst (reply k))), snd (reply k)))"
  unfolding update_job_def MAX_ATTEMPTS_def Let_def
  by (subst update_attempts_find[where k = 0 and w = w])
    (simp_all add: Let_def cong del: option.case_cong_weak)

section \<open>The trace\<close>

record trace_patch =
  tp_offset :: nat
  tp_remote :: remote_state
  tp_update_interval :: "nat option"

text \<open>The end of the \<open>Range\<close> header of a 416 response: the length GitLab has.\<close>

definition range_end :: "response \<Rightarrow> nat option" where
  "range_end rsp =
     (case Option.bind (header ''Range'' rsp) (split_once ''-'') of
        None \<Rightarrow> None | Some (_, tail) \<Rightarrow> parse_uint u64_max tail)"

definition trace_request :: "gitlab_client \<Rightarrow> nat \<Rightarrow> string \<Rightarrow> string \<Rightarrow> nat \<Rightarrow> request" where
  "trace_request c jid token trace offset = \<lparr>rq_method = PATCH, rq_url = job_url c jid @ ''/trace'',
     rq_query = [],
     rq_headers = [(''JOB-TOKEN'', token),
       (''Content-Range'', dec offset @ ''-'' @ dec (offset + length trace - 1)),
       (''Content-Type'', ''text/plain'')],
     rq_body = RawBody trace, rq_timeout = None\<rparr>"

definition trace_reply ::
  "'w http \<Rightarrow> nat \<Rightarrow> nat \<Rightarrow> (string, response) result \<Rightarrow> (op_error, trace_patch) result" where
  "trace_reply io offset end_offset reply =
     (case reply of
        Inl e \<Rightarrow> Inl (Retryable (with_context ''Failed to stream trace'' e))
      | Inr rsp \<Rightarrow>
          (let status = rsp_status rsp; text = http_status_text io status;
               patch = (\<lambda>at. Inr \<lparr>tp_offset = at, tp_remote = remote_from_response rsp,
                 tp_update_interval = response_update_interval rsp\<rparr>) in
           if status = 403 then patch offset
           else if status = 416 then
             (case range_end rsp of
                Some server_offset \<Rightarrow> patch server_offset
              | None \<Rightarrow> Inl (Retryable (''Range mismatch: '' @ text)))
           else if \<not> is_success status then
             Inl (Retryable (''Trace streaming failed: '' @ text))
           else patch end_offset))"

definition patch_trace ::
  "'w http \<Rightarrow> gitlab_client \<Rightarrow> nat \<Rightarrow> string \<Rightarrow> string \<Rightarrow> nat \<Rightarrow> 'w \<Rightarrow>
     (op_error, trace_patch) result \<times> 'w" where
  "patch_trace io c jid token trace offset w =
     (if trace = [] then
        (Inr \<lparr>tp_offset = offset, tp_remote = Running, tp_update_interval = None\<rparr>, w)
      else retry_with_backoff io
        (\<lambda>w. case http_send io (trace_request c jid token trace offset) w of
           (reply, w') \<Rightarrow> (trace_reply io offset (offset + length trace) reply, w')) w)"

text \<open>\<open>touch_job\<close>\<close>

definition touch_job ::
  "'w http \<Rightarrow> gitlab_client \<Rightarrow> nat \<Rightarrow> string \<Rightarrow> 'w \<Rightarrow> (string, remote_state) result \<times> 'w" where
  "touch_job io c jid token w =
     (case http_send io
         (put_json c jid (JObj [(''state'', JStr ''running''), (''token'', JStr token)])) w of
        (Inl e, w') \<Rightarrow> (Inl (with_context ''Failed to touch job'' e), w')
      | (Inr rsp, w') \<Rightarrow> (Inr (remote_from_response rsp), w'))"

section \<open>Requesting a job\<close>

text \<open>\<open>serde_json\<close>'s error, of which only its class and place are reported.\<close>

record parse_error =
  pe_category :: string
  pe_line :: nat
  pe_column :: nat

definition describe_parse_error :: "parse_error \<Rightarrow> string" where
  "describe_parse_error e =
     pe_category e @ '' error at line '' @ dec (pe_line e) @ '' column '' @ dec (pe_column e)"

definition features_json :: "runner_features \<Rightarrow> json" where
  "features_json f = JObj (map (\<lambda>(k, b). (k, JBool b))
     [(''variables'', ft_variables f), (''image'', ft_image f), (''services'', ft_services f),
      (''artifacts'', ft_artifacts f), (''cache'', ft_cache f),
      (''fallback_cache_keys'', ft_fallback_cache_keys f), (''shared'', ft_shared f),
      (''upload_multiple_artifacts'', ft_upload_multiple_artifacts f),
      (''upload_raw_artifacts'', ft_upload_raw_artifacts f), (''session'', ft_session f),
      (''terminal'', ft_terminal f), (''refspecs'', ft_refspecs f), (''masking'', ft_masking f),
      (''proxy'', ft_proxy f), (''raw_variables'', ft_raw_variables f),
      (''artifacts_exclude'', ft_artifacts_exclude f),
      (''multi_build_steps'', ft_multi_build_steps f), (''trace_reset'', ft_trace_reset f),
      (''trace_checksum'', ft_trace_checksum f), (''trace_size'', ft_trace_size f),
      (''vault_secrets'', ft_vault_secrets f), (''cancelable'', ft_cancelable f),
      (''return_exit_code'', ft_return_exit_code f),
      (''service_variables'', ft_service_variables f),
      (''cancel_gracefully'', ft_cancel_gracefully f)])"

definition runner_info_json :: "runner_report \<Rightarrow> json" where
  "runner_info_json r = JObj
     ([(''name'', JStr (rr_name r)), (''version'', JStr (rr_version r))] @
      (case rr_revision r of None \<Rightarrow> [] | Some v \<Rightarrow> [(''revision'', JStr v)]) @
      [(''platform'', JStr (rr_platform r)), (''architecture'', JStr (rr_architecture r)),
       (''executor'', JStr (rr_executor r))] @
      (case rr_features r of None \<Rightarrow> [] | Some f \<Rightarrow> [(''features'', features_json f)]))"

definition post_json :: "string \<Rightarrow> json \<Rightarrow> request" where
  "post_json url body = \<lparr>rq_method = POST, rq_url = url, rq_query = [], rq_headers = [],
     rq_body = JsonBody body, rq_timeout = None\<rparr>"

definition job_request_body :: "gitlab_client \<Rightarrow> string \<Rightarrow> json" where
  "job_request_body c runner_token = JObj
     [(''token'', JStr runner_token),
      (''info'', runner_info_json (runner_info_new (gl_version c) (gl_os c) (gl_arch c) (gl_executor c))),
      (''system_id'', JStr (gl_system_id c))]"

text \<open>The job is already assigned to this runner: a payload it cannot parse fails the job.\<close>

definition fail_unparseable ::
  "'w http \<Rightarrow> gitlab_client \<Rightarrow> (nat \<times> string) option \<Rightarrow> string \<Rightarrow> 'w \<Rightarrow> 'w" where
  "fail_unparseable io c identity reason w =
     (case identity of
        None \<Rightarrow> w
      | Some (jid, token) \<Rightarrow>
          (let trace = ''TurboCI could not parse the job payload: '' @ reason @ [nl];
               w1 = snd (patch_trace io c jid token trace 0 w)
           in snd (update_job io c jid token Failed (Some RunnerSystemFailure) None w1)))"

definition request_job ::
  "'w http \<Rightarrow> (string \<Rightarrow> (parse_error, job) result) \<Rightarrow> (string \<Rightarrow> (nat \<times> string) option) \<Rightarrow>
     gitlab_client \<Rightarrow> string \<Rightarrow> 'w \<Rightarrow> (string, job option) result \<times> 'w" where
  "request_job io parse_job parse_identity c runner_token w =
     (case http_send io (post_json (gl_url c @ ''/api/v4/jobs/request'')
             (job_request_body c runner_token)) w of
        (Inl e, w') \<Rightarrow> (Inl (with_context ''Failed to request job from GitLab'' e), w')
      | (Inr rsp, w') \<Rightarrow>
          (let status = rsp_status rsp in
           if status = 204 then (Inr None, w')
           else if status = 200 \<or> status = 201 then
             (case body_text rsp of
                Inl e \<Rightarrow> (Inl (with_context ''Failed to read response text'' e), w')
              | Inr text \<Rightarrow>
                  (case parse_job text of
                     Inr j \<Rightarrow> (Inr (Some j), w')
                   | Inl e \<Rightarrow>
                       (Inl (''Failed to parse job response: '' @ describe_parse_error e),
                        fail_unparseable io c (parse_identity text) (describe_parse_error e) w')))
           else if status = 403 \<or> status = 401 then (Inl ''Invalid runner token'', w')
           else (Inl (''Job request failed: '' @ http_status_text io status), w')))"

section \<open>Runner tokens\<close>

text \<open>\<open>parse_token\<close> is \<open>response.json()\<close> at \<open>TokenResponse\<close>.\<close>

definition verify_runner ::
  "'w http \<Rightarrow> (string \<Rightarrow> (string, token_response) result) \<Rightarrow> (string \<Rightarrow> int option) \<Rightarrow>
     gitlab_client \<Rightarrow> string \<Rightarrow> 'w \<Rightarrow> (string, int option) result \<times> 'w" where
  "verify_runner io parse_token rfc3339 c runner_token w =
     (case http_send io (post_json (gl_url c @ ''/api/v4/runners/verify'')
             (JObj [(''system_id'', JStr (gl_system_id c)), (''token'', JStr runner_token)])) w of
        (Inl e, w') \<Rightarrow> (Inl (with_context ''Failed to verify the runner token'' e), w')
      | (Inr rsp, w') \<Rightarrow>
          (let status = rsp_status rsp in
           (if status = 200 \<or> status = 201 then
              (case rbind (body_bytes (rsp_chunks rsp)) parse_token of
                 Inl e \<Rightarrow> Inl (with_context ''Invalid runner verification response'' e)
               | Inr body \<Rightarrow> expires_at rfc3339 body)
            else if status = 403 then Inl ''GitLab rejected the runner token''
            else Inl (''Runner verification failed: '' @ http_status_text io status), w')))"

definition reset_runner_token ::
  "'w http \<Rightarrow> (string \<Rightarrow> (string, token_response) result) \<Rightarrow> (string \<Rightarrow> int option) \<Rightarrow>
     gitlab_client \<Rightarrow> string \<Rightarrow> 'w \<Rightarrow> (string, string \<times> int option) result \<times> 'w" where
  "reset_runner_token io parse_token rfc3339 c runner_token w =
     (case http_send io (post_json (gl_url c @ ''/api/v4/runners/reset_authentication_token'')
             (JObj [(''token'', JStr runner_token)])) w of
        (Inl e, w') \<Rightarrow> (Inl (with_context ''Failed to reset the runner token'' e), w')
      | (Inr rsp, w') \<Rightarrow>
          (let status = rsp_status rsp in
           (if status \<noteq> 201 \<and> status \<noteq> 200 then
              Inl (''Runner token reset failed: '' @ http_status_text io status)
            else
              (case rbind (body_bytes (rsp_chunks rsp)) parse_token of
                 Inl e \<Rightarrow> Inl (with_context ''Invalid runner token reset response'' e)
               | Inr body \<Rightarrow>
                   (case tr_token body of
                      None \<Rightarrow> Inl ''GitLab returned no new runner token''
                    | Some token \<Rightarrow>
                        if token = [] then Inl ''GitLab returned no new runner token''
                        else rbind (expires_at rfc3339 body) (\<lambda>at. Inr (token, at)))), w')))"

section \<open>Artifacts\<close>

definition TRANSFER_TIMEOUT :: nat where "TRANSFER_TIMEOUT = 3600"

record artifact_upload =
  up_path :: string
  up_len :: nat
  up_file_name :: string
  up_format :: string
  up_artifact_type :: string
  up_expire_in :: "string option"

definition upload_query :: "artifact_upload \<Rightarrow> (string \<times> string) list" where
  "upload_query u =
     [(''artifact_format'', up_format u), (''artifact_type'', up_artifact_type u)] @
     (case up_expire_in u of None \<Rightarrow> [] | Some at \<Rightarrow> [(''expire_in'', at)])"

definition artifacts_url :: "gitlab_client \<Rightarrow> nat \<Rightarrow> string" where
  "artifacts_url c jid = job_url c jid @ ''/artifacts''"

definition upload_reply :: "'w http \<Rightarrow> (string, response) result \<Rightarrow> (op_error, unit) result" where
  "upload_reply io reply =
     (case reply of
        Inl e \<Rightarrow> Inl (Retryable (with_context ''Failed to upload artifacts'' e))
      | Inr rsp \<Rightarrow>
          (let status = rsp_status rsp;
               message = ''Artifact upload failed: '' @ http_status_text io status @ '' '' @
                 body_text_or_default rsp in
           if status = 201 \<or> status = 200 then Inr ()
           else if status = 413 then
             Inl (Permanent ''Artifact upload rejected: archive is larger than the instance limit'')
           else if is_client_error status then Inl (Permanent message)
           else Inl (Retryable message)))"

definition upload_artifacts ::
  "'w http \<Rightarrow> gitlab_client \<Rightarrow> nat \<Rightarrow> string \<Rightarrow> artifact_upload \<Rightarrow> 'w \<Rightarrow>
     (op_error, unit) result \<times> 'w" where
  "upload_artifacts io c jid token u w = retry_with_backoff io
     (\<lambda>w. case http_open io (up_path u) w of
        (Inl e, w') \<Rightarrow> (Inl (Retryable (with_context (''Failed to open '' @ up_path u) e)), w')
      | (Inr (), w') \<Rightarrow>
          (case http_send io
              \<lparr>rq_method = POST, rq_url = artifacts_url c jid, rq_query = upload_query u,
               rq_headers = [(''JOB-TOKEN'', token)],
               rq_body = FilePart (up_path u) (up_len u) (up_file_name u),
               rq_timeout = Some TRANSFER_TIMEOUT\<rparr> w' of
             (reply, w'') \<Rightarrow> (upload_reply io reply, w''))) w"

fun write_chunks ::
  "'w http \<Rightarrow> string \<Rightarrow> (string, string) result list \<Rightarrow> nat \<Rightarrow> 'w \<Rightarrow> (string, nat) result \<times> 'w" where
  "write_chunks io dest [] received w = (Inr received, w)"
| "write_chunks io dest (Inl e # _) received w =
     (Inl (with_context ''Failed to read artifact bytes'' e), w)"
| "write_chunks io dest (Inr c # cs) received w =
     (case http_write io dest c w of
        (Inl e, w') \<Rightarrow> (Inl e, w')
      | (Inr (), w') \<Rightarrow> write_chunks io dest cs (received + length c) w')"

definition download_artifacts_to ::
  "'w http \<Rightarrow> gitlab_client \<Rightarrow> nat \<Rightarrow> string \<Rightarrow> string \<Rightarrow> 'w \<Rightarrow> (string, nat) result \<times> 'w" where
  "download_artifacts_to io c jid token dest w =
     (case http_send io
         \<lparr>rq_method = GET, rq_url = artifacts_url c jid, rq_query = [],
          rq_headers = [(''JOB-TOKEN'', token)], rq_body = NoBody,
          rq_timeout = Some TRANSFER_TIMEOUT\<rparr> w of
        (Inl e, w') \<Rightarrow> (Inl (with_context ''Failed to download artifacts'' e), w')
      | (Inr rsp, w') \<Rightarrow>
          (let status = rsp_status rsp in
           if status = 404 then (Inl (''job #'' @ dec jid @ '' has no artifacts''), w')
           else if status \<noteq> 200 then
             (Inl (''Artifact download failed: '' @ http_status_text io status), w')
           else
             (case http_create io dest w' of
                (Inl e, w1) \<Rightarrow> (Inl (with_context (''Failed to create '' @ dest) e), w1)
              | (Inr (), w1) \<Rightarrow> write_chunks io dest (rsp_chunks rsp) 0 w1)))"

end
