(* ===== verification/Percent.thy ===== *)
theory Percent
  imports Gitlab_Types Utf8
begin

text \<open>
  Percent encoding. The code has three encoders that differ in the bytes they leave alone: for
  secrets in URLs (\<open>src/security/secret_scrubber.rs\<close>), for cache file names
  (\<open>src/runner_daemon/job_cache.rs\<close>) and for S3 paths (\<open>src/runner_daemon/s3.rs\<close>), and one decoder
  (\<open>src/runner_daemon/s3.rs\<close>). The locale \<open>percent_encoding\<close> is the contract they share.
\<close>

section \<open>The encoders and the decoder\<close>

text \<open>\<open>format!("%{:02X}", b)\<close>\<close>

definition percent_byte :: "char \<Rightarrow> string" where
  "percent_byte c = [CHR ''%'', hex_upper (byte c div 16), hex_upper (byte c mod 16)]"

definition unreserved :: "char \<Rightarrow> bool" where
  "unreserved c \<longleftrightarrow> is_ascii_alnum c \<or> c \<in> set ''-._~''"

definition percent_encode :: "string \<Rightarrow> string" where
  "percent_encode v = concat (map (\<lambda>c. if unreserved c then [c] else percent_byte c) v)"

definition key_char :: "char \<Rightarrow> bool" where
  "key_char c \<longleftrightarrow> is_ascii_alnum c \<or> c \<in> set ''-_''"

definition encode_key_bytes :: "string \<Rightarrow> string" where
  "encode_key_bytes key = concat (map (\<lambda>c. if key_char c then [c] else percent_byte c) key)"

definition path_char :: "char \<Rightarrow> bool" where
  "path_char c \<longleftrightarrow> is_ascii_alnum c \<or> c \<in> set ''-_.~/''"

definition encode_path :: "string \<Rightarrow> string" where
  "encode_path p = concat (map (\<lambda>c. if path_char c then [c] else percent_byte c) p)"

definition hex_digit_val :: "char \<Rightarrow> nat" where
  "hex_digit_val c = (let b = byte c in if b \<le> 57 then b - 48 else if b \<le> 70 then b - 55 else b - 87)"

text \<open>
  \<open>u8::from_str_radix(_, 16)\<close> of the two bytes after a \<open>%\<close>; like every integer parser of the
  standard library it takes a leading \<open>+\<close>.
\<close>

fun hex_pair :: "string \<Rightarrow> nat option" where
  "hex_pair (x # y # _) =
     (if \<not> is_ascii_hexdigit y then None
      else if is_ascii_hexdigit x then Some (16 * hex_digit_val x + hex_digit_val y)
      else if x = CHR ''+'' then Some (hex_digit_val y) else None)"
| "hex_pair _ = None"

fun percent_decode_bytes :: "string \<Rightarrow> string" where
  "percent_decode_bytes [] = []"
| "percent_decode_bytes (c # s) =
     (case (if c = CHR ''%'' then hex_pair s else None) of
        Some b \<Rightarrow> char_of b # percent_decode_bytes (drop 2 s)
      | None \<Rightarrow> c # percent_decode_bytes s)"

definition percent_decode :: "string \<Rightarrow> string" where
  "percent_decode text = from_utf8_lossy (percent_decode_bytes text)"

section \<open>The contract\<close>

lemma hex_upper_val:
  assumes "d < 16"
  shows "is_ascii_hexdigit (hex_upper d) \<and> hex_digit_val (hex_upper d) = d"
proof (cases "d < 10")
  case True
  then show ?thesis by (simp add: hex_upper_def is_ascii_hexdigit_def is_ascii_digit_def hex_digit_val_def)
next
  case False
  then have "byte (hex_upper d) = 55 + d" using assms by (simp add: hex_upper_def)
  then show ?thesis using assms False
    by (simp add: is_ascii_hexdigit_def is_ascii_digit_def hex_digit_val_def)
qed

lemma decode_percent_byte: "percent_decode_bytes (percent_byte c @ s) = c # percent_decode_bytes s"
proof -
  have c: "byte c < 256" by simp
  have hi: "byte c div 16 < 16" using c by linarith
  have lo: "byte c mod 16 < 16" by simp
  have "hex_pair (hex_upper (byte c div 16) # hex_upper (byte c mod 16) # s) = Some (byte c)"
    using hex_upper_val[OF hi] hex_upper_val[OF lo] by simp
  then show ?thesis by (simp add: percent_byte_def)
qed

lemma percent_byte_chars: "list_all (\<lambda>x. x = CHR ''%'' \<or> is_ascii_hexdigit x) (percent_byte c)"
proof -
  have "byte c div 16 < 16" "byte c mod 16 < 16" using nat_of_char_less_256[of c] by linarith+
  then show ?thesis using hex_upper_val by (simp add: percent_byte_def)
qed

locale percent_encoding =
  fixes safe :: "char \<Rightarrow> bool" and encode :: "string \<Rightarrow> string"
  assumes encode_map: "encode s = concat (map (\<lambda>c. if safe c then [c] else percent_byte c) s)"
    and percent_unsafe: "\<not> safe (CHR ''%'')"
begin

lemma encode_simps:
  "encode [] = []" "encode (c # s) = (if safe c then [c] else percent_byte c) @ encode s"
  by (simp_all add: encode_map)

lemma decode_encode: "percent_decode_bytes (encode s) = s"
proof (induction s)
  case (Cons c s)
  show ?case
  proof (cases "safe c")
    case True
    then have "c \<noteq> CHR ''%''" using percent_unsafe by auto
    with True Cons show ?thesis by (simp add: encode_simps)
  next
    case False
    with Cons show ?thesis by (simp add: encode_simps decode_percent_byte)
  qed
qed (simp add: encode_simps)

lemma encode_inj: "encode s = encode t \<longleftrightarrow> s = t"
  by (metis decode_encode)

lemma encode_chars:
  "list_all (\<lambda>c. safe c \<or> c = CHR ''%'' \<or> is_ascii_hexdigit c) (encode s)"
proof (induction s)
  case (Cons c s)
  then show ?case using percent_byte_chars[of c]
    by (auto simp: encode_simps list_all_iff)
qed (simp add: encode_simps)

lemma encode_safe: "list_all safe s \<Longrightarrow> encode s = s"
  by (induction s) (auto simp: encode_simps)

lemma encode_append: "encode (s @ t) = encode s @ encode t"
  by (simp add: encode_map)

lemma decode_encode_text: "utf8_valid s \<Longrightarrow> percent_decode (encode s) = s"
  by (simp add: percent_decode_def decode_encode lossy_valid)

end

interpretation url: percent_encoding unreserved percent_encode
  by unfold_locales (auto simp: percent_encode_def unreserved_def ascii_defs)

interpretation key: percent_encoding key_char encode_key_bytes
  by unfold_locales (auto simp: encode_key_bytes_def key_char_def ascii_defs)

interpretation s3path: percent_encoding path_char encode_path
  by unfold_locales (auto simp: encode_path_def path_char_def ascii_defs)

text \<open>What the three encoders do to text, the S3 decoder undoes.\<close>

theorem percent_roundtrip:
  assumes "utf8_valid s"
  shows "percent_decode (percent_encode s) = s \<and> percent_decode (encode_key_bytes s) = s \<and>
    percent_decode (encode_path s) = s"
  using assms by (simp add: url.decode_encode_text key.decode_encode_text s3path.decode_encode_text)

theorem percent_roundtrip_witness:
  "percent_decode (percent_encode ''a b%2/+'') = ''a b%2/+''"
proof -
  have "utf8_valid ''a b%2/+''" by (simp add: utf8_valid_step)
  from percent_roundtrip[OF this] show ?thesis by blast
qed

end
