(* ===== verification/Scrubber.thy ===== *)
theory Scrubber
  imports Percent
begin

text \<open>
  Masking of secrets in job logs (\<open>src/security/secret_scrubber.rs\<close>): the scrubber of whole
  texts and the scrubber of a stream of chunks, which holds back only what may still become a
  secret. A regular expression (the \<open>regex\<close> crate) is here a parameter: the function
  \<open>find_iter\<close> that gives the byte ranges of its matches in a text, which \<open>replace_all\<close>
  replaces; the twelve built-in expressions are in \<open>Patterns\<close>.
\<close>

type_synonym pattern = "string \<Rightarrow> (nat \<times> nat) list"

definition MAX_HOLDBACK :: nat where "MAX_HOLDBACK = 256"
definition MAX_PENDING :: nat where "MAX_PENDING = 16 * 1024"

definition masked :: string where "masked = ''[MASKED]''"

record secret_scrubber =
  sc_secrets :: "string list"
  sc_patterns :: "pattern list"

section \<open>Whole texts\<close>

definition is_token_char :: "char \<Rightarrow> bool" where
  "is_token_char c \<longleftrightarrow> is_ascii_alnum c \<or> c \<in> set ''-_+/=.:@%~''"

text \<open>\<open>str::replace\<close> and \<open>str::match_indices\<close> for a non-empty string.\<close>

function replace_str :: "string \<Rightarrow> string \<Rightarrow> string \<Rightarrow> string" where
  "replace_str p r s =
     (if p = [] then s
      else (case find_str p s of
              None \<Rightarrow> s
            | Some i \<Rightarrow> take i s @ r @ replace_str p r (drop (i + length p) s)))"
  by pat_completeness auto
termination
  by (relation "measure (\<lambda>(p, r, s). length s)") (auto dest: find_str_Some simp: neq_Nil_conv)

function match_starts :: "string \<Rightarrow> string \<Rightarrow> nat \<Rightarrow> nat list" where
  "match_starts p s off =
     (if p = [] then []
      else (case find_str p s of
              None \<Rightarrow> []
            | Some i \<Rightarrow> (off + i) # match_starts p (drop (i + length p) s) (off + i + length p)))"
  by pat_completeness auto
termination
  by (relation "measure (\<lambda>(p, s, off). length s)") (auto dest: find_str_Some simp: neq_Nil_conv)

declare replace_str.simps [simp del] match_starts.simps [simp del]

fun replace_ranges :: "string \<Rightarrow> string \<Rightarrow> nat \<Rightarrow> (nat \<times> nat) list \<Rightarrow> string" where
  "replace_ranges r s pos [] = drop pos s"
| "replace_ranges r s pos ((a, b) # rs) = take (a - pos) (drop pos s) @ r @ replace_ranges r s b rs"

definition replace_all :: "pattern \<Rightarrow> string \<Rightarrow> string" where
  "replace_all pat s = replace_ranges masked s 0 (pat s)"

definition scrub_secrets :: "string list \<Rightarrow> string \<Rightarrow> string" where
  "scrub_secrets secrets text =
     foldl (\<lambda>result secret. if secret \<noteq> [] \<and> length secret > 4
              then replace_str secret masked result else result) text secrets"

definition scrub :: "secret_scrubber \<Rightarrow> string \<Rightarrow> string" where
  "scrub sc text =
     foldl (\<lambda>result pat. replace_all pat result) (scrub_secrets (sc_secrets sc) text) (sc_patterns sc)"

definition add_secret :: "secret_scrubber \<Rightarrow> string \<Rightarrow> secret_scrubber" where
  "add_secret sc secret =
     (if secret \<noteq> [] \<and> secret \<notin> set (sc_secrets sc)
      then sc\<lparr>sc_secrets := sc_secrets sc @ [secret]\<rparr> else sc)"

definition add_encoded :: "secret_scrubber \<Rightarrow> string \<Rightarrow> secret_scrubber" where
  "add_encoded sc v =
     (let encoded = percent_encode v in
      add_secret (if encoded \<noteq> v then add_secret sc encoded else sc) v)"

definition job_secrets :: "job \<Rightarrow> string list" where
  "job_secrets j =
     filter_map var_value (filter var_masked (job_variables j)) @ [job_token j] @
     map dep_token (job_dependencies j)"

text \<open>\<open>sort_by_key\<close> is stable; longer secrets come first.\<close>

definition with_job_secrets :: "secret_scrubber \<Rightarrow> job \<Rightarrow> secret_scrubber" where
  "with_job_secrets sc j =
     (let sc' = foldl add_encoded sc (job_secrets j)
      in sc'\<lparr>sc_secrets := sort_key (\<lambda>s. - int (length s)) (sc_secrets sc')\<rparr>)"

definition match_ranges :: "secret_scrubber \<Rightarrow> string \<Rightarrow> (nat \<times> nat) list" where
  "match_ranges sc text =
     concat (map (\<lambda>s. map (\<lambda>i. (i, i + length s)) (match_starts s text 0))
       (filter (\<lambda>s. length s > 4) (sc_secrets sc))) @
     concat (map (\<lambda>pat. pat text) (sc_patterns sc))"

definition longest_secret :: "secret_scrubber \<Rightarrow> nat" where
  "longest_secret sc = foldr max (map length (sc_secrets sc)) 0"

section \<open>Streams\<close>

text \<open>Length of the longest proper prefix of \<open>secret\<close> that \<open>text\<close> ends with.\<close>

definition suffix_prefix_len :: "string \<Rightarrow> string \<Rightarrow> nat" where
  "suffix_prefix_len text secret =
     (case find (\<lambda>k. is_char_boundary secret k \<and> suffix (take k secret) text)
             (rev [1..<length secret]) of
        Some k \<Rightarrow> k | None \<Rightarrow> 0)"

record stream_scrubber =
  ss_pending :: string
  ss_swallowing :: bool

definition stream_new :: stream_scrubber where
  "stream_new = \<lparr>ss_pending = [], ss_swallowing = False\<rparr>"

definition token_run :: "string \<Rightarrow> nat" where
  "token_run p = length (takeWhile is_token_char (rev p))"

definition secret_start :: "secret_scrubber \<Rightarrow> string \<Rightarrow> nat" where
  "secret_start sc p = foldr max (map (suffix_prefix_len p) (sc_secrets sc)) 0"

definition initial_boundary :: "secret_scrubber \<Rightarrow> string \<Rightarrow> nat" where
  "initial_boundary sc p =
     boundary_down p (length p - max (secret_start sc p) (min (token_run p) MAX_HOLDBACK))"

definition keep_match :: "nat \<Rightarrow> nat \<Rightarrow> nat \<times> nat \<Rightarrow> nat" where
  "keep_match len boundary m =
     (if fst m < boundary \<and> (snd m > boundary \<or> snd m = len) then fst m else boundary)"

definition match_boundary :: "secret_scrubber \<Rightarrow> string \<Rightarrow> nat" where
  "match_boundary sc p =
     foldl (keep_match (length p)) (initial_boundary sc p) (match_ranges sc p)"

definition hold_limit :: "secret_scrubber \<Rightarrow> nat" where
  "hold_limit sc = max MAX_PENDING (longest_secret sc + MAX_HOLDBACK)"

definition open_start :: "secret_scrubber \<Rightarrow> string \<Rightarrow> nat option" where
  "open_start sc p =
     (case map fst (filter (\<lambda>m. snd m = length p) (match_ranges sc p)) of
        [] \<Rightarrow> None | s # ss \<Rightarrow> Some (foldl min s ss))"

text \<open>What \<open>push\<close> does once the chunk is appended to the pending text.\<close>

definition push_pending :: "secret_scrubber \<Rightarrow> string \<Rightarrow> string \<times> stream_scrubber" where
  "push_pending sc p =
     (let boundary = match_boundary sc p; len = length p; limit = hold_limit sc in
      if len - boundary > limit then
        (case open_start sc p of
           Some start \<Rightarrow> (scrub sc (take start p) @ masked, \<lparr>ss_pending = [], ss_swallowing = True\<rparr>)
         | None \<Rightarrow>
             (let b = boundary_up p (len - limit)
              in (scrub sc (take b p), \<lparr>ss_pending = drop b p, ss_swallowing = False\<rparr>)))
      else (scrub sc (take boundary p), \<lparr>ss_pending = drop boundary p, ss_swallowing = False\<rparr>))"

definition push :: "secret_scrubber \<Rightarrow> stream_scrubber \<Rightarrow> string \<Rightarrow> string \<times> stream_scrubber" where
  "push sc st chunk =
     (if ss_swallowing st then
        (case find_ws chunk of
           None \<Rightarrow> ([], st)
         | Some end \<Rightarrow> push_pending sc (ss_pending st @ drop end chunk))
      else push_pending sc (ss_pending st @ chunk))"

definition finish :: "secret_scrubber \<Rightarrow> stream_scrubber \<Rightarrow> string \<times> stream_scrubber" where
  "finish sc st = (scrub sc (ss_pending st), \<lparr>ss_pending = [], ss_swallowing = False\<rparr>)"

fun push_all :: "secret_scrubber \<Rightarrow> stream_scrubber \<Rightarrow> string list \<Rightarrow> string \<times> stream_scrubber" where
  "push_all sc st [] = ([], st)"
| "push_all sc st (c # cs) =
     (case push sc st c of (out, st') \<Rightarrow>
        (case push_all sc st' cs of (rest, st'') \<Rightarrow> (out @ rest, st'')))"

definition stream_output :: "secret_scrubber \<Rightarrow> string list \<Rightarrow> string" where
  "stream_output sc cs =
     (case push_all sc stream_new cs of (out, st) \<Rightarrow> out @ fst (finish sc st))"

section \<open>Masking adds no text\<close>

definition bracket_free :: "string \<Rightarrow> bool" where
  "bracket_free q \<longleftrightarrow> CHR ''['' \<notin> set q \<and> CHR '']'' \<notin> set q"

text \<open>Secrets that cannot occur in the mask, nor together with a part of it.\<close>

definition maskable :: "string \<Rightarrow> bool" where
  "maskable q \<longleftrightarrow> q \<noteq> [] \<and> bracket_free q \<and> \<not> contains ''MASKED'' q"

text \<open>\<open>t\<close> is \<open>s\<close> with parts replaced by the mask, as far as bracket-free text can tell.\<close>

definition masks :: "string \<Rightarrow> string \<Rightarrow> bool" where
  "masks s t \<longleftrightarrow> (\<forall>h. bracket_free h \<longrightarrow> prefix h t \<longrightarrow> prefix h s) \<and>
     (\<forall>h. bracket_free h \<longrightarrow> suffix h t \<longrightarrow> suffix h s) \<and>
     (bracket_free t \<longrightarrow> t = s) \<and>
     (\<forall>q. maskable q \<longrightarrow> contains t q \<longrightarrow> contains s q)"

lemma masks_refl: "masks s s"
  by (simp add: masks_def)

lemma masks_trans: "masks s t \<Longrightarrow> masks t u \<Longrightarrow> masks s u"
  unfolding masks_def by blast

lemma contains_at_sep:
  assumes "c \<notin> set q" "q \<noteq> []" "contains (x @ c # y) q"
  shows "contains x q \<or> contains y q"
proof -
  from assms(3) obtain a b where eq: "x @ c # y = a @ q @ b" by (auto simp: contains_iff)
  then consider us where "x = a @ us" "us @ c # y = q @ b" | us where "c # y = us @ q @ b"
    by (auto simp: append_eq_append_conv2)
  then show ?thesis
  proof cases
    case 1
    then consider vs where "us = q @ vs" | vs where "us @ vs = q" "c # y = vs @ b"
      by (auto simp: append_eq_append_conv2)
    then show ?thesis
    proof cases
      case 1
      then show ?thesis using \<open>x = a @ us\<close> by (auto simp: contains_iff)
    next
      case 2
      then have "vs = []" using assms(1) by (cases vs) auto
      then show ?thesis using 2 \<open>x = a @ us\<close> by (auto simp: contains_iff intro: exI[of _ "[]"])
    qed
  next
    case 2
    then show ?thesis using assms(1,2) by (cases us; cases q) (auto simp: contains_iff)
  qed
qed

lemma contains_around_mask:
  assumes "maskable q" "contains (x @ masked @ y) q"
  shows "contains x q \<or> contains y q"
proof -
  have q: "CHR ''['' \<notin> set q" "CHR '']'' \<notin> set q" "q \<noteq> []" "\<not> contains ''MASKED'' q"
    using assms(1) by (auto simp: maskable_def bracket_free_def)
  have "x @ masked @ y = x @ CHR ''['' # (''MASKED'' @ CHR '']'' # y)" by (simp add: masked_def)
  with assms(2) have "contains x q \<or> contains (''MASKED'' @ CHR '']'' # y) q"
    using contains_at_sep[OF q(1,3)] by metis
  then show ?thesis using contains_at_sep[OF q(2,3)] q(4) by metis
qed

lemma contains_prefix: "prefix x s \<Longrightarrow> contains x q \<Longrightarrow> contains s q"
  unfolding prefix_def contains_iff by (metis append.assoc)

lemma contains_suffix: "suffix x s \<Longrightarrow> contains x q \<Longrightarrow> contains s q"
  unfolding suffix_def contains_iff by (metis append.assoc)

lemma suffix_after_mask: "bracket_free h \<Longrightarrow> suffix h (x @ masked @ y) \<Longrightarrow> suffix h y"
proof (rule ccontr)
  assume b: "bracket_free h" and h: "suffix h (x @ masked @ y)" and n: "\<not> suffix h y"
  from h have "suffix h ((x @ masked) @ y)" by simp
  with n obtain h' where h': "h = h' @ y" "suffix h' (x @ masked)" by (auto simp: suffix_append)
  with n have "h' \<noteq> []" by auto
  then have "last h' = CHR '']''" using h'(2) by (auto simp: masked_def suffix_def dest: arg_cong[where f=last])
  then show False using b h' \<open>h' \<noteq> []\<close> last_in_set[of h'] by (auto simp: bracket_free_def)
qed

lemma masks_insert:
  assumes x: "prefix x s" and y: "\<forall>h. bracket_free h \<longrightarrow> suffix h y \<longrightarrow> suffix h s"
    and c: "\<forall>q. maskable q \<longrightarrow> contains y q \<longrightarrow> contains s q"
  shows "masks s (x @ masked @ y)"
  unfolding masks_def
proof (intro conjI allI impI)
  fix h assume h: "bracket_free h" "prefix h (x @ masked @ y)"
  show "prefix h s"
  proof (cases "prefix h x")
    case True
    then show ?thesis using x prefix_order.trans by blast
  next
    case False
    then obtain h' where "h = x @ h'" "prefix h' (masked @ y)" "h' \<noteq> []"
      using h(2) by (metis append_Nil2 prefix_append prefix_order.refl)
    then have "hd h' = CHR ''[''" by (cases h') (auto simp: masked_def)
    then show ?thesis using h(1) \<open>h = x @ h'\<close> \<open>h' \<noteq> []\<close> by (cases h') (auto simp: bracket_free_def)
  qed
next
  fix h assume h: "bracket_free h" "suffix h (x @ masked @ y)"
  then show "suffix h s" using suffix_after_mask y by blast
next
  assume "bracket_free (x @ masked @ y)"
  then show "x @ masked @ y = s" by (simp add: bracket_free_def masked_def)
next
  fix q assume "maskable q" "contains (x @ masked @ y) q"
  then show "contains s q" using contains_around_mask contains_prefix[OF x] c by blast
qed

lemma masks_replace_str: "masks s (replace_str p masked s)"
proof (induction p masked s rule: replace_str.induct)
  case (1 p s)
  show ?case
  proof (cases "p = [] \<or> find_str p s = None")
    case True
    then have "replace_str p masked s = s" by (auto simp: replace_str.simps[of p masked s])
    then show ?thesis by (simp add: masks_refl)
  next
    case False
    then obtain i where i: "p \<noteq> []" "find_str p s = Some i" by auto
    let ?r = "drop (i + length p) s"
    have m: "masks ?r (replace_str p masked ?r)" using 1 i by blast
    have "suffix ?r s" by (rule suffix_drop)
    with m have "masks s (take i s @ masked @ replace_str p masked ?r)"
      by (intro masks_insert) (auto simp: masks_def take_is_prefix
          intro: contains_suffix suffix_order.trans)
    moreover have "replace_str p masked s = take i s @ masked @ replace_str p masked ?r"
      using i by (subst replace_str.simps) simp
    ultimately show ?thesis by simp
  qed
qed

lemma contains_drop: "contains (drop n s) q \<Longrightarrow> contains s q"
  by (rule contains_suffix[OF suffix_drop])

lemma contains_take: "contains (take n s) q \<Longrightarrow> contains s q"
  by (rule contains_prefix[OF take_is_prefix])

lemma replace_ranges_facts:
  "(\<forall>h. bracket_free h \<longrightarrow> suffix h (replace_ranges masked s pos rs) \<longrightarrow> suffix h s) \<and>
   (\<forall>q. maskable q \<longrightarrow> contains (replace_ranges masked s pos rs) q \<longrightarrow> contains s q)"
proof (induction rs arbitrary: pos)
  case Nil
  then show ?case by (auto intro: contains_drop suffix_order.trans[OF _ suffix_drop])
next
  case (Cons ab rs)
  obtain a b where ab: "ab = (a, b)" by fastforce
  let ?x = "take (a - pos) (drop pos s)" and ?y = "replace_ranges masked s b rs"
  show ?case
  proof (intro conjI allI impI)
    fix h assume h: "bracket_free h" "suffix h (replace_ranges masked s pos (ab # rs))"
    then have "suffix h ?y" using suffix_after_mask[OF h(1)] ab by simp
    then show "suffix h s" using Cons h(1) by blast
  next
    fix q assume q: "maskable q" "contains (replace_ranges masked s pos (ab # rs)) q"
    then have "contains ?x q \<or> contains ?y q" using ab contains_around_mask by simp
    then show "contains s q" using Cons q(1) contains_take contains_drop by blast
  qed
qed

lemma masks_replace_all: "masks s (replace_all pat s)"
proof (cases "pat s")
  case Nil
  then show ?thesis by (simp add: replace_all_def masks_refl)
next
  case (Cons ab rs)
  obtain a b where "ab = (a, b)" by fastforce
  then have "replace_all pat s = take a s @ masked @ replace_ranges masked s b rs"
    using Cons by (simp add: replace_all_def)
  then show ?thesis
    using masks_insert[OF take_is_prefix] replace_ranges_facts[of s b rs] by simp
qed

lemma masks_scrub_secrets: "masks s (scrub_secrets secrets s)"
proof -
  have "masks s t \<Longrightarrow> masks s (scrub_secrets secrets t)" for t
    unfolding scrub_secrets_def
    by (induction secrets arbitrary: t) (simp_all add: masks_trans[OF _ masks_replace_str])
  then show ?thesis using masks_refl by blast
qed

lemma masks_patterns: "masks s t \<Longrightarrow> masks s (foldl (\<lambda>r pat. replace_all pat r) t pats)"
  by (induction pats arbitrary: t) (simp_all add: masks_trans[OF _ masks_replace_all])

lemma masks_scrub: "masks s (scrub sc s)"
  unfolding scrub_def by (intro masks_patterns masks_scrub_secrets)

lemma masks_contains: "masks s t \<Longrightarrow> maskable q \<Longrightarrow> contains t q \<Longrightarrow> contains s q"
  by (simp add: masks_def)

section \<open>Masking removes secrets\<close>

lemma replace_str_removes: "maskable p \<Longrightarrow> \<not> contains (replace_str p masked s) p"
proof (induction p masked s rule: replace_str.induct)
  case (1 p s)
  then have p: "p \<noteq> []" by (simp add: maskable_def)
  show ?case
  proof (cases "find_str p s")
    case None
    then show ?thesis using p by (subst replace_str.simps) (simp add: contains_def)
  next
    case (Some i)
    have "\<not> contains (take i s) p"
    proof
      assume "contains (take i s) p"
      then obtain j where j: "find_str p (take i s) = Some j" by (auto simp: contains_def)
      from find_str_Some[OF j] have "prefix p (take (i - j) (drop j s))" "j + length p \<le> i"
        by (auto simp: drop_take)
      then have "prefix p (drop j s)" using prefix_order.trans take_is_prefix by blast
      moreover have "j < i" using \<open>j + length p \<le> i\<close> p by (cases p) auto
      ultimately show False using find_str_least[OF Some] by blast
    qed
    moreover have "replace_str p masked s =
        take i s @ masked @ replace_str p masked (drop (i + length p) s)"
      using Some p by (subst replace_str.simps) simp
    ultimately show ?thesis
      using contains_around_mask[OF "1.prems"] "1"(1)[OF p Some "1.prems"] by metis
  qed
qed

lemma scrub_secrets_keeps: "maskable q \<Longrightarrow> \<not> contains t q \<Longrightarrow> \<not> contains (scrub_secrets secrets t) q"
  using masks_contains[OF masks_scrub_secrets] by blast

lemma scrub_secrets_removes:
  "maskable q \<Longrightarrow> length q > 4 \<Longrightarrow> q \<in> set secrets \<Longrightarrow> \<not> contains (scrub_secrets secrets t) q"
proof (induction secrets arbitrary: t)
  case (Cons s secrets)
  show ?case
  proof (cases "q = s")
    case True
    then have "scrub_secrets (s # secrets) t = scrub_secrets secrets (replace_str q masked t)"
      using Cons.prems by (auto simp: scrub_secrets_def)
    then show ?thesis using scrub_secrets_keeps replace_str_removes Cons.prems(1) by metis
  next
    case False
    then have "q \<in> set secrets" using Cons.prems by simp
    then show ?thesis using Cons.IH[OF Cons.prems(1,2)] by (simp add: scrub_secrets_def)
  qed
qed simp

lemma scrub_removes:
  assumes "maskable q" "length q > 4" "q \<in> set (sc_secrets sc)"
  shows "\<not> contains (scrub sc t) q"
proof -
  have "\<not> contains (scrub_secrets (sc_secrets sc) t) q" using scrub_secrets_removes assms by blast
  then show ?thesis
    unfolding scrub_def using masks_contains[OF masks_patterns[OF masks_refl] assms(1)] by blast
qed

section \<open>A stream is masked as its text\<close>

text \<open>All the places of a text that hold a secret, and the ranges of the expressions.\<close>

definition occurrences :: "string \<Rightarrow> string \<Rightarrow> nat list" where
  "occurrences q s = filter (\<lambda>i. prefix q (drop i s)) [0..<length s]"

definition spans :: "secret_scrubber \<Rightarrow> string \<Rightarrow> (nat \<times> nat) list" where
  "spans sc p =
     concat (map (\<lambda>q. map (\<lambda>i. (i, i + length q)) (occurrences q p))
       (filter (\<lambda>q. length q > 4) (sc_secrets sc))) @
     concat (map (\<lambda>pat. pat p) (sc_patterns sc))"

definition crosses :: "nat \<times> nat \<Rightarrow> nat \<times> nat \<Rightarrow> bool" where
  "crosses m m' \<longleftrightarrow> fst m < fst m' \<and> fst m' < snd m \<and> snd m < snd m'"

definition laminar :: "secret_scrubber \<Rightarrow> string \<Rightarrow> bool" where
  "laminar sc p \<longleftrightarrow> list_all (\<lambda>m. list_all (\<lambda>m'. \<not> crosses m m') (spans sc p)) (spans sc p)"

text \<open>
  What a run over chunks must meet for the cuts to be between secrets: each chunk is a string
  of its own, matches do not cross, and the text held back stays below the limit.
\<close>

fun stream_ok :: "secret_scrubber \<Rightarrow> string \<Rightarrow> string list \<Rightarrow> bool" where
  "stream_ok sc p [] \<longleftrightarrow> True"
| "stream_ok sc p (c # cs) \<longleftrightarrow>
     (c = [] \<or> \<not> is_cont (hd c)) \<and> laminar sc (p @ c) \<and>
     length (p @ c) - match_boundary sc (p @ c) \<le> hold_limit sc \<and>
     stream_ok sc (drop (match_boundary sc (p @ c)) (p @ c)) cs"

lemma masks_prefix: "masks s t \<Longrightarrow> bracket_free h \<Longrightarrow> prefix h t \<Longrightarrow> prefix h s"
  by (simp add: masks_def)

lemma masks_suffix: "masks s t \<Longrightarrow> bracket_free h \<Longrightarrow> suffix h t \<Longrightarrow> suffix h s"
  by (simp add: masks_def)

lemma masks_bracket_free: "masks s t \<Longrightarrow> bracket_free t \<Longrightarrow> t = s"
  by (simp add: masks_def)

lemma contains_append_cases:
  assumes "contains (X @ Y) q"
  obtains "contains X q" | "contains Y q" |
    us vs where "q = us @ vs" "us \<noteq> []" "vs \<noteq> []" "suffix us X" "prefix vs Y"
proof -
  from assms obtain a b where "X @ Y = a @ q @ b" by (auto simp: contains_iff)
  then consider us where "X = a @ us" "us @ Y = q @ b" | us where "Y = us @ q @ b"
    by (auto simp: append_eq_append_conv2)
  then show thesis
  proof cases
    case 1
    then consider vs where "us = q @ vs" | vs where "us @ vs = q" "Y = vs @ b"
      by (auto simp: append_eq_append_conv2)
    then show thesis
    proof cases
      case 1
      then show thesis using \<open>X = a @ us\<close> that(1) by (auto simp: contains_iff)
    next
      case 2
      show thesis
      proof (cases "us = [] \<or> vs = []")
        case True
        then have "suffix q X \<or> prefix q Y" using 2 \<open>X = a @ us\<close> by (auto simp: suffix_def)
        moreover have "contains q q" using contains_iff[of q q] by (metis append_Nil append_Nil2)
        ultimately show thesis using that(1,2) contains_suffix contains_prefix by blast
      next
        case False
        then show thesis using that(3)[of us vs] 2 \<open>X = a @ us\<close> by (simp add: suffix_def)
      qed
    qed
  next
    case 2
    then show thesis using that(2) by (auto simp: contains_iff)
  qed
qed

lemma bracket_free_append [simp]: "bracket_free (x @ y) \<longleftrightarrow> bracket_free x \<and> bracket_free y"
  by (auto simp: bracket_free_def)

lemma masks_append:
  assumes x: "masks x X" and y: "masks y Y"
  shows "masks (x @ y) (X @ Y)"
  unfolding masks_def
proof (intro conjI allI impI)
  fix h assume h: "bracket_free h" "prefix h (X @ Y)"
  then show "prefix h (x @ y)"
    using masks_prefix[OF x] masks_prefix[OF y] masks_bracket_free[OF x]
    by (auto simp: prefix_append)
next
  fix h assume h: "bracket_free h" "suffix h (X @ Y)"
  then show "suffix h (x @ y)"
    using masks_suffix[OF x] masks_suffix[OF y] masks_bracket_free[OF y]
    by (auto simp: suffix_append)
next
  assume "bracket_free (X @ Y)"
  then show "X @ Y = x @ y" using masks_bracket_free[OF x] masks_bracket_free[OF y] by simp
next
  fix q assume q: "maskable q" "contains (X @ Y) q"
  from q(2) show "contains (x @ y) q"
  proof (cases rule: contains_append_cases)
    case 1
    then show ?thesis using masks_contains[OF x q(1)] contains_prefix[of x "x @ y"] by simp
  next
    case 2
    then show ?thesis using masks_contains[OF y q(1)] contains_suffix[of y "x @ y"] by (simp add: suffix_def)
  next
    case (3 us vs)
    then have "suffix us x" "prefix vs y"
      using q(1) masks_suffix[OF x] masks_prefix[OF y] by (auto simp: maskable_def)
    then obtain x' y' where "x @ y = x' @ q @ y'" using 3(1) by (auto simp: suffix_def prefix_def)
    then show ?thesis unfolding contains_iff by blast
  qed
qed

text \<open>An occurrence in the output lies in one of the two parts, or goes over the cut of the input.\<close>

lemma contains_masked_append:
  assumes "masks x X" "masks y Y" "maskable q" "contains (X @ Y) q"
  obtains "contains X q" | "contains Y q" |
    i where "i < length x" "length x < i + length q" "prefix q (drop i (x @ y))"
  using assms(4)
proof (cases rule: contains_append_cases)
  case (3 us vs)
  then have "suffix us x" "prefix vs y"
    using assms(3) masks_suffix[OF assms(1)] masks_prefix[OF assms(2)] by (auto simp: maskable_def)
  then obtain x' y' where "x = x' @ us" "y = vs @ y'" by (auto simp: suffix_def prefix_def)
  then show thesis using that(3)[of "length x'"] 3 by auto
qed (use that in auto)

section \<open>Where a stream is cut\<close>

lemma keep_fold_le: "foldl (keep_match len) b ms \<le> b"
proof (induction ms arbitrary: b)
  case (Cons m ms)
  have "keep_match len b m \<le> b" by (simp add: keep_match_def)
  then show ?case using Cons[of "keep_match len b m"] by simp
qed simp

text \<open>No listed match goes over the cut, unless it crosses another one.\<close>

lemma keep_fold_later:
  assumes "\<And>m'. m' \<in> set ms \<Longrightarrow> \<not> crosses m m'" "snd m \<le> b" "snd m < len"
    "fst m < foldl (keep_match len) b ms"
  shows "snd m \<le> foldl (keep_match len) b ms"
  using assms
proof (induction ms arbitrary: b)
  case (Cons m' ms)
  let ?b = "keep_match len b m'"
  have "fst m < ?b" using Cons.prems(4) keep_fold_le[of len ?b ms] by simp
  moreover have "\<not> crosses m m'" using Cons.prems(1) by simp
  ultimately have "snd m \<le> ?b"
    using Cons.prems(2,3) unfolding keep_match_def crosses_def by (auto simp del: foldl_Cons split: if_splits)
  then show ?case using Cons by simp
qed simp

lemma keep_fold_inside:
  assumes "m \<in> set ms" "\<And>m'. m' \<in> set ms \<Longrightarrow> \<not> crosses m m'" "snd m \<le> len"
    "fst m < foldl (keep_match len) b ms"
  shows "snd m \<le> foldl (keep_match len) b ms"
proof -
  from assms(1) obtain xs ys where ms: "ms = xs @ m # ys" by (auto simp: in_set_conv_decomp)
  let ?b = "foldl (keep_match len) b xs"
  have eq: "foldl (keep_match len) b ms = foldl (keep_match len) (keep_match len ?b m) ys"
    by (simp add: ms)
  then have lt: "fst m < keep_match len ?b m"
    using assms(4) keep_fold_le[of len "keep_match len ?b m" ys] by simp
  then have b: "keep_match len ?b m = ?b" "snd m \<le> ?b" "snd m \<noteq> len"
    by (auto simp: keep_match_def split: if_splits)
  have "snd m \<le> foldl (keep_match len) ?b ys"
  proof (rule keep_fold_later)
    show "\<not> crosses m m'" if "m' \<in> set ys" for m' using assms(2) ms that by simp
    show "snd m \<le> ?b" "snd m < len" using b assms(3) by simp_all
    show "fst m < foldl (keep_match len) ?b ys" using assms(4) eq b(1) by simp
  qed
  then show ?thesis using eq b by simp
qed

lemma match_starts_sound:
  "i \<in> set (match_starts q s off) \<Longrightarrow> off \<le> i \<and> prefix q (drop (i - off) s) \<and> q \<noteq> []"
proof (induction q s off rule: match_starts.induct)
  case (1 q s off)
  from "1.prems" have q: "q \<noteq> []" by (subst (asm) match_starts.simps) (auto split: if_splits)
  have "find_str q s = None \<Longrightarrow> match_starts q s off = []" by (subst match_starts.simps) simp
  with "1.prems" obtain j where j: "find_str q s = Some j" by (cases "find_str q s") auto
  then have eq: "match_starts q s off = (off + j) #
      match_starts q (drop (j + length q) s) (off + j + length q)"
    using q by (subst match_starts.simps) simp
  show ?case
  proof (cases "i = off + j")
    case True
    then show ?thesis using find_str_Some[OF j] q by simp
  next
    case False
    then have "i \<in> set (match_starts q (drop (j + length q) s) (off + j + length q))"
      using "1.prems" eq by simp
    from "1.IH"[OF q j this] show ?thesis by (auto simp: add.commute)
  qed
qed

text \<open>An occurrence of a secret is listed, or overlaps a listed one that starts before it.\<close>

lemma match_starts_complete:
  "q \<noteq> [] \<Longrightarrow> prefix q (drop i s) \<Longrightarrow>
     \<exists>j \<in> set (match_starts q s off). j \<le> off + i \<and> off + i < j + length q"
proof (induction q s off arbitrary: i rule: match_starts.induct)
  case (1 q s off)
  obtain j where j: "find_str q s = Some j" using "1.prems"(2) find_str_None by fastforce
  then have eq: "match_starts q s off = (off + j) #
      match_starts q (drop (j + length q) s) (off + j + length q)"
    using "1.prems" by (subst match_starts.simps) simp
  have "j \<le> i" using find_str_least[OF j] "1.prems"(2) not_less by blast
  show ?case
  proof (cases "i < j + length q")
    case True
    then show ?thesis using eq \<open>j \<le> i\<close> by auto
  next
    case False
    define k where "k = i - (j + length q)"
    have i: "i = j + length q + k" using False by (simp add: k_def)
    then have "prefix q (drop k (drop (j + length q) s))" using "1.prems"(2) by (simp add: add.commute)
    from "1.IH"[OF "1.prems"(1) j "1.prems"(1) this] show ?thesis using eq i by (auto simp: add.assoc)
  qed
qed

lemma suffix_prefix_len_ge:
  assumes "0 < k" "k < length q" "is_char_boundary q k" "suffix (take k q) p"
  shows "k \<le> suffix_prefix_len p q"
proof -
  let ?P = "\<lambda>k. is_char_boundary q k \<and> suffix (take k q) p" and ?ks = "rev [1..<length q]"
  have k: "k \<in> set ?ks" "?P k" using assms by auto
  then obtain m where m: "find ?P ?ks = Some m" by (cases "find ?P ?ks") (auto simp: find_None_iff)
  then obtain i where i: "i < length ?ks" "m = ?ks ! i" "\<forall>j < i. \<not> ?P (?ks ! j)"
    by (auto simp: find_Some_iff)
  from k obtain j where j: "j < length ?ks" "k = ?ks ! j" by (metis in_set_conv_nth)
  have "i \<le> j" using i(3) k(2) j by (meson not_less)
  then have "k \<le> m" using i j by (simp add: rev_nth)
  then show ?thesis using m by (simp add: suffix_prefix_len_def)
qed

lemma foldr_max_ge: "x \<in> set xs \<Longrightarrow> x \<le> foldr max xs (0 :: nat)"
  by (induction xs) (auto simp: max.coboundedI1 max.coboundedI2)

lemma initial_boundary_le:
  assumes "q \<in> set (sc_secrets sc)"
  shows "initial_boundary sc p \<le> length p - suffix_prefix_len p q"
proof -
  have "suffix_prefix_len p q \<le> secret_start sc p"
    unfolding secret_start_def using assms by (intro foldr_max_ge) auto
  then have "length p - max (secret_start sc p) (min (token_run p) MAX_HOLDBACK) \<le>
      length p - suffix_prefix_len p q" by linarith
  then show ?thesis
    unfolding initial_boundary_def by (rule order_trans[OF boundary_down_le])
qed

lemma match_boundary_le: "match_boundary sc p \<le> initial_boundary sc p"
  by (simp add: match_boundary_def keep_fold_le)

lemma match_boundary_length: "match_boundary sc p \<le> length p"
proof -
  have "initial_boundary sc p \<le> length p"
    unfolding initial_boundary_def by (rule order_trans[OF boundary_down_le]) simp
  then show ?thesis using match_boundary_le order_trans by blast
qed

lemma match_ranges_spans: "set (match_ranges sc p) \<subseteq> set (spans sc p)"
proof -
  have "set (match_starts q p 0) \<subseteq> set (occurrences q p)" for q
  proof
    fix i assume "i \<in> set (match_starts q p 0)"
    then have "prefix q (drop i p)" "q \<noteq> []" using match_starts_sound by fastforce+
    then have "i < length p" by (cases "i < length p") auto
    then show "i \<in> set (occurrences q p)" using \<open>prefix q (drop i p)\<close> by (simp add: occurrences_def)
  qed
  then show ?thesis by (auto simp: match_ranges_def spans_def)
qed

lemma laminar_no_cross:
  "laminar sc p \<Longrightarrow> m \<in> set (spans sc p) \<Longrightarrow> m' \<in> set (spans sc p) \<Longrightarrow> \<not> crosses m m'"
  by (auto simp: laminar_def list_all_iff)

text \<open>A secret inside the text is on one side of the cut.\<close>

lemma inside_not_cut:
  assumes lam: "laminar sc p" and q: "q \<in> set (sc_secrets sc)" "length q > 4" "prefix q (drop i p)"
  shows "i + length q \<le> match_boundary sc p \<or> match_boundary sc p \<le> i"
proof -
  have "i < length p" using q by (cases "i < length p") auto
  then have span: "(i, i + length q) \<in> set (spans sc p)"
    using q by (auto simp: spans_def occurrences_def intro!: bexI[of _ q])
  have "q \<noteq> []" using q(2) by auto
  then obtain j where j: "j \<in> set (match_starts q p 0)" "j \<le> i" "i < j + length q"
    using match_starts_complete[OF _ q(3)] by fastforce
  then have listed: "(j, j + length q) \<in> set (match_ranges sc p)"
    using q by (auto simp: match_ranges_def intro!: bexI[of _ q])
  have "j = i"
    using laminar_no_cross[OF lam _ span, of "(j, j + length q)"] listed match_ranges_spans j
    by (fastforce simp: crosses_def)
  show ?thesis
  proof (rule ccontr)
    assume neg: "\<not> (i + length q \<le> match_boundary sc p \<or> match_boundary sc p \<le> i)"
    have "snd (i, i + length q) \<le> match_boundary sc p"
      unfolding match_boundary_def
    proof (rule keep_fold_inside)
      show "(i, i + length q) \<in> set (match_ranges sc p)" using listed \<open>j = i\<close> by simp
      show "\<not> crosses (i, i + length q) m'" if "m' \<in> set (match_ranges sc p)" for m'
        using that laminar_no_cross[OF lam span] match_ranges_spans by blast
      show "snd (i, i + length q) \<le> length p"
        using prefix_length_le[OF q(3)] \<open>i < length p\<close> by simp
      show "fst (i, i + length q) < foldl (keep_match (length p)) (initial_boundary sc p) (match_ranges sc p)"
        using neg by (simp add: match_boundary_def)
    qed
    then show False using neg by simp
  qed
qed

text \<open>A secret that the next chunk may complete is held back.\<close>

lemma open_not_cut:
  assumes q: "q \<in> set (sc_secrets sc)" "prefix q (drop i (p @ f))"
    and i: "i < length p" "length p < i + length q" and f: "f = [] \<or> \<not> is_cont (hd f)"
  shows "match_boundary sc p \<le> i"
proof -
  let ?k = "length p - i"
  obtain r where r: "drop i p @ f = q @ r" using q(2) i by (auto simp: prefix_def)
  then have "take ?k q = take ?k (drop i p @ f)" using i by simp
  also have "\<dots> = drop i p" by simp
  finally have t: "take ?k q = drop i p" .
  have "f \<noteq> []" using r i by (cases f) (auto dest: arg_cong[where f = length])
  have "?k < length q" using i by linarith
  then have "q ! ?k = (drop i p @ f) ! ?k" using r by (simp add: nth_append)
  also have "\<dots> = hd f" using \<open>f \<noteq> []\<close> by (simp add: nth_append hd_conv_nth)
  finally have "is_char_boundary q ?k" 
    using f \<open>f \<noteq> []\<close> \<open>?k < length q\<close> by (simp add: is_char_boundary_def)
  then have "?k \<le> suffix_prefix_len p q"
    using i t by (intro suffix_prefix_len_ge) (auto simp: suffix_drop)
  then show ?thesis
    using initial_boundary_le[OF q(1), of p] match_boundary_le[of sc p] i by linarith
qed

lemma secret_not_cut:
  assumes "laminar sc p" "q \<in> set (sc_secrets sc)" "length q > 4" "f = [] \<or> \<not> is_cont (hd f)"
    "prefix q (drop i (p @ f))"
  shows "i + length q \<le> match_boundary sc p \<or> match_boundary sc p \<le> i"
proof (cases "i + length q \<le> length p")
  case True
  moreover have "prefix q (drop i p @ drop (i - length p) f)" using assms(5) by simp
  ultimately have "prefix q (drop i p)" by (intro prefix_length_prefix[of q _ "drop i p"]) auto
  then show ?thesis using inside_not_cut assms by blast
next
  case False
  then show ?thesis
    using open_not_cut[OF assms(2,5)] match_boundary_length[of sc p] assms(4)
    by (cases "i < length p") (auto simp: not_less intro: order_trans)
qed

section \<open>The output of a stream\<close>

lemma push_pending_within:
  "length p - match_boundary sc p \<le> hold_limit sc \<Longrightarrow>
     push_pending sc p = (scrub sc (take (match_boundary sc p) p),
       \<lparr>ss_pending = drop (match_boundary sc p) p, ss_swallowing = False\<rparr>)"
  by (simp add: push_pending_def Let_def)

definition stream_rest :: "secret_scrubber \<Rightarrow> string \<Rightarrow> string list \<Rightarrow> string" where
  "stream_rest sc p cs =
     (case push_all sc \<lparr>ss_pending = p, ss_swallowing = False\<rparr> cs of
        (out, st) \<Rightarrow> out @ fst (finish sc st))"

lemma stream_rest_Nil: "stream_rest sc p [] = scrub sc p"
  by (simp add: stream_rest_def finish_def)

lemma stream_rest_Cons:
  "length (p @ c) - match_boundary sc (p @ c) \<le> hold_limit sc \<Longrightarrow>
     stream_rest sc p (c # cs) = scrub sc (take (match_boundary sc (p @ c)) (p @ c)) @
       stream_rest sc (drop (match_boundary sc (p @ c)) (p @ c)) cs"
  by (simp add: stream_rest_def push_def push_pending_within split: prod.splits)

lemma stream_output_rest: "stream_output sc cs = stream_rest sc [] cs"
  by (simp add: stream_output_def stream_rest_def stream_new_def)

lemma stream_rest_masks: "stream_ok sc p cs \<Longrightarrow> masks (p @ concat cs) (stream_rest sc p cs)"
proof (induction cs arbitrary: p)
  case Nil
  then show ?case by (simp add: stream_rest_Nil masks_scrub)
next
  case (Cons c cs)
  let ?b = "match_boundary sc (p @ c)"
  have "masks (take ?b (p @ c) @ (drop ?b (p @ c) @ concat cs))
      (scrub sc (take ?b (p @ c)) @ stream_rest sc (drop ?b (p @ c)) cs)"
    using Cons.prems by (intro masks_append masks_scrub Cons.IH) (simp del: drop_append)
  moreover have "take ?b (p @ c) @ (drop ?b (p @ c) @ concat cs) = p @ concat (c # cs)"
    by (metis append.assoc append_take_drop_id concat.simps(2))
  ultimately show ?case using Cons.prems by (simp add: stream_rest_Cons del: drop_append take_append)
qed

lemma stream_ok_chars: "stream_ok sc p cs \<Longrightarrow> concat cs = [] \<or> \<not> is_cont (hd (concat cs))"
proof (induction cs arbitrary: p)
  case (Cons c cs)
  then show ?case by (cases c) auto
qed simp

lemma stream_rest_no_secret:
  assumes "stream_ok sc p cs" "q \<in> set (sc_secrets sc)" "length q > 4" "maskable q"
  shows "\<not> contains (stream_rest sc p cs) q"
  using assms(1)
proof (induction cs arbitrary: p)
  case Nil
  then show ?case using scrub_removes assms by (simp add: stream_rest_Nil)
next
  case (Cons c cs)
  define b where "b = match_boundary sc (p @ c)"
  let ?x = "take b (p @ c)" and ?y = "drop b (p @ c) @ concat cs"
  have ok: "stream_ok sc (drop b (p @ c)) cs" using Cons.prems by (simp add: b_def)
  have len: "length ?x = b" using match_boundary_length[of sc "p @ c"] by (simp add: b_def)
  have xy: "?x @ ?y = (p @ c) @ concat cs" by (metis append.assoc append_take_drop_id)
  have rest: "stream_rest sc p (c # cs) = scrub sc ?x @ stream_rest sc (drop b (p @ c)) cs"
    using Cons.prems by (simp add: stream_rest_Cons b_def)
  show ?case
  proof
    assume "contains (stream_rest sc p (c # cs)) q"
    then show False unfolding rest
    proof (rule contains_masked_append[OF masks_scrub stream_rest_masks[OF ok] assms(4)])
      assume "contains (scrub sc ?x) q"
      then show False using scrub_removes assms by blast
    next
      assume "contains (stream_rest sc (drop b (p @ c)) cs) q"
      then show False using Cons.IH[OF ok] by blast
    next
      fix i assume i: "i < length ?x" "length ?x < i + length q" "prefix q (drop i (?x @ ?y))"
      have "i + length q \<le> b \<or> b \<le> i"
        unfolding b_def
      proof (rule secret_not_cut[where f = "concat cs"])
        show "laminar sc (p @ c)" using Cons.prems by simp
        show "concat cs = [] \<or> \<not> is_cont (hd (concat cs))" using stream_ok_chars[OF ok] .
        show "prefix q (drop i ((p @ c) @ concat cs))" using i(3) by (simp only: xy)
      qed (use assms in auto)
      then show False using i len by simp
    qed
  qed
qed

text \<open>
  Masking a whole text removes every secret of more than four bytes: no configured secret
  occurs in what \<open>scrub\<close> returns, whatever the other secrets and the expressions replaced
  before or after it. (The secret must not be part of the mask itself.)
\<close>

theorem scrub_removes_secret:
  assumes "maskable q" "length q > 4" "q \<in> set (sc_secrets sc)"
  shows "\<not> contains (scrub sc t) q"
  using scrub_removes assms by blast


text \<open>
  What the stream holds back is bounded: after any chunks at all, with any secrets and
  expressions, at most \<open>hold_limit\<close> bytes are pending.
\<close>

theorem stream_pending_bounded:
  "length (ss_pending (snd (push_all sc stream_new cs))) \<le> hold_limit sc"
proof -
  have one: "length (ss_pending (snd (push_pending sc p))) \<le> hold_limit sc" for p
  proof -
    have "length p - boundary_up p (length p - hold_limit sc) \<le> hold_limit sc"
      using boundary_up_ge[of "length p - hold_limit sc" p] by linarith
    then show ?thesis by (auto simp: push_pending_def Let_def split: option.splits)
  qed
  have step: "length (ss_pending st) \<le> hold_limit sc \<Longrightarrow>
      length (ss_pending (snd (push sc st c))) \<le> hold_limit sc" for st c
    using one by (auto simp: push_def split: option.splits)
  have "length (ss_pending st) \<le> hold_limit sc \<Longrightarrow>
      length (ss_pending (snd (push_all sc st cs))) \<le> hold_limit sc" for st
  proof (induction cs arbitrary: st)
    case (Cons c cs)
    then show ?case
      using step[of st c] Cons.IH[of "snd (push sc st c)"] by (simp add: case_prod_beta)
  qed simp
  then show ?thesis by (simp add: stream_new_def)
qed

definition sample_scrubber :: secret_scrubber where
  "sample_scrubber = \<lparr>sc_secrets = [''s3cret-token'', ''hunter22''], sc_patterns = []\<rparr>"

lemma scrub_removes_secret_witness:
  "\<not> contains (scrub sample_scrubber ''my hunter22 pass'') ''hunter22''"
  by (rule scrub_removes_secret) code_simp+


text \<open>Two secrets that overlap in the text: the cut for the second one splits the first.\<close>

definition overlapping_scrubber :: secret_scrubber where
  "overlapping_scrubber = \<lparr>sc_secrets = [''abcd!wx'', ''!wxyz$''], sc_patterns = []\<rparr>"

text \<open>
  The stream can show what the whole-text scrubber masks: with two secrets that overlap in
  the log, the boundary moved for the second one cuts through a complete match of the first,
  whose head is then sent in clear.
\<close>

theorem stream_cuts_crossing_match:
  "scrub overlapping_scrubber ''abcd!wxyz$ '' = ''[MASKED]yz$ '' \<and>
   push overlapping_scrubber stream_new ''abcd!wxyz$'' =
     (''abcd'', \<lparr>ss_pending = ''!wxyz$'', ss_swallowing = False\<rparr>) \<and>
   stream_output overlapping_scrubber [''abcd!wxyz$'', '' ''] = ''abcd[MASKED] ''"
  by (intro conjI; code_simp)

section \<open>The secrets of a job\<close>

lemma add_secret_set: "q \<in> set (sc_secrets (add_secret sc s)) \<longleftrightarrow>
    q \<in> set (sc_secrets sc) \<or> (q = s \<and> s \<noteq> [])"
  by (auto simp: add_secret_def)

lemma percent_encode_Nil: "percent_encode v = [] \<longleftrightarrow> v = []"
  by (cases v) (auto simp: percent_encode_def percent_byte_def)

lemma add_encoded_set: "q \<in> set (sc_secrets (add_encoded sc v)) \<longleftrightarrow>
    q \<in> set (sc_secrets sc) \<or> (v \<noteq> [] \<and> (q = v \<or> q = percent_encode v))"
  by (auto simp: add_encoded_def Let_def add_secret_set percent_encode_Nil)

lemma fold_encoded_set: "q \<in> set (sc_secrets (foldl add_encoded sc vs)) \<longleftrightarrow>
    q \<in> set (sc_secrets sc) \<or> (\<exists>v \<in> set vs. v \<noteq> [] \<and> (q = v \<or> q = percent_encode v))"
  by (induction vs arbitrary: sc) (auto simp: add_encoded_set)

text \<open>
  A job's scrubber masks every value of a masked variable, the job's token and the tokens of
  its dependencies, each as it is and percent-encoded, besides the secrets it had; longer ones
  first, so that a secret is masked before any that is a part of it.
\<close>

theorem job_secrets_masked:
  "set (sc_secrets (with_job_secrets sc j)) = set (sc_secrets sc) \<union>
     {q. \<exists>v \<in> set (job_secrets j). v \<noteq> [] \<and> (q = v \<or> q = percent_encode v)} \<and>
   sorted (map (\<lambda>s. - int (length s)) (sc_secrets (with_job_secrets sc j)))"
  by (auto simp: with_job_secrets_def Let_def fold_encoded_set)

end
