(* ===== verification/Trace.thy ===== *)
theory Trace
  imports Gitlab_Client Scrubber
begin

text \<open>
  The job log sent to GitLab (\<open>src/runner_daemon/trace.rs\<close>): one writer owns the scrubbed trace and
  the offset GitLab has acknowledged. Its state is the record \<open>trace_writer\<close>; the job's
  cancellation signal is the value it holds (other parties can only raise it further), and
  instants are nanoseconds of the outside world's clock.

  The trace endpoint is GitLab's, so it is not defined here: \<open>trace_endpoint\<close> says what the code
  relies on. The server keeps a log per job, takes a part that starts at the log's end, answers 416
  with its length otherwise, and a request that fails may have been applied all the same.
\<close>

section \<open>The writer\<close>

definition DEFAULT_LIMIT :: nat where "DEFAULT_LIMIT = 4 * 1024 * 1024"
definition DEFAULT_UPDATE_INTERVAL :: nat where "DEFAULT_UPDATE_INTERVAL = 3 * nanos"
definition MAX_UPDATE_INTERVAL :: nat where "MAX_UPDATE_INTERVAL = 15 * 60 * nanos"
definition FLUSH_BYTES :: nat where "FLUSH_BYTES = 256 * 1024"
definition FINISH_ATTEMPTS :: nat where "FINISH_ATTEMPTS = 5"

record trace_writer =
  tw_client :: "gitlab_client option"
  tw_job_id :: nat
  tw_token :: string
  tw_scrubber :: secret_scrubber
  tw_stream :: stream_scrubber
  tw_trace :: string
  tw_sent :: nat
  tw_last_flush :: nat
  tw_update_interval :: nat
  tw_limit :: nat
  tw_truncated :: bool
  tw_cancel :: remote_state

definition trace_new ::
  "gitlab_client option \<Rightarrow> nat \<Rightarrow> string \<Rightarrow> secret_scrubber \<Rightarrow> nat \<Rightarrow> trace_writer" where
  "trace_new client jid token scrubber now = \<lparr>
     tw_client = client, tw_job_id = jid, tw_token = token, tw_scrubber = scrubber,
     tw_stream = stream_new, tw_trace = [], tw_sent = 0, tw_last_flush = now,
     tw_update_interval = DEFAULT_UPDATE_INTERVAL, tw_limit = DEFAULT_LIMIT,
     tw_truncated = False, tw_cancel = cancel_default\<rparr>"

definition limit_notice :: "nat \<Rightarrow> string" where
  "limit_notice limit = [nl] @ ''Job'' @ [sq] @ ''s log exceeded limit of '' @ dec limit @ '' bytes.'' @
     [nl] @ ''Job execution will continue but no more output will be collected.'' @ [nl]"

definition trace_append :: "string \<Rightarrow> trace_writer \<Rightarrow> trace_writer" where
  "trace_append text tw =
     (if tw_truncated tw then tw
      else
        (let room = tw_limit tw - length (tw_trace tw) in
         if length text \<le> room then tw\<lparr>tw_trace := tw_trace tw @ text\<rparr>
         else tw\<lparr>tw_trace := tw_trace tw @ take (boundary_down text room) text @
                   limit_notice (tw_limit tw),
                 tw_truncated := True\<rparr>))"

section \<open>Sending\<close>

text \<open>What \<open>flush\<close> does with the answer to the patch.\<close>

definition trace_acknowledge :: "(op_error, trace_patch) result \<Rightarrow> trace_writer \<Rightarrow> trace_writer" where
  "trace_acknowledge answer tw =
     (case answer of
        Inl _ \<Rightarrow> tw
      | Inr patch \<Rightarrow>
          tw\<lparr>tw_sent := (if tp_remote patch = Aborted then length (tw_trace tw)
                        else min (tp_offset patch) (length (tw_trace tw))),
             tw_cancel := cancel_update (tw_cancel tw) (tp_remote patch),
             tw_update_interval :=
               (case tp_update_interval patch of
                  Some secs \<Rightarrow> min (secs * nanos) MAX_UPDATE_INTERVAL
                | None \<Rightarrow> tw_update_interval tw)\<rparr>)"

definition trace_flush :: "'w http \<Rightarrow> trace_writer \<times> 'w \<Rightarrow> bool \<times> trace_writer \<times> 'w" where
  "trace_flush io = (\<lambda>(tw0, w).
     let tw = tw0\<lparr>tw_last_flush := http_now io w\<rparr> in
     case tw_client tw of
       None \<Rightarrow> (True, tw\<lparr>tw_sent := length (tw_trace tw)\<rparr>, w)
     | Some c \<Rightarrow>
         if tw_sent tw \<ge> length (tw_trace tw) then (True, tw, w)
         else
           (case patch_trace io c (tw_job_id tw) (tw_token tw)
               (drop (tw_sent tw) (tw_trace tw)) (tw_sent tw) w of
              (answer, w') \<Rightarrow>
                (let tw' = trace_acknowledge answer tw
                 in (tw_sent tw' \<ge> length (tw_trace tw'), tw', w'))))"

definition trace_flush_if_due :: "'w http \<Rightarrow> trace_writer \<times> 'w \<Rightarrow> trace_writer \<times> 'w" where
  "trace_flush_if_due io = (\<lambda>(tw, w).
     if http_now io w - tw_last_flush tw \<ge> tw_update_interval tw
     then snd (trace_flush io (tw, w)) else (tw, w))"

definition trace_write :: "'w http \<Rightarrow> string \<Rightarrow> trace_writer \<times> 'w \<Rightarrow> trace_writer \<times> 'w" where
  "trace_write io text = (\<lambda>(tw, w).
     case push (tw_scrubber tw) (tw_stream tw) text of
       (safe, stream) \<Rightarrow>
         (let tw' = trace_append safe (tw\<lparr>tw_stream := stream\<rparr>) in
          if length (tw_trace tw') - tw_sent tw' \<ge> FLUSH_BYTES
          then snd (trace_flush io (tw', w)) else trace_flush_if_due io (tw', w)))"

definition esc :: char where "esc = char_of (27 :: nat)"
definition cr :: char where "cr = char_of (13 :: nat)"

definition section_marker :: "nat \<Rightarrow> string \<Rightarrow> string \<Rightarrow> string" where
  "section_marker now kind name = ''section_'' @ kind @ '':'' @ dec now @ '':'' @ name @ [cr]"

definition section_start_text :: "nat \<Rightarrow> string \<Rightarrow> string \<Rightarrow> string" where
  "section_start_text now name hdr = section_marker now ''start'' name @ [esc] @ ''[0K'' @
     [esc] @ ''[36;1m'' @ hdr @ [esc] @ ''[0;m'' @ [nl]"

definition section_start ::
  "'w http \<Rightarrow> string \<Rightarrow> string \<Rightarrow> trace_writer \<times> 'w \<Rightarrow> trace_writer \<times> 'w" where
  "section_start io name hdr st =
     trace_write io (section_start_text (http_unix_secs io (snd st)) name hdr) st"

definition section_end :: "'w http \<Rightarrow> string \<Rightarrow> trace_writer \<times> 'w \<Rightarrow> trace_writer \<times> 'w" where
  "section_end io name st =
     trace_write io (section_marker (http_unix_secs io (snd st)) ''end'' name @ [esc] @ ''[0K'') st"

fun finish_attempts :: "'w http \<Rightarrow> nat list \<Rightarrow> trace_writer \<times> 'w \<Rightarrow> trace_writer \<times> 'w" where
  "finish_attempts io [] st = st"
| "finish_attempts io (attempt # attempts) st =
     (case trace_flush io st of
        (True, st') \<Rightarrow> st'
      | (False, tw, w) \<Rightarrow> finish_attempts io attempts (tw, http_sleep io (200 * 2 ^ attempt) w))"

definition trace_finish :: "'w http \<Rightarrow> trace_writer \<times> 'w \<Rightarrow> trace_writer \<times> 'w" where
  "trace_finish io = (\<lambda>(tw, w).
     case finish (tw_scrubber tw) (tw_stream tw) of
       (rest, stream) \<Rightarrow>
         finish_attempts io [0..<FINISH_ATTEMPTS] (trace_append rest (tw\<lparr>tw_stream := stream\<rparr>), w))"

text \<open>What a job does with its writer before the end, in any order.\<close>

datatype trace_op = Write string | Flush | FlushIfDue | SectionStart string string | SectionEnd string |
  CancelUpdate remote_state

fun do_op :: "'w http \<Rightarrow> trace_op \<Rightarrow> trace_writer \<times> 'w \<Rightarrow> trace_writer \<times> 'w" where
  "do_op io (Write text) st = trace_write io text st"
| "do_op io Flush st = snd (trace_flush io st)"
| "do_op io FlushIfDue st = trace_flush_if_due io st"
| "do_op io (SectionStart name hdr) st = section_start io name hdr st"
| "do_op io (SectionEnd name) st = section_end io name st"
| "do_op io (CancelUpdate s) st = (fst st\<lparr>tw_cancel := cancel_update (tw_cancel (fst st)) s\<rparr>, snd st)"

definition trace_ops :: "'w http \<Rightarrow> trace_op list \<Rightarrow> trace_writer \<times> 'w \<Rightarrow> trace_writer \<times> 'w" where
  "trace_ops io os st = foldl (\<lambda>st oper. do_op io oper st) st os"

section \<open>The trace endpoint\<close>

text \<open>
  GitLab's side of \<open>PATCH /jobs/:id/trace\<close>: how the job's log changes with the answer to a part
  sent at an offset.
\<close>

definition trace_step :: "string \<Rightarrow> nat \<Rightarrow> string \<Rightarrow> (string, response) result \<Rightarrow> string \<Rightarrow> bool" where
  "trace_step old offset part reply new \<longleftrightarrow>
     (let unchanged = (new = old); appended = (offset = length old \<and> new = old @ part) in
      case reply of
        Inl _ \<Rightarrow> unchanged \<or> appended
      | Inr rsp \<Rightarrow>
          if rsp_status rsp = 403 then unchanged
          else if rsp_status rsp = 416 then
            unchanged \<and> (case range_end rsp of Some n \<Rightarrow> n = length old | None \<Rightarrow> True)
          else if is_success (rsp_status rsp) then appended
          else unchanged \<or> appended)"

definition trace_endpoint ::
  "'w http \<Rightarrow> gitlab_client \<Rightarrow> nat \<Rightarrow> string \<Rightarrow> ('w \<Rightarrow> string) \<Rightarrow> bool" where
  "trace_endpoint io c jid token lg \<longleftrightarrow>
     (\<forall>offset part w. part \<noteq> [] \<longrightarrow>
        (case http_send io (trace_request c jid token part offset) w of
           (reply, w') \<Rightarrow> trace_step (lg w) offset part reply (lg w'))) \<and>
     (\<forall>ms w. lg (http_sleep io ms w) = lg w)"

text \<open>A server that answers every part: it takes it, or says where to resend from.\<close>

definition trace_responsive ::
  "'w http \<Rightarrow> gitlab_client \<Rightarrow> nat \<Rightarrow> string \<Rightarrow> ('w \<Rightarrow> string) \<Rightarrow> bool" where
  "trace_responsive io c jid token lg \<longleftrightarrow>
     (\<forall>offset part w. part \<noteq> [] \<longrightarrow>
        (case fst (http_send io (trace_request c jid token part offset) w) of
           Inl _ \<Rightarrow> False
         | Inr rsp \<Rightarrow>
             if offset = length (lg w) then is_success (rsp_status rsp)
             else rsp_status rsp = 416 \<and>
               (if length (lg w) \<le> u64_max then range_end rsp = Some (length (lg w)) else True)))"

text \<open>A part of the trace, sent from where it belongs, leaves the log a prefix of the trace.\<close>

lemma trace_step_prefix:
  assumes "trace_step old offset (drop offset tr) reply new" "prefix old tr"
  shows "prefix new tr \<and> length old \<le> length new"
proof -
  have "old @ drop (length old) tr = tr" using assms(2) by (auto simp: prefix_def)
  then have "offset = length old \<and> new = old @ drop offset tr \<longrightarrow> new = tr" by simp
  moreover have "new = old \<or> (offset = length old \<and> new = old @ drop offset tr)"
    using assms(1) by (auto simp: trace_step_def Let_def split: sum.splits if_splits)
  ultimately show ?thesis using assms(2) prefix_length_le by auto
qed

text \<open>What an acknowledged offset means.\<close>

definition answer_ok :: "(op_error, trace_patch) result \<Rightarrow> nat \<Rightarrow> bool" where
  "answer_ok answer len =
     (case answer of
        Inl _ \<Rightarrow> True | Inr patch \<Rightarrow> tp_offset patch = len \<or> tp_remote patch = Aborted)"

lemma trace_reply_ok:
  assumes "trace_step old offset part reply new"
  shows "answer_ok (trace_reply io offset (offset + length part) reply) (length new)"
  using assms
  by (auto simp: trace_step_def trace_reply_def answer_ok_def Let_def remote_from_response_def
      split: sum.splits option.splits)

lemma patch_trace_log:
  assumes ep: "trace_endpoint io c jid token lg" and pre: "prefix (lg w) tr" and "sent < length tr"
    and res: "patch_trace io c jid token (drop sent tr) sent w = (answer, w')"
  shows "prefix (lg w') tr \<and> length (lg w) \<le> length (lg w') \<and> answer_ok answer (length (lg w'))"
proof -
  let ?part = "drop sent tr"
  let ?op = "\<lambda>w. case http_send io (trace_request c jid token ?part sent) w of
      (reply, w') \<Rightarrow> (trace_reply io sent (sent + length ?part) reply, w')"
  let ?P = "\<lambda>w'. prefix (lg w') tr \<and> length (lg w) \<le> length (lg w')"
  have part: "?part \<noteq> []" using assms(3) by simp
  have "?P (snd (retry_with_backoff io ?op w)) \<and> answer_ok (fst (retry_with_backoff io ?op w))
      (length (lg (snd (retry_with_backoff io ?op w))))"
  proof (rule retry_rule[where P = ?P and Q = "\<lambda>a w'. answer_ok a (length (lg w'))"])
    show "?P w" using pre by simp
    show "?P (http_sleep io ms v)" if "?P v" for v ms
      using that ep by (simp add: trace_endpoint_def)
    fix v assume v: "?P v"
    obtain reply v' where r: "http_send io (trace_request c jid token ?part sent) v = (reply, v')"
      by fastforce
    have step: "trace_step (lg v) sent ?part reply (lg v')"
      using ep part r unfolding trace_endpoint_def by (metis case_prod_conv)
    show "?P (snd (?op v)) \<and> answer_ok (fst (?op v)) (length (lg (snd (?op v))))"
      using trace_step_prefix[OF step] trace_reply_ok[OF step] v r by auto
  qed
  then show ?thesis using res part by (simp add: patch_trace_def)
qed

section \<open>The invariant of the writer\<close>

definition trace_inv :: "('w \<Rightarrow> string) \<Rightarrow> trace_writer \<times> 'w \<Rightarrow> bool" where
  "trace_inv lg = (\<lambda>(tw, w). prefix (lg w) (tw_trace tw) \<and> tw_sent tw \<le> length (tw_trace tw) \<and>
     (tw_sent tw \<le> length (lg w) \<or> tw_cancel tw = Aborted))"

lemma cancel_update_Aborted [simp]: "cancel_update Aborted s = Aborted" "cancel_update s Aborted = Aborted"
  by (auto simp: cs.update_is_max max_def Aborted_top Aborted_le_iff)

lemma trace_append_extends: "prefix (tw_trace tw) (tw_trace (trace_append s tw))"
  by (simp add: trace_append_def Let_def)

lemma trace_append_frame [simp]:
  "tw_client (trace_append s tw) = tw_client tw" "tw_job_id (trace_append s tw) = tw_job_id tw"
  "tw_token (trace_append s tw) = tw_token tw" "tw_sent (trace_append s tw) = tw_sent tw"
  "tw_scrubber (trace_append s tw) = tw_scrubber tw" "tw_stream (trace_append s tw) = tw_stream tw"
  "tw_cancel (trace_append s tw) = tw_cancel tw" "tw_limit (trace_append s tw) = tw_limit tw"
  by (simp_all add: trace_append_def Let_def)

lemma trace_inv_append: "trace_inv lg (tw, w) \<Longrightarrow> trace_inv lg (trace_append s tw, w)"
  using trace_append_extends[of tw s] prefix_length_le[OF trace_append_extends[of tw s]]
  by (auto simp: trace_inv_def intro: prefix_order.trans)

definition writes_to :: "gitlab_client \<Rightarrow> nat \<Rightarrow> string \<Rightarrow> trace_writer \<Rightarrow> bool" where
  "writes_to c jid token tw \<longleftrightarrow> tw_client tw = Some c \<and> tw_job_id tw = jid \<and> tw_token tw = token"

text \<open>What sending leaves alone.\<close>

definition same_text :: "trace_writer \<Rightarrow> trace_writer \<Rightarrow> bool" where
  "same_text tw tw' \<longleftrightarrow> tw_client tw' = tw_client tw \<and> tw_job_id tw' = tw_job_id tw \<and>
     tw_token tw' = tw_token tw \<and> tw_scrubber tw' = tw_scrubber tw \<and> tw_stream tw' = tw_stream tw \<and>
     tw_trace tw' = tw_trace tw \<and> tw_limit tw' = tw_limit tw \<and> tw_truncated tw' = tw_truncated tw"

lemma same_text_refl: "same_text tw tw"
  by (simp add: same_text_def)

lemma same_text_trans: "same_text a b \<Longrightarrow> same_text b c \<Longrightarrow> same_text a c"
  by (simp add: same_text_def)

lemma acknowledge_same: "same_text tw (trace_acknowledge answer tw)"
  by (simp add: same_text_def trace_acknowledge_def split: sum.split)

lemma flush_same: "same_text tw (fst (snd (trace_flush io (tw, w))))"
  using acknowledge_same
  by (auto simp: trace_flush_def same_text_def Let_def split: option.splits prod.splits)

lemma flush_if_due_same: "same_text tw (fst (trace_flush_if_due io (tw, w)))"
  using flush_same same_text_refl by (auto simp: trace_flush_if_due_def)

lemma acknowledge_inv:
  assumes "prefix old (tw_trace tw)" "tw_sent tw \<le> length (tw_trace tw)"
    "tw_sent tw \<le> length old \<or> tw_cancel tw = Aborted" "length old \<le> length (lg w')"
    "prefix (lg w') (tw_trace tw)" "answer_ok answer (length (lg w'))"
  shows "trace_inv lg (trace_acknowledge answer tw, w')"
  using assms
  by (auto simp: trace_inv_def trace_acknowledge_def answer_ok_def split: sum.split dest: prefix_length_le)

lemma flush_inv:
  assumes ep: "trace_endpoint io c jid token lg" and to: "writes_to c jid token tw"
    and inv: "trace_inv lg (tw, w)" and res: "trace_flush io (tw, w) = (sent_all, tw', w')"
  shows "trace_inv lg (tw', w') \<and> (sent_all \<longleftrightarrow> tw_sent tw' = length (tw_trace tw'))"
proof -
  let ?tw = "tw\<lparr>tw_last_flush := http_now io w\<rparr>"
  have inv': "trace_inv lg (?tw, w)" using inv by (simp add: trace_inv_def)
  show ?thesis
  proof (cases "tw_sent tw \<ge> length (tw_trace tw)")
    case True
    then have "(sent_all, tw', w') = (True, ?tw, w)"
      using res to by (auto simp: trace_flush_def writes_to_def)
    then show ?thesis using inv' True by (auto simp: trace_inv_def)
  next
    case False
    obtain answer v where p: "patch_trace io c jid token (drop (tw_sent tw) (tw_trace tw)) (tw_sent tw) w = (answer, v)"
      by fastforce
    then have res': "tw' = trace_acknowledge answer ?tw" "w' = v"
        "sent_all \<longleftrightarrow> tw_sent tw' \<ge> length (tw_trace tw')"
      using res to False by (auto simp: trace_flush_def writes_to_def Let_def)
    have "prefix (lg w) (tw_trace tw)" using inv by (simp add: trace_inv_def)
    from patch_trace_log[OF ep this _ p] False have lg: "prefix (lg v) (tw_trace tw)"
        "length (lg w) \<le> length (lg v)" "answer_ok answer (length (lg v))" by auto
    have "trace_inv lg (tw', w')"
      unfolding res'(1,2) by (rule acknowledge_inv[where old = "lg w"])
        (use inv' lg in \<open>auto simp: trace_inv_def\<close>)
    then show ?thesis using res'(3) by (auto simp: trace_inv_def)
  qed
qed

text \<open>Both, for a step that sends or does not.\<close>

definition step_ok ::
  "('w \<Rightarrow> string) \<Rightarrow> gitlab_client \<Rightarrow> nat \<Rightarrow> string \<Rightarrow> trace_writer \<times> 'w \<Rightarrow> bool" where
  "step_ok lg c jid token st \<longleftrightarrow> writes_to c jid token (fst st) \<and> trace_inv lg st"

lemma same_text_writes_to: "same_text tw tw' \<Longrightarrow> writes_to c jid token tw \<Longrightarrow> writes_to c jid token tw'"
  by (simp add: same_text_def writes_to_def)

lemma flush_ok:
  assumes "trace_endpoint io c jid token lg" "step_ok lg c jid token st"
  shows "step_ok lg c jid token (snd (trace_flush io st))"
proof -
  obtain tw w where st: "st = (tw, w)" by fastforce
  obtain b tw' w' where f: "trace_flush io (tw, w) = (b, tw', w')" by (metis prod_cases3)
  have "same_text tw tw'" using flush_same[of tw io w] f by simp
  then show ?thesis
    using flush_inv[OF assms(1) _ _ f] assms(2) st f same_text_writes_to by (auto simp: step_ok_def)
qed

lemma flush_if_due_ok:
  assumes "trace_endpoint io c jid token lg" "step_ok lg c jid token st"
  shows "step_ok lg c jid token (trace_flush_if_due io st)"
  using flush_ok[OF assms] assms(2) by (cases st) (simp add: trace_flush_if_due_def)

lemma write_ok:
  assumes "trace_endpoint io c jid token lg" "step_ok lg c jid token st"
  shows "step_ok lg c jid token (trace_write io s st)"
proof -
  obtain tw w where st: "st = (tw, w)" by fastforce
  obtain safe stream where p: "push (tw_scrubber tw) (tw_stream tw) s = (safe, stream)" by fastforce
  let ?tw = "trace_append safe (tw\<lparr>tw_stream := stream\<rparr>)"
  have "trace_inv lg (tw\<lparr>tw_stream := stream\<rparr>, w)" using assms(2) st by (simp add: step_ok_def trace_inv_def)
  then have "step_ok lg c jid token (?tw, w)"
    using assms(2) st trace_inv_append by (auto simp: step_ok_def writes_to_def)
  from flush_ok[OF assms(1) this] flush_if_due_ok[OF assms(1) this]
  show ?thesis using p st by (simp add: trace_write_def Let_def)
qed

lemma do_op_ok:
  assumes "trace_endpoint io c jid token lg" "step_ok lg c jid token st"
  shows "step_ok lg c jid token (do_op io oper st)"
proof (cases oper)
  case (CancelUpdate s)
  then show ?thesis
    using assms(2) by (cases st) (auto simp: step_ok_def trace_inv_def writes_to_def)
qed (use assms write_ok flush_ok flush_if_due_ok in \<open>simp_all add: section_start_def section_end_def\<close>)

lemma trace_ops_ok:
  assumes "trace_endpoint io c jid token lg"
  shows "step_ok lg c jid token st \<Longrightarrow> step_ok lg c jid token (trace_ops io os st)"
  unfolding trace_ops_def using do_op_ok[OF assms] by (induction os arbitrary: st) auto

lemma finish_attempts_ok:
  assumes "trace_endpoint io c jid token lg"
  shows "step_ok lg c jid token st \<Longrightarrow> step_ok lg c jid token (finish_attempts io ks st)"
proof (induction ks arbitrary: st)
  case (Cons k ks)
  obtain b tw w where f: "trace_flush io st = (b, tw, w)" by (metis prod_cases3)
  have ok: "step_ok lg c jid token (tw, w)" using flush_ok[OF assms Cons.prems] f by simp
  then have "step_ok lg c jid token (tw, http_sleep io (200 * 2 ^ k) w)"
    using assms by (simp add: step_ok_def trace_inv_def trace_endpoint_def)
  then show ?case using f ok Cons.IH by (cases b) auto
qed simp

lemma trace_finish_ok:
  assumes "trace_endpoint io c jid token lg" "step_ok lg c jid token st"
  shows "step_ok lg c jid token (trace_finish io st)"
proof -
  obtain tw w where st: "st = (tw, w)" by fastforce
  obtain rest stream where p: "finish (tw_scrubber tw) (tw_stream tw) = (rest, stream)" by fastforce
  have "trace_inv lg (tw\<lparr>tw_stream := stream\<rparr>, w)" using assms(2) st by (simp add: step_ok_def trace_inv_def)
  then have "step_ok lg c jid token (trace_append rest (tw\<lparr>tw_stream := stream\<rparr>), w)"
    using assms(2) st trace_inv_append by (auto simp: step_ok_def writes_to_def)
  from finish_attempts_ok[OF assms(1) this] show ?thesis using p st by (simp add: trace_finish_def)
qed

lemma trace_new_ok: "lg w = [] \<Longrightarrow> step_ok lg c jid token (trace_new (Some c) jid token sc now, w)"
  by (simp add: step_ok_def writes_to_def trace_inv_def trace_new_def)

section \<open>What the trace holds\<close>

text \<open>The text an operation pushes, and the chunks pushed along a run.\<close>

fun op_text :: "'w http \<Rightarrow> trace_op \<Rightarrow> 'w \<Rightarrow> string list" where
  "op_text io (Write s) w = [s]"
| "op_text io (SectionStart name hdr) w = [section_start_text (http_unix_secs io w) name hdr]"
| "op_text io (SectionEnd name) w =
     [section_marker (http_unix_secs io w) ''end'' name @ [esc] @ ''[0K'']"
| "op_text io _ w = []"

fun pushed :: "'w http \<Rightarrow> trace_op list \<Rightarrow> trace_writer \<times> 'w \<Rightarrow> string list" where
  "pushed io [] st = []"
| "pushed io (oper # os) st = op_text io oper (snd st) @ pushed io os (do_op io oper st)"

text \<open>The trace holds the scrubbed output, or a part of it and the notice.\<close>

definition holds :: "string \<Rightarrow> trace_writer \<Rightarrow> bool" where
  "holds out tw \<longleftrightarrow> length (tw_trace tw) \<le> tw_limit tw + length (limit_notice (tw_limit tw)) \<and>
     (if tw_truncated tw then \<exists>x. prefix x out \<and> tw_trace tw = x @ limit_notice (tw_limit tw)
      else tw_trace tw = out \<and> length out \<le> tw_limit tw)"

lemma holds_same: "same_text tw tw' \<Longrightarrow> holds out tw \<Longrightarrow> holds out tw'"
  by (simp add: same_text_def holds_def)

lemma holds_update [simp]:
  "holds out (tw\<lparr>tw_stream := st\<rparr>) = holds out tw" "holds out (tw\<lparr>tw_cancel := s\<rparr>) = holds out tw"
  by (simp_all add: holds_def)

lemma holds_append: "holds out tw \<Longrightarrow> holds (out @ s) (trace_append s tw)"
  using boundary_down_le[of s "tw_limit tw - length (tw_trace tw)"]
  by (auto simp: holds_def trace_append_def Let_def take_is_prefix)

lemma push_all_snoc:
  "push_all sc st (cs @ [c]) =
     (let (out, st') = push_all sc st cs; (out', st'') = push sc st' c in (out @ out', st''))"
  by (induction cs arbitrary: st) (simp_all add: Let_def case_prod_beta)

text \<open>The writer after the chunks \<open>cs\<close> were pushed.\<close>

definition written :: "secret_scrubber \<Rightarrow> string list \<Rightarrow> trace_writer \<Rightarrow> bool" where
  "written sc cs tw \<longleftrightarrow> tw_scrubber tw = sc \<and> tw_limit tw = DEFAULT_LIMIT \<and>
     tw_stream tw = snd (push_all sc stream_new cs) \<and>
     holds (fst (push_all sc stream_new cs)) tw"

lemma written_same: "same_text tw tw' \<Longrightarrow> written sc cs tw \<Longrightarrow> written sc cs tw'"
  by (auto simp: written_def same_text_def holds_def)

lemma written_write:
  assumes "written sc cs (fst st)"
  shows "written sc (cs @ [s]) (fst (trace_write io s st))"
proof -
  obtain tw w where st: "st = (tw, w)" by fastforce
  obtain safe stream where p: "push (tw_scrubber tw) (tw_stream tw) s = (safe, stream)" by fastforce
  let ?tw = "trace_append safe (tw\<lparr>tw_stream := stream\<rparr>)"
  have "holds (fst (push_all sc stream_new cs)) (tw\<lparr>tw_stream := stream\<rparr>)"
    using assms st by (simp add: written_def)
  from holds_append[OF this] have "written sc (cs @ [s]) ?tw"
    using assms st p by (simp add: written_def push_all_snoc case_prod_beta)
  then have "written sc (cs @ [s]) (fst (snd (trace_flush io (?tw, w))))"
      "written sc (cs @ [s]) (fst (trace_flush_if_due io (?tw, w)))"
    by (rule written_same[OF flush_same], rule written_same[OF flush_if_due_same])
  then show ?thesis using p st by (simp add: trace_write_def Let_def)
qed

lemma written_op: "written sc cs (fst st) \<Longrightarrow>
    written sc (cs @ op_text io oper (snd st)) (fst (do_op io oper st))"
proof (cases oper)
  case Flush
  assume "written sc cs (fst st)"
  with Flush show ?thesis using written_same[OF flush_same] by (cases st) simp
next
  case FlushIfDue
  assume "written sc cs (fst st)"
  with FlushIfDue show ?thesis using written_same[OF flush_if_due_same] by (cases st) simp
next
  case (CancelUpdate s)
  assume "written sc cs (fst st)"
  with CancelUpdate show ?thesis by (simp add: written_def)
qed (simp_all add: section_start_def section_end_def written_write)

lemma written_ops: "written sc cs (fst st) \<Longrightarrow>
    written sc (cs @ pushed io os st) (fst (trace_ops io os st))"
proof (induction os arbitrary: cs st)
  case (Cons oper os)
  from Cons.IH[OF written_op[OF Cons.prems]] show ?case by (simp add: trace_ops_def)
qed (simp add: trace_ops_def)

lemma finish_attempts_same: "same_text (fst st) (fst (finish_attempts io ks st))"
proof (induction ks arbitrary: st)
  case (Cons k ks)
  obtain tw w where st: "st = (tw, w)" by fastforce
  obtain b tw' w' where f: "trace_flush io (tw, w) = (b, tw', w')" by (metis prod_cases3)
  have s: "same_text tw tw'" using flush_same[of tw io w] f by simp
  show ?case
    using st f s Cons[of "(tw', http_sleep io (200 * 2 ^ k) w')"] same_text_trans by (cases b) auto
qed (simp add: same_text_refl)

lemma written_finish:
  assumes "written sc cs (fst st)"
  shows "holds (stream_output sc cs) (fst (trace_finish io st))"
proof -
  obtain tw w where st: "st = (tw, w)" by fastforce
  obtain rest stream where p: "finish (tw_scrubber tw) (tw_stream tw) = (rest, stream)" by fastforce
  have "holds (fst (push_all sc stream_new cs)) (tw\<lparr>tw_stream := stream\<rparr>)"
    using assms st by (simp add: written_def)
  from holds_append[OF this, of rest]
  have "holds (stream_output sc cs) (trace_append rest (tw\<lparr>tw_stream := stream\<rparr>))"
    using assms st p by (simp add: stream_output_def written_def case_prod_beta)
  then have "holds (stream_output sc cs) (fst (finish_attempts io [0..<FINISH_ATTEMPTS]
      (trace_append rest (tw\<lparr>tw_stream := stream\<rparr>), w)))"
    by (intro holds_same[OF finish_attempts_same]) simp
  then show ?thesis using st p by (simp add: trace_finish_def)
qed

lemma written_new: "written sc [] (trace_new client jid token sc now)"
  by (simp add: written_def trace_new_def holds_def)

lemma notice_length: "length (limit_notice DEFAULT_LIMIT) = 110"
  by (simp add: limit_notice_def DEFAULT_LIMIT_def dec.simps)

section \<open>A server that answers\<close>

lemma inv_complete:
  "trace_inv lg (tw, w) \<Longrightarrow> tw_sent tw = length (tw_trace tw) \<Longrightarrow>
     lg w = tw_trace tw \<or> tw_cancel tw = Aborted"
  by (auto simp: trace_inv_def prefix_def)

lemma patch_responsive:
  assumes "trace_responsive io c jid token lg" "part \<noteq> []" "length (lg w) \<le> u64_max"
  obtains p where "fst (patch_trace io c jid token part offset w) = Inr p"
    "tp_offset p = (if offset = length (lg w) then offset + length part else length (lg w))"
    "snd (patch_trace io c jid token part offset w) = snd (http_send io (trace_request c jid token part offset) w)"
proof -
  obtain reply w' where r: "http_send io (trace_request c jid token part offset) w = (reply, w')" by fastforce
  from assms have a: "case reply of Inl _ \<Rightarrow> False
      | Inr rsp \<Rightarrow> if offset = length (lg w) then is_success (rsp_status rsp)
          else rsp_status rsp = 416 \<and> range_end rsp = Some (length (lg w))"
    using assms(1)[unfolded trace_responsive_def, rule_format, OF assms(2), of offset w] r assms(3)
    by (simp split: sum.splits)
  then obtain rsp where rsp: "reply = Inr rsp" by (cases reply) auto
  then obtain p where p: "trace_reply io offset (offset + length part) reply = Inr p"
      "tp_offset p = (if offset = length (lg w) then offset + length part else length (lg w))"
    using a by (fastforce simp: trace_reply_def Let_def is_success_def split: if_splits)
  have "patch_trace io c jid token part offset w = (Inr p, w')"
    using assms(2) r p(1)
    by (simp add: patch_trace_def retry_with_backoff_def numeral_2_eq_2)
  then show thesis using that[of p] p(2) r by simp
qed

lemma flush_responsive:
  assumes ep: "trace_endpoint io c jid token lg" and rs: "trace_responsive io c jid token lg"
    and ok: "step_ok lg c jid token (tw, w)" and f: "trace_flush io (tw, w) = (b, tw', w')"
    and small: "length (tw_trace tw) \<le> u64_max"
  shows "b \<or> tw_sent tw' = length (lg w')"
    and "tw_sent tw = length (lg w) \<Longrightarrow> b"
proof -
  let ?part = "drop (tw_sent tw) (tw_trace tw)" and ?tw = "tw\<lparr>tw_last_flush := http_now io w\<rparr>"
  have inv: "trace_inv lg (tw, w)" and to: "writes_to c jid token tw" using ok by (simp_all add: step_ok_def)
  have "(b \<or> tw_sent tw' = length (lg w')) \<and> (tw_sent tw = length (lg w) \<longrightarrow> b)"
  proof (cases "tw_sent tw \<ge> length (tw_trace tw)")
    case True
    then show ?thesis using f to by (auto simp: trace_flush_def writes_to_def)
  next
    case False
    then have part: "?part \<noteq> []" by simp
    have pre: "prefix (lg w) (tw_trace tw)" using inv by (simp add: trace_inv_def)
    have small': "length (lg w) \<le> u64_max" using prefix_length_le[OF pre] small by simp
    obtain p where p: "fst (patch_trace io c jid token ?part (tw_sent tw) w) = Inr p"
      "tp_offset p = (if tw_sent tw = length (lg w) then tw_sent tw + length ?part else length (lg w))"
      by (rule patch_responsive[OF rs part small'])
    obtain v where v: "patch_trace io c jid token ?part (tw_sent tw) w = (Inr p, v)"
      using p(1) by (metis prod.collapse)
    from patch_trace_log[OF ep pre _ v] False
    have lv: "prefix (lg v) (tw_trace tw)" "tp_offset p = length (lg v) \<or> tp_remote p = Aborted"
      by (auto simp: answer_ok_def)
    have res: "tw' = trace_acknowledge (Inr p) ?tw" "w' = v" "b \<longleftrightarrow> tw_sent tw' \<ge> length (tw_trace tw')"
      using f to False v by (auto simp: trace_flush_def writes_to_def Let_def)
    show ?thesis
      using res lv p(2) prefix_length_le[OF lv(1)] False
      by (auto simp: trace_acknowledge_def min_def)
  qed
  then show "b \<or> tw_sent tw' = length (lg w')" and "tw_sent tw = length (lg w) \<Longrightarrow> b" by auto
qed

lemma finish_attempts_complete:
  assumes ep: "trace_endpoint io c jid token lg" and rs: "trace_responsive io c jid token lg"
    and ok: "step_ok lg c jid token st" and n: "length ks \<ge> 2"
    and small: "length (tw_trace (fst st)) \<le> u64_max"
  shows "case finish_attempts io ks st of (tw, w) \<Rightarrow> lg w = tw_trace tw \<or> tw_cancel tw = Aborted"
proof -
  obtain k1 k2 ks' where ks: "ks = k1 # k2 # ks'" using n by (cases ks; cases "tl ks") auto
  have all_sent: "lg w = tw_trace tw \<or> tw_cancel tw = Aborted"
    if "step_ok lg c jid token st" "trace_flush io st = (True, tw, w)" for st tw w
  proof -
    obtain tw0 w0 where "st = (tw0, w0)" by fastforce
    then show ?thesis using flush_inv[OF ep, of tw0 w0 True tw w] inv_complete[of lg tw w] that
      by (auto simp: step_ok_def)
  qed
  obtain b tw w where f1: "trace_flush io st = (b, tw, w)" by (metis prod_cases3)
  show ?thesis
  proof (cases b)
    case True
    then show ?thesis using all_sent[OF ok] f1 ks by simp
  next
    case False
    let ?w = "http_sleep io (200 * 2 ^ k1) w"
    have lg: "lg ?w = lg w" using ep by (simp add: trace_endpoint_def)
    have "step_ok lg c jid token (tw, w)" using flush_ok[OF ep ok] f1 by simp
    then have ok2: "step_ok lg c jid token (tw, ?w)" using lg by (simp add: step_ok_def trace_inv_def)
    have sent: "tw_sent tw = length (lg ?w)"
      using flush_responsive(1)[OF ep rs, of "fst st" "snd st"] ok f1 False lg small by simp
    obtain b2 tw2 w2 where f2: "trace_flush io (tw, ?w) = (b2, tw2, w2)" by (metis prod_cases3)
    have "same_text (fst st) tw" using flush_same[of "fst st" io "snd st"] f1 by simp
    then have "length (tw_trace tw) \<le> u64_max" using small by (simp add: same_text_def)
    then have b2 using flush_responsive(2)[OF ep rs ok2 f2 _ sent] by blast
    then show ?thesis using all_sent[OF ok2] f1 f2 False ks by simp
  qed
qed

text \<open>
  C4: the log GitLab has is at every moment the beginning of the job's trace, however requests
  fail, are answered late or out of range, and whether or not a failed request was applied: no
  output is lost in the middle, repeated or reordered. What the writer counts as acknowledged the
  server has, unless it aborted the job. This holds before and after the final flush.
\<close>

theorem trace_log_prefix:
  assumes "trace_endpoint io c jid token lg" "lg w0 = []"
    "st = trace_ops io os (trace_new (Some c) jid token sc now, w0)" "st' = trace_finish io st"
  shows "prefix (lg (snd st)) (tw_trace (fst st)) \<and> prefix (lg (snd st')) (tw_trace (fst st')) \<and>
    (tw_cancel (fst st') = Aborted \<or> tw_sent (fst st') \<le> length (lg (snd st')))"
proof -
  have ok: "step_ok lg c jid token st" using trace_ops_ok[OF assms(1) trace_new_ok] assms(2,3) by blast
  have "step_ok lg c jid token st'" using trace_finish_ok[OF assms(1) ok] assms(4) by simp
  then show ?thesis using ok by (auto simp: step_ok_def trace_inv_def split: prod.splits)
qed


lemma finish_limit: "tw_limit (fst (trace_finish io st)) = tw_limit (fst st)"
proof -
  have "tw_limit (fst (finish_attempts io ks st)) = tw_limit (fst st)" for ks st
    using finish_attempts_same[of st io ks] by (simp add: same_text_def)
  then show ?thesis by (simp add: trace_finish_def split: prod.splits)
qed

text \<open>A trace that holds a clean scrubbed stream, or its beginning and the notice, is clean.\<close>

lemma holds_no_secret:
  assumes tr: "holds (stream_output sc cs) tw" "tw_limit tw = DEFAULT_LIMIT"
    and ok: "stream_ok sc [] cs" "q \<in> set (sc_secrets sc)" "length q > 4" "maskable q"
      "nl \<notin> set q" "\<not> contains (limit_notice DEFAULT_LIMIT) q"
  shows "\<not> contains (tw_trace tw) q"
proof
  assume c: "contains (tw_trace tw) q"
  have clean: "\<not> contains (stream_output sc cs) q"
    using stream_rest_no_secret[OF ok(1-4)] by (simp add: stream_output_rest)
  show False
  proof (cases "tw_truncated tw")
    case False
    then show ?thesis using tr c clean by (simp add: holds_def)
  next
    case True
    then obtain x where x: "prefix x (stream_output sc cs)" "tw_trace tw = x @ limit_notice DEFAULT_LIMIT"
      using tr by (auto simp: holds_def)
    obtain r where notice: "limit_notice DEFAULT_LIMIT = nl # r" by (simp add: limit_notice_def)
    have "q \<noteq> []" using ok(3) by auto
    then have "contains x q \<or> contains r q"
      using contains_at_sep[OF ok(5), of x r] c x(2) notice by simp
    then show ?thesis
    proof
      assume "contains x q"
      then show False using contains_prefix[OF x(1)] clean by blast
    next
      assume "contains r q"
      then have "contains (limit_notice DEFAULT_LIMIT) q"
        using contains_suffix[of r "nl # r"] notice by (simp add: suffix_def)
      then show False using ok(6) by blast
    qed
  qed
qed


text \<open>
  The trace is bounded whatever the job prints: never more than \<open>DEFAULT_LIMIT\<close> bytes and the
  notice of 110 bytes; it is either the scrubbed output itself or a beginning of it closed by the
  notice, and once the limit is reached nothing is added.
\<close>

theorem trace_bounded:
  "let st0 = (trace_new client jid token sc now, w); tw = fst (trace_ops io os st0);
       out = fst (push_all sc stream_new (pushed io os st0)) in
     length (tw_trace tw) \<le> DEFAULT_LIMIT + 110 \<and>
     (tw_trace tw = out \<or> (\<exists>x. prefix x out \<and> tw_trace tw = x @ limit_notice DEFAULT_LIMIT))"
proof -
  let ?st = "(trace_new client jid token sc now, w)"
  have "written sc (pushed io os ?st) (fst (trace_ops io os ?st))"
    using written_ops[of sc "[]" ?st io os] written_new by simp
  then have "holds (fst (push_all sc stream_new (pushed io os ?st))) (fst (trace_ops io os ?st))"
      "tw_limit (fst (trace_ops io os ?st)) = DEFAULT_LIMIT" by (simp_all add: written_def)
  then show ?thesis using notice_length by (auto simp: holds_def Let_def split: if_splits)
qed

section \<open>A concrete server\<close>

text \<open>A server as the endpoint describes it, whose world is the log itself.\<close>

definition local_server :: "string http" where
  "local_server = \<lparr>
     http_send = (\<lambda>rq w.
       case (rq_body rq, map_of (rq_headers rq) ''Content-Range'') of
         (RawBody part, Some r) \<Rightarrow>
           if prefix (dec (length w) @ ''-'') r
           then (Inr \<lparr>rsp_status = 202, rsp_headers = [], rsp_chunks = []\<rparr>, w @ part)
           else (Inr \<lparr>rsp_status = 416, rsp_headers = [(''Range'', ''0-'' @ dec (length w))],
                      rsp_chunks = []\<rparr>, w)
       | _ \<Rightarrow> (Inr \<lparr>rsp_status = 404, rsp_headers = [], rsp_chunks = []\<rparr>, w)),
     http_sleep = (\<lambda>_ w. w), http_open = (\<lambda>_ w. (Inr (), w)), http_create = (\<lambda>_ w. (Inr (), w)),
     http_write = (\<lambda>_ _ w. (Inr (), w)), http_status_text = dec, http_now = (\<lambda>_. 0),
     http_unix_secs = (\<lambda>_. 0)\<rparr>"

lemma dec_dash_prefix: "prefix (dec m @ ''-'') (dec n @ ''-'' @ x) \<longleftrightarrow> m = n"
proof
  assume "prefix (dec m @ ''-'') (dec n @ ''-'' @ x)"
  then obtain y where y: "dec n @ ''-'' @ x = dec m @ ''-'' @ y" by (auto simp: prefix_def)
  have t: "takeWhile is_ascii_digit (dec k @ ''-'' @ z) = dec k" for k z
    using dec_digits[of k] by (subst takeWhile_append2) (auto simp: list_all_iff is_ascii_digit_def)
  from y have "takeWhile is_ascii_digit (dec n @ ''-'' @ x) = takeWhile is_ascii_digit (dec m @ ''-'' @ y)"
    by (rule arg_cong)
  then show "m = n" unfolding t dec_inj by simp
qed (auto simp: prefix_def)

lemma range_end_dec:
  "range_end \<lparr>rsp_status = s, rsp_headers = [(''Range'', ''0-'' @ dec n)], rsp_chunks = cs\<rparr> =
     parse_uint u64_max (dec n)"
proof -
  have "visible_ascii (''0-'' @ dec n)"
    using dec_digits[of n] by (auto simp: visible_ascii_def list_all_iff is_ascii_digit_def)
  then show ?thesis by (simp add: range_end_def header_def split_once_def)
qed

lemma local_server_send: "http_send local_server (trace_request c jid token part offset) w =
    (if length w = offset then (Inr \<lparr>rsp_status = 202, rsp_headers = [], rsp_chunks = []\<rparr>, w @ part)
     else (Inr \<lparr>rsp_status = 416, rsp_headers = [(''Range'', ''0-'' @ dec (length w))],
                rsp_chunks = []\<rparr>, w))"
  using dec_dash_prefix[of "length w" offset] by (simp add: local_server_def trace_request_def)

lemma local_server_endpoint: "trace_endpoint local_server c jid token (\<lambda>w. w)"
  unfolding trace_endpoint_def local_server_send trace_step_def
  by (auto simp: local_server_def is_success_def range_end_dec[simplified] parse_uint_dec_if split: option.splits if_splits)

lemma local_server_responsive: "trace_responsive local_server c jid token (\<lambda>w. w)"
  unfolding trace_responsive_def local_server_send
  by (auto simp: is_success_def range_end_dec[simplified] parse_uint_dec)

definition sample_client :: gitlab_client where
  "sample_client = \<lparr>gl_url = ''https://gitlab.example.com'', gl_system_id = ''r_1'',
     gl_executor = ''shell'', gl_version = ''1'', gl_os = ''linux'', gl_arch = ''x86_64''\<rparr>"

abbreviation sample_start :: "trace_writer \<times> string" where
  "sample_start \<equiv> (trace_new (Some sample_client) 1 ''job-token'' sample_scrubber 0, [])"

definition sample_ops :: "trace_op list" where
  "sample_ops = [Write ''login s3cr'', Write ''et-token'', Flush, Write '' done'']"

lemma trace_log_prefix_witness:
  "prefix (snd (trace_ops local_server sample_ops sample_start))
     (tw_trace (fst (trace_ops local_server sample_ops sample_start)))"
  using trace_log_prefix[OF local_server_endpoint refl refl refl] by blast


lemma sample_pushed:
  "pushed local_server sample_ops sample_start = [''login s3cr'', ''et-token'', '' done'']"
  by (simp add: sample_ops_def)


end
