(* ===== verification/Script.thy ===== *)
theory Script
  imports Gitlab_Types
begin

text \<open>
  What a job step runs (\<open>src/runner_daemon/script.rs\<close>): quoting for POSIX sh, step scripts, the
  job's environment with its variable files, the checkout directory and variable expansion.
  \<open>sh_lex\<close> is the specification side of quoting: how sh splits a simple command line. The locale
  \<open>keyed_env\<close> is the contract of \<open>JobEnv::set\<close> that the environment builders rely on.
  \<open>parse_duration\<close> (binary floating point) is not modelled here.
\<close>

section \<open>Quoting\<close>

definition quote :: "string \<Rightarrow> string" where
  "quote value = [sq] @ replace_char sq [sq, bs, sq, sq] value @ [sq]"

definition shell_prelude :: string where
  "shell_prelude = ''set -e'' @ [nl] @
     ''(set -o pipefail) 2>/dev/null && set -o pipefail'' @ [nl]"

text \<open>The format of the echo line, \<open>\033[32;1m%s\033[0;m\n\<close> with its backslashes.\<close>

definition echo_format :: string where
  "echo_format = [bs] @ ''033[32;1m%s'' @ [bs] @ ''033[0;m'' @ [bs] @ ''n''"

definition echo_line :: "string \<Rightarrow> string" where
  "echo_line line = ''printf '' @ [sq] @ echo_format @ [sq] @ '' '' @ quote (''$ '' @ line)"

definition step_script :: "string list \<Rightarrow> string" where
  "step_script lines =
     shell_prelude @ concat (map (\<lambda>line. echo_line line @ [nl] @ line @ [nl]) lines)"

definition argv_line :: "string list \<Rightarrow> string" where
  "argv_line argv = join '' '' (map quote argv)"

definition argv_script :: "string list list \<Rightarrow> string" where
  "argv_script commands = shell_prelude @ concat (map (\<lambda>argv. argv_line argv @ [nl]) commands)"

text \<open>
  How sh reads a simple command: words separated by blanks, \<open>'...'\<close> taken literally, a
  backslash outside quotes protecting the next character. Anything sh would interpret
  (expansions, operators, globs, double quotes, comments) is refused with \<open>None\<close>. The second
  argument is the word being read.
\<close>

definition sh_plain :: "char \<Rightarrow> bool" where
  "sh_plain c \<longleftrightarrow> is_ascii_alnum c \<or> c \<in> set ''-_+/=.:@%,'' \<or> 128 \<le> byte c"

fun sh_lex :: "string \<Rightarrow> string option \<Rightarrow> string list option"
  and sh_quoted :: "string \<Rightarrow> string \<Rightarrow> string list option" where
  "sh_lex [] None = Some []"
| "sh_lex [] (Some w) = Some [w]"
| "sh_lex (c # s) cur =
     (let w = (case cur of None \<Rightarrow> [] | Some w \<Rightarrow> w) in
      if c = CHR '' '' then
        (case cur of None \<Rightarrow> sh_lex s None | Some w \<Rightarrow> map_option ((#) w) (sh_lex s None))
      else if c = sq then sh_quoted s w
      else if c = bs then (case s of [] \<Rightarrow> None | d # t \<Rightarrow> sh_lex t (Some (w @ [d])))
      else if sh_plain c then sh_lex s (Some (w @ [c])) else None)"
| "sh_quoted [] w = None"
| "sh_quoted (c # s) w = (if c = sq then sh_lex s (Some w) else sh_quoted s (w @ [c]))"

definition sh_words :: "string \<Rightarrow> string list option" where
  "sh_words s = sh_lex s None"

lemma sq_bs [simp]: "sq \<noteq> bs" "bs \<noteq> sq" "sq \<noteq> CHR '' ''" "bs \<noteq> CHR '' ''" "CHR '' '' \<noteq> sq"
  by (simp_all add: char_consts)

lemma sh_quoted_body:
  "sh_quoted (replace_char sq [sq, bs, sq, sq] v @ sq # s) w = sh_lex s (Some (w @ v))"
proof (induction v arbitrary: w)
  case (Cons c v)
  then show ?case by (cases "c = sq") simp_all
qed simp

lemma sh_lex_quote:
  "sh_lex (quote v @ s) cur = sh_lex s (Some ((case cur of None \<Rightarrow> [] | Some w \<Rightarrow> w) @ v))"
  by (simp add: quote_def sh_quoted_body)

lemma sh_words_argv: "sh_words (argv_line argv) = Some argv"
proof -
  have "sh_lex (join '' '' (map quote argv)) None = Some argv"
  proof (induction argv)
    case (Cons a argv)
    have nil: "sh_lex (quote a) None = Some [a]"
      using sh_lex_quote[of a "[]" None] by simp
    show ?case
    proof (cases argv)
      case Nil
      then show ?thesis by (simp add: nil)
    next
      case (Cons b bs)
      then have "join '' '' (map quote (a # argv)) = quote a @ '' '' @ join '' '' (map quote argv)"
        by simp
      then show ?thesis using Cons.IH sh_lex_quote[of a "'' '' @ join '' '' (map quote argv)" None]
        by simp
    qed
  qed (simp)
  then show ?thesis by (simp add: sh_words_def argv_line_def)
qed

section \<open>Environments\<close>

text \<open>
  The contract of an environment of named values: setting a name gives it that value and leaves
  the others, and no name occurs twice.
\<close>

locale keyed_env =
  fixes set_var :: "'e \<Rightarrow> string \<Rightarrow> 'v \<Rightarrow> 'e"
    and lookup :: "'e \<Rightarrow> string \<Rightarrow> 'v option"
    and well_formed :: "'e \<Rightarrow> bool"
  assumes lookup_set: "lookup (set_var e k v) k' = (if k' = k then Some v else lookup e k')"
    and well_formed_set: "well_formed e \<Longrightarrow> well_formed (set_var e k v)"
begin

definition set_all :: "'e \<Rightarrow> (string \<times> 'v) list \<Rightarrow> 'e" where
  "set_all e kvs = foldl (\<lambda>e kv. set_var e (fst kv) (snd kv)) e kvs"

lemma set_all_simps: "set_all e [] = e" "set_all e (kv # kvs) = set_all (set_var e (fst kv) (snd kv)) kvs"
  by (simp_all add: set_all_def)

text \<open>Of several settings of one name the last one wins.\<close>

lemma lookup_set_all:
  "lookup (set_all e kvs) k = (case map_of (rev kvs) k of Some v \<Rightarrow> Some v | None \<Rightarrow> lookup e k)"
proof (induction kvs arbitrary: e)
  case (Cons kv kvs)
  then show ?case
    by (cases kv) (auto simp: set_all_simps lookup_set map_add_def split: option.splits)
qed (simp add: set_all_simps)

lemma well_formed_set_all: "well_formed e \<Longrightarrow> well_formed (set_all e kvs)"
  by (induction kvs arbitrary: e) (auto simp: set_all_simps well_formed_set)

end

record job_env =
  je_vars :: "(string \<times> string) list"
  je_files :: "(string \<times> string) list"

definition job_env_default :: job_env where
  "job_env_default = \<lparr>je_vars = [], je_files = []\<rparr>"

definition env_set :: "job_env \<Rightarrow> string \<Rightarrow> string \<Rightarrow> job_env" where
  "env_set e key value =
     e\<lparr>je_vars := filter (\<lambda>kv. fst kv \<noteq> key) (je_vars e) @ [(key, value)]\<rparr>"

definition to_docker :: "job_env \<Rightarrow> string list" where
  "to_docker e = map (\<lambda>kv. fst kv @ ''='' @ snd kv) (je_vars e)"

definition env_get :: "job_env \<Rightarrow> string \<Rightarrow> string option" where
  "env_get e k = map_of (je_vars e) k"

definition env_ok :: "job_env \<Rightarrow> bool" where
  "env_ok e \<longleftrightarrow> distinct (map fst (je_vars e))"

lemma map_of_filter_ne: "map_of (filter (\<lambda>kv. fst kv \<noteq> k) kvs) k' = (if k' = k then None else map_of kvs k')"
  by (induction kvs) auto

lemma distinct_filter_snoc:
  "distinct (map fst kvs) \<Longrightarrow> distinct (map fst (filter (\<lambda>kv. fst kv \<noteq> k) kvs @ [(k, v)]))"
  by (induction kvs) auto

interpretation je: keyed_env env_set env_get env_ok
proof unfold_locales
  show "env_get (env_set e k v) k' = (if k' = k then Some v else env_get e k')" for e k v k'
    by (auto simp: env_get_def env_set_def map_add_def map_of_filter_ne split: option.splits)
  show "env_ok e \<Longrightarrow> env_ok (env_set e k v)" for e k v
    using distinct_filter_snoc by (simp add: env_ok_def env_set_def)
qed

lemma env_set_files [simp]: "je_files (env_set e k v) = je_files e"
  by (simp add: env_set_def)

lemma env_ok_default [simp]: "env_ok job_env_default"
  by (simp add: env_ok_def job_env_default_def)

section \<open>Names and expansion\<close>

definition ident_char :: "char \<Rightarrow> bool" where
  "ident_char c \<longleftrightarrow> is_ascii_alnum c \<or> c = CHR ''_''"

definition is_valid_key :: "string \<Rightarrow> bool" where
  "is_valid_key key = (case key of [] \<Rightarrow> False
     | c # cs \<Rightarrow> (is_ascii_alpha c \<or> c = CHR ''_'') \<and> list_all ident_char cs)"

lemma is_valid_key_chars: "is_valid_key k \<Longrightarrow> list_all ident_char k"
  by (auto simp: is_valid_key_def ident_char_def is_ascii_alnum_def split: list.splits)

lemma is_valid_key_component: "is_valid_key k \<Longrightarrow> components k = [Normal k]"
proof -
  assume k: "is_valid_key k"
  have "list_all ident_char k" by (rule is_valid_key_chars[OF k])
  then have "CHR ''/'' \<notin> set k" "CHR ''.'' \<notin> set k"
    by (auto simp: list_all_iff ident_char_def ascii_defs)
  moreover have "k \<noteq> []" using k by (auto simp: is_valid_key_def)
  ultimately show ?thesis by (intro components_single) auto
qed

text \<open>Length of the name after a \<open>$\<close>: 0 when the next character cannot start one.\<close>

definition ident_len :: "string \<Rightarrow> nat" where
  "ident_len s = (case s of [] \<Rightarrow> 0
     | c # _ \<Rightarrow> if is_ascii_digit c then 0 else length (takeWhile ident_char s))"

definition value_of :: "(string \<rightharpoonup> string) \<Rightarrow> string \<Rightarrow> string" where
  "value_of values k = (case values k of None \<Rightarrow> [] | Some v \<Rightarrow> v)"

lemma ident_len_le: "ident_len s \<le> length s"
  using length_takeWhile_le[of ident_char s] by (cases s) (simp_all add: ident_len_def)

text \<open>
  One round of the loop of \<open>expand\<close> after a \<open>$\<close>: what it prints and what is left to read.
\<close>

definition expand_dollar :: "(string \<rightharpoonup> string) \<Rightarrow> string \<Rightarrow> string \<times> string" where
  "expand_dollar values after =
     (case strip_prefix ''$'' after of
        Some stripped \<Rightarrow> (''$'', stripped)
      | None \<Rightarrow>
        (case strip_prefix ''{'' after of
           Some braced \<Rightarrow>
             (case find_str ''}'' braced of
                Some end \<Rightarrow>
                  if is_valid_key (take end braced)
                  then (value_of values (take end braced), drop (end + 1) braced)
                  else (''$'', after)
              | None \<Rightarrow> (''$'', after))
         | None \<Rightarrow>
             (let len = ident_len after in
              if len = 0 then (''$'', after)
              else (value_of values (take len after), drop len after))))"

lemma expand_dollar_length: "length (snd (expand_dollar values after)) \<le> length after"
  by (auto simp: expand_dollar_def strip_prefix_def Let_def split: option.splits)

function expand :: "string \<Rightarrow> (string \<rightharpoonup> string) \<Rightarrow> string" where
  "expand rest values =
     (case find_str ''$'' rest of
        None \<Rightarrow> rest
      | Some pos \<Rightarrow>
          (let (printed, rest') = expand_dollar values (drop (pos + 1) rest)
           in take pos rest @ printed @ expand rest' values))"
  by pat_completeness auto
termination
proof (relation "measure (\<lambda>(rest, values). length rest)")
  show "wf (measure (\<lambda>(rest :: string, values :: string \<rightharpoonup> string). length rest))" by simp
next
  fix rest :: string and vs pos x printed rest'
  assume pos: "find_str ''$'' rest = Some pos"
    and x: "x = expand_dollar vs (drop (pos + 1) rest)" "(printed, rest') = x"
  have "length rest' \<le> length (drop (pos + 1) rest)"
    using expand_dollar_length[of vs "drop (pos + 1) rest"] x by (metis snd_conv)
  also have "\<dots> < length rest" using find_str_Some[OF pos] by (cases rest) auto
  finally show "((rest', vs), rest, vs) \<in> measure (\<lambda>(rest, values). length rest)" by simp
qed

declare expand.simps [simp del]

lemma find_dollar: "CHR ''$'' \<notin> set a \<Longrightarrow> find_str ''$'' (a @ CHR ''$'' # b) = Some (length a)"
  by (induction a) auto

lemma find_dollar_None: "find_str ''$'' s = None \<longleftrightarrow> CHR ''$'' \<notin> set s"
  by (induction s) auto

lemma expand_plain: "CHR ''$'' \<notin> set s \<Longrightarrow> expand s values = s"
  by (subst expand.simps) (simp add: find_dollar_None[THEN iffD2])

lemma expand_at:
  "CHR ''$'' \<notin> set a \<Longrightarrow>
   expand (a @ CHR ''$'' # b) values =
     a @ fst (expand_dollar values b) @ expand (snd (expand_dollar values b)) values"
  by (subst expand.simps) (simp add: find_dollar split_beta)

lemma expand_escape: "expand (replace_char (CHR ''$'') ''$$'' s) values = s"
proof (induction "length s" arbitrary: s rule: less_induct)
  case less
  show ?case
  proof (cases "CHR ''$'' \<in> set s")
    case False
    then show ?thesis by (simp add: expand_plain replace_char_id)
  next
    case True
    then obtain a b where s: "s = a @ CHR ''$'' # b" and a: "CHR ''$'' \<notin> set a"
      by (meson split_list_first)
    have "replace_char (CHR ''$'') ''$$'' s = a @ ''$$'' @ replace_char (CHR ''$'') ''$$'' b"
      using a unfolding s by (induction a) auto
    moreover have "expand (replace_char (CHR ''$'') ''$$'' b) values = b"
      using less s by simp
    ultimately show ?thesis
      using a s by (simp add: expand_at expand_dollar_def strip_prefix_def)
  qed
qed

section \<open>The checkout directory\<close>

definition clone_path_char :: "char \<Rightarrow> bool" where
  "clone_path_char c \<longleftrightarrow> is_ascii_alnum c \<or> c \<in> set ''-_.''"

text \<open>The last variable of a name decides, also when it has no value.\<close>

definition last_variable :: "string \<Rightarrow> variable list \<Rightarrow> string option" where
  "last_variable key vars =
     Option.bind (rfind (\<lambda>v. var_key v = key) vars) var_value"

definition valid_subdir :: "string \<Rightarrow> bool" where
  "valid_subdir relative \<longleftrightarrow> relative \<noteq> [] \<and>
     list_all (\<lambda>part. part \<noteq> [] \<and> part \<noteq> ''.'' \<and> part \<noteq> ''..'' \<and> list_all clone_path_char part)
       (split_on (CHR ''/'') relative)"

definition variable_values :: "variable list \<Rightarrow> (string \<rightharpoonup> string)" where
  "variable_values vars =
     map_of (rev (filter_map (\<lambda>v. map_option (\<lambda>x. (var_key v, x)) (var_value v)) vars))"

definition project_subdir :: "job \<Rightarrow> (string, string) result" where
  "project_subdir j =
     (case Option.bind (map_option trim (last_variable ''GIT_CLONE_PATH'' (job_variables j)))
             (\<lambda>v. if v = [] then None else Some v) of
        None \<Rightarrow> Inr ''project''
      | Some clone_path \<Rightarrow>
          rbind
            (ok_or (''GIT_CLONE_PATH '' @ debug_str clone_path @ '' must start with $CI_BUILDS_DIR/'')
              (case strip_prefix ''$CI_BUILDS_DIR/'' clone_path of
                 Some r \<Rightarrow> Some r | None \<Rightarrow> strip_prefix ''${CI_BUILDS_DIR}/'' clone_path))
            (\<lambda>stripped.
               let relative = expand stripped (variable_values (job_variables j)) in
               if valid_subdir relative then Inr relative
               else Inl (''GIT_CLONE_PATH '' @ debug_str clone_path @ '' gives '' @
                         debug_str relative @ '', not a directory inside the builds directory'')))"

definition subdir_or_project :: "job \<Rightarrow> string" where
  "subdir_or_project j = (case project_subdir j of Inr s \<Rightarrow> s | Inl _ \<Rightarrow> ''project'')"

lemma valid_subdir_project: "valid_subdir ''project''"
  by (simp add: valid_subdir_def clone_path_char_def ascii_defs)

lemma project_subdir_valid: "project_subdir j = Inr s \<Longrightarrow> valid_subdir s"
  using valid_subdir_project
  by (auto simp: project_subdir_def rbind_Inr_conv Let_def split: option.splits if_splits)

lemma subdir_or_project_valid: "valid_subdir (subdir_or_project j)"
  using valid_subdir_project project_subdir_valid
  by (auto simp: subdir_or_project_def split: sum.splits)

text \<open>A valid subdirectory is a relative path of plain names: it can only go down.\<close>

lemma valid_subdir_parts:
  "valid_subdir s \<Longrightarrow> p \<in> set (split_on (CHR ''/'') s) \<Longrightarrow> p \<noteq> [] \<and> p \<noteq> ''.'' \<and> p \<noteq> ''..''"
  by (auto simp: valid_subdir_def list_all_iff)

lemma valid_subdir_relative: "valid_subdir s \<Longrightarrow> \<not> path_absolute s"
proof
  assume "valid_subdir s" "path_absolute s"
  then obtain r where "s = CHR ''/'' # r" by (cases s) (auto simp: path_absolute_def)
  then have "[] \<in> set (split_on (CHR ''/'') s)" by simp
  then show False using valid_subdir_parts[OF \<open>valid_subdir s\<close>] by blast
qed

lemma valid_subdir_below:
  assumes v: "valid_subdir s" and b: "builds \<noteq> []" "last builds \<noteq> CHR ''/''"
  shows "components (path_join builds s) = components builds @ map Normal (split_on (CHR ''/'') s)"
proof -
  note ok = valid_subdir_parts[OF v]
  have "path_absolute (builds @ ''/'' @ s) = path_absolute builds"
    using b(1) by (cases builds) (auto simp: path_absolute_def)
  moreover have "map path_part (split_on (CHR ''/'') s) = map Normal (split_on (CHR ''/'') s)"
    using ok by (simp add: path_part_def)
  moreover have "filter (\<lambda>x. x \<noteq> [] \<and> x \<noteq> ''.'') (split_on (CHR ''/'') s) = split_on (CHR ''/'') s"
    using ok by (simp add: filter_id_conv)
  ultimately show ?thesis
    using valid_subdir_relative[OF v] b by (simp add: path_join_def components_def Let_def split_on_join2)
qed

text \<open>A name next to the checkout, like its \<open>.tmp\<close> directory, is as good a name.\<close>

lemma split_on_snoc: "d \<notin> set t \<Longrightarrow> split_on d (s @ t) = butlast (split_on d s) @ [last (split_on d s) @ t]"
proof (induction s)
  case Nil
  then show ?case by (simp add: split_on_single)
next
  case (Cons c s)
  then obtain p ps where ps: "split_on d s = p # ps" by (cases "split_on d s") auto
  show ?case using Cons ps by (cases ps) auto
qed

lemma valid_subdir_tmp: "valid_subdir s \<Longrightarrow> valid_subdir (s @ ''.tmp'')"
proof -
  assume v: "valid_subdir s"
  let ?ps = "split_on (CHR ''/'') s"
  have eq: "split_on (CHR ''/'') (s @ ''.tmp'') = butlast ?ps @ [last ?ps @ ''.tmp'']"
    by (rule split_on_snoc) simp
  have l: "last ?ps \<in> set ?ps" by simp
  have "last ?ps @ ''.tmp'' \<noteq> ''.''" "last ?ps @ ''.tmp'' \<noteq> ''..''"
    by (simp_all add: append_eq_Cons_conv)
  moreover have "list_all clone_path_char (last ?ps)" using v l by (auto simp: valid_subdir_def list_all_iff)
  ultimately show ?thesis
    using v l in_set_butlastD[of _ ?ps] unfolding valid_subdir_def eq
    by (auto simp: list_all_iff clone_path_char_def ascii_defs)
qed

section \<open>The job environment\<close>

record runner_vars =
  rv_disposable :: bool
  rv_ca_pem :: "string option"

definition runner_vars_default :: runner_vars where
  "runner_vars_default = \<lparr>rv_disposable = False, rv_ca_pem = None\<rparr>"

definition base_env :: "job \<Rightarrow> string \<Rightarrow> string \<Rightarrow> string \<Rightarrow> string \<Rightarrow> runner_vars \<Rightarrow> job_env" where
  "base_env j builds_dir host_job_dir subdir tmp_dir runner =
     (let e1 = env_set job_env_default ''CI_BUILDS_DIR'' builds_dir;
          e2 = env_set e1 ''CI_PROJECT_DIR'' (builds_dir @ ''/'' @ subdir);
          e3 = env_set e2 ''CI_SERVER'' ''yes'';
          e4 = env_set e3 ''CI_JOB_STATUS'' ''running'';
          e5 = env_set e4 ''CI_JOB_TIMEOUT''
                 (dec (case timeout_secs j of Some t \<Rightarrow> t | None \<Rightarrow> 3600));
          e6 = (if rv_disposable runner
                then (let d = env_set e5 ''CI_DISPOSABLE_ENVIRONMENT'' ''true'' in
                      case job_image j of None \<Rightarrow> d
                      | Some img \<Rightarrow> env_set d ''CI_JOB_IMAGE'' (img_name img))
                else env_set e5 ''CI_SHARED_ENVIRONMENT'' ''true'')
      in (case rv_ca_pem runner of
            None \<Rightarrow> e6
          | Some pem \<Rightarrow>
              (let key = ''CI_SERVER_TLS_CA_FILE'';
                   e7 = e6\<lparr>je_files := je_files e6 @
                          [(path_join (path_join host_job_dir (subdir @ ''.tmp'')) key, pem)]\<rparr>;
                   path = tmp_dir @ ''/'' @ key
               in env_set (env_set e7 ''GIT_SSL_CAINFO'' path) key path)))"

definition env_values :: "job_env \<Rightarrow> variable list \<Rightarrow> (string \<rightharpoonup> string)" where
  "env_values e valid =
     map_of (je_vars e) ++
     map_of (rev (map (\<lambda>v. (var_key v, case var_value v of None \<Rightarrow> [] | Some x \<Rightarrow> x)) valid))"

definition final_value :: "(string \<rightharpoonup> string) \<Rightarrow> variable \<Rightarrow> string" where
  "final_value values v =
     (let value = (case var_value v of None \<Rightarrow> [] | Some x \<Rightarrow> x)
      in if var_raw v then value else expand value values)"

definition add_variable ::
  "(string \<rightharpoonup> string) \<Rightarrow> string \<Rightarrow> string \<Rightarrow> string \<Rightarrow> job_env \<Rightarrow> variable \<Rightarrow> job_env" where
  "add_variable values host_job_dir subdir tmp_dir e v =
     (let value = final_value values v in
      if var_file v then
        env_set (e\<lparr>je_files := filter (\<lambda>f. \<not> path_ends_with (fst f) (var_key v)) (je_files e) @
                   [(path_join (path_join host_job_dir (subdir @ ''.tmp'')) (var_key v), value)]\<rparr>)
          (var_key v) (tmp_dir @ ''/'' @ var_key v)
      else env_set e (var_key v) value)"

definition make_job_env :: "job \<Rightarrow> string \<Rightarrow> string \<Rightarrow> runner_vars \<Rightarrow> job_env" where
  "make_job_env j builds_dir host_job_dir runner =
     (let subdir = subdir_or_project j;
          tmp_dir = builds_dir @ ''/'' @ subdir @ ''.tmp'';
          env = base_env j builds_dir host_job_dir subdir tmp_dir runner;
          valid = filter (\<lambda>v. is_valid_key (var_key v)) (job_variables j);
          values = env_values env valid
      in foldl (add_variable values host_job_dir subdir tmp_dir) env valid)"

definition service_visible :: "variable \<Rightarrow> bool" where
  "service_visible v \<longleftrightarrow> (var_public v \<or> var_internal v) \<and> \<not> var_masked v \<and> \<not> var_file v"

definition service_env ::
  "job \<Rightarrow> variable list \<Rightarrow> (string \<rightharpoonup> string) \<Rightarrow> string list" where
  "service_env j service_variables values =
     to_docker
       (foldl (\<lambda>e v. if is_valid_key (var_key v) then env_set e (var_key v) (final_value values v) else e)
          job_env_default (filter service_visible (job_variables j) @ service_variables))"

text \<open>The variable's entry in the environment: its value, or the path of its file.\<close>

definition entry_value :: "(string \<rightharpoonup> string) \<Rightarrow> string \<Rightarrow> variable \<Rightarrow> string" where
  "entry_value values tmp_dir v =
     (if var_file v then tmp_dir @ ''/'' @ var_key v else final_value values v)"

lemma add_variable_get:
  "env_get (add_variable values host subdir tmp e v) k =
     (if k = var_key v then Some (entry_value values tmp v) else env_get e k)"
  by (simp add: add_variable_def entry_value_def Let_def je.lookup_set) (simp add: env_get_def)

lemma add_variable_ok: "env_ok e \<Longrightarrow> env_ok (add_variable values host subdir tmp e v)"
  by (auto simp: add_variable_def Let_def intro!: je.well_formed_set) (simp add: env_ok_def)

lemma add_variables_get:
  "env_get (foldl (add_variable values host subdir tmp) e vs) k =
     (case rfind (\<lambda>v. var_key v = k) vs of
        Some v \<Rightarrow> Some (entry_value values tmp v) | None \<Rightarrow> env_get e k)"
  by (induction vs arbitrary: e rule: rev_induct)
    (auto simp: add_variable_get rfind_def)

lemma add_variables_ok:
  "env_ok e \<Longrightarrow> env_ok (foldl (add_variable values host subdir tmp) e vs)"
  by (induction vs arbitrary: e) (auto simp: add_variable_ok)

lemma base_env_ok: "env_ok (base_env j builds host subdir tmp runner)"
proof -
  have upd: "env_ok (e\<lparr>je_files := fs\<rparr>) = env_ok e" for e fs
    by (simp add: env_ok_def)
  show ?thesis
    by (auto simp: base_env_def Let_def upd intro!: je.well_formed_set split: option.splits)
qed

text \<open>The host paths variable files may have: a plain name inside \<open><subdir>.tmp\<close>.\<close>

definition variable_file :: "string \<Rightarrow> string \<Rightarrow> string \<Rightarrow> bool" where
  "variable_file host subdir p \<longleftrightarrow>
     (\<exists>k. is_valid_key k \<and> p = path_join (path_join host (subdir @ ''.tmp'')) k)"

lemma add_variable_files:
  assumes "is_valid_key (var_key v)" "\<forall>f \<in> set (je_files e). variable_file host subdir (fst f)"
  shows "\<forall>f \<in> set (je_files (add_variable values host subdir tmp e v)). variable_file host subdir (fst f)"
  using assms by (auto simp: add_variable_def Let_def variable_file_def)

lemma add_variables_files:
  "\<lbrakk>\<forall>v \<in> set vs. is_valid_key (var_key v); \<forall>f \<in> set (je_files e). variable_file host subdir (fst f)\<rbrakk>
   \<Longrightarrow> \<forall>f \<in> set (je_files (foldl (add_variable values host subdir tmp) e vs)). variable_file host subdir (fst f)"
proof (induction vs arbitrary: e)
  case (Cons a vs)
  have "\<forall>f \<in> set (je_files (add_variable values host subdir tmp e a)). variable_file host subdir (fst f)"
    using Cons.prems by (intro add_variable_files) auto
  then show ?case using Cons by simp
qed simp

lemma base_env_files: "\<forall>f \<in> set (je_files (base_env j builds host subdir tmp runner)). variable_file host subdir (fst f)"
proof -
  have "is_valid_key ''CI_SERVER_TLS_CA_FILE''"
    by (simp add: is_valid_key_def ident_char_def ascii_defs)
  then show ?thesis
    by (auto simp: base_env_def Let_def job_env_default_def variable_file_def split: option.splits)
qed

section \<open>Properties\<close>

text \<open>C20: sh reads a line built by \<open>argv_line\<close> as exactly the given arguments, whatever
  characters they hold: nothing in an argument is interpreted.\<close>

theorem argv_line_roundtrip: "sh_words (argv_line argv) = Some argv"
  by (rule sh_words_argv)

text \<open>The echo line of a step prints the command line itself: sh calls \<open>printf\<close> with the
  colour format and one argument, the literal text \<open>$ <line>\<close>.\<close>

theorem echo_line_literal: "sh_words (echo_line line) = Some [''printf'', echo_format, ''$ '' @ line]"
proof -
  have "sq \<notin> set echo_format" by (simp add: echo_format_def char_consts)
  then have fmt: "[sq] @ echo_format @ [sq] = quote echo_format"
    by (simp add: quote_def replace_char_id)
  have "echo_line line = ''printf '' @ argv_line [echo_format, ''$ '' @ line]"
    by (simp add: echo_line_def argv_line_def flip: fmt)
  moreover have "sh_words (''printf '' @ s) = map_option ((#) ''printf'') (sh_words s)" for s
    by (simp add: sh_words_def sh_plain_def ascii_defs char_consts)
  ultimately show ?thesis by (simp add: sh_words_argv)
qed

text \<open>Doubling every dollar sign protects any text from expansion.\<close>

theorem expand_escape_roundtrip: "expand (replace_char (CHR ''$'') ''$$'' s) values = s"
  by (rule expand_escape)

text \<open>C15: an accepted \<open>GIT_CLONE_PATH\<close> stays inside the builds directory: below any builds
  directory the checkout path has the builds directory's components followed by plain names only
  (no \<open>..\<close>, no root).\<close>

theorem project_subdir_inside:
  assumes "project_subdir j = Inr s" "builds \<noteq> []" "last builds \<noteq> CHR ''/''"
  shows "components (path_join builds s) = components builds @ map Normal (split_on (CHR ''/'') s)"
  using valid_subdir_below[OF project_subdir_valid[OF assms(1)] assms(2,3)] .

theorem project_subdir_inside_witness:
  "\<exists>j. project_subdir j = Inr ''project'' \<and>
     components (path_join ''/builds'' ''project'') = [RootDir, Normal ''builds'', Normal ''project'']"
proof -
  define j :: job where "j = \<lparr>job_id = 1, job_token = ''t'', job_allow_git_fetch = True,
    job_job_info = None, job_git_info = None, job_runner_info = None, job_variables = [],
    job_steps = [], job_image = None, job_services = [], job_artifacts = None, job_cache = [],
    job_credentials = [], job_dependencies = [], job_timeout = 0, job_hooks = [],
    job_project_slot = 0\<rparr>"
  have j: "project_subdir j = Inr ''project''"
    by (simp add: j_def project_subdir_def last_variable_def rfind_def)
  have "components (path_join ''/builds'' ''project'') =
      components ''/builds'' @ map Normal (split_on (CHR ''/'') ''project'')"
    by (rule project_subdir_inside[OF j]) simp_all
  moreover have "components ''/builds'' = [RootDir, Normal ''builds'']"
    by (simp add: components_def path_absolute_def path_part_def)
  ultimately have "components (path_join ''/builds'' ''project'') =
      [RootDir, Normal ''builds'', Normal ''project'']" by simp
  with j show ?thesis by blast
qed

lemma job_env_files:
  "list_all (\<lambda>f. \<exists>k. is_valid_key k \<and> components (fst f) =
       components (path_join host (subdir_or_project j @ ''.tmp'')) @ [Normal k])
     (je_files (make_job_env j builds host runner))"
proof -
  let ?dir = "path_join host (subdir_or_project j @ ''.tmp'')"
  have comp: "components (path_join ?dir k) = components ?dir @ [Normal k]" if k: "is_valid_key k" for k
  proof -
    have dir: "?dir \<noteq> []" "last ?dir \<noteq> CHR ''/''" by (auto simp: path_join_def)
    have lst: "list_all ident_char k" by (rule is_valid_key_chars[OF k])
    then have nk: "CHR ''/'' \<notin> set k" "CHR ''.'' \<notin> set k"
      by (auto simp: list_all_iff ident_char_def ascii_defs)
    have "k \<noteq> []" using k by (auto simp: is_valid_key_def)
    moreover have "\<not> path_absolute k" using nk by (cases k) (auto simp: path_absolute_def)
    moreover have "k \<noteq> ''.''" "k \<noteq> ''..''" using nk by auto
    ultimately show ?thesis using dir nk components_snoc[of k ?dir] by (simp add: path_join_def[of ?dir])
  qed
  have "\<forall>f \<in> set (je_files (make_job_env j builds host runner)).
      variable_file host (subdir_or_project j) (fst f)"
    unfolding make_job_env_def Let_def
    by (rule add_variables_files) (auto simp: base_env_files[rule_format])
  then show ?thesis using comp by (fastforce simp: list_all_iff variable_file_def)
qed

text \<open>C21: a job environment names every variable once, and every file it asks to be written
  lies directly in \<open><subdir>.tmp\<close> below the host job directory, under a name that is a valid
  variable name: no variable can place a file elsewhere.\<close>

theorem job_env_files_confined:
  "env_ok (make_job_env j builds host runner) \<and>
   list_all (\<lambda>f. \<exists>k. is_valid_key k \<and> components (fst f) =
       components (path_join host (subdir_or_project j @ ''.tmp'')) @ [Normal k])
     (je_files (make_job_env j builds host runner))"
  using job_env_files by (simp add: make_job_env_def Let_def add_variables_ok base_env_ok)

text \<open>The value of a name in the job environment is that of the last variable with this
  (valid) name: expanded unless raw, the path of its file for a file variable; names no variable
  sets keep the runner's own value.\<close>

theorem job_env_last_wins:
  "env_get (make_job_env j builds host runner) k =
     (let subdir = subdir_or_project j; tmp = builds @ ''/'' @ subdir @ ''.tmp'';
          base = base_env j builds host subdir tmp runner;
          valid = filter (\<lambda>v. is_valid_key (var_key v)) (job_variables j)
      in case rfind (\<lambda>v. var_key v = k) valid of
           None \<Rightarrow> env_get base k
         | Some v \<Rightarrow> Some (if var_file v then tmp @ ''/'' @ var_key v
                           else final_value (env_values base valid) v))"
  by (simp add: make_job_env_def Let_def add_variables_get entry_value_def cong: option.case_cong)

text \<open>A service container's environment has one entry per name, and the entry comes from the
  last variable of that name among the service's own and the job's public or internal variables
  that are neither masked nor files.\<close>

theorem service_env_visible:
  "\<exists>kvs. service_env j svars values = map (\<lambda>kv. fst kv @ ''='' @ snd kv) kvs \<and>
     distinct (map fst kvs) \<and>
     (\<forall>k. map_of kvs k =
        map_option (final_value values)
          (rfind (\<lambda>v. var_key v = k \<and> is_valid_key k)
             (filter (\<lambda>v. (var_public v \<or> var_internal v) \<and> \<not> var_masked v \<and> \<not> var_file v)
                (job_variables j) @ svars)))"
proof -
  let ?vs = "filter service_visible (job_variables j) @ svars"
  let ?f = "\<lambda>e v. if is_valid_key (var_key v) then env_set e (var_key v) (final_value values v) else e"
  have get: "env_get (foldl ?f e vs) k =
      (case rfind (\<lambda>v. var_key v = k \<and> is_valid_key k) vs of
         Some v \<Rightarrow> Some (final_value values v) | None \<Rightarrow> env_get e k)" for e vs k
    by (induction vs arbitrary: e rule: rev_induct) (auto simp: rfind_def je.lookup_set)
  have ok: "env_ok e \<Longrightarrow> env_ok (foldl ?f e vs)" for e vs
    by (induction vs arbitrary: e) (auto simp: je.well_formed_set)
  define e where "e = foldl ?f job_env_default ?vs"
  have "service_env j svars values = map (\<lambda>kv. fst kv @ ''='' @ snd kv) (je_vars e)"
    by (simp add: service_env_def to_docker_def e_def)
  moreover have "distinct (map fst (je_vars e))"
    using ok[OF env_ok_default, of ?vs] unfolding e_def env_ok_def .
  moreover have "map_of (je_vars e) k =
      map_option (final_value values) (rfind (\<lambda>v. var_key v = k \<and> is_valid_key k) ?vs)" for k
    using get[of job_env_default ?vs k]
    by (simp add: e_def env_get_def job_env_default_def split: option.splits)
  ultimately show ?thesis unfolding service_visible_def by blast
qed

end
