(* ===== verification/Git.thy ===== *)
theory Git
  imports Script
begin

text \<open>
  Source checkout (\<open>src/runner_daemon/git.rs\<close>): the strategy, the git command lines that check
  out a commit into a new or an earlier job's directory, and the shell script of the
  \<open>fetch\<close> and \<open>clone\<close> strategies. \<open>sync_commands\<close> is the code's one function cut at its stages:
  \<open>validate_git_info\<close>, \<open>init_command\<close>, \<open>fetch_command\<close>, \<open>existing_commands\<close>,
  \<open>checkout_stage\<close> and \<open>submodule_commands\<close>, run in this order.
\<close>

datatype git_strategy = GitFetch | GitClone | GitNone | GitEmpty

datatype submodule_strategy = SubNone | SubNormal | SubRecursive

definition git_variable :: "variable list \<Rightarrow> string \<Rightarrow> string option" where
  "git_variable vars key =
     Option.bind (map_option trim (last_variable key vars)) (\<lambda>v. if v = [] then None else Some v)"

definition strategy :: "variable list \<Rightarrow> bool \<Rightarrow> git_strategy" where
  "strategy vars allow_git_fetch =
     (let s = git_variable vars ''GIT_STRATEGY'' in
      if s = Some ''none'' then GitNone
      else if s = Some ''empty'' then GitEmpty
      else if s = Some ''clone'' then GitClone
      else if s = Some ''fetch'' then GitFetch
      else if allow_git_fetch then GitFetch else GitClone)"

definition get_submodule_strategy :: "variable list \<Rightarrow> submodule_strategy" where
  "get_submodule_strategy vars =
     (let s = git_variable vars ''GIT_SUBMODULE_STRATEGY'' in
      if s = Some ''normal'' then SubNormal
      else if s = Some ''recursive'' then SubRecursive else SubNone)"

definition parse_u32 :: "string \<Rightarrow> nat option" where
  "parse_u32 s = parse_uint u32_max s"

definition git_depth :: "git_info \<Rightarrow> variable list \<Rightarrow> nat" where
  "git_depth gi vars =
     (case Option.bind (git_variable vars ''GIT_DEPTH'') parse_u32 of
        Some d \<Rightarrow> d
      | None \<Rightarrow> (case gi_depth gi of Some d \<Rightarrow> d | None \<Rightarrow> 0))"

definition is_commit_sha :: "string \<Rightarrow> bool" where
  "is_commit_sha sha \<longleftrightarrow> (length sha = 40 \<or> length sha = 64) \<and> list_all is_ascii_hexdigit sha"

definition validate_git_info :: "git_info \<Rightarrow> (string, unit) result" where
  "validate_git_info gi =
     (if \<not> is_commit_sha (gi_sha gi)
      then Inl (''Invalid commit SHA from GitLab: '' @ debug_str (gi_sha gi))
      else if starts_with (gi_repo_url gi) ''-'' then Inl ''Invalid repository URL from GitLab''
      else (case find (\<lambda>r. starts_with r ''-'') (gi_refspecs gi) of
              Some bad \<Rightarrow> Inl (''Invalid refspec from GitLab: '' @ debug_str bad)
            | None \<Rightarrow> Inr ()))"

text \<open>The closure \<open>git\<close>: run in \<open>dest\<close>, trusted whoever owns it.\<close>

definition git_argv :: "string \<Rightarrow> string list \<Rightarrow> string list" where
  "git_argv dest args = [''git'', ''-c'', ''safe.directory='' @ dest, ''-C'', dest] @ args"

definition init_command :: "git_info \<Rightarrow> string \<Rightarrow> string list" where
  "init_command gi dest =
     [''git'', ''init'', ''-q''] @
     (case gi_repo_object_format gi of
        None \<Rightarrow> []
      | Some f \<Rightarrow> if f = ''sha1'' \<or> f = ''sha256'' then [''--object-format='' @ f] else []) @
     [dest]"

definition fetch_flags :: "git_info \<Rightarrow> variable list \<Rightarrow> string list" where
  "fetch_flags gi vars =
     (let depth = git_depth gi vars in
      (if depth > 0 then [''--depth='' @ dec depth] else []) @
      (case git_variable vars ''GIT_FETCH_EXTRA_FLAGS'' of
         None \<Rightarrow> [] | Some extra \<Rightarrow> split_whitespace extra))"

definition fetch_refs :: "git_info \<Rightarrow> string list" where
  "fetch_refs gi = (if gi_refspecs gi = [] then [gi_sha gi] else gi_refspecs gi)"

definition fetch_command :: "git_info \<Rightarrow> variable list \<Rightarrow> string \<Rightarrow> string list" where
  "fetch_command gi vars dest =
     git_argv dest [''fetch'', ''-q'', ''--prune'', ''--no-tags''] @
     fetch_flags gi vars @ [''origin''] @ fetch_refs gi"

definition existing_commands :: "string \<Rightarrow> string list list" where
  "existing_commands dest =
     (let git_dir = dest @ ''/.git'' in
      [ [''rm'', ''-f''] @ map (\<lambda>name. git_dir @ ''/'' @ name)
          [''index.lock'', ''shallow.lock'', ''HEAD.lock'', ''config.lock'', ''config''],
        [''rm'', ''-rf'', git_dir @ ''/hooks''] ])"

definition remote_command :: "git_info \<Rightarrow> string \<Rightarrow> string list" where
  "remote_command gi dest = git_argv dest [''remote'', ''add'', ''origin'', gi_repo_url gi]"

definition checkout_command :: "git_info \<Rightarrow> string \<Rightarrow> string list" where
  "checkout_command gi dest = git_argv dest [''checkout'', ''-q'', ''-f'', gi_sha gi]"

definition wants_checkout :: "variable list \<Rightarrow> bool" where
  "wants_checkout vars \<longleftrightarrow> git_variable vars ''GIT_CHECKOUT'' \<noteq> Some ''false''"

definition clean_flags :: "variable list \<Rightarrow> string" where
  "clean_flags vars = (case git_variable vars ''GIT_CLEAN_FLAGS'' of None \<Rightarrow> ''-ffdx'' | Some f \<Rightarrow> f)"

definition clean_commands :: "variable list \<Rightarrow> string \<Rightarrow> bool \<Rightarrow> string list list" where
  "clean_commands vars dest existing =
     (if existing \<and> clean_flags vars \<noteq> ''none''
      then [git_argv dest [''clean'', ''-q''] @ split_whitespace (clean_flags vars)] else [])"

definition checkout_stage :: "git_info \<Rightarrow> variable list \<Rightarrow> string \<Rightarrow> bool \<Rightarrow> string list list" where
  "checkout_stage gi vars dest existing =
     (if wants_checkout vars
      then [checkout_command gi dest] @ clean_commands vars dest existing else [])"

definition submodule_depth :: "git_info \<Rightarrow> variable list \<Rightarrow> nat" where
  "submodule_depth gi vars =
     (case Option.bind (git_variable vars ''GIT_SUBMODULE_DEPTH'') parse_u32 of
        Some d \<Rightarrow> d | None \<Rightarrow> git_depth gi vars)"

definition submodule_paths :: "variable list \<Rightarrow> string list" where
  "submodule_paths vars =
     (case git_variable vars ''GIT_SUBMODULE_PATHS'' of None \<Rightarrow> [] | Some p \<Rightarrow> split_whitespace p)"

definition with_paths :: "string list \<Rightarrow> string list \<Rightarrow> string list" where
  "with_paths paths args = args @ (if paths = [] then [] else [''--''] @ paths)"

definition submodule_stage ::
  "git_info \<Rightarrow> variable list \<Rightarrow> string \<Rightarrow> bool \<Rightarrow> (string, string list list) result" where
  "submodule_stage gi vars dest recursive =
     (let paths = submodule_paths vars in
      if '':(exclude)'' \<in> set paths
      then Inl (''GIT_SUBMODULE_PATHS: invalid submodule pathspec '' @ debug_strs paths)
      else
        (let rec = (if recursive then [''--recursive''] else []);
             depth = submodule_depth gi vars;
             sync = git_argv dest [''submodule'', ''sync''] @ rec;
             update = git_argv dest [''submodule'', ''update'', ''--init''] @ rec @
               (if depth > 0 then [''--depth='' @ dec depth] else []) @
               (case git_variable vars ''GIT_SUBMODULE_UPDATE_FLAGS'' of
                  None \<Rightarrow> [] | Some flags \<Rightarrow> split_whitespace flags)
         in Inr [git_argv dest [''submodule'', ''init''], with_paths paths sync,
                 with_paths paths update]))"

definition submodule_commands ::
  "git_info \<Rightarrow> variable list \<Rightarrow> string \<Rightarrow> (string, string list list) result" where
  "submodule_commands gi vars dest =
     (case get_submodule_strategy vars of
        SubNone \<Rightarrow> Inr []
      | SubNormal \<Rightarrow> submodule_stage gi vars dest False
      | SubRecursive \<Rightarrow> submodule_stage gi vars dest True)"

definition sync_commands ::
  "git_info \<Rightarrow> variable list \<Rightarrow> string \<Rightarrow> bool \<Rightarrow> (string, string list list) result" where
  "sync_commands gi vars dest existing =
     rbind (validate_git_info gi) (\<lambda>_.
       let commands = (if existing then existing_commands dest else []) @
             [init_command gi dest, remote_command gi dest, fetch_command gi vars dest] @
             checkout_stage gi vars dest existing
       in rbind (submodule_commands gi vars dest) (\<lambda>sub. Inr (commands @ sub)))"

definition checkout_commands :: "git_info \<Rightarrow> variable list \<Rightarrow> string \<Rightarrow> (string, string list list) result" where
  "checkout_commands gi vars dest = sync_commands gi vars dest False"

definition update_commands :: "git_info \<Rightarrow> variable list \<Rightarrow> string \<Rightarrow> (string, string list list) result" where
  "update_commands gi vars dest = sync_commands gi vars dest True"

text \<open>The script of \<open>checkout_script\<close> around the reuse of an earlier checkout.\<close>

definition reuse_header :: "string \<Rightarrow> string list list \<Rightarrow> string" where
  "reuse_header dest update =
     (let git_dir = quote (dest @ ''/.git'') in
      ''updated=0'' @ [nl] @
      ''if [ -d '' @ git_dir @ '' ] && [ ! -e '' @ git_dir @ ''/modules ]; then'' @ [nl] @
      ''echo '' @ [sq] @ ''Reusing the checkout of an earlier job'' @ [sq] @ [nl] @
      ''if '' @ join '' && '' (map argv_line update) @ ''; then updated=1; else echo '' @ [sq] @
      ''WARNING: Updating the earlier checkout failed, cloning again'' @ [sq] @ ''; fi'' @ [nl] @
      ''fi'' @ [nl] @
      ''if [ '' @ [dq] @ ''$updated'' @ [dq] @ '' = 0 ]; then'' @ [nl])"

definition script_lines :: "string list list \<Rightarrow> string" where
  "script_lines commands = concat (map (\<lambda>argv. argv_line argv @ [nl]) commands)"

definition can_reuse :: "variable list \<Rightarrow> git_strategy \<Rightarrow> bool" where
  "can_reuse vars st \<longleftrightarrow> st = GitFetch \<and> get_submodule_strategy vars = SubNone"

definition checkout_script ::
  "git_info \<Rightarrow> variable list \<Rightarrow> string \<Rightarrow> git_strategy \<Rightarrow> (string, string) result" where
  "checkout_script gi vars dest st =
     rbind (checkout_commands gi vars dest) (\<lambda>fresh.
       let wipe = [''rm'', ''-rf'', dest];
           body = script_lines (wipe # fresh)
       in if can_reuse vars st
          then rbind (update_commands gi vars dest) (\<lambda>update.
                 Inr (reuse_header dest update @ body @ ''fi'' @ [nl]))
          else Inr body)"

section \<open>Lemmas\<close>

lemma validate_git_info_Inr:
  "validate_git_info gi = Inr u \<longleftrightarrow>
     is_commit_sha (gi_sha gi) \<and> \<not> starts_with (gi_repo_url gi) ''-'' \<and>
     (\<forall>r \<in> set (gi_refspecs gi). \<not> starts_with r ''-'')"
  by (auto simp: validate_git_info_def find_None_iff find_Some_iff split: option.splits)

lemma commit_sha_no_dash: "is_commit_sha sha \<Longrightarrow> \<not> starts_with sha ''-''"
  by (cases sha) (auto simp: is_commit_sha_def starts_with_def ascii_defs)

lemma fetch_refs_no_dash:
  "validate_git_info gi = Inr u \<Longrightarrow> list_all (\<lambda>r. \<not> starts_with r ''-'') (fetch_refs gi)"
  by (auto simp: validate_git_info_Inr fetch_refs_def list_all_iff commit_sha_no_dash)

lemma sync_commands_Inr:
  "sync_commands gi vars dest existing = Inr cmds \<longleftrightarrow>
     validate_git_info gi = Inr () \<and>
     (\<exists>sub. submodule_commands gi vars dest = Inr sub \<and>
        cmds = (if existing then existing_commands dest else []) @
             [init_command gi dest, remote_command gi dest, fetch_command gi vars dest] @
             checkout_stage gi vars dest existing @ sub)"
  by (auto simp: sync_commands_def rbind_Inr_conv Let_def)

lemma sync_commands_Inl:
  "sync_commands gi vars dest existing = Inl e \<longleftrightarrow>
     validate_git_info gi = Inl e \<or>
     (validate_git_info gi = Inr () \<and> submodule_commands gi vars dest = Inl e)"
  by (auto simp: sync_commands_def rbind_Inl_conv Let_def)

section \<open>Properties\<close>

definition sample_git :: git_info where
  "sample_git = \<lparr>gi_repo_url = ''https://h/r.git'', gi_ref_name = ''main'', gi_ref_type = ''branch'',
     gi_sha = replicate 40 (CHR ''a''), gi_before_sha = [], gi_depth = Some 20,
     gi_refspecs = [''+refs/heads/main''], gi_repo_object_format = None, gi_protected = None\<rparr>"

lemma sample_git_valid: "validate_git_info sample_git = Inr ()"
proof -
  have "gi_sha sample_git = replicate 40 (CHR ''a'')" by (simp add: sample_git_def)
  moreover have "is_commit_sha (replicate 40 (CHR ''a''))"
    unfolding is_commit_sha_def by (auto simp: list_all_iff ascii_defs)
  ultimately have "is_commit_sha (gi_sha sample_git)" by simp
  then show ?thesis
    unfolding validate_git_info_Inr by (simp add: sample_git_def starts_with_def)
qed

lemma sample_git_sync:
  "sync_commands sample_git [] ''/b'' existing =
     Inr ((if existing then existing_commands ''/b'' else []) @
       [init_command sample_git ''/b'', remote_command sample_git ''/b'',
        fetch_command sample_git [] ''/b''] @ checkout_stage sample_git [] ''/b'' existing)"
  by (simp add: sync_commands_def sample_git_valid submodule_commands_def
      get_submodule_strategy_def git_variable_def last_variable_def rfind_def)



text \<open>Updating an earlier job's checkout first deletes its locks and its git config, then its
  hooks, and only then runs git; from there it runs exactly the commands of a fresh checkout, with
  \<open>git clean\<close> (when cleaning is on) right after the checkout, the fourth of them. It fails exactly
  as the fresh checkout does.\<close>

theorem update_commands_sanitise_first:
  "update_commands gi vars dest =
     rbind (checkout_commands gi vars dest) (\<lambda>fresh. Inr (
       [ [''rm'', ''-f'', dest @ ''/.git/index.lock'', dest @ ''/.git/shallow.lock'',
          dest @ ''/.git/HEAD.lock'', dest @ ''/.git/config.lock'', dest @ ''/.git/config''],
         [''rm'', ''-rf'', dest @ ''/.git/hooks''] ] @
       take 4 fresh @
       (if wants_checkout vars \<and> clean_flags vars \<noteq> ''none''
        then [git_argv dest ([''clean'', ''-q''] @ split_whitespace (clean_flags vars))] else []) @
       drop 4 fresh))"
proof -
  have "existing_commands dest =
      [ [''rm'', ''-f'', dest @ ''/.git/index.lock'', dest @ ''/.git/shallow.lock'',
         dest @ ''/.git/HEAD.lock'', dest @ ''/.git/config.lock'', dest @ ''/.git/config''],
        [''rm'', ''-rf'', dest @ ''/.git/hooks''] ]"
    by (simp add: existing_commands_def)
  then show ?thesis
    by (cases "validate_git_info gi"; cases "submodule_commands gi vars dest")
      (auto simp: update_commands_def checkout_commands_def sync_commands_def checkout_stage_def
        clean_commands_def git_argv_def eval_nat_numeral)
qed



text \<open>The checkout script fails only as the fresh checkout does. It wipes the directory and
  runs the fresh checkout; with the fetch strategy and no submodules this is the fallback after
  trying to update an earlier checkout.\<close>

theorem checkout_script_branches:
  "checkout_script gi vars dest st =
     (case checkout_commands gi vars dest of
        Inl e \<Rightarrow> Inl e
      | Inr fresh \<Rightarrow>
          Inr (let body = script_lines ([''rm'', ''-rf'', dest] # fresh) in
               if st = GitFetch \<and> get_submodule_strategy vars = SubNone
               then reuse_header dest (projr (update_commands gi vars dest)) @ body @ ''fi'' @ [nl]
               else body))"
proof (cases "checkout_commands gi vars dest")
  case (Inr fresh)
  then have "\<not> (\<exists>e. update_commands gi vars dest = Inl e)"
    by (auto simp: update_commands_def checkout_commands_def sync_commands_Inl sync_commands_Inr)
  then obtain up where "update_commands gi vars dest = Inr up"
    by (cases "update_commands gi vars dest") auto
  with Inr show ?thesis by (simp add: checkout_script_def can_reuse_def Let_def)
qed (simp add: checkout_script_def)

end
