(* ===== verification/Duration.thy ===== *)
theory Duration
  imports Complex_Main Prelude
begin

text \<open>
  Go durations (\<open>parse_duration\<close> of \<open>src/runner_daemon/script.rs\<close>) and the token reset time
  (\<open>src/runner_daemon/token.rs\<close>), which compute in \<open>f64\<close>. Only finite values from zero up and
  positive infinity occur there: a value is the exact rational it stands for, \<open>None\<close> is infinity,
  and every operation rounds its exact result to the nearest double, ties to even.
\<close>

section \<open>Doubles\<close>

type_synonym f64 = "rat option"

definition pow2 :: "int \<Rightarrow> rat" where
  "pow2 e = (if e \<ge> 0 then 2 ^ nat e else 1 / 2 ^ nat (- e))"

fun bits :: "nat \<Rightarrow> nat" where
  "bits n = (if n = 0 then 0 else bits (n div 2) + 1)"

declare bits.simps [simp del]

text \<open>The binary exponent of a positive rational.\<close>

definition f64_exp :: "rat \<Rightarrow> int" where
  "f64_exp x =
     (let (n, d) = quotient_of x; e = int (bits (nat n)) - int (bits (nat d))
      in if pow2 e \<le> x then e else e - 1)"

definition round_half_even :: "rat \<Rightarrow> int" where
  "round_half_even x =
     (let f = \<lfloor>x\<rfloor>; d = x - of_int f in
      if d < 1 / 2 then f else if d > 1 / 2 then f + 1 else if even f then f else f + 1)"

definition f64_round :: "rat \<Rightarrow> f64" where
  "f64_round x =
     (if x \<le> 0 then Some 0
      else
        (let ulp = pow2 (max (f64_exp x) (-1022) - 52);
             r = of_int (round_half_even (x / ulp)) * ulp
         in if r < pow2 1024 then Some r else None))"

definition f64_mult :: "f64 \<Rightarrow> f64 \<Rightarrow> f64" where
  "f64_mult a b = (case (a, b) of (Some x, Some y) \<Rightarrow> f64_round (x * y) | _ \<Rightarrow> None)"

definition f64_add :: "f64 \<Rightarrow> f64 \<Rightarrow> f64" where
  "f64_add a b = (case (a, b) of (Some x, Some y) \<Rightarrow> f64_round (x + y) | _ \<Rightarrow> None)"

text \<open>
  \<open>str::parse::<f64>\<close> on text of digits and dots, all that the callers pass: at least one digit, at
  most one dot.
\<close>

definition parse_f64 :: "string \<Rightarrow> f64 option" where
  "parse_f64 s =
     (case split_on (CHR ''.'') s of
        [ip] \<Rightarrow>
          if ip = [] then None else Some (f64_round (of_nat (digits_val ip)))
      | [ip, fp] \<Rightarrow>
          if ip = [] \<and> fp = [] then None
          else Some (f64_round (of_nat (digits_val (ip @ fp)) / 10 ^ length fp))
      | _ \<Rightarrow> None)"

section \<open>Durations\<close>

text \<open>Durations are nanoseconds. \<open>Duration::try_from_secs_f64\<close> rounds to the nearest one.\<close>

definition try_from_secs_f64 :: "f64 \<Rightarrow> nat option" where
  "try_from_secs_f64 t =
     (case t of
        None \<Rightarrow> None
      | Some x \<Rightarrow> if x \<ge> pow2 64 then None else Some (nat (round_half_even (x * of_nat nanos))))"

definition duration_char :: "char \<Rightarrow> bool" where
  "duration_char c \<longleftrightarrow> is_ascii_digit c \<or> c = CHR ''.''"

definition micro_sign :: string where
  "micro_sign = [char_of (194 :: nat), char_of (181 :: nat)]"

definition unit_seconds :: "string \<Rightarrow> rat option" where
  "unit_seconds u =
     (if u = ''h'' then Some 3600 else if u = ''m'' then Some 60 else if u = ''s'' then Some 1
      else if u = ''ms'' then f64_round (1 / 1000)
      else if u = ''us'' \<or> u = micro_sign @ ''s'' then f64_round (1 / 1000000)
      else if u = ''ns'' then f64_round (1 / 1000000000) else None)"

lemma dropWhile_shorter: "s \<noteq> [] \<Longrightarrow> takeWhile P s \<noteq> [] \<Longrightarrow> length (dropWhile P s) < length s"
  by (metis dropWhile_eq_self_iff length_append length_greater_0_conv less_add_same_cancel2
      takeWhile_dropWhile_id)

function duration_sum :: "string \<Rightarrow> f64 \<Rightarrow> f64 option" where
  "duration_sum rest acc =
     (if rest = [] then Some acc
      else
        (let num = takeWhile duration_char rest; rest1 = dropWhile duration_char rest;
             u = takeWhile (\<lambda>c. \<not> duration_char c) rest1;
             rest2 = dropWhile (\<lambda>c. \<not> duration_char c) rest1 in
         case parse_f64 num of
           None \<Rightarrow> None
         | Some n \<Rightarrow>
             (case unit_seconds u of
                None \<Rightarrow> None
              | Some s \<Rightarrow> duration_sum rest2 (f64_add acc (f64_mult n (Some s))))))"
  by pat_completeness auto

termination
proof (relation "measure (\<lambda>(rest, acc). length rest)")
  fix rest :: string and acc num rest1 u rest2 n s
  assume a: "rest \<noteq> []" "num = takeWhile duration_char rest" "rest1 = dropWhile duration_char rest"
    "u = takeWhile (\<lambda>c. \<not> duration_char c) rest1" "rest2 = dropWhile (\<lambda>c. \<not> duration_char c) rest1"
    "unit_seconds u = Some s"
  have "u \<noteq> []" using a(6) by (auto simp: unit_seconds_def micro_sign_def)
  then have "length rest2 < length rest1" using a(4,5) dropWhile_shorter by (cases "rest1 = []") auto
  moreover have "length rest1 \<le> length rest" using a(3) by (simp add: length_dropWhile_le)
  ultimately show "((rest2, f64_add acc (f64_mult n (Some s))), rest, acc) \<in>
      measure (\<lambda>(rest, acc). length rest)" by simp
qed auto

declare duration_sum.simps [simp del]

definition parse_duration :: "string \<Rightarrow> nat option" where
  "parse_duration s =
     (if s = ''0'' then Some 0
      else if s = [] then None
      else Option.bind (duration_sum s (Some 0)) try_from_secs_f64)"

section \<open>The token reset time\<close>

text \<open>\<open>reset_time\<close>; the difference of two times is taken not to overflow.\<close>

definition RESET_FACTOR :: rat where "RESET_FACTOR = 3 / 4"

definition reset_time :: "int \<Rightarrow> int \<Rightarrow> int" where
  "reset_time obtained_at expires_at =
     (let lifetime = max (expires_at - obtained_at) 0 in
      case f64_mult (f64_round (of_int lifetime)) (Some RESET_FACTOR) of
        Some x \<Rightarrow> obtained_at + \<lfloor>x\<rfloor>
      | None \<Rightarrow> obtained_at)"

section \<open>Exactness\<close>

lemma pow2_pos: "0 < pow2 e"
  by (simp add: pow2_def)

lemma pow2_powi: "pow2 e = 2 powi e"
  by (simp add: pow2_def power_int_def power_one_over inverse_eq_divide)

lemma pow2_add: "pow2 (a + b) = pow2 a * pow2 b"
  by (simp add: pow2_powi power_int_add)

lemma pow2_less: "pow2 a < pow2 b \<longleftrightarrow> a < b"
proof -
  have "a < b \<Longrightarrow> pow2 a < pow2 b" for a b
    unfolding pow2_powi by (rule power_int_strict_increasing) simp_all
  from this[of a b] this[of b a] show ?thesis by (cases a b rule: linorder_cases) auto
qed

lemma bits_bounds: "n > 0 \<Longrightarrow> 2 ^ (bits n - 1) \<le> n \<and> n < 2 ^ bits n \<and> bits n > 0"
proof (induction n rule: bits.induct)
  case (1 n)
  have b: "bits n = bits (n div 2) + 1" using "1.prems" by (subst bits.simps) simp
  show ?case
  proof (cases "n div 2 = 0")
    case True
    then have "n = 1" using "1.prems" by auto
    then show ?thesis by (simp add: bits.simps)
  next
    case False
    then have ih: "2 ^ (bits (n div 2) - 1) \<le> n div 2" "n div 2 < 2 ^ bits (n div 2)"
        "bits (n div 2) > 0" using 1 by auto
    obtain k where k: "bits (n div 2) = Suc k" using ih(3) gr0_conv_Suc by blast
    then show ?thesis using ih b by auto
  qed
qed

text \<open>The exponent is not too large.\<close>

lemma f64_exp_le: "x > 0 \<Longrightarrow> pow2 (f64_exp x) \<le> x"
proof -
  assume x: "x > 0"
  obtain n d where q: "quotient_of x = (n, d)" by fastforce
  then have d: "d > 0" and nd: "x = of_int n / of_int d"
    using quotient_of_denom_pos quotient_of_div by blast+
  then have n: "n > 0" using x by (simp add: zero_less_divide_iff)
  define bn bd where "bn = bits (nat n)" and "bd = bits (nat d)"
  have "2 ^ (bn - 1) \<le> nat n" "bn > 0" using bits_bounds[of "nat n"] n by (auto simp: bn_def)
  then have "(2::rat) ^ (bn - 1) \<le> of_nat (nat n)" by (metis of_nat_le_iff of_nat_numeral of_nat_power)
  then have N: "pow2 (int bn - 1) \<le> of_int n"
    using n \<open>bn > 0\<close> by (simp add: pow2_def nat_diff_distrib)
  have "nat d < 2 ^ bd" using bits_bounds[of "nat d"] d by (auto simp: bd_def)
  then have "of_nat (nat d) < (2::rat) ^ bd" by (metis of_nat_less_iff of_nat_numeral of_nat_power)
  then have D: "of_int d < pow2 (int bd)" using d by (simp add: pow2_def)
  have "pow2 (int bn - int bd - 1) * pow2 (int bd) = pow2 (int bn - 1)"
    by (simp flip: pow2_add)
  also have "\<dots> \<le> x * of_int d" using N nd d by simp
  also have "\<dots> \<le> x * pow2 (int bd)" using D x by simp
  finally have "pow2 (int bn - int bd - 1) \<le> x" using pow2_pos by (simp add: mult_le_cancel_right)
  then show ?thesis using q by (simp add: f64_exp_def Let_def bn_def bd_def)
qed

lemma round_half_even_int [simp]: "round_half_even (of_int n) = n"
  by (simp add: round_half_even_def Let_def)

text \<open>An integer of at most 53 bits times a power of two is a double: it is not rounded.\<close>

lemma f64_round_exact:
  assumes "0 \<le> m" "m < 2 ^ 53" "-1074 \<le> k" "k \<le> 900"
  shows "f64_round (of_int m * pow2 k) = Some (of_int m * pow2 k)"
proof (cases "m = 0")
  case True
  then show ?thesis by (simp add: f64_round_def)
next
  case False
  define x where "x = of_int m * pow2 k"
  have x: "x > 0" using False assms(1) pow2_pos by (simp add: x_def)
  have "(of_int m :: rat) < 2 ^ 53" using assms(2) by (metis of_int_less_iff of_int_numeral of_int_power)
  then have "x < pow2 53 * pow2 k" unfolding x_def using pow2_pos by (simp add: pow2_def)
  then have up: "x < pow2 (k + 53)" by (simp add: pow2_add mult.commute)
  then have "pow2 (f64_exp x) < pow2 (k + 53)" using f64_exp_le[OF x] by simp
  then have e: "max (f64_exp x) (-1022) - 52 \<le> k" using pow2_less assms(3) by simp
  define u where "u = max (f64_exp x) (-1022) - 52"
  have "x = of_int m * pow2 (k - u) * pow2 u" by (simp add: x_def mult.assoc flip: pow2_add)
  moreover have "pow2 (k - u) = of_int (2 ^ nat (k - u))" using e by (simp add: pow2_def u_def)
  ultimately have "x = of_int (m * 2 ^ nat (k - u)) * pow2 u" by simp
  then have "x / pow2 u = of_int (m * 2 ^ nat (k - u))" using pow2_pos[of u] by (simp add: field_simps)
  then have "of_int (round_half_even (x / pow2 u)) * pow2 u = x"
    using \<open>x = of_int (m * 2 ^ nat (k - u)) * pow2 u\<close> by (metis round_half_even_int)
  moreover have "x < pow2 1024" using up pow2_less[of "k + 53" 1024] assms(4) by simp
  ultimately show ?thesis using x by (simp add: f64_round_def Let_def u_def x_def)
qed

lemma f64_round_int: "0 \<le> m \<Longrightarrow> m < 2 ^ 53 \<Longrightarrow> f64_round (of_int m) = Some (of_int m)"
  using f64_round_exact[of m 0] by (simp add: pow2_def)

lemma f64_round_nat: "n < 2 ^ 53 \<Longrightarrow> f64_round (of_nat n) = Some (of_nat n)"
  using f64_round_int[of "int n"] by simp

text \<open>
  A token is reset after exactly three quarters of its lifetime, rounded down to a second, for
  any lifetime below 2^51 seconds: the computation in floating point loses nothing. It is never
  reset before it was obtained, nor after it expires (when it expires later than obtained).
\<close>

theorem reset_time_exact:
  assumes "expires_at - obtained_at < 2 ^ 51"
  shows "reset_time obtained_at expires_at = obtained_at + (3 * max (expires_at - obtained_at) 0) div 4"
proof -
  define l where "l = max (expires_at - obtained_at) 0"
  have l: "0 \<le> l" "l < 2 ^ 51" using assms by (auto simp: l_def)
  have "f64_round (of_int (3 * l) * pow2 (-2)) = Some (of_int (3 * l) * pow2 (-2))"
    using l by (intro f64_round_exact) auto
  then have "f64_mult (f64_round (of_int l)) (Some RESET_FACTOR) = Some (of_int (3 * l) / 4)"
    using l f64_round_int[of l] by (simp add: f64_mult_def RESET_FACTOR_def pow2_def mult.commute)
  moreover have "\<lfloor>of_int (3 * l) / (4 :: rat)\<rfloor> = (3 * l) div 4"
    using floor_divide_of_int_eq[of "3 * l" 4, where ?'a = rat] by simp
  ultimately show ?thesis by (simp add: reset_time_def l_def)
qed

lemma reset_time_exact_witness: "reset_time 1000 2001 = 1750"
  by (subst reset_time_exact) simp_all

lemma duration_step:
  assumes u: "u \<noteq> []" "list_all (\<lambda>c. \<not> duration_char c) u" "unit_seconds u = Some (of_nat k)" "k > 0"
    and r: "r = [] \<or> duration_char (hd r)" and n: "a + n * k < 2 ^ 53"
  shows "duration_sum (dec n @ u @ r) (Some (of_nat a)) = duration_sum r (Some (of_nat (a + n * k)))"
proof -
  have dec: "\<forall>c \<in> set (dec n). duration_char c"
    using dec_digits[of n] by (auto simp: list_all_iff duration_char_def)
  have "\<not> duration_char (hd u)" using u(1,2) by (cases u) auto
  then have t1: "takeWhile duration_char (dec n @ u @ r) = dec n" "dropWhile duration_char (dec n @ u @ r) = u @ r"
    using dec u(1) by (auto simp: takeWhile_append2 dropWhile_append2 takeWhile_eq_Nil_iff dropWhile_eq_self_iff)
  have nu: "\<forall>c \<in> set u. \<not> duration_char c" using u(2) by (simp add: list_all_iff)
  have t2: "takeWhile (\<lambda>c. \<not> duration_char c) (u @ r) = u" "dropWhile (\<lambda>c. \<not> duration_char c) (u @ r) = r"
    using nu r by (auto simp: takeWhile_append2 dropWhile_append2 takeWhile_eq_Nil_iff dropWhile_eq_self_iff)
  have "n \<le> n * k" using u(4) by (cases k) auto
  then have small: "n < 2 ^ 53" "n * k < 2 ^ 53" using n by linarith+
  have "CHR ''.'' \<notin> set (dec n)" using dec_digits[of n] by (auto simp: list_all_iff is_ascii_digit_def)
  then have p: "parse_f64 (dec n) = Some (Some (of_nat n))"
    using small(1) by (simp add: parse_f64_def split_on_single f64_round_nat)
  have m: "f64_mult (Some (of_nat n)) (Some (of_nat k)) = Some (of_nat (n * k))"
    using f64_round_nat[OF small(2)] by (simp add: f64_mult_def)
  have "f64_add (Some (of_nat a)) (Some (of_nat (n * k))) = Some (of_nat (a + n * k))"
    using f64_round_nat[OF n] by (simp add: f64_add_def)
  then show ?thesis
    using p m u(3) dec_nonempty[of n]
    by (subst duration_sum.simps) (simp only: t1 t2 Let_def append_is_Nil_conv option.simps simp_thms if_False)
qed

text \<open>
  A duration of whole hours, minutes and seconds is read exactly: the floating-point sum loses
  nothing as long as the total is below 2^53 seconds.
\<close>

theorem parse_duration_whole:
  assumes "3600 * h + 60 * m + s < 2 ^ 53"
  shows "parse_duration (dec h @ ''h'' @ dec m @ ''m'' @ dec s @ ''s'') =
    Some ((3600 * h + 60 * m + s) * nanos)"
proof -
  define t where "t = 3600 * h + 60 * m + s"
  have hd: "duration_char (hd (dec k @ r))" for k r
    using dec_hd[of k] dec_nonempty[of k] by (simp add: duration_char_def)
  have c: "\<not> duration_char (CHR ''h'')" "\<not> duration_char (CHR ''m'')" "\<not> duration_char (CHR ''s'')"
    by (simp_all add: duration_char_def is_ascii_digit_def)
  have u: "unit_seconds ''h'' = Some (of_nat 3600)" "unit_seconds ''m'' = Some (of_nat 60)"
      "unit_seconds ''s'' = Some (of_nat 1)" by (simp_all add: unit_seconds_def)
  have "duration_sum (dec h @ ''h'' @ dec m @ ''m'' @ dec s @ ''s'') (Some (of_nat 0)) =
      duration_sum (dec m @ ''m'' @ dec s @ ''s'') (Some (of_nat (0 + h * 3600)))"
    by (rule duration_step) (use assms hd c u in simp_all)
  also have "\<dots> = duration_sum (dec s @ ''s'' @ []) (Some (of_nat (0 + h * 3600 + m * 60)))"
    by (simp only: append_Nil2, rule duration_step) (use assms hd c u in simp_all)
  also have "\<dots> = duration_sum [] (Some (of_nat (0 + h * 3600 + m * 60 + s * 1)))"
    by (rule duration_step) (use assms hd c u in simp_all)
  also have "\<dots> = Some (Some (of_nat t))"
    by (subst duration_sum.simps) (simp add: t_def add.commute mult.commute)
  finally have sum: "duration_sum (dec h @ ''h'' @ dec m @ ''m'' @ dec s @ ''s'') (Some 0) = Some (Some (of_nat t))"
    by simp
  have "(of_nat t :: rat) < 2 ^ 53" using assms by (metis of_nat_less_iff of_nat_numeral of_nat_power t_def)
  then have small: "\<not> (of_nat t :: rat) \<ge> pow2 64" by (simp add: pow2_def)
  have "round_half_even (of_nat t * of_nat nanos) = int (t * nanos)"
    using round_half_even_int[of "int (t * nanos)"] by simp
  then have "try_from_secs_f64 (Some (of_nat t)) = Some (t * nanos)"
    using small by (simp add: try_from_secs_f64_def flip: of_nat_mult)
  then show ?thesis using sum by (auto simp: parse_duration_def t_def)
qed

lemma parse_duration_whole_witness:
  "parse_duration (dec 1 @ ''h'' @ dec 30 @ ''m'' @ dec 0 @ ''s'') = Some (5400 * nanos)"
  by (subst parse_duration_whole) simp_all

end
