(* ===== verification/Executor.thy ===== *)
theory Executor
  imports Trace Git Duration
begin

text \<open>
  How a job runs (\<open>src/runner_daemon/executor.rs\<close>): its workspace, getting the sources with the
  hooks around it, the steps with their timeouts and cancellation, and what is left in the
  workspace afterwards. What differs between executors is how a script is run: the argument
  \<open>run\<close>, whose contract is the locale \<open>script_runner\<close> (its providers are in \<open>Runners\<close>). The state is
  the trace writer and the outside world; the job's cancellation signal is the writer's.
\<close>

section \<open>Types and constants\<close>

definition DEFAULT_JOB_TIMEOUT :: nat where "DEFAULT_JOB_TIMEOUT = 3600 * nanos"
definition DEFAULT_AFTER_SCRIPT_TIMEOUT :: nat where "DEFAULT_AFTER_SCRIPT_TIMEOUT = 300 * nanos"
definition DOCKER_BUILDS_ROOT :: string where "DOCKER_BUILDS_ROOT = ''/tmp/turboci-builds''"
definition LAST_USED :: string where "LAST_USED = ''.turboci-last-used''"

text \<open>The largest \<open>Instant\<close>; \<open>checked_add\<close> fails beyond it.\<close>

definition INSTANT_MAX :: nat where "INSTANT_MAX = i64_max * nanos + (nanos - 1)"

definition checked_add :: "nat \<Rightarrow> nat \<Rightarrow> nat option" where
  "checked_add t d = (if t + d \<le> INSTANT_MAX then Some (t + d) else None)"

record job_failure =
  jf_reason :: failure_reason
  jf_exit_code :: "int option"
  jf_message :: string

definition system_failure :: "string \<Rightarrow> job_failure" where
  "system_failure m = \<lparr>jf_reason = RunnerSystemFailure, jf_exit_code = None, jf_message = m\<rparr>"

type_synonym job_outcome = "job_failure option"

text \<open>\<open>None\<close> is success.\<close>

datatype run_status = Exited int | TimedOut | WasCanceled

record limits =
  lm_deadline :: nat
  lm_stop_at :: remote_state

datatype run_error = RunTimedOut | RunCanceled | RunFailed job_failure

type_synonym 'w state = "trace_writer \<times> 'w"

type_synonym 'w runner =
  "string \<Rightarrow> string \<Rightarrow> limits \<Rightarrow> 'w state \<Rightarrow> (chain, run_status) result \<times> 'w state"

record job_dirs =
  jd_builds :: string
  jd_project :: string

section \<open>Workspaces\<close>

definition job_project :: "job \<Rightarrow> nat" where
  "job_project j = (case job_job_info j of Some info \<Rightarrow> ji_project_id info | None \<Rightarrow> 0)"

definition workspace :: "job \<Rightarrow> string \<times> bool" where
  "workspace j =
     (case Option.bind (job_git_info j) gi_protected of
        Some protected \<Rightarrow>
          (''project-'' @ dec (job_project j) @ ''-'' @ dec (job_project_slot j) @
             (if protected then ''-protected'' else []), True)
      | None \<Rightarrow> (''job-'' @ dec (job_id j), False))"

definition job_dir :: "string \<Rightarrow> job \<Rightarrow> string" where
  "job_dir builds_root j = path_join builds_root (fst (workspace j))"

definition variables_dir :: "string \<Rightarrow> job \<Rightarrow> string" where
  "variables_dir dir j = path_join dir (subdir_or_project j @ ''.tmp'')"

text \<open>
  \<open>remove_dir_all\<close> is the argument \<open>rm\<close>: no error, nothing there, or another error.
\<close>

datatype rm_result = Removed | NotFound | RmFailed

definition remove_dir :: "(string \<Rightarrow> 'w \<Rightarrow> rm_result \<times> 'w) \<Rightarrow> string \<Rightarrow> 'w \<Rightarrow> bool \<times> 'w" where
  "remove_dir rm dir w = (case rm dir w of (r, w') \<Rightarrow> (r = Removed, w'))"

definition prepare ::
  "(string \<Rightarrow> 'w \<Rightarrow> (string, unit) result \<times> 'w) \<Rightarrow> (string \<Rightarrow> 'w \<Rightarrow> (string, unit) result \<times> 'w) \<Rightarrow>
     (string \<Rightarrow> 'w \<Rightarrow> rm_result \<times> 'w) \<Rightarrow> string \<Rightarrow> job \<Rightarrow> 'w \<Rightarrow> (string, unit) result \<times> 'w" where
  "prepare mkdirs write_empty rm builds_root j w =
     (let dir = job_dir builds_root j in
      case mkdirs dir w of
        (Inl e, w1) \<Rightarrow> (Inl e, w1)
      | (Inr (), w1) \<Rightarrow>
          (case write_empty (path_join dir LAST_USED) w1 of
             (Inl e, w2) \<Rightarrow> (Inl e, w2)
           | (Inr (), w2) \<Rightarrow> (Inr (), snd (remove_dir rm (variables_dir dir j) w2))))"

definition cleanup ::
  "(string \<Rightarrow> 'w \<Rightarrow> rm_result \<times> 'w) \<Rightarrow> string \<Rightarrow> job \<Rightarrow> bool \<Rightarrow> 'w \<Rightarrow> 'w" where
  "cleanup rm builds_root j keep_workspace w =
     (let dir = job_dir builds_root j in
      if keep_workspace \<and> snd (workspace j)
      then snd (remove_dir rm (variables_dir dir j) w)
      else snd (remove_dir rm dir w))"

text \<open>
  \<open>evict_workspaces\<close>: an entry of the builds root with its type, the time of its marker file and
  its own time (\<open>None\<close>: not readable), in nanoseconds. The result lists what was removed.
\<close>

record dir_entry =
  de_path :: string
  de_is_dir :: bool
  de_marker :: "nat option option"
  de_modified :: "nat option"

definition entry_idle :: "nat \<Rightarrow> dir_entry \<Rightarrow> nat" where
  "entry_idle now e =
     (case (case de_marker e of Some used \<Rightarrow> used | None \<Rightarrow> de_modified e) of
        Some used \<Rightarrow> if used \<le> now then now - used else 0
      | None \<Rightarrow> 0)"

fun evict_entries ::
  "(string \<Rightarrow> 'w \<Rightarrow> rm_result \<times> 'w) \<Rightarrow> nat \<Rightarrow> nat \<Rightarrow> string set \<Rightarrow> dir_entry list \<Rightarrow> 'w \<Rightarrow> string list \<times> 'w" where
  "evict_entries rm now max_age in_use [] w = ([], w)"
| "evict_entries rm now max_age in_use (e # es) w =
     (if de_path e \<in> in_use \<or> \<not> de_is_dir e then evict_entries rm now max_age in_use es w
      else if entry_idle now e > max_age then
        (case remove_dir rm (de_path e) w of
           (removed, w1) \<Rightarrow>
             (case evict_entries rm now max_age in_use es w1 of
                (rest, w2) \<Rightarrow> ((if removed then de_path e # rest else rest), w2)))
      else evict_entries rm now max_age in_use es w)"

definition NO_REPO_COMMANDS :: "string list" where
  "NO_REPO_COMMANDS = [''-c'', ''core.fsmonitor=false'', ''-c'', ''core.hooksPath=/dev/null'']"

text \<open>The untracked files git printed, one after another with a NUL byte between.\<close>

definition untracked_list :: "string \<Rightarrow> string list" where
  "untracked_list output = filter (\<lambda>p. p \<noteq> []) (split_on (char_of (0 :: nat)) output)"

section \<open>Variables and hooks\<close>

definition variable_value :: "job \<Rightarrow> string \<Rightarrow> string option" where
  "variable_value j key = last_variable key (job_variables j)"

definition hook_lines :: "job \<Rightarrow> string \<Rightarrow> string list" where
  "hook_lines j name =
     filter_map json_str
       (concat (filter_map (\<lambda>hook. json_arr (json_index hook ''script''))
          (filter (\<lambda>hook. json_index hook ''name'' = JStr name) (job_hooks j))))"

definition write_variable_files ::
  "(string \<Rightarrow> 'w \<Rightarrow> (string, unit) result \<times> 'w) \<Rightarrow> (string \<Rightarrow> string \<Rightarrow> 'w \<Rightarrow> (string, unit) result \<times> 'w) \<Rightarrow>
     (string \<times> string) list \<Rightarrow> 'w \<Rightarrow> (chain, unit) result \<times> 'w" where
  "write_variable_files mkparent write_file files w =
     foldl (\<lambda>(r, w) (path, content).
       case r of
         Inl e \<Rightarrow> (Inl e, w)
       | Inr () \<Rightarrow>
           (case mkparent path w of
              (Inl e, w1) \<Rightarrow> (Inl [e], w1)
            | (Inr (), w1) \<Rightarrow>
                (case write_file path content w1 of
                   (Inl e, w2) \<Rightarrow> (Inl [''Failed to write variable file '' @ path, e], w2)
                 | (Inr (), w2) \<Rightarrow> (Inr (), w2))))
       (Inr (), w) files"

text \<open>\<open>run_hook\<close>. An error of the runner itself fails the job as a system failure.\<close>

definition script_failure :: "int \<Rightarrow> string \<Rightarrow> job_failure" where
  "script_failure code m = \<lparr>jf_reason = ScriptFailure, jf_exit_code = Some code, jf_message = m\<rparr>"

definition run_hook ::
  "'w http \<Rightarrow> 'w runner \<Rightarrow> job \<Rightarrow> string \<Rightarrow> string \<Rightarrow> limits \<Rightarrow> 'w state \<Rightarrow>
     (run_error, unit) result \<times> 'w state" where
  "run_hook io run j name dir lm st =
     (let ls = hook_lines j name in
      if ls = [] then (Inr (), st)
      else
        (case run (step_script ls) dir lm (trace_write io (''Running '' @ name @ [nl]) st) of
           (Inr (Exited code), st') \<Rightarrow>
             ((if code = 0 then Inr ()
               else Inl (RunFailed (script_failure code
                 (name @ '' failed with exit code '' @ dec_int code)))), st')
         | (Inr TimedOut, st') \<Rightarrow> (Inl RunTimedOut, st')
         | (Inr WasCanceled, st') \<Rightarrow> (Inl RunCanceled, st')
         | (Inl e, st') \<Rightarrow> (Inl (RunFailed (system_failure (full_chain e))), st')))"

section \<open>Getting the sources\<close>

text \<open>\<open>sha.chars().take(n)\<close>\<close>

fun take_chars :: "nat \<Rightarrow> string \<Rightarrow> string" where
  "take_chars n [] = []"
| "take_chars n (c # s) =
     (if is_cont c then c # take_chars n s
      else (case n of 0 \<Rightarrow> [] | Suc m \<Rightarrow> c # take_chars m s))"

definition lfs_script :: "string \<Rightarrow> string" where
  "lfs_script project =
     (let dest = quote project; safe = quote (''safe.directory='' @ project) in
      ''if git lfs version >/dev/null 2>&1 && [ -d '' @ dest @ ''/.git ]; then git -c '' @ safe @
      '' -C '' @ dest @ '' lfs pull; fi'' @ [nl])"

definition sources_script :: "job \<Rightarrow> git_info \<Rightarrow> string \<Rightarrow> (string, string) result" where
  "sources_script j gi project =
     (let st = strategy (job_variables j) (job_allow_git_fetch j) in
      if st = GitEmpty then
        Inr (argv_script [[''rm'', ''-rf'', project], [''mkdir'', ''-p'', project]])
      else rbind (checkout_script gi (job_variables j) project st)
        (\<lambda>body. Inr (argv_script [] @ body)))"

definition fetch_script :: "job \<Rightarrow> string \<Rightarrow> string \<Rightarrow> string" where
  "fetch_script j project sources =
     ''umask 0000'' @ [nl] @ ''export GIT_LFS_SKIP_SMUDGE=1'' @ [nl] @ sources @
     (if strategy (job_variables j) (job_allow_git_fetch j) \<in> {GitFetch, GitClone} \<and>
         variable_value j ''GIT_LFS_SKIP_SMUDGE'' \<noteq> Some ''1''
      then lfs_script project else [])"

definition get_sources_attempts :: "job \<Rightarrow> nat" where
  "get_sources_attempts j =
     (let n = (case Option.bind (variable_value j ''GET_SOURCES_ATTEMPTS'') parse_u32 of
                 Some n \<Rightarrow> n | None \<Rightarrow> 1)
      in max 1 (min 10 n))"

fun checkout_attempts ::
  "'w http \<Rightarrow> 'w runner \<Rightarrow> job_dirs \<Rightarrow> string \<Rightarrow> limits \<Rightarrow> nat \<Rightarrow> nat list \<Rightarrow> 'w state \<Rightarrow>
     (run_error, unit) result \<times> 'w state" where
  "checkout_attempts io run dirs script lm attempts [] st = (Inr (), st)"
| "checkout_attempts io run dirs script lm attempts (attempt # later) st =
     (case run script (jd_builds dirs) lm st of
        (Inr (Exited code), st1) \<Rightarrow>
          if code = 0 then (Inr (), st1)
          else if attempt < attempts then
            (let st2 = trace_write io (''WARNING: getting sources failed with exit code '' @ dec_int code @
                   '' (attempt '' @ dec attempt @ ''/'' @ dec attempts @ ''), retrying'' @ [nl]) st1;
                 reset = argv_script [[''rm'', ''-rf'', jd_project dirs @ ''/.git'']];
                 st3 = snd (run reset (jd_builds dirs) lm st2)
             in checkout_attempts io run dirs script lm attempts later st3)
          else (Inl (RunFailed (script_failure code
                  (''getting sources failed with exit code '' @ dec_int code))), st1)
      | (Inr TimedOut, st1) \<Rightarrow> (Inl RunTimedOut, st1)
      | (Inr WasCanceled, st1) \<Rightarrow> (Inl RunCanceled, st1)
      | (Inl e, st1) \<Rightarrow> (Inl (RunFailed (system_failure (full_chain e))), st1))"

definition checkout ::
  "'w http \<Rightarrow> 'w runner \<Rightarrow> job \<Rightarrow> job_dirs \<Rightarrow> limits \<Rightarrow> 'w state \<Rightarrow> (run_error, unit) result \<times> 'w state" where
  "checkout io run j dirs lm st =
     (case job_git_info j of
        None \<Rightarrow> (Inr (), st)
      | Some gi \<Rightarrow>
          if strategy (job_variables j) (job_allow_git_fetch j) = GitNone then
            (Inr (), trace_write io (''Skipping Git repository setup'' @ [nl]) st)
          else
            (case sources_script j gi (jd_project dirs) of
               Inl e \<Rightarrow> (Inl (RunFailed (system_failure e)), st)
             | Inr sources \<Rightarrow>
                 (let st1 = trace_write io (''Fetching changes...'' @ [nl] @ ''Checking out '' @
                        take_chars 8 (gi_sha gi) @ '' as detached HEAD (ref is '' @ gi_ref_name gi @
                        '')...'' @ [nl]) st;
                      n = get_sources_attempts j
                  in checkout_attempts io run dirs (fetch_script j (jd_project dirs) sources) lm n
                       [1..<n + 1] st1)))"

definition get_sources ::
  "'w http \<Rightarrow> 'w runner \<Rightarrow> job \<Rightarrow> job_dirs \<Rightarrow> limits \<Rightarrow> 'w state \<Rightarrow> (run_error, unit) result \<times> 'w state" where
  "get_sources io run j dirs lm st =
     (case run_hook io run j ''pre_get_sources_script'' (jd_builds dirs) lm st of
        (Inl e, st1) \<Rightarrow> (Inl e, st1)
      | (Inr _, st1) \<Rightarrow>
          (case checkout io run j dirs lm st1 of
             (Inl e, st2) \<Rightarrow> (Inl e, st2)
           | (Inr _, st2) \<Rightarrow>
               run_hook io run j ''post_get_sources_script'' (jd_project dirs) lm st2))"

section \<open>The steps\<close>

text \<open>\<open>stage_timeout\<close>: a zero duration counts as none.\<close>

definition stage_timeout :: "'w http \<Rightarrow> job \<Rightarrow> string \<Rightarrow> 'w state \<Rightarrow> nat option \<times> 'w state" where
  "stage_timeout io j key st =
     (case variable_value j key of
        None \<Rightarrow> (None, st)
      | Some v \<Rightarrow>
          (let raw = trim v in
           if raw = [] then (None, st)
           else
             (case parse_duration raw of
                Some t \<Rightarrow> ((if t = 0 then None else Some t), st)
              | None \<Rightarrow> (None, trace_write io (''WARNING: Ignoring malformed '' @ key @ '': '' @
                  debug_str raw @ [nl]) st))))"

definition canceled_failure :: job_failure where
  "canceled_failure = \<lparr>jf_reason = JobCanceled, jf_exit_code = None, jf_message = ''canceled''\<rparr>"

definition timeout_failure :: "nat \<Rightarrow> job_failure" where
  "timeout_failure timeout = \<lparr>jf_reason = JobExecutionTimeout, jf_exit_code = None,
     jf_message = ''execution took longer than '' @ dec (timeout div nanos) @ ''s''\<rparr>"

definition get_or_insert :: "job_outcome \<Rightarrow> job_failure \<Rightarrow> job_outcome" where
  "get_or_insert failure f = (case failure of None \<Rightarrow> Some f | Some g \<Rightarrow> Some g)"

text \<open>What the step loop has fixed before it starts.\<close>

record step_times =
  tm_timeout :: nat
  tm_deadline :: nat
  tm_script_deadline :: nat
  tm_after_script :: "nat option"

definition is_after_script :: "step \<Rightarrow> bool" where
  "is_after_script s \<longleftrightarrow> step_name s = ''after_script''"

definition step_lines :: "step \<Rightarrow> string list" where
  "step_lines s = step_before_script s @ step.step_script s"

definition should_run :: "step \<Rightarrow> job_outcome \<Rightarrow> bool" where
  "should_run s failure =
     (if step_when s = ''always'' then True
      else if step_when s = ''on_failure'' then failure \<noteq> None else failure = None)"

definition step_limits :: "step_times \<Rightarrow> step \<Rightarrow> nat \<Rightarrow> limits" where
  "step_limits tm s now =
     (if is_after_script s then
        (let wanted = (case tm_after_script tm of
                Some t \<Rightarrow> t
              | None \<Rightarrow> if step_timeout s > 0 then step_timeout s * nanos
                       else DEFAULT_AFTER_SCRIPT_TIMEOUT);
             cap = max (tm_deadline tm) (now + DEFAULT_AFTER_SCRIPT_TIMEOUT)
         in \<lparr>lm_deadline = (case checked_add now wanted of Some d \<Rightarrow> min d cap | None \<Rightarrow> cap),
             lm_stop_at = Aborted\<rparr>)
      else \<lparr>lm_deadline = tm_script_deadline tm, lm_stop_at = Canceling\<rparr>)"

definition job_status_text :: "job_outcome \<Rightarrow> string" where
  "job_status_text failure =
     (case failure of
        None \<Rightarrow> ''success''
      | Some f \<Rightarrow> if jf_reason f = JobCanceled then ''canceled'' else ''failed'')"

definition step_text :: "job \<Rightarrow> step \<Rightarrow> job_outcome \<Rightarrow> string" where
  "step_text j s failure =
     (let script = step_script (step_lines s);
          traced = (if variable_value j ''CI_DEBUG_TRACE'' = Some ''true''
                    then ''set -x'' @ [nl] @ script else script)
      in if is_after_script s
         then ''export CI_JOB_STATUS='' @ job_status_text failure @ [nl] @ traced else traced)"

definition step_section :: "step \<Rightarrow> string" where
  "step_section s = (if is_after_script s then ''after_script'' else ''step_'' @ step_name s)"

definition step_header :: "step \<Rightarrow> string" where
  "step_header s =
     (if is_after_script s then ''Running after_script''
      else ''Executing '' @ [dq] @ ''step_'' @ step_name s @ [dq] @ '' stage of the job script'')"

text \<open>What the result of a step's script means: a failure, or a warning in the log.\<close>

definition step_result ::
  "nat \<Rightarrow> step \<Rightarrow> (chain, run_status) result \<Rightarrow> job_failure option \<times> string option" where
  "step_result timeout s r =
     (case r of
        Inr (Exited code) \<Rightarrow>
          if code = 0 then (None, None)
          else if step_allow_failure s \<or> is_after_script s then
            (None, Some (''WARNING: '' @ step_name s @ '' failed with exit code '' @ dec_int code @ [nl]))
          else (Some (script_failure code (''exit code '' @ dec_int code)), None)
      | Inr TimedOut \<Rightarrow>
          if is_after_script s then (None, Some (''WARNING: after_script timed out'' @ [nl]))
          else (Some (timeout_failure timeout), None)
      | Inr WasCanceled \<Rightarrow>
          if is_after_script s then (None, Some (''WARNING: after_script canceled'' @ [nl]))
          else (Some canceled_failure, None)
      | Inl e \<Rightarrow>
          if is_after_script s then
            (None, Some (''WARNING: after_script could not run: '' @ outermost e @ [nl]))
          else (Some (system_failure (full_chain e)), None))"

definition run_step ::
  "'w http \<Rightarrow> 'w runner \<Rightarrow> job \<Rightarrow> job_dirs \<Rightarrow> step_times \<Rightarrow> step \<Rightarrow> job_outcome \<Rightarrow> 'w state \<Rightarrow>
     job_outcome \<times> 'w state" where
  "run_step io run j dirs tm s failure st =
     (let st1 = section_start io (step_section s) (step_header s) st;
          lm = step_limits tm s (http_now io (snd st1))
      in case run (step_text j s failure) (jd_project dirs) lm st1 of
           (r, st2) \<Rightarrow>
             (case step_result (tm_timeout tm) s r of
                (new, warning) \<Rightarrow>
                  (let st3 = (case warning of None \<Rightarrow> st2 | Some m \<Rightarrow> trace_write io m st2);
                       failure' = (case new of None \<Rightarrow> failure | Some f \<Rightarrow> get_or_insert failure f)
                   in (failure', section_end io (step_section s) st3))))"

fun step_loop ::
  "'w http \<Rightarrow> 'w runner \<Rightarrow> job \<Rightarrow> job_dirs \<Rightarrow> step_times \<Rightarrow> step list \<Rightarrow> job_outcome \<Rightarrow> 'w state \<Rightarrow>
     job_outcome \<times> 'w state" where
  "step_loop io run j dirs tm [] failure st = (failure, st)"
| "step_loop io run j dirs tm (s # steps) failure st =
     (if tw_cancel (fst st) = Aborted then (get_or_insert failure canceled_failure, st)
      else
        (let failure1 = (if \<not> is_after_script s \<and> tw_cancel (fst st) \<noteq> Running
                         then get_or_insert failure canceled_failure else failure) in
         if \<not> should_run s failure1 \<or> step_lines s = []
         then step_loop io run j dirs tm steps failure1 st
         else
           (case run_step io run j dirs tm s failure1 st of
              (failure2, st2) \<Rightarrow> step_loop io run j dirs tm steps failure2 st2)))"

text \<open>
  The restore races with the deadline and the cancellation; \<open>restore\<close> is that race: it ended by
  itself with its outcome, or was stopped and awaited (\<open>RESTORE_STOP_GRACE\<close>).
\<close>

datatype restore_end = RestoreEnded job_outcome | RestoreDeadline | RestoreCanceled

definition source_failure :: "nat \<Rightarrow> (run_error, unit) result \<Rightarrow> job_outcome" where
  "source_failure timeout r =
     (case r of
        Inr () \<Rightarrow> None
      | Inl RunTimedOut \<Rightarrow> Some (timeout_failure timeout)
      | Inl RunCanceled \<Rightarrow> Some canceled_failure
      | Inl (RunFailed f) \<Rightarrow> Some f)"

definition restore_failure :: "nat \<Rightarrow> restore_end \<Rightarrow> job_outcome" where
  "restore_failure timeout r =
     (case r of
        RestoreEnded outcome \<Rightarrow> outcome
      | RestoreDeadline \<Rightarrow> Some (timeout_failure timeout)
      | RestoreCanceled \<Rightarrow> Some canceled_failure)"

definition job_timeout_nanos :: "job \<Rightarrow> nat" where
  "job_timeout_nanos j =
     (case timeout_secs j of Some secs \<Rightarrow> secs * nanos | None \<Rightarrow> DEFAULT_JOB_TIMEOUT)"

definition prepare_sources ::
  "'w http \<Rightarrow> 'w runner \<Rightarrow> (limits \<Rightarrow> 'w state \<Rightarrow> restore_end \<times> 'w state) \<Rightarrow> job \<Rightarrow> job_dirs \<Rightarrow> nat \<Rightarrow>
     limits \<Rightarrow> 'w state \<Rightarrow> job_outcome \<times> 'w state" where
  "prepare_sources io sources restore j dirs timeout lm st =
     (case get_sources io sources j dirs lm
         (section_start io ''get_sources'' ''Getting source from Git repository'' st) of
        (fetched, st1) \<Rightarrow>
          (let st2 = section_end io ''get_sources'' st1; failure = source_failure timeout fetched in
           if failure = None
           then (case restore lm st2 of (r, st3) \<Rightarrow> (restore_failure timeout r, st3))
           else (failure, st2)))"

definition run_job_steps ::
  "'w http \<Rightarrow> 'w runner \<Rightarrow> 'w runner \<Rightarrow> (limits \<Rightarrow> 'w state \<Rightarrow> restore_end \<times> 'w state) \<Rightarrow> job \<Rightarrow>
     job_dirs \<Rightarrow> 'w state \<Rightarrow> job_outcome \<times> 'w state" where
  "run_job_steps io sources run restore j dirs st =
     (let timeout = job_timeout_nanos j;
          deadline = http_now io (snd st) + timeout
      in case prepare_sources io sources restore j dirs timeout
             \<lparr>lm_deadline = deadline, lm_stop_at = Canceling\<rparr> st of
           (failure, st1) \<Rightarrow>
             (case stage_timeout io j ''RUNNER_SCRIPT_TIMEOUT'' st1 of
                (script_timeout, st2) \<Rightarrow>
                  (let script_deadline =
                     (case script_timeout of
                        None \<Rightarrow> deadline
                      | Some t \<Rightarrow>
                          (case checked_add (http_now io (snd st2)) t of
                             None \<Rightarrow> deadline | Some d \<Rightarrow> min deadline d))
                   in case stage_timeout io j ''RUNNER_AFTER_SCRIPT_TIMEOUT'' st2 of
                        (after_timeout, st3) \<Rightarrow>
                          step_loop io run j dirs
                            \<lparr>tm_timeout = timeout, tm_deadline = deadline,
                             tm_script_deadline = script_deadline, tm_after_script = after_timeout\<rparr>
                            (job_steps j) failure st3)))"

section \<open>The contract of a runner\<close>

text \<open>
  A runner, and everything else that writes to the job's trace, keeps what a write keeps. \<open>keeps\<close>
  is any property of the state; what a whole job does then keeps it, too.
\<close>

locale script_runner =
  fixes io :: "'w http" and run :: "'w runner" and keeps :: "'w state \<Rightarrow> bool"
  assumes keeps_write: "keeps st \<Longrightarrow> keeps (trace_write io s st)"
    and keeps_run: "keeps st \<Longrightarrow> keeps (snd (run script dir lm st))"
begin

lemma keeps_section: "keeps st \<Longrightarrow> keeps (section_start io n h st)" "keeps st \<Longrightarrow> keeps (section_end io n st)"
  by (simp_all add: section_start_def section_end_def keeps_write)

lemma keeps_run_eq: "keeps st \<Longrightarrow> run script dir lm st = (r, st') \<Longrightarrow> keeps st'"
  using keeps_run[of st script dir lm] by simp

lemma keeps_hook: "keeps st \<Longrightarrow> keeps (snd (run_hook io run j name dir lm st))"
  using keeps_run_eq[OF keeps_write]
  by (auto simp: run_hook_def Let_def split: prod.splits sum.splits run_status.splits)

lemma keeps_attempts: "keeps st \<Longrightarrow> keeps (snd (checkout_attempts io run dirs script lm n ks st))"
proof (induction ks arbitrary: st)
  case (Cons k ks)
  obtain r st1 where r: "run script (jd_builds dirs) lm st = (r, st1)" by (meson surj_pair)
  then have "keeps st1" using Cons.prems keeps_run_eq by blast
  then show ?case
    using r Cons.IH keeps_run keeps_write by (auto simp: Let_def split: sum.splits run_status.splits)
qed simp

lemma keeps_checkout: "keeps st \<Longrightarrow> keeps (snd (checkout io run j dirs lm st))"
  using keeps_attempts keeps_write
  by (auto simp: checkout_def Let_def split: option.splits sum.splits)

lemma keeps_sources: "keeps st \<Longrightarrow> keeps (snd (get_sources io run j dirs lm st))"
proof -
  assume st: "keeps st"
  obtain r st1 where h: "run_hook io run j ''pre_get_sources_script'' (jd_builds dirs) lm st = (r, st1)"
    by (meson surj_pair)
  obtain r' st2 where c: "checkout io run j dirs lm st1 = (r', st2)" by (meson surj_pair)
  have k1: "keeps st1" using keeps_hook[OF st, of j "''pre_get_sources_script''" "jd_builds dirs" lm] h by simp
  have k2: "keeps st2" using keeps_checkout[OF k1, of j dirs lm] c by simp
  show ?thesis
    using h c by (cases r; cases r') (simp_all add: get_sources_def k1 k2 keeps_hook)
qed

lemma keeps_timeout: "keeps st \<Longrightarrow> keeps (snd (stage_timeout io j key st))"
  using keeps_write by (auto simp: stage_timeout_def Let_def split: option.splits)

lemma keeps_step: "keeps st \<Longrightarrow> keeps (snd (run_step io run j dirs tm s failure st))"
proof -
  assume st: "keeps st"
  let ?st1 = "section_start io (step_section s) (step_header s) st"
  let ?lm = "step_limits tm s (http_now io (snd ?st1))"
  obtain r st2 where r: "run (step_text j s failure) (jd_project dirs) ?lm ?st1 = (r, st2)"
    by (meson surj_pair)
  have "keeps st2" using keeps_run_eq[OF keeps_section(1)[OF st] r] .
  then have "keeps (section_end io (step_section s)
      (case w of None \<Rightarrow> st2 | Some m \<Rightarrow> trace_write io m st2))" for w
    using keeps_write keeps_section(2) by (cases w) auto
  then show ?thesis
    by (simp only: run_step_def Let_def r prod.case) (simp add: case_prod_beta)
qed

lemma keeps_loop: "keeps st \<Longrightarrow> keeps (snd (step_loop io run j dirs tm steps failure st))"
proof (induction steps arbitrary: failure st)
  case (Cons s steps)
  have "keeps (snd (step_loop io run j dirs tm steps (fst p) (snd p)))" if "keeps (snd p)" for p
    using Cons.IH[OF that] .
  then show ?case using Cons keeps_step by (simp add: Let_def case_prod_beta)
qed simp

end

text \<open>The outcome: a failure, once there, stays.\<close>

lemma get_or_insert_Some [simp]: "get_or_insert (Some f) g = Some f"
  by (simp add: get_or_insert_def)

lemma run_step_failed: "fst (run_step io run j dirs tm s (Some f) st) = Some f"
  by (simp add: run_step_def Let_def split: prod.splits option.splits)

lemma step_loop_failed: "fst (step_loop io run j dirs tm steps (Some f) st) = Some f"
proof (induction steps arbitrary: st)
  case (Cons s steps)
  have "fst (run_step io run j dirs tm s (Some f) st) = Some f" by (rule run_step_failed)
  then show ?case using Cons by (auto simp: Let_def split: prod.splits)
qed simp

lemma run_step_after: "is_after_script s \<Longrightarrow> fst (run_step io run j dirs tm s failure st) = failure"
  by (auto simp: run_step_def step_result_def Let_def split: prod.splits option.splits sum.splits run_status.splits)

lemma step_loop_after:
  "list_all is_after_script steps \<Longrightarrow>
     fst (step_loop io run j dirs tm steps failure st) \<in> {failure, get_or_insert failure canceled_failure}"
proof (induction steps arbitrary: st)
  case (Cons s steps)
  then have a: "is_after_script s" "list_all is_after_script steps" by simp_all
  obtain f' st' where r: "run_step io run j dirs tm s failure st = (f', st')" by (meson surj_pair)
  then have "f' = failure" using run_step_after[OF a(1), of io run j dirs tm failure st] by simp
  then show ?case using Cons.IH[OF a(2)] a(1) r by (auto simp: Let_def)
qed simp


section \<open>A whole job\<close>

locale job_runner = script_runner io run keeps + src: script_runner io sources keeps
  for io :: "'w http" and run sources :: "'w runner" and keeps +
  fixes restore :: "limits \<Rightarrow> 'w state \<Rightarrow> restore_end \<times> 'w state"
  assumes keeps_restore: "keeps st \<Longrightarrow> keeps (snd (restore lm st))"
begin

lemma keeps_prepare: "keeps st \<Longrightarrow> keeps (snd (prepare_sources io sources restore j dirs timeout lm st))"
proof -
  assume st: "keeps st"
  obtain r st1 where g: "get_sources io sources j dirs lm
      (section_start io ''get_sources'' ''Getting source from Git repository'' st) = (r, st1)"
    by (meson surj_pair)
  have "keeps st1" using src.keeps_sources[OF keeps_section(1)[OF st]] g by (metis snd_conv)
  then have "keeps (section_end io ''get_sources'' st1)" by (rule keeps_section(2))
  then show ?thesis using g keeps_restore by (simp add: prepare_sources_def Let_def case_prod_beta)
qed

lemma keeps_job: "keeps st \<Longrightarrow> keeps (snd (run_job_steps io sources run restore j dirs st))"
  using keeps_loop keeps_timeout keeps_prepare
  by (simp add: run_job_steps_def Let_def case_prod_beta)

end

text \<open>
  The calls of the job's runner: a script runs in the project directory, stops when the job is
  canceled and has a deadline within the job's; an \<open>after_script\<close> (it can tell how the job went)
  stops only when the job is aborted, and its deadline is the job's or the default grace from now.
\<close>

definition allowed_call :: "'w http \<Rightarrow> job_dirs \<Rightarrow> nat \<Rightarrow> string \<Rightarrow> string \<Rightarrow> limits \<Rightarrow> 'w state \<Rightarrow> bool" where
  "allowed_call io dirs deadline script dir lm st \<longleftrightarrow> dir = jd_project dirs \<and>
     (if lm_stop_at lm = Aborted
      then prefix ''export CI_JOB_STATUS='' script \<and>
        lm_deadline lm \<le> max deadline (http_now io (snd st) + DEFAULT_AFTER_SCRIPT_TIMEOUT)
      else lm_stop_at lm = Canceling \<and> lm_deadline lm \<le> deadline)"

lemma step_call_allowed:
  assumes "tm_script_deadline tm \<le> tm_deadline tm"
  shows "allowed_call io dirs (tm_deadline tm) (step_text j s failure) (jd_project dirs)
    (step_limits tm s (http_now io (snd st))) st"
  using assms
  by (auto simp: allowed_call_def step_limits_def step_text_def Let_def prefix_def split: option.splits)

lemma step_loop_calls:
  assumes tm: "tm_script_deadline tm \<le> tm_deadline tm"
    and agree: "\<And>script dir lm st. allowed_call io dirs (tm_deadline tm) script dir lm st \<Longrightarrow>
      run1 script dir lm st = run2 script dir lm st"
  shows "step_loop io run1 j dirs tm steps failure st = step_loop io run2 j dirs tm steps failure st"
proof (induction steps arbitrary: failure st)
  case (Cons s steps)
  have "run_step io run1 j dirs tm s failure st = run_step io run2 j dirs tm s failure st" for failure st
    using agree[OF step_call_allowed[OF tm]] by (simp add: run_step_def)
  then show ?case using Cons by (simp add: Let_def case_prod_beta)
qed simp


section \<open>Workspaces are separate\<close>

lemma dec_sep_inj:
  assumes "\<not> is_ascii_digit c" "x = [] \<or> \<not> is_ascii_digit (hd x)" "y = [] \<or> \<not> is_ascii_digit (hd y)"
  shows "dec m @ x = dec n @ y \<longleftrightarrow> m = n \<and> x = y"
proof
  assume eq: "dec m @ x = dec n @ y"
  have t: "takeWhile is_ascii_digit (dec k @ z) = dec k" if "z = [] \<or> \<not> is_ascii_digit (hd z)" for k z
    using dec_digits[of k] that by (subst takeWhile_append2) (auto simp: list_all_iff takeWhile_eq_Nil_iff)
  have "dec m = dec n" using arg_cong[OF eq, of "takeWhile is_ascii_digit"] t assms(2,3) by simp
  then show "m = n \<and> x = y" using eq dec_inj by simp
qed auto

lemma workspace_same:
  "fst (workspace j1) = fst (workspace j2) \<longleftrightarrow>
     (case (Option.bind (job_git_info j1) gi_protected, Option.bind (job_git_info j2) gi_protected) of
        (Some p1, Some p2) \<Rightarrow>
          job_project j1 = job_project j2 \<and> job_project_slot j1 = job_project_slot j2 \<and> p1 = p2
      | (None, None) \<Rightarrow> job_id j1 = job_id j2
      | _ \<Rightarrow> False)"
proof -
  have slot: "dec m @ ''-protected'' = dec n @ ''-protected'' \<longleftrightarrow> m = n" "dec m @ ''-protected'' \<noteq> dec n" for m n
    using dec_sep_inj[of "CHR ''-''" "''-protected''" "''-protected''" m n]
      dec_sep_inj[of "CHR ''-''" "''-protected''" "[]" m n] by (auto simp: is_ascii_digit_def)
  have proj: "dec m @ ''-'' @ x = dec n @ ''-'' @ y \<longleftrightarrow> m = n \<and> x = y" for m n x y
    by (subst dec_sep_inj[of "CHR ''-''"]) (auto simp: is_ascii_digit_def)
  show ?thesis
    using slot(1) slot(2) slot(2)[THEN not_sym] proj dec_inj
    by (auto simp: workspace_def split: option.splits)
qed

text \<open>
  C12: two jobs get the same workspace exactly when GitLab says of both refs whether they are
  protected, says the same of both, and the jobs have the same project and concurrency slot; or
  when it says so of neither and they are the same job. In particular a protected and an
  unprotected ref never share one, nor do two projects.
\<close>

theorem workspace_shared_iff:
  "fst (workspace j1) = fst (workspace j2) \<longleftrightarrow>
     (case (Option.bind (job_git_info j1) gi_protected, Option.bind (job_git_info j2) gi_protected) of
        (Some p1, Some p2) \<Rightarrow>
          job_project j1 = job_project j2 \<and> job_project_slot j1 = job_project_slot j2 \<and> p1 = p2
      | (None, None) \<Rightarrow> job_id j1 = job_id j2
      | _ \<Rightarrow> False)"
  by (rule workspace_same)

text \<open>What a removal does, as documented for \<open>remove_dir_all\<close>; \<open>exists w p\<close> is the file system.\<close>

definition rm_law :: "(string \<Rightarrow> 'w \<Rightarrow> rm_result \<times> 'w) \<Rightarrow> ('w \<Rightarrow> component list \<Rightarrow> bool) \<Rightarrow> bool" where
  "rm_law rm there \<longleftrightarrow>
     (\<forall>dir w. case rm dir w of
        (r, w') \<Rightarrow>
          (\<forall>p. \<not> prefix (components dir) p \<longrightarrow> there w' p = there w p) \<and>
          (\<forall>p. there w' p \<longrightarrow> there w p) \<and>
          (r \<noteq> RmFailed \<longrightarrow> (\<forall>p. prefix (components dir) p \<longrightarrow> \<not> there w' p)))"

lemma last_dec: "last (dec n) \<noteq> CHR ''/''"
proof -
  have "is_ascii_digit (last (dec n))" using dec_digits[of n] last_in_set[OF dec_nonempty[of n]] by (simp add: list_all_iff)
  then show ?thesis by (auto simp: is_ascii_digit_def)
qed

lemma job_dir_ends: "job_dir base j \<noteq> [] \<and> last (job_dir base j) \<noteq> CHR ''/''"
proof -
  have w: "fst (workspace j) \<noteq> [] \<and> last (fst (workspace j)) \<noteq> CHR ''/'' \<and> \<not> path_absolute (fst (workspace j))"
    using last_dec by (auto simp: workspace_def path_absolute_def split: option.splits)
  then show ?thesis by (auto simp: job_dir_def path_join_def)
qed

lemma variables_dir_inside:
  "prefix (components (job_dir base j)) (components (variables_dir (job_dir base j) j))"
  using valid_subdir_below[OF valid_subdir_tmp[OF subdir_or_project_valid]] job_dir_ends
  by (simp add: variables_dir_def)


section \<open>A concrete job\<close>

definition sample_step :: "string \<Rightarrow> step" where
  "sample_step name = \<lparr>step_name = name, step_script = [''make''], step_before_script = [],
     step_after_script = [], step_timeout = 0, step_when = ''always'', step_allow_failure = False\<rparr>"

definition sample_job :: job where
  "sample_job = \<lparr>job_id = 7, job_token = ''job-token'', job_allow_git_fetch = True, job_job_info = None,
     job_git_info = None, job_runner_info = None,
     job_variables = [\<lparr>var_key = ''KEY'', var_value = Some ''pem'', var_public = False, var_masked = False,
       var_raw = False, var_file = True, var_internal = False\<rparr>],
     job_steps = [sample_step ''script'', sample_step ''after_script''], job_image = None, job_services = [],
     job_artifacts = None, job_cache = [], job_credentials = [], job_dependencies = [], job_timeout = 60,
     job_hooks = [], job_project_slot = 0\<rparr>"

definition sample_dirs :: job_dirs where
  "sample_dirs = \<lparr>jd_builds = ''/b'', jd_project = ''/b/p''\<rparr>"

definition sample_times :: step_times where
  "sample_times = \<lparr>tm_timeout = 60 * nanos, tm_deadline = 60 * nanos, tm_script_deadline = 60 * nanos,
     tm_after_script = None\<rparr>"

text \<open>A runner whose scripts all exit with 0, and one that refuses every call outside the bounds.\<close>

definition sample_run :: "string runner" where
  "sample_run script dir lm st = (Inr (Exited 0), st)"

definition strict_run :: "nat \<Rightarrow> string runner" where
  "strict_run deadline script dir lm st =
     (if allowed_call local_server sample_dirs deadline script dir lm st then sample_run script dir lm st
      else (Inl [''refused''], st))"



definition sample_rm :: "string \<Rightarrow> component list list \<Rightarrow> rm_result \<times> component list list" where
  "sample_rm dir w = (Removed, filter (\<lambda>p. \<not> prefix (components dir) p) w)"


end
