(* ===== verification/Runners.thy ===== *)
theory Runners
  imports Executor
begin

text \<open>
  How the two executors run a script (\<open>src/runner_daemon/executor/shell.rs\<close> and the \<open>DockerRunner\<close>
  of \<open>src/runner_daemon/executor/docker.rs\<close>). The operating system and the Docker API are
  parameters: starting a script gives the events that follow, in the order they become ready, and
  effects such as killing are functions on the world. The \<open>select!\<close> loop always waits for the
  deadline too, so a list of events that ends means that the deadline comes next; a branch whose
  guard is off does not take its event. Both runners meet the contract \<open>script_runner\<close>.
\<close>

section \<open>The shell runner\<close>

definition SHELL_DETECT :: string where
  "SHELL_DETECT = ''if command -v bash >/dev/null 2>&1; then exec bash -c '' @ [dq] @ ''$1'' @ [dq] @
     ''; fi; exec sh -c '' @ [dq] @ ''$1'' @ [dq]"

text \<open>
  What can come next: the flush timer, output or end of a stream, a read error, the deadline, the
  cancellation reaching its level, the child's exit (no code when a signal ended it), an error of
  waiting; and the heartbeat or a signal raising the job's cancellation meanwhile.
\<close>

datatype shell_event =
    FlushTick
  | StdoutData string | StdoutEof
  | StderrData string | StderrEof
  | ReadError string
  | DeadlineReached
  | CancelReached
  | ProcessExit "int option"
  | WaitError string
  | RemoteUpdate remote_state

definition raise_cancel :: "remote_state \<Rightarrow> 'w state \<Rightarrow> 'w state" where
  "raise_cancel s st = (fst st\<lparr>tw_cancel := cancel_update (tw_cancel (fst st)) s\<rparr>, snd st)"

text \<open>
  The loop over the output: which streams are still open, and what their decoders hold. It leaves
  with a result, or with the events that remain when both streams have ended.
\<close>

datatype loop_end = Finished "(chain, run_status) result" | Closed "shell_event list" string string

definition cancel_seen :: "limits \<Rightarrow> 'w state \<Rightarrow> bool" where
  "cancel_seen lm st \<longleftrightarrow> cancel_reached (lm_stop_at lm) (tw_cancel (fst st))"

fun shell_output ::
  "'w http \<Rightarrow> ('w \<Rightarrow> 'w) \<Rightarrow> limits \<Rightarrow> shell_event list \<Rightarrow> bool \<Rightarrow> bool \<Rightarrow> string \<Rightarrow> string \<Rightarrow> 'w state \<Rightarrow>
     loop_end \<times> 'w state" where
  "shell_output io kill lm [] out_open err_open out err st =
     (if \<not> out_open \<and> \<not> err_open then (Closed [] out err, st)
      else (Finished (Inr TimedOut), (fst st, kill (snd st))))"
| "shell_output io kill lm (ev # evs) out_open err_open out err st =
     (if \<not> out_open \<and> \<not> err_open then (Closed (ev # evs) out err, st)
      else
        (let skip = shell_output io kill lm evs out_open err_open out err in
         case ev of
           FlushTick \<Rightarrow> skip (trace_flush_if_due io st)
         | StdoutData bytes \<Rightarrow>
             if \<not> out_open then skip st
             else (case decode out bytes of
                     (s, out') \<Rightarrow> shell_output io kill lm evs out_open err_open out' err (trace_write io s st))
         | StdoutEof \<Rightarrow>
             if \<not> out_open then skip st else shell_output io kill lm evs False err_open out err st
         | StderrData bytes \<Rightarrow>
             if \<not> err_open then skip st
             else (case decode err bytes of
                     (s, err') \<Rightarrow> shell_output io kill lm evs out_open err_open out err' (trace_write io s st))
         | StderrEof \<Rightarrow>
             if \<not> err_open then skip st else shell_output io kill lm evs out_open False out err st
         | ReadError e \<Rightarrow> (Finished (Inl [e]), st)
         | DeadlineReached \<Rightarrow> (Finished (Inr TimedOut), (fst st, kill (snd st)))
         | CancelReached \<Rightarrow>
             if cancel_seen lm st then (Finished (Inr WasCanceled), (fst st, kill (snd st))) else skip st
         | RemoteUpdate s \<Rightarrow> skip (raise_cancel s st)
         | _ \<Rightarrow> skip st))"

text \<open>Waiting for the child once its output ended.\<close>

fun shell_wait ::
  "('w \<Rightarrow> 'w) \<Rightarrow> limits \<Rightarrow> shell_event list \<Rightarrow> 'w state \<Rightarrow> (chain, run_status) result \<times> 'w state" where
  "shell_wait kill lm [] st = (Inr TimedOut, (fst st, kill (snd st)))"
| "shell_wait kill lm (ev # evs) st =
     (case ev of
        ProcessExit code \<Rightarrow> (Inr (Exited (case code of Some c \<Rightarrow> c | None \<Rightarrow> -1)), st)
      | WaitError e \<Rightarrow> (Inl [e], st)
      | DeadlineReached \<Rightarrow> (Inr TimedOut, (fst st, kill (snd st)))
      | CancelReached \<Rightarrow>
          if cancel_seen lm st then (Inr WasCanceled, (fst st, kill (snd st)))
          else shell_wait kill lm evs st
      | RemoteUpdate s \<Rightarrow> shell_wait kill lm evs (raise_cancel s st)
      | _ \<Rightarrow> shell_wait kill lm evs st)"

record 'w shell_os =
  os_spawn :: "string list \<Rightarrow> string \<Rightarrow> (string \<times> string) list \<Rightarrow> 'w \<Rightarrow> (string, shell_event list) result \<times> 'w"
  os_kill_group :: "'w \<Rightarrow> 'w"

definition shell_run ::
  "'w http \<Rightarrow> 'w shell_os \<Rightarrow> (string \<times> string) list \<Rightarrow> 'w runner" where
  "shell_run io os env script workdir lm st =
     (case os_spawn os [''sh'', ''-c'', SHELL_DETECT, ''sh'', script] workdir env (snd st) of
        (Inl e, w) \<Rightarrow> (Inl [''Failed to start sh'', e], (fst st, w))
      | (Inr evs, w) \<Rightarrow>
          (case shell_output io (os_kill_group os) lm evs True True [] [] (fst st, w) of
             (Finished r, st1) \<Rightarrow> (r, st1)
           | (Closed rest out err, st1) \<Rightarrow>
               shell_wait (os_kill_group os) lm rest
                 (trace_write io (decode_finish err) (trace_write io (decode_finish out) st1))))"

text \<open>
  The executor around it. Creating a directory or a file's parent and writing a file (\<open>fs\<close>
  arguments) and running \<open>git\<close> are parameters; the job runs in \<open>work_dir\<close>.
\<close>

record shell_executor =
  se_work_dir :: string
  se_ca_pem :: "string option"

definition shell_new :: "string option \<Rightarrow> shell_executor" where
  "shell_new work_dir = \<lparr>se_work_dir = (case work_dir of Some d \<Rightarrow> d | None \<Rightarrow> ''/tmp/turboci''),
     se_ca_pem = None\<rparr>"

definition shell_untracked_files ::
  "(string list \<Rightarrow> (string \<times> string) list \<Rightarrow> 'w \<Rightarrow> (string, bool \<times> string \<times> string) result \<times> 'w) \<Rightarrow>
     string \<Rightarrow> 'w \<Rightarrow> (chain, string) result \<times> 'w" where
  "shell_untracked_files git project w =
     (case git ([''-c'', ''safe.directory='' @ project] @ NO_REPO_COMMANDS @ [''-C'', project] @
             [''ls-files'', ''--others'', ''-z'']) [(''GIT_CONFIG_NOSYSTEM'', ''1'')] w of
        (Inl e, w1) \<Rightarrow> (Inl [''Failed to run git'', e], w1)
      | (Inr (success, out, err), w1) \<Rightarrow>
          if \<not> success then (Inl [''git ls-files failed: '' @ from_utf8_lossy err], w1)
          else (Inr (from_utf8_lossy out), w1))"

definition shell_execute ::
  "'w http \<Rightarrow> 'w shell_os \<Rightarrow> (string \<Rightarrow> 'w \<Rightarrow> (string, unit) result \<times> 'w) \<Rightarrow>
     (string \<Rightarrow> 'w \<Rightarrow> (string, unit) result \<times> 'w) \<Rightarrow> (string \<Rightarrow> string \<Rightarrow> 'w \<Rightarrow> (string, unit) result \<times> 'w) \<Rightarrow>
     shell_executor \<Rightarrow> (limits \<Rightarrow> 'w state \<Rightarrow> restore_end \<times> 'w state) \<Rightarrow> job \<Rightarrow> 'w state \<Rightarrow>
     job_outcome \<times> 'w state" where
  "shell_execute io os mkdirs mkparent write_file ex restore j st =
     (let st1 = trace_write io (''Using Shell executor...'' @ [nl]) st; dir = job_dir (se_work_dir ex) j in
      case project_subdir j of
        Inl e \<Rightarrow> (Some (system_failure e), st1)
      | Inr subdir \<Rightarrow>
          (let dirs = \<lparr>jd_builds = dir, jd_project = path_join dir subdir\<rparr> in
           case mkdirs (jd_project dirs) (snd st1) of
             (Inl e, w) \<Rightarrow> (Some (system_failure e), (fst st1, w))
           | (Inr _, w) \<Rightarrow>
               (let env = make_job_env j dir dir \<lparr>rv_disposable = False, rv_ca_pem = se_ca_pem ex\<rparr> in
                case write_variable_files mkparent write_file (je_files env) w of
                  (Inl e, w1) \<Rightarrow> (Some (system_failure (outermost e)), (fst st1, w1))
                | (Inr _, w1) \<Rightarrow>
                    (let run = shell_run io os (je_vars env) in
                     run_job_steps io run run restore j dirs (fst st1, w1)))))"

section \<open>The Docker runner\<close>

datatype docker_event =
    DStdout string | DStderr string | DStdin
  | DChunkError string
  | DEnd
  | DFlushTick
  | DDeadline
  | DCancelReached
  | DRemoteUpdate remote_state

record 'w docker_exec =
  de_create :: "string list \<Rightarrow> string \<Rightarrow> string list \<Rightarrow> 'w \<Rightarrow> (string, string) result \<times> 'w"
  de_start :: "string \<Rightarrow> 'w \<Rightarrow> (string, docker_event list option) result \<times> 'w"
  de_inspect :: "string \<Rightarrow> 'w \<Rightarrow> (string, int option) result \<times> 'w"
  de_stop_scripts :: "'w \<Rightarrow> 'w"

fun docker_output ::
  "'w http \<Rightarrow> ('w \<Rightarrow> 'w) \<Rightarrow> limits \<Rightarrow> docker_event list \<Rightarrow> string \<Rightarrow> string \<Rightarrow> 'w state \<Rightarrow>
     ((chain, run_status) result + string \<times> string) \<times> 'w state" where
  "docker_output io stop lm [] out err st = (Inl (Inr TimedOut), (fst st, stop (snd st)))"
| "docker_output io stop lm (ev # evs) out err st =
     (case ev of
        DStdout bytes \<Rightarrow>
          (case decode out bytes of (s, out') \<Rightarrow> docker_output io stop lm evs out' err (trace_write io s st))
      | DStderr bytes \<Rightarrow>
          (case decode err bytes of (s, err') \<Rightarrow> docker_output io stop lm evs out err' (trace_write io s st))
      | DStdin \<Rightarrow> docker_output io stop lm evs out err st
      | DChunkError e \<Rightarrow> (Inl (Inl [e]), st)
      | DEnd \<Rightarrow> (Inr (out, err), st)
      | DFlushTick \<Rightarrow> docker_output io stop lm evs out err (trace_flush_if_due io st)
      | DDeadline \<Rightarrow> (Inl (Inr TimedOut), (fst st, stop (snd st)))
      | DCancelReached \<Rightarrow>
          if cancel_seen lm st then (Inl (Inr WasCanceled), (fst st, stop (snd st)))
          else docker_output io stop lm evs out err st
      | DRemoteUpdate s \<Rightarrow> docker_output io stop lm evs out err (raise_cancel s st))"

definition i32_or_minus_one :: "int \<Rightarrow> int" where
  "i32_or_minus_one code = (if - (2 ^ 31) \<le> code \<and> code < 2 ^ 31 then code else -1)"

definition docker_run ::
  "'w http \<Rightarrow> 'w docker_exec \<Rightarrow> string list \<Rightarrow> 'w runner" where
  "docker_run io dk env script workdir lm st =
     (case de_create dk [''sh'', ''-c'', SHELL_DETECT, ''sh'', script] workdir env (snd st) of
        (Inl e, w) \<Rightarrow> (Inl [''Failed to create exec'', e], (fst st, w))
      | (Inr exec, w) \<Rightarrow>
          (case de_start dk exec w of
             (Inl e, w1) \<Rightarrow> (Inl [e], (fst st, w1))
           | (Inr events, w1) \<Rightarrow>
               (case (case events of
                        None \<Rightarrow> (Inr ([], []), (fst st, w1))
                      | Some evs \<Rightarrow> docker_output io (de_stop_scripts dk) lm evs [] [] (fst st, w1)) of
                  (Inl r, st2) \<Rightarrow> (r, st2)
                | (Inr (out, err), st2) \<Rightarrow>
                    (let st3 = trace_write io (decode_finish err) (trace_write io (decode_finish out) st2) in
                     case de_inspect dk exec (snd st3) of
                       (Inl e, w4) \<Rightarrow> (Inl [e], (fst st3, w4))
                     | (Inr code, w4) \<Rightarrow>
                         (Inr (Exited (i32_or_minus_one (case code of Some c \<Rightarrow> c | None \<Rightarrow> -1))),
                          (fst st3, w4))))))"

section \<open>The contract\<close>

text \<open>
  What is kept: the trace holds the scrubbed chunks written so far, and, with the trace endpoint
  and effects that leave its log alone (\<open>quiet\<close>), the invariant of the writer.
\<close>

definition trace_kept ::
  "'w http \<Rightarrow> bool \<Rightarrow> ('w \<Rightarrow> string) \<Rightarrow> gitlab_client \<Rightarrow> nat \<Rightarrow> string \<Rightarrow> secret_scrubber \<Rightarrow> 'w state \<Rightarrow> bool" where
  "trace_kept io quiet lg c jid token sc st \<longleftrightarrow> (\<exists>cs. written sc cs (fst st)) \<and>
     (trace_endpoint io c jid token lg \<and> quiet \<longrightarrow> step_ok lg c jid token st)"

lemma kept_write: "trace_kept io q lg c jid token sc st \<Longrightarrow> trace_kept io q lg c jid token sc (trace_write io s st)"
  unfolding trace_kept_def using written_write write_ok by blast

lemma written_flush_due: "written sc cs (fst st) \<Longrightarrow> written sc cs (fst (trace_flush_if_due io st))"
  using written_same[OF flush_if_due_same] by (cases st) simp

lemma written_raise: "written sc cs (fst st) \<Longrightarrow> written sc cs (fst (raise_cancel s st))"
  by (simp add: raise_cancel_def written_def)

lemma kept_flush_due:
  "trace_kept io q lg c jid token sc st \<Longrightarrow> trace_kept io q lg c jid token sc (trace_flush_if_due io st)"
  unfolding trace_kept_def using written_flush_due flush_if_due_ok by blast

lemma kept_raise: "trace_kept io q lg c jid token sc st \<Longrightarrow> trace_kept io q lg c jid token sc (raise_cancel s st)"
  unfolding trace_kept_def using written_raise do_op_ok[where oper = "CancelUpdate s"]
  by (fastforce simp: raise_cancel_def)

lemma kept_world:
  assumes "trace_kept io q lg c jid token sc st" "q \<Longrightarrow> lg w = lg (snd st)"
  shows "trace_kept io q lg c jid token sc (fst st, w)"
  using assms by (auto simp: trace_kept_def step_ok_def trace_inv_def split: prod.splits)

definition shell_quiet :: "'w shell_os \<Rightarrow> ('w \<Rightarrow> string) \<Rightarrow> bool" where
  "shell_quiet os lg \<longleftrightarrow> (\<forall>argv dir env w. lg (snd (os_spawn os argv dir env w)) = lg w) \<and>
     (\<forall>w. lg (os_kill_group os w) = lg w)"

definition docker_quiet :: "'w docker_exec \<Rightarrow> ('w \<Rightarrow> string) \<Rightarrow> bool" where
  "docker_quiet dk lg \<longleftrightarrow> (\<forall>argv dir env w. lg (snd (de_create dk argv dir env w)) = lg w) \<and>
     (\<forall>e w. lg (snd (de_start dk e w)) = lg w) \<and> (\<forall>e w. lg (snd (de_inspect dk e w)) = lg w) \<and>
     (\<forall>w. lg (de_stop_scripts dk w) = lg w)"

text \<open>
  What a runner may do to the state apart from changing the world, as an interface: \<open>keeps\<close> is any
  property that these three keep.
\<close>

locale trace_keeper =
  fixes io :: "'w http" and keeps :: "'w state \<Rightarrow> bool"
  assumes keeps_write: "keeps st \<Longrightarrow> keeps (trace_write io s st)"
    and keeps_flush: "keeps st \<Longrightarrow> keeps (trace_flush_if_due io st)"
    and keeps_raise: "keeps st \<Longrightarrow> keeps (raise_cancel r st)"
begin

lemma keeps_shell_output:
  assumes kill: "\<And>st. keeps st \<Longrightarrow> keeps (fst st, kill (snd st))"
  shows "keeps st \<Longrightarrow> keeps (snd (shell_output io kill lm evs o_open e_open out err st))"
proof (induction evs arbitrary: o_open e_open out err st)
  case (Cons ev evs)
  note k = Cons.prems
  show ?case
    using k Cons.IH kill[OF k] keeps_write[OF k] keeps_flush[OF k] keeps_raise[OF k]
    by (cases ev) (simp_all add: Let_def case_prod_beta)
qed (use kill in simp)

lemma keeps_shell_wait:
  assumes kill: "\<And>st. keeps st \<Longrightarrow> keeps (fst st, kill (snd st))"
  shows "keeps st \<Longrightarrow> keeps (snd (shell_wait kill lm evs st))"
proof (induction evs arbitrary: st)
  case (Cons ev evs)
  then show ?case using kill[OF Cons.prems] keeps_raise[OF Cons.prems] by (cases ev) simp_all
qed (use kill in simp)

lemma keeps_shell_run:
  assumes spawn: "\<And>st argv dir env. keeps st \<Longrightarrow> keeps (fst st, snd (os_spawn os argv dir env (snd st)))"
    and kill: "\<And>st. keeps st \<Longrightarrow> keeps (fst st, os_kill_group os (snd st))"
    and k: "keeps st"
  shows "keeps (snd (shell_run io os env script dir lm st))"
proof -
  let ?cmd = "[''sh'', ''-c'', SHELL_DETECT, ''sh'', script]"
  obtain r w where r: "os_spawn os ?cmd dir env (snd st) = (r, w)" by fastforce
  have w: "keeps (fst st, w)" using spawn[OF k, of ?cmd dir env] r by simp
  show ?thesis
  proof (cases r)
    case (Inr evs)
    obtain l st1 where l: "shell_output io (os_kill_group os) lm evs True True [] [] (fst st, w) = (l, st1)"
      by (meson surj_pair)
    have "keeps st1" using keeps_shell_output[OF kill w] l by (metis snd_conv)
    then have "keeps (trace_write io s (trace_write io s' st1))" for s s' by (intro keeps_write)
    then show ?thesis
      using r Inr l keeps_shell_wait[OF kill] \<open>keeps st1\<close> by (cases l) (simp_all add: shell_run_def)
  qed (use r w in \<open>simp add: shell_run_def\<close>)
qed

lemma keeps_output:
  assumes stop: "\<And>st. keeps st \<Longrightarrow> keeps (fst st, stop (snd st))"
  shows "keeps st \<Longrightarrow> keeps (snd (docker_output io stop lm evs out err st))"
proof (induction evs arbitrary: out err st)
  case (Cons ev evs)
  note k = Cons.prems
  show ?case
    using stop[OF k] k Cons.IH keeps_write[OF k] keeps_flush[OF k] keeps_raise[OF k]
    by (cases ev) (simp_all add: case_prod_beta)
qed (use stop in simp)

lemma keeps_docker_run:
  assumes create: "\<And>st argv dir env. keeps st \<Longrightarrow> keeps (fst st, snd (de_create dk argv dir env (snd st)))"
    and start: "\<And>st e. keeps st \<Longrightarrow> keeps (fst st, snd (de_start dk e (snd st)))"
    and inspect: "\<And>st e. keeps st \<Longrightarrow> keeps (fst st, snd (de_inspect dk e (snd st)))"
    and stop: "\<And>st. keeps st \<Longrightarrow> keeps (fst st, de_stop_scripts dk (snd st))"
    and k: "keeps st"
  shows "keeps (snd (docker_run io dk env script dir lm st))"
proof -
  let ?cmd = "[''sh'', ''-c'', SHELL_DETECT, ''sh'', script]"
  obtain r w where r: "de_create dk ?cmd dir env (snd st) = (r, w)" by fastforce
  have w: "keeps (fst st, w)" using create[OF k, of ?cmd dir env] r by simp
  show ?thesis
  proof (cases r)
    case (Inr exec)
    obtain s w1 where s: "de_start dk exec w = (s, w1)" by fastforce
    have w1: "keeps (fst st, w1)" using start[OF w, of exec] s by simp
    show ?thesis
    proof (cases s)
      case s_evs: (Inr events)
      obtain l st2 where l: "(case events of
            None \<Rightarrow> (Inr ([], []), (fst st, w1))
          | Some evs \<Rightarrow> docker_output io (de_stop_scripts dk) lm evs [] [] (fst st, w1)) = (l, st2)"
        by (meson surj_pair)
      have k2: "keeps st2"
        using l w1 keeps_output[of "de_stop_scripts dk", OF stop w1] by (cases events) (auto, metis snd_conv)
      show ?thesis
      proof (cases l)
        case (Inl e)
        then show ?thesis using r Inr s s_evs l k2 by (simp add: docker_run_def)
      next
        case l_end: (Inr oe)
        obtain out err where oe: "oe = (out, err)" by fastforce
        let ?st3 = "trace_write io (decode_finish err) (trace_write io (decode_finish out) st2)"
        obtain code w4 where i: "de_inspect dk exec (snd ?st3) = (code, w4)" by fastforce
        have "keeps ?st3" by (intro keeps_write k2)
        then have "keeps (fst ?st3, w4)" using inspect[of ?st3 exec] i by simp
        then show ?thesis
          using r Inr s s_evs l l_end oe i by (cases code) (simp_all add: docker_run_def Let_def)
      qed
    qed (use r Inr s w1 in \<open>simp add: docker_run_def\<close>)
  qed (use r w in \<open>simp add: docker_run_def\<close>)
qed

end

interpretation log: trace_keeper io "trace_kept io q lg c jid token sc"
  for io :: "'w http" and q lg c jid token sc
  by unfold_locales (rule kept_write kept_flush_due kept_raise, assumption)+

lemma shell_run_kept:
  assumes k: "trace_kept io (shell_quiet os lg) lg c jid token sc st"
  shows "trace_kept io (shell_quiet os lg) lg c jid token sc (snd (shell_run io os env script dir lm st))"
  by (rule log.keeps_shell_run[OF _ _ k]; rule kept_world, assumption; simp add: shell_quiet_def)

interpretation shell: script_runner io "shell_run io os env" "trace_kept io (shell_quiet os lg) lg c jid token sc"
  for io :: "'w http" and os env lg c jid token sc
  by unfold_locales (rule kept_write, assumption, rule shell_run_kept)

lemma docker_run_kept:
  assumes k: "trace_kept io (docker_quiet dk lg) lg c jid token sc st"
  shows "trace_kept io (docker_quiet dk lg) lg c jid token sc (snd (docker_run io dk env script dir lm st))"
  by (rule log.keeps_docker_run[OF _ _ _ _ k]; rule kept_world, assumption; simp add: docker_quiet_def)

interpretation docker: script_runner io "docker_run io dk env" "trace_kept io (docker_quiet dk lg) lg c jid token sc"
  for io :: "'w http" and dk env lg c jid token sc
  by unfold_locales (rule kept_write, assumption, rule docker_run_kept)

section \<open>The output of a script reaches the trace\<close>

text \<open>What arrives on a stream until it ends.\<close>

fun stdout_bytes :: "shell_event list \<Rightarrow> string list" where
  "stdout_bytes [] = []"
| "stdout_bytes (ev # evs) =
     (case ev of StdoutData b \<Rightarrow> b # stdout_bytes evs | StdoutEof \<Rightarrow> [] | _ \<Rightarrow> stdout_bytes evs)"

fun stderr_bytes :: "shell_event list \<Rightarrow> string list" where
  "stderr_bytes [] = []"
| "stderr_bytes (ev # evs) =
     (case ev of StderrData b \<Rightarrow> b # stderr_bytes evs | StderrEof \<Rightarrow> [] | _ \<Rightarrow> stderr_bytes evs)"

text \<open>
  \<open>chunks\<close> are the texts written, those of the standard output marked. Their concatenation and
  what the decoder still holds give the whole stream.
\<close>

definition stream_texts :: "bool \<Rightarrow> (bool \<times> string) list \<Rightarrow> string" where
  "stream_texts which chunks = concat (map snd (filter (\<lambda>c. fst c = which) chunks))"

lemma stream_texts_simps [simp]:
  "stream_texts which [] = []"
  "stream_texts which ((b, s) # chunks) = (if b = which then s else []) @ stream_texts which chunks"
  "stream_texts which (xs @ ys) = stream_texts which xs @ stream_texts which ys"
  by (simp_all add: stream_texts_def)

lemma shell_output_texts:
  assumes "shell_output io kill lm evs o_open e_open out err st = (Closed rest out' err', st')"
    "written sc cs (fst st)"
  shows "\<exists>chunks. written sc (cs @ map snd chunks) (fst st') \<and>
    stream_texts True chunks @ decode_finish out' =
      (if o_open then decode_all out (stdout_bytes evs) else decode_finish out) \<and>
    stream_texts False chunks @ decode_finish err' =
      (if e_open then decode_all err (stderr_bytes evs) else decode_finish err)"
  using assms
proof (induction evs arbitrary: o_open e_open out err st cs)
  case Nil
  then show ?case by (intro exI[of _ "[]"]) (auto split: if_splits)
next
  case (Cons ev evs)
  note w = Cons.prems(2)
  show ?case
  proof (cases "\<not> o_open \<and> \<not> e_open")
    case True
    then show ?thesis using Cons.prems by (intro exI[of _ "[]"]) auto
  next
    case False
    have wr: "\<exists>chunks. written sc (cs @ map snd chunks) (fst st') \<and>
          stream_texts True chunks @ decode_finish out' = (if which then s else []) @ x \<and>
          stream_texts False chunks @ decode_finish err' = (if which then [] else s) @ y"
      if "\<And>cs. written sc cs (fst (trace_write io s st)) \<Longrightarrow>
          \<exists>chunks. written sc (cs @ map snd chunks) (fst st') \<and>
            stream_texts True chunks @ decode_finish out' = x \<and>
            stream_texts False chunks @ decode_finish err' = y" for which s x y
    proof -
      from that[OF written_write[OF w]] obtain chunks where
        "written sc ((cs @ [s]) @ map snd chunks) (fst st')"
        "stream_texts True chunks @ decode_finish out' = x"
        "stream_texts False chunks @ decode_finish err' = y" by blast
      then show ?thesis by (intro exI[of _ "(which, s) # chunks"]) auto
    qed
    have skip: ?thesis
      if "shell_output io kill lm evs o_open e_open out err st2 = (Closed rest out' err', st')"
        "written sc cs (fst st2)" "o_open \<Longrightarrow> stdout_bytes (ev # evs) = stdout_bytes evs"
        "e_open \<Longrightarrow> stderr_bytes (ev # evs) = stderr_bytes evs" for st2
      using Cons.IH[OF that(1,2)] that(3,4) by (cases o_open; cases e_open) simp_all
    show ?thesis
    proof (cases ev)
      case FlushTick
      then show ?thesis
        using skip[OF _ written_flush_due[OF w]] Cons.prems(1) False by (simp add: Let_def)
    next
      case (RemoteUpdate s)
      then show ?thesis using skip[OF _ written_raise[OF w]] Cons.prems(1) False by (simp add: Let_def)
    next
      case (StdoutData b)
      show ?thesis
      proof (cases o_open)
        case True
        obtain s out1 where d: "decode out b = (s, out1)" by fastforce
        have "shell_output io kill lm evs o_open e_open out1 err (trace_write io s st) = (Closed rest out' err', st')"
          using Cons.prems(1) False StdoutData True d by (simp add: Let_def)
        from wr[where which = True and s = s, OF Cons.IH[OF this]] show ?thesis
          using True StdoutData d by (cases e_open) simp_all
      qed (use skip[OF _ w] Cons.prems(1) False StdoutData in \<open>simp add: Let_def\<close>)
    next
      case (StderrData b)
      show ?thesis
      proof (cases e_open)
        case True
        obtain s err1 where d: "decode err b = (s, err1)" by fastforce
        have "shell_output io kill lm evs o_open e_open out err1 (trace_write io s st) = (Closed rest out' err', st')"
          using Cons.prems(1) False StderrData True d by (simp add: Let_def)
        from wr[where which = False and s = s, OF Cons.IH[OF this]] show ?thesis
          using True StderrData d by (cases o_open) simp_all
      qed (use skip[OF _ w] Cons.prems(1) False StderrData in \<open>simp add: Let_def\<close>)
    next
      case StdoutEof
      show ?thesis
      proof (cases o_open)
        case True
        then have "shell_output io kill lm evs False e_open out err st = (Closed rest out' err', st')"
          using Cons.prems(1) False StdoutEof by (simp add: Let_def)
        from Cons.IH[OF this w] show ?thesis using True StdoutEof by (cases e_open) simp_all
      qed (use skip[OF _ w] Cons.prems(1) False StdoutEof in \<open>simp add: Let_def\<close>)
    next
      case StderrEof
      show ?thesis
      proof (cases e_open)
        case True
        then have "shell_output io kill lm evs o_open False out err st = (Closed rest out' err', st')"
          using Cons.prems(1) False StderrEof by (simp add: Let_def)
        from Cons.IH[OF this w] show ?thesis using True StderrEof by (cases o_open) simp_all
      qed (use skip[OF _ w] Cons.prems(1) False StderrEof in \<open>simp add: Let_def\<close>)
    next
      case CancelReached
      then show ?thesis
        using skip[OF _ w] Cons.prems(1) False by (simp add: Let_def split: if_splits)
    qed (use skip[OF _ w] Cons.prems(1) False in \<open>simp_all add: Let_def\<close>)
  qed
qed

lemma shell_wait_text: "same_text (fst st) (fst (snd (shell_wait kill lm evs st)))"
proof (induction evs arbitrary: st)
  case (Cons ev evs)
  have r: "same_text (fst st) (fst (raise_cancel s st))" for s by (simp add: raise_cancel_def same_text_def)
  have "same_text (fst st) (fst (snd (shell_wait kill lm evs (raise_cancel s st))))" for s
    using same_text_trans[OF r Cons.IH] .
  then show ?case using Cons same_text_refl by (cases ev) simp_all
qed (simp add: same_text_refl)

lemma shell_output_not_exited:
  "fst (shell_output io kill lm evs o_open e_open out err st) \<noteq> Finished (Inr (Exited code))"
proof (induction evs arbitrary: o_open e_open out err st)
  case (Cons ev evs)
  then show ?case by (cases ev) (simp_all add: Let_def case_prod_beta)
qed simp


definition sample_os :: "string shell_os" where
  "sample_os = \<lparr>os_spawn = (\<lambda>argv dir env w.
       (Inr [StdoutData ''hi'', StderrData ''oh'', StdoutEof, StderrEof, ProcessExit (Some 0)], w)),
     os_kill_group = (\<lambda>w. w)\<rparr>"

definition sample_limits :: limits where
  "sample_limits = \<lparr>lm_deadline = nanos, lm_stop_at = Canceling\<rparr>"

abbreviation sample_shell :: "(chain, run_status) result \<times> string state" where
  "sample_shell \<equiv> shell_run local_server sample_os [] ''make'' ''/b'' sample_limits sample_start"


end
