(* ===== verification/S3.thy ===== *)
theory S3
  imports Gitlab_Types Percent
begin

text \<open>
  S3-compatible storage of the job cache (\<open>src/runner_daemon/s3.rs\<close>): the location, the signature,
  requests with their retries and the circuit breaker, downloads and uploads. The hash functions,
  the URL parser and everything outside the process (network, clock, files) are parameters; the
  breaker is shared between jobs, so it is part of the world, which others may change during a
  request or a sleep.
\<close>

section \<open>Signing\<close>

definition EMPTY_SHA256 :: string where
  "EMPTY_SHA256 = ''e3b0c44298fc1c149afbf4c8996fb92427ae41e4649b934ca495991b7852b855''"

definition MAX_SINGLE_PUT :: nat where "MAX_SINGLE_PUT = push_bit 30 5"

definition ATTEMPTS :: nat where "ATTEMPTS = 3"

record hashes =
  hs_sha256 :: "string \<Rightarrow> string"
  hs_hmac :: "string \<Rightarrow> string \<Rightarrow> string"

definition hex :: "string \<Rightarrow> string" where
  "hex bytes = concat (map (\<lambda>c. [hex_lower (byte c div 16), hex_lower (byte c mod 16)]) bytes)"

record signer =
  sg_access_key :: string
  sg_secret_key :: string
  sg_region :: string

definition canonical_request :: "string \<Rightarrow> string \<Rightarrow> (string \<times> string) list \<Rightarrow> string \<Rightarrow> string" where
  "canonical_request verb uri headers payload_hash =
     verb @ [nl] @ uri @ [nl, nl] @ concat (map (\<lambda>(name, v). name @ '':'' @ v @ [nl]) headers) @ [nl] @
     join '';'' (map fst headers) @ [nl] @ payload_hash"

definition authorization ::
  "hashes \<Rightarrow> signer \<Rightarrow> string \<Rightarrow> string \<Rightarrow> (string \<times> string) list \<Rightarrow> string \<Rightarrow> string \<Rightarrow> string" where
  "authorization hs sg verb uri headers payload_hash amz_date =
     (let date = take 8 amz_date;
          scope = date @ ''/'' @ sg_region sg @ ''/s3/aws4_request'';
          string_to_sign = ''AWS4-HMAC-SHA256'' @ [nl] @ amz_date @ [nl] @ scope @ [nl] @
            hex (hs_sha256 hs (canonical_request verb uri headers payload_hash));
          key = foldl (hs_hmac hs) (''AWS4'' @ sg_secret_key sg) [date, sg_region sg, ''s3'', ''aws4_request'']
      in ''AWS4-HMAC-SHA256 Credential='' @ sg_access_key sg @ ''/'' @ scope @ '', SignedHeaders='' @
         join '';'' (map fst headers) @ '', Signature='' @ hex (hs_hmac hs key string_to_sign))"

section \<open>The location\<close>

text \<open>A parsed URL; the parser drops the scheme's default port.\<close>

record url =
  u_scheme :: string
  u_username :: string
  u_password :: "string option"
  u_host :: "string option"
  u_port :: "nat option"
  u_path :: string

definition port_text :: "nat option \<Rightarrow> string" where
  "port_text p = (case p of Some n \<Rightarrow> '':'' @ dec n | None \<Rightarrow> [])"

definition or_empty :: "string option \<Rightarrow> string" where
  "or_empty s = (case s of Some x \<Rightarrow> x | None \<Rightarrow> [])"

definition endpoint_text :: "url \<Rightarrow> string" where
  "endpoint_text u = u_scheme u @ ''://'' @ or_empty (u_host u) @ port_text (u_port u) @ u_path u"

record s3_cache_config =
  s3c_url :: string
  s3c_access_key :: string
  s3c_secret_key :: string
  s3c_region :: "string option"

record s3_location =
  loc_endpoint :: url
  loc_bucket :: string
  loc_prefix :: string
  loc_region :: string

definition trim_slashes :: "string \<Rightarrow> string" where
  "trim_slashes s = rev (dropWhile ((=) (CHR ''/'')) (rev (dropWhile ((=) (CHR ''/'')) s)))"

definition trim_end_slashes :: "string \<Rightarrow> string" where
  "trim_end_slashes s = rev (dropWhile ((=) (CHR ''/'')) (rev s))"

definition location_form :: string where
  "location_form = ''cache_s3.url must look like https://host[:port]/bucket[/prefix] (path-style)''"

text \<open>The region in the host of AWS's own endpoints.\<close>

definition host_region :: "string \<Rightarrow> string" where
  "host_region host =
     (case Option.bind (strip_suffix ''.amazonaws.com'' host)
             (\<lambda>rest. case strip_prefix ''s3.'' rest of Some r \<Rightarrow> Some r | None \<Rightarrow> strip_prefix ''s3-'' rest) of
        Some region \<Rightarrow> if region \<noteq> [] \<and> CHR ''.'' \<notin> set region then region else ''us-east-1''
      | None \<Rightarrow> ''us-east-1'')"

definition s3_location_parse ::
  "(string \<Rightarrow> (string, url) result) \<Rightarrow> string \<Rightarrow> string option \<Rightarrow> (chain, s3_location) result" where
  "s3_location_parse parse_url text_url region =
     (case parse_url text_url of
        Inl e \<Rightarrow> Inl [location_form, e]
      | Inr u \<Rightarrow>
          if u_username u \<noteq> [] \<or> u_password u \<noteq> None then
            Inl [''cache_s3.url must not hold credentials: set access_key and secret_key'']
          else if u_scheme u \<notin> {''http'', ''https''} \<or> u_host u = None then
            Inl [location_form @ '', got '' @ debug_str text_url]
          else
            (let path = trim_slashes (u_path u);
                 (bucket, pre) = (case split_once ''/'' path of Some bp \<Rightarrow> bp | None \<Rightarrow> (path, []))
             in if bucket = [] then
                  Inl [location_form @ '': the bucket is missing, got '' @ debug_str text_url]
                else if map_option trim region = Some [] then Inl [''cache_s3.region must not be empty'']
                else Inr \<lparr>loc_endpoint = u\<lparr>u_path := ''/''\<rparr>, loc_bucket = percent_decode bucket,
                       loc_prefix = percent_decode (trim_slashes pre),
                       loc_region = (case map_option trim region of
                          Some r \<Rightarrow> r | None \<Rightarrow> host_region (or_empty (u_host u)))\<rparr>))"

section \<open>A bucket\<close>

text \<open>Durations and instants in nanoseconds.\<close>

record bucket =
  bk_location :: s3_location
  bk_access_key :: string
  bk_secret_key :: string
  bk_retry_delay :: nat
  bk_stall_timeout :: nat
  bk_cooldown :: nat

definition bucket_new ::
  "(string \<Rightarrow> (string, url) result) \<Rightarrow> (string, unit) result \<Rightarrow> s3_cache_config \<Rightarrow> (chain, bucket) result" where
  "bucket_new parse_url client config =
     rbind (s3_location_parse parse_url (s3c_url config) (s3c_region config)) (\<lambda>loc.
     (case client of
        Inl e \<Rightarrow> Inl [''Failed to build the S3 HTTP client'', e]
      | Inr _ \<Rightarrow> Inr \<lparr>bk_location = loc, bk_access_key = s3c_access_key config,
          bk_secret_key = s3c_secret_key config, bk_retry_delay = nanos, bk_stall_timeout = 60 * nanos,
          bk_cooldown = 60 * nanos\<rparr>))"

definition object_key :: "bucket \<Rightarrow> nat \<Rightarrow> string \<Rightarrow> string" where
  "object_key bk project_id file_name =
     (let key = ''project-'' @ dec project_id @ ''/'' @ file_name in
      if loc_prefix (bk_location bk) = [] then key else loc_prefix (bk_location bk) @ ''/'' @ key)"

definition object_path :: "bucket \<Rightarrow> string \<Rightarrow> string" where
  "object_path bk key =
     encode_path (if key = [] then ''/'' @ loc_bucket (bk_location bk)
                  else ''/'' @ loc_bucket (bk_location bk) @ ''/'' @ key)"

definition host_header :: "bucket \<Rightarrow> string" where
  "host_header bk =
     (let u = loc_endpoint (bk_location bk) in or_empty (u_host u) @ port_text (u_port u))"

section \<open>Requests\<close>

text \<open>
  What comes back from the network, in the order it becomes ready: the answer (or why there is
  none), or a check of the stall timer with the time the upload has been idle. A list that ends
  means that nothing moves any more.
\<close>

datatype s3_chunk = Chunk string | ChunkError string | ChunkStalled

record s3_response =
  sr_status :: nat
  sr_status_text :: string
  sr_etag :: "string option"
  sr_chunks :: "s3_chunk list"

datatype send_error = NoConnection string | SendFailed string

datatype send_event = Answer "(send_error, s3_response) result" | Tick nat

record s3_request =
  s3q_method :: string
  s3q_url :: string
  s3q_headers :: "(string \<times> string) list"
  s3q_body :: "string option"

type_synonym breaker = "(nat \<times> string) option"

record 'w s3_io =
  si_send :: "s3_request \<Rightarrow> 'w \<Rightarrow> send_event list \<times> 'w"
  si_sleep :: "nat \<Rightarrow> 'w \<Rightarrow> 'w"
  si_now :: "'w \<Rightarrow> nat"
  si_amz_date :: "'w \<Rightarrow> string"
  si_breaker :: "'w \<Rightarrow> breaker"
  si_set_breaker :: "breaker \<Rightarrow> 'w \<Rightarrow> 'w"
  si_open_len :: "string \<Rightarrow> 'w \<Rightarrow> (string, (string, nat) result) result \<times> 'w"
  si_metadata_len :: "string \<Rightarrow> 'w \<Rightarrow> (string, nat) result \<times> 'w"
  si_read :: "string \<Rightarrow> 'w \<Rightarrow> (string, string) result \<times> 'w"
  si_stage :: "string \<Rightarrow> 'w \<Rightarrow> (string, string) result \<times> 'w"
  si_append :: "string \<Rightarrow> string \<Rightarrow> 'w \<Rightarrow> (string, unit) result \<times> 'w"

text \<open>\<open>{:?}\<close> of the stall timeout, which is whole seconds.\<close>

definition stalled :: "nat \<Rightarrow> chain" where
  "stalled limit = [''S3 stalled: no data for '' @ dec (limit div nanos) @ ''s'']"

fun until_stalled :: "nat \<Rightarrow> send_event list \<Rightarrow> (chain, (send_error, s3_response) result) result" where
  "until_stalled limit [] = Inl (stalled limit)"
| "until_stalled limit (Answer r # evs) = Inr r"
| "until_stalled limit (Tick idle # evs) =
     (if idle > limit then Inl (stalled limit) else until_stalled limit evs)"

definition check_breaker :: "'w s3_io \<Rightarrow> bucket \<Rightarrow> bool \<Rightarrow> 'w \<Rightarrow> (chain, bool) result \<times> 'w" where
  "check_breaker io bk claim w =
     (case si_breaker io w of
        None \<Rightarrow> (Inr False, w)
      | Some (until, e) \<Rightarrow>
          (let now = si_now io w in
           if until > now then
             (Inl [''S3 skipped for the next '' @ dec ((until - now + nanos - 1) div nanos) @ ''s after: '' @ e], w)
           else if claim then (Inr True, si_set_breaker io (Some (now + bk_cooldown bk, e)) w)
           else (Inr False, w)))"

definition trip :: "'w s3_io \<Rightarrow> bucket \<Rightarrow> chain \<Rightarrow> 'w \<Rightarrow> chain \<times> 'w" where
  "trip io bk e w = (e, si_set_breaker io (Some (si_now io w + bk_cooldown bk, full_chain e)) w)"

definition fail_tripped :: "'w s3_io \<Rightarrow> bucket \<Rightarrow> chain \<Rightarrow> 'w \<Rightarrow> (chain, 'a) result \<times> 'w" where
  "fail_tripped io bk e w = (case trip io bk e w of (e', w') \<Rightarrow> (Inl e', w'))"

definition signed_request ::
  "hashes \<Rightarrow> bucket \<Rightarrow> string \<Rightarrow> string \<Rightarrow> string \<Rightarrow> (string \<times> string) list \<Rightarrow> string \<Rightarrow> s3_request" where
  "signed_request hs bk verb key payload_hash extra amz_date =
     (let path = object_path bk key;
          sg = \<lparr>sg_access_key = bk_access_key bk, sg_secret_key = bk_secret_key bk,
                sg_region = loc_region (bk_location bk)\<rparr>;
          auth = authorization hs sg verb path
            [(''host'', host_header bk), (''x-amz-content-sha256'', payload_hash), (''x-amz-date'', amz_date)]
            payload_hash amz_date
      in \<lparr>s3q_method = verb, s3q_url = trim_end_slashes (endpoint_text (loc_endpoint (bk_location bk))) @ path,
          s3q_headers = [(''x-amz-content-sha256'', payload_hash), (''x-amz-date'', amz_date),
             (''authorization'', auth)] @ extra,
          s3q_body = None\<rparr>)"

text \<open>The last part of an attempt: the reply, and what it means for the breaker.\<close>

definition send_reply ::
  "'w s3_io \<Rightarrow> bucket \<Rightarrow> (chain, (send_error, s3_response) result) result \<Rightarrow> 'w \<Rightarrow>
     ((chain, s3_response) result + chain) \<times> 'w" where
  "send_reply io bk sent w =
     (case sent of
        Inr (Inr rsp) \<Rightarrow>
          if is_server_error (sr_status rsp) then (Inr [''S3 answered '' @ sr_status_text rsp], w)
          else (Inl (Inr rsp), si_set_breaker io None w)
      | Inr (Inl (NoConnection e)) \<Rightarrow>
          (case fail_tripped io bk [''cannot reach S3'', e] w of (r, w') \<Rightarrow> (Inl r, w'))
      | Inr (Inl (SendFailed e)) \<Rightarrow> (Inr [''cannot reach S3'', e], w)
      | Inl e \<Rightarrow> (case fail_tripped io bk e w of (r, w') \<Rightarrow> (Inl r, w')))"

definition with_body ::
  "'w s3_io \<Rightarrow> string option \<Rightarrow> s3_request \<Rightarrow> 'w \<Rightarrow> (chain, s3_request) result \<times> 'w" where
  "with_body io body rq w =
     (case body of
        None \<Rightarrow> (Inr rq, w)
      | Some path \<Rightarrow>
          (case si_open_len io path w of
             (Inl e, w1) \<Rightarrow> (Inl [''Failed to open '' @ path, e], w1)
           | (Inr (Inl e), w1) \<Rightarrow> (Inl [e], w1)
           | (Inr (Inr len), w1) \<Rightarrow>
               (Inr (rq\<lparr>s3q_headers := s3q_headers rq @ [(''content-length'', dec len)],
                      s3q_body := Some path\<rparr>), w1)))"

fun send_attempts ::
  "'w s3_io \<Rightarrow> hashes \<Rightarrow> bucket \<Rightarrow> string \<Rightarrow> string \<Rightarrow> string \<Rightarrow> (string \<times> string) list \<Rightarrow> string option \<Rightarrow>
     nat list \<Rightarrow> chain option \<Rightarrow> 'w \<Rightarrow> (chain, s3_response) result \<times> 'w" where
  "send_attempts io hs bk verb key payload_hash extra body [] last_error w =
     fail_tripped io bk (case last_error of Some e \<Rightarrow> e | None \<Rightarrow> [''S3 request failed'']) w"
| "send_attempts io hs bk verb key payload_hash extra body (attempt # later) last_error w =
     (let w0 = (if attempt > 0 then si_sleep io (bk_retry_delay bk * attempt) w else w) in
      case check_breaker io bk True w0 of
        (Inl e, w1) \<Rightarrow> (Inl e, w1)
      | (Inr trial, w1) \<Rightarrow>
          (case with_body io body (signed_request hs bk verb key payload_hash extra (si_amz_date io w1)) w1 of
             (Inl e, w2) \<Rightarrow> (Inl e, w2)
           | (Inr rq', w2) \<Rightarrow>
               (case si_send io rq' w2 of
                  (evs, w3) \<Rightarrow>
                    (case send_reply io bk (until_stalled (bk_stall_timeout bk) evs) w3 of
                       (Inl r, w4) \<Rightarrow> (r, w4)
                     | (Inr e, w4) \<Rightarrow>
                         if trial then fail_tripped io bk e w4
                         else send_attempts io hs bk verb key payload_hash extra body later (Some e) w4))))"

definition send ::
  "'w s3_io \<Rightarrow> hashes \<Rightarrow> bucket \<Rightarrow> string \<Rightarrow> string \<Rightarrow> string \<Rightarrow> (string \<times> string) list \<Rightarrow> string option \<Rightarrow>
     'w \<Rightarrow> (chain, s3_response) result \<times> 'w" where
  "send io hs bk verb key payload_hash extra body w =
     send_attempts io hs bk verb key payload_hash extra body [0..<ATTEMPTS] None w"

section \<open>Downloads and uploads\<close>

datatype download = NotModified | NoSuchObject | Downloaded string "string option" nat

text \<open>\<open>response.text()\<close> within the limit; anything else counts as empty.\<close>

fun chunks_text :: "s3_chunk list \<Rightarrow> string option" where
  "chunks_text [] = Some []"
| "chunks_text (Chunk b # cs) = map_option ((@) b) (chunks_text cs)"
| "chunks_text (_ # cs) = None"

definition status_error :: "s3_response \<Rightarrow> string" where
  "status_error rsp =
     (let body = (case chunks_text (sr_chunks rsp) of Some b \<Rightarrow> from_utf8_lossy b | None \<Rightarrow> []);
          code = (case Option.bind (split_once ''<Code>'' body) (\<lambda>(_, rest). split_once ''</Code>'' rest) of
                    Some (c, _) \<Rightarrow> '' ('' @ c @ '')'' | None \<Rightarrow> [])
      in ''S3 answered '' @ sr_status_text rsp @ code)"

fun store_chunks ::
  "'w s3_io \<Rightarrow> bucket \<Rightarrow> string \<Rightarrow> s3_chunk list \<Rightarrow> nat \<Rightarrow> 'w \<Rightarrow> (chain, nat) result \<times> 'w" where
  "store_chunks io bk dest [] received w = (Inr received, w)"
| "store_chunks io bk dest (ch # cs) received w =
     (case ch of
        ChunkStalled \<Rightarrow> fail_tripped io bk (stalled (bk_stall_timeout bk)) w
      | ChunkError e \<Rightarrow> fail_tripped io bk [''S3 download interrupted'', e] w
      | Chunk b \<Rightarrow>
          (case si_append io dest b w of
             (Inl e, w1) \<Rightarrow> (Inl [e], w1)
           | (Inr _, w1) \<Rightarrow> store_chunks io bk dest cs (received + length b) w1))"

definition get_to_file ::
  "'w s3_io \<Rightarrow> hashes \<Rightarrow> bucket \<Rightarrow> string \<Rightarrow> string option \<Rightarrow> string \<Rightarrow> 'w \<Rightarrow> (chain, download) result \<times> 'w" where
  "get_to_file io hs bk key etag dir w =
     (case send io hs bk ''GET'' key EMPTY_SHA256
         (case etag of Some t \<Rightarrow> [(''if-none-match'', t)] | None \<Rightarrow> []) None w of
        (Inl e, w1) \<Rightarrow> (Inl e, w1)
      | (Inr rsp, w1) \<Rightarrow>
          if sr_status rsp = 304 then (Inr NotModified, w1)
          else if sr_status rsp = 404 then (Inr NoSuchObject, w1)
          else if sr_status rsp \<noteq> 200 then (Inl [status_error rsp], w1)
          else
            (case si_stage io dir w1 of
               (Inl e, w2) \<Rightarrow> (Inl [''Failed to create a file in '' @ dir, e], w2)
             | (Inr path, w2) \<Rightarrow>
                 (case store_chunks io bk path (sr_chunks rsp) 0 w2 of
                    (Inl e, w3) \<Rightarrow> (Inl e, w3)
                  | (Inr n, w3) \<Rightarrow> (Inr (Downloaded path (sr_etag rsp) n), w3))))"

definition put_file ::
  "'w s3_io \<Rightarrow> hashes \<Rightarrow> bucket \<Rightarrow> string \<Rightarrow> string \<Rightarrow> 'w \<Rightarrow> (chain, string option) result \<times> 'w" where
  "put_file io hs bk key path w =
     (case check_breaker io bk False w of
        (Inl e, w1) \<Rightarrow> (Inl e, w1)
      | (Inr _, w1) \<Rightarrow>
          (case si_metadata_len io path w1 of
             (Inl e, w2) \<Rightarrow> (Inl [e], w2)
           | (Inr len, w2) \<Rightarrow>
               if len > MAX_SINGLE_PUT then
                 (Inl [''the archive is '' @ dec (drop_bit 20 len) @
                    '' MB, above S3'' @ [sq] @ ''s 5 GiB single-upload limit''], w2)
               else
                 (case si_read io path w2 of
                    (Inl e, w3) \<Rightarrow> (Inl [e], w3)
                  | (Inr content, w3) \<Rightarrow>
                      (case send io hs bk ''PUT'' key (hex (hs_sha256 hs content)) [] (Some path) w3 of
                         (Inl e, w4) \<Rightarrow> (Inl e, w4)
                       | (Inr rsp, w4) \<Rightarrow>
                           if is_success (sr_status rsp) then (Inr (sr_etag rsp), w4)
                           else (Inl [status_error rsp], w4)))))"

definition probe :: "'w s3_io \<Rightarrow> hashes \<Rightarrow> bucket \<Rightarrow> 'w \<Rightarrow> (string, unit) result \<times> 'w" where
  "probe io hs bk w =
     (let b = loc_bucket (bk_location bk); endpoint = endpoint_text (loc_endpoint (bk_location bk)) in
      case send io hs bk ''HEAD'' [] EMPTY_SHA256 [] None w of
        (Inl e, w1) \<Rightarrow> (Inl (''cannot reach '' @ endpoint @ '': '' @ full_chain e), w1)
      | (Inr rsp, w1) \<Rightarrow>
          (let status = sr_status rsp in
           (if is_success status then Inr ()
            else if status = 404 then Inl (''bucket '' @ b @ '' not found at '' @ endpoint)
            else if status = 403 then
              Inl (''access to bucket '' @ b @ '' denied (check access_key and secret_key, '' @
                ''and that they allow s3:ListBucket on the bucket)'')
            else if status = 301 then
              Inl (''bucket '' @ b @ '' is in another region: set cache_s3.region'')
            else Inl (''bucket '' @ b @ '' answered '' @ dec status), w1)))"

section \<open>Requests are bounded and the breaker is respected\<close>

text \<open>
  \<open>n\<close> counts the requests sent to S3; only \<open>si_send\<close> sends one, and the breaker is a variable.
\<close>

definition counted :: "'w s3_io \<Rightarrow> ('w \<Rightarrow> nat) \<Rightarrow> bool" where
  "counted io n \<longleftrightarrow>
     (\<forall>rq w evs w'. si_send io rq w = (evs, w') \<longrightarrow> n w' = n w + 1) \<and>
     (\<forall>t w. n (si_sleep io t w) = n w) \<and>
     (\<forall>b w. n (si_set_breaker io b w) = n w \<and> si_breaker io (si_set_breaker io b w) = b \<and>
        si_now io (si_set_breaker io b w) = si_now io w) \<and>
     (\<forall>p w r w'. si_open_len io p w = (r, w') \<longrightarrow> n w' = n w)"

text \<open>While the breaker is open in \<open>w\<close>, calls are skipped.\<close>

definition breaker_open :: "'w s3_io \<Rightarrow> 'w \<Rightarrow> bool" where
  "breaker_open io w \<longleftrightarrow> (case si_breaker io w of Some (until, _) \<Rightarrow> until > si_now io w | None \<Rightarrow> False)"

lemma check_breaker_cases:
  assumes "counted io n"
  obtains (skip) e where "breaker_open io w" "check_breaker io bk c w = (Inl e, w)"
  | (pass) w1 where "\<not> breaker_open io w" "n w1 = n w"
      "check_breaker io bk c w = (Inr (c \<and> si_breaker io w \<noteq> None), w1)"
proof (cases "si_breaker io w")
  case None
  then show ?thesis by (intro pass[of w]) (simp_all add: breaker_open_def check_breaker_def)
next
  case (Some b)
  obtain until e where b: "b = (until, e)" by fastforce
  show ?thesis
  proof (cases "until > si_now io w")
    case True
    then show ?thesis using Some b by (intro skip) (simp_all add: breaker_open_def check_breaker_def)
  next
    case False
    let ?w = "if c then si_set_breaker io (Some (si_now io w + bk_cooldown bk, e)) w else w"
    show ?thesis using Some b False assms
      by (intro pass[of ?w]) (simp_all add: breaker_open_def check_breaker_def counted_def Let_def)
  qed
qed

lemma fail_tripped_opens:
  assumes "counted io n" "bk_cooldown bk > 0" "fail_tripped io bk e w = (r, w')"
  shows "r = Inl e" "breaker_open io w'" "n w' = n w"
  using assms by (auto simp: fail_tripped_def trip_def breaker_open_def counted_def)

lemma send_reply_cases:
  assumes c: "counted io n" "bk_cooldown bk > 0" and r: "send_reply io bk sent w = (r, w')"
  shows "n w' = n w" "case r of
      Inl (Inr rsp) \<Rightarrow> \<not> is_server_error (sr_status rsp) \<and> si_breaker io w' = None
    | Inl (Inl e) \<Rightarrow> breaker_open io w'
    | Inr e \<Rightarrow> True"
  using c r fail_tripped_opens[OF c]
  by (auto simp: send_reply_def counted_def split: sum.splits if_splits send_error.splits prod.splits)

text \<open>What an attempt's call returns and leaves behind.\<close>

definition send_post :: "'w s3_io \<Rightarrow> string option \<Rightarrow> (chain, s3_response) result \<Rightarrow> 'w \<Rightarrow> bool" where
  "send_post io body r w' \<longleftrightarrow>
     (case r of
        Inr rsp \<Rightarrow> \<not> is_server_error (sr_status rsp) \<and> si_breaker io w' = None
      | Inl e \<Rightarrow> breaker_open io w' \<or> body \<noteq> None)"

lemma with_body_n:
  assumes "counted io n" "with_body io body rq w = (r, w')"
  shows "n w' = n w \<and> (case r of Inl e \<Rightarrow> body \<noteq> None | Inr _ \<Rightarrow> True)"
proof (cases body)
  case (Some path)
  obtain u w1 where "si_open_len io path w = (u, w1)" by (meson surj_pair)
  then show ?thesis using assms Some
    by (auto simp: with_body_def counted_def split: sum.splits)
qed (use assms in \<open>auto simp: with_body_def\<close>)

lemma send_attempts_bounded:
  assumes c: "counted io n" "bk_cooldown bk > 0"
  shows "send_attempts io hs bk verb key ph extra body as prev w = (r, w') \<Longrightarrow>
    n w' \<le> n w + length as \<and> send_post io body r w' \<and>
    (as \<noteq> [] \<and> hd as = 0 \<longrightarrow>
       (if breaker_open io w then n w' = n w else if si_breaker io w \<noteq> None then n w' \<le> n w + 1 else True))"
proof (induction as arbitrary: prev w)
  case Nil
  then have "fail_tripped io bk (case prev of Some e \<Rightarrow> e | None \<Rightarrow> [''S3 request failed'']) w = (r, w')" by simp
  from fail_tripped_opens[OF c this] show ?case by (simp add: send_post_def)
next
  case (Cons a as)
  define w0 where "w0 = (if a > 0 then si_sleep io (bk_retry_delay bk * a) w else w)"
  have n0: "n w0 = n w" "a = 0 \<Longrightarrow> w0 = w" using c(1) by (auto simp: w0_def counted_def)
  note run = Cons.prems[unfolded send_attempts.simps Let_def, folded w0_def]
  consider (skip) e where "breaker_open io w0" "check_breaker io bk True w0 = (Inl e, w0)"
    | (pass) w1 where "\<not> breaker_open io w0" "n w1 = n w0"
        "check_breaker io bk True w0 = (Inr (si_breaker io w0 \<noteq> None), w1)"
    using check_breaker_cases[OF c(1), where w = w0 and bk = bk and c = True] by auto
  then show ?case
  proof cases
    case (skip e)
    then show ?thesis using run n0 by (auto simp: send_post_def)
  next
    case (pass w1)
    show ?thesis
    proof (cases "with_body io body (signed_request hs bk verb key ph extra (si_amz_date io w1)) w1")
      case (Pair q w2)
      note o = Pair and nb = with_body_n[OF c(1) Pair]
      show ?thesis
      proof (cases q)
        case (Inl e)
        then show ?thesis using run n0 pass o nb by (auto simp: send_post_def)
      next
        case rq: (Inr rq')
      obtain evs w3 where s: "si_send io rq' w2 = (evs, w3)" by (meson surj_pair)
      have n3: "n w3 = n w + 1" using c(1) s nb pass(2) n0(1) by (simp add: counted_def)
      obtain v w4 where v: "send_reply io bk (until_stalled (bk_stall_timeout bk) evs) w3 = (v, w4)"
        by (meson surj_pair)
      note rc = send_reply_cases[OF c v]
      show ?thesis
      proof (cases v)
        case (Inl res)
        then have "r = res" "w' = w4" using run pass(3) o rq s v by auto
        then show ?thesis using rc n3 n0 Inl pass(1) by (auto simp: send_post_def split: sum.splits)
      next
        case (Inr e)
        show ?thesis
        proof (cases "si_breaker io w0 \<noteq> None")
          case True
          then have "fail_tripped io bk e w4 = (r, w')" using run pass(3) o rq s v Inr by simp
          from fail_tripped_opens[OF c this] show ?thesis
            using rc n3 n0 Inr pass(1) by (auto simp: send_post_def)
        next
          case False
          then have "send_attempts io hs bk verb key ph extra body as (Some e) w4 = (r, w')"
            using run pass(3) o rq s v Inr by simp
          from Cons.IH[OF this] show ?thesis using rc n3 n0 Inr pass(1) False by auto
        qed
      qed
      qed
    qed
  qed
qed

text \<open>
  C16: a call to S3 sends at most three requests: none while the breaker is open, and a single trial
  after a cooldown. A reply that is returned is never a server error and closes the breaker; when
  the call fails (a download, that is, without a file of its own to read) the breaker is open, so
  the other jobs do not wait through the same timeouts.
\<close>

theorem send_bounded:
  assumes "counted io n" "bk_cooldown bk > 0" "send io hs bk verb key ph extra body w = (r, w')"
  shows "n w' \<le> n w + 3 \<and>
    (if breaker_open io w then n w' = n w else if si_breaker io w \<noteq> None then n w' \<le> n w + 1 else True) \<and>
    (case r of
       Inr rsp \<Rightarrow> \<not> is_server_error (sr_status rsp) \<and> si_breaker io w' = None
     | Inl e \<Rightarrow> breaker_open io w' \<or> body \<noteq> None)"
proof -
  have "[0..<ATTEMPTS] = [0, 1, 2]" by (simp add: ATTEMPTS_def upt_rec)
  with send_attempts_bounded[OF assms(1,2), of hs verb key ph extra body "[0..<ATTEMPTS]"] assms(3)
  show ?thesis by (force simp: send_def send_post_def)
qed

definition sample_bucket :: bucket where
  "sample_bucket = \<lparr>bk_location = \<lparr>loc_endpoint = \<lparr>u_scheme = ''https'', u_username = [], u_password = None,
       u_host = Some ''s3.example.com'', u_port = None, u_path = ''/''\<rparr>, loc_bucket = ''cache'', loc_prefix = [],
       loc_region = ''us-east-1''\<rparr>, bk_access_key = ''key'', bk_secret_key = ''secret'', bk_retry_delay = 1,
     bk_stall_timeout = 60, bk_cooldown = 60\<rparr>"

text \<open>A server that always answers 503; the state counts the requests and holds the breaker.\<close>

definition failing_s3 :: "(nat \<times> breaker) s3_io" where
  "failing_s3 = \<lparr>si_send = (\<lambda>_ (k, b). ([Tick 3, Answer (Inr \<lparr>sr_status = 503, sr_status_text = ''503'',
         sr_etag = None, sr_chunks = []\<rparr>)], (k + 1, b))),
     si_sleep = (\<lambda>_ w. w), si_now = (\<lambda>_. 5), si_amz_date = (\<lambda>_. ''20260101T000000Z''), si_breaker = snd,
     si_set_breaker = (\<lambda>b (k, _). (k, b)), si_open_len = (\<lambda>_ w. (Inl [], w)), si_metadata_len = (\<lambda>_ w. (Inl [], w)),
     si_read = (\<lambda>_ w. (Inl [], w)), si_stage = (\<lambda>_ w. (Inl [], w)), si_append = (\<lambda>_ _ w. (Inr (), w))\<rparr>"

definition no_hash :: hashes where
  "no_hash = \<lparr>hs_sha256 = (\<lambda>_. []), hs_hmac = (\<lambda>_ _. [])\<rparr>"

lemma send_bounded_witness:
  "let (r, w') = send failing_s3 no_hash sample_bucket ''GET'' ''k'' EMPTY_SHA256 [] None (0, Some (2, ''down'')) in
   fst w' \<le> 1 \<and> (case r of Inr rsp \<Rightarrow> sr_status rsp \<noteq> 503 | Inl e \<Rightarrow> breaker_open failing_s3 w')"
proof -
  have law: "counted failing_s3 fst" by (auto simp: counted_def failing_s3_def)
  obtain r w' where run: "send failing_s3 no_hash sample_bucket ''GET'' ''k'' EMPTY_SHA256 [] None
      (0, Some (2, ''down'')) = (r, w')" by (meson surj_pair)
  have "bk_cooldown sample_bucket > 0" by (simp add: sample_bucket_def)
  from send_bounded[OF law this run] show ?thesis
    using run by (auto simp: breaker_open_def failing_s3_def is_server_error_def split: sum.splits)
qed

end
