(* ===== verification/Config.thy ===== *)
theory Config
  imports S3 Duration
begin

text \<open>
  The runner's configuration (\<open>src/runner_daemon/config.rs\<close>): its fields and defaults, what
  \<open>validate\<close> rejects, sizes, and unknown keys. The TOML parser, reading files, the URL parser and
  reading certificates are parameters.
\<close>

section \<open>The configuration\<close>

record service_config =
  scf_name :: string
  scf_alias :: "string option"
  scf_entrypoint :: "string list option"
  scf_command :: "string list option"

text \<open>An \<open>f64\<close>: a number, or infinite or NaN.\<close>

datatype float_value = Finite rat | NotFinite

record docker_config =
  dc_builds_dir :: "string option"
  dc_default_image :: string
  dc_privileged :: bool
  dc_volumes :: "string list"
  dc_network_mode :: string
  dc_pull_policy :: string
  dc_allowed_pull_policies :: "string list"
  dc_helper_image :: string
  dc_memory :: "string option"
  dc_memory_swap :: "string option"
  dc_memory_reservation :: "string option"
  dc_cpus :: "float_value option"
  dc_shm_size :: "string option"
  dc_oom_score_adjust :: "int option"
  dc_services :: "service_config list"
  dc_auth_config_file :: "string option"
  dc_insecure_registries :: "string list"
  dc_registry_ca :: "(string \<times> string) list"

record shell_config =
  sh_work_dir :: string

record executor_config =
  ec_executor_type :: string
  ec_workspace_max_age_days :: nat
  ec_docker :: docker_config
  ec_shell :: shell_config

record runner_config =
  rc_concurrent :: nat
  rc_check_interval :: nat
  rc_runner_token :: string
  rc_gitlab_url :: string
  rc_tls_ca_file :: "string option"
  rc_proxy :: "string option"
  rc_no_proxy :: "string option"
  rc_cache_enabled :: bool
  rc_cache_dir :: string
  rc_cache_max_age_days :: nat
  rc_state_dir :: string
  rc_environment :: "string list"
  rc_pre_get_sources_script :: "string option"
  rc_post_get_sources_script :: "string option"
  rc_pre_build_script :: "string option"
  rc_post_build_script :: "string option"
  rc_cache_s3 :: "s3_cache_config option"
  rc_executor :: executor_config

definition default_cache_dir :: string where
  "default_cache_dir = ''/var/lib/turboci/cache''"

definition shell_config_default :: shell_config where
  "shell_config_default = \<lparr>sh_work_dir = ''/tmp/turboci-builds''\<rparr>"

definition docker_config_default :: docker_config where
  "docker_config_default = \<lparr>dc_builds_dir = None, dc_default_image = ''alpine:latest'', dc_privileged = False,
     dc_volumes = [], dc_network_mode = ''bridge'', dc_pull_policy = ''always'', dc_allowed_pull_policies = [],
     dc_helper_image = ''alpine/git:latest'', dc_memory = None, dc_memory_swap = None,
     dc_memory_reservation = None, dc_cpus = None, dc_shm_size = None, dc_oom_score_adjust = None,
     dc_services = [], dc_auth_config_file = None, dc_insecure_registries = [], dc_registry_ca = []\<rparr>"

definition executor_config_default :: executor_config where
  "executor_config_default = \<lparr>ec_executor_type = ''docker'', ec_workspace_max_age_days = 7,
     ec_docker = docker_config_default, ec_shell = shell_config_default\<rparr>"

definition runner_config_default :: runner_config where
  "runner_config_default = \<lparr>rc_concurrent = 4, rc_check_interval = 3, rc_runner_token = [],
     rc_gitlab_url = ''https://gitlab.com'', rc_tls_ca_file = None, rc_proxy = None, rc_no_proxy = None,
     rc_cache_enabled = True, rc_cache_dir = default_cache_dir, rc_cache_max_age_days = 14,
     rc_state_dir = ''/var/lib/turboci'', rc_environment = [], rc_pre_get_sources_script = None,
     rc_post_get_sources_script = None, rc_pre_build_script = None, rc_post_build_script = None,
     rc_cache_s3 = None, rc_executor = executor_config_default\<rparr>"

section \<open>Sizes\<close>

definition size_multiplier :: "string \<Rightarrow> int option" where
  "size_multiplier u =
     (if u \<in> {[], ''b''} then Some 1 else if u \<in> {''k'', ''kb''} then Some (push_bit 10 1)
      else if u \<in> {''m'', ''mb''} then Some (push_bit 20 1)
      else if u \<in> {''g'', ''gb''} then Some (push_bit 30 1) else None)"

text \<open>\<open>str::parse::<i64>\<close> of a string of digits.\<close>

definition parse_i64_digits :: "string \<Rightarrow> (string, int) result" where
  "parse_i64_digits s =
     (if s = [] then Inl ''cannot parse integer from empty string''
      else if digits_val s > i64_max then Inl ''number too large to fit in target type''
      else Inr (int (digits_val s)))"

definition parse_size :: "string \<Rightarrow> string \<Rightarrow> (chain, int) result" where
  "parse_size field given =
     (let v = to_ascii_lowercase (trim given) in
      if v = ''-1'' then Inr (-1)
      else
        (let number = takeWhile is_ascii_digit v; u = dropWhile is_ascii_digit v in
         case size_multiplier u of
           None \<Rightarrow> Inl [field @ '': unknown unit in '' @ debug_str v]
         | Some multiplier \<Rightarrow>
             (case parse_i64_digits number of
                Inl e \<Rightarrow> Inl [field @ '': invalid value '' @ debug_str v, e]
              | Inr n \<Rightarrow>
                  if n * multiplier > int i64_max then Inl [field @ '': '' @ debug_str v @ '' is too large'']
                  else Inr (n * multiplier))))"

definition docker_size :: "string \<Rightarrow> string option \<Rightarrow> (chain, int option) result" where
  "docker_size field given =
     (case given of
        None \<Rightarrow> Inr None
      | Some v \<Rightarrow> rbind (parse_size (''executor.docker.'' @ field) v) (\<lambda>n. Inr (Some n)))"

definition memory_bytes :: "docker_config \<Rightarrow> (chain, int option) result" where
  "memory_bytes c = docker_size ''memory'' (dc_memory c)"
definition memory_swap_bytes :: "docker_config \<Rightarrow> (chain, int option) result" where
  "memory_swap_bytes c = docker_size ''memory_swap'' (dc_memory_swap c)"
definition memory_reservation_bytes :: "docker_config \<Rightarrow> (chain, int option) result" where
  "memory_reservation_bytes c = docker_size ''memory_reservation'' (dc_memory_reservation c)"
definition shm_size_bytes :: "docker_config \<Rightarrow> (chain, int option) result" where
  "shm_size_bytes c = docker_size ''shm_size'' (dc_shm_size c)"

section \<open>Validation\<close>

definition check :: "bool \<Rightarrow> string \<Rightarrow> (chain, unit) result" where
  "check ok message = (if ok then Inr () else Inl [message])"

definition debug_opt :: "('a \<Rightarrow> string) \<Rightarrow> 'a option \<Rightarrow> string" where
  "debug_opt show_a x = (case x of None \<Rightarrow> ''None'' | Some a \<Rightarrow> ''Some('' @ show_a a @ '')'')"

definition debug_service :: "service_config \<Rightarrow> string" where
  "debug_service s = ''ServiceConfig { name: '' @ debug_str (scf_name s) @ '', alias: '' @
     debug_opt debug_str (scf_alias s) @ '', entrypoint: '' @ debug_opt debug_strs (scf_entrypoint s) @
     '', command: '' @ debug_opt debug_strs (scf_command s) @ '' }''"

fun negative_size :: "int option \<Rightarrow> bool" where
  "negative_size (Some n) = (n < 0)"
| "negative_size None = False"

definition validate_memory :: "docker_config \<Rightarrow> (chain, unit) result" where
  "validate_memory c =
     rbind (memory_bytes c) (\<lambda>m. rbind (memory_reservation_bytes c) (\<lambda>r. rbind (shm_size_bytes c) (\<lambda>s.
     rbind (check (\<not> list_ex negative_size [m, r, s])
       ''executor.docker: sizes must not be negative (only memory_swap may be -1)'') (\<lambda>_.
     rbind (memory_swap_bytes c) (\<lambda>swap. rbind (memory_bytes c) (\<lambda>memory.
     case (swap, memory) of
       (Some sw, Some me) \<Rightarrow>
         check (sw = -1 \<or> sw \<ge> me) ''executor.docker.memory_swap must be at least memory (or -1)''
     | (Some sw, None) \<Rightarrow> check (sw = -1) ''executor.docker.memory_swap needs memory to be set too''
     | _ \<Rightarrow> Inr ()))))))"

definition cpus_ok :: "float_value \<Rightarrow> bool" where
  "cpus_ok v = (case v of NotFinite \<Rightarrow> False | Finite x \<Rightarrow> 0 < x \<and> x \<le> 1024)"

definition pull_policy_name :: "string \<Rightarrow> bool" where
  "pull_policy_name p \<longleftrightarrow> p \<in> {''always'', ''if-not-present'', ''never''}"

definition valid_registry :: "string \<Rightarrow> bool" where
  "valid_registry host \<longleftrightarrow> host \<noteq> [] \<and> CHR ''/'' \<notin> set host \<and> find_ws host = None"

definition first_bad :: "('a \<Rightarrow> bool) \<Rightarrow> 'a list \<Rightarrow> ('a \<Rightarrow> string) \<Rightarrow> (chain, unit) result" where
  "first_bad good xs message =
     (case find (\<lambda>x. \<not> good x) xs of None \<Rightarrow> Inr () | Some x \<Rightarrow> Inl [message x])"

text \<open>\<open>read_ca\<close>: reading a file and the number of PEM certificates in it.\<close>

fun validate_cas :: "(string \<Rightarrow> (string, nat) result) \<Rightarrow> (string \<times> string) list \<Rightarrow> (chain, unit) result" where
  "validate_cas read_ca [] = Inr ()"
| "validate_cas read_ca ((registry, path) # cas) =
     rbind (check (path_absolute path)
       (''executor.docker.registry_ca: '' @ path @ '' for '' @ registry @ '' must be an absolute path'')) (\<lambda>_.
     case read_ca path of
       Inl e \<Rightarrow> Inl [''executor.docker.registry_ca: cannot read '' @ path @ '' for '' @ registry, e]
     | Inr certificates \<Rightarrow>
         rbind (check (certificates \<noteq> 0)
           (''executor.docker.registry_ca: '' @ path @ '' for '' @ registry @ '' holds no PEM certificate'')) (\<lambda>_.
         validate_cas read_ca cas))"

definition validate_docker :: "(string \<Rightarrow> (string, nat) result) \<Rightarrow> docker_config \<Rightarrow> (chain, unit) result" where
  "validate_docker read_ca c =
     rbind (validate_memory c) (\<lambda>_.
     rbind (check (case dc_cpus c of None \<Rightarrow> True | Some v \<Rightarrow> cpus_ok v)
       ''executor.docker.cpus must be a number between 0 and 1024'') (\<lambda>_.
     rbind (check (case dc_oom_score_adjust c of None \<Rightarrow> True | Some n \<Rightarrow> -1000 \<le> n \<and> n \<le> 1000)
       ''executor.docker.oom_score_adjust must be between -1000 and 1000'') (\<lambda>_.
     rbind (first_bad pull_policy_name (dc_pull_policy c # dc_allowed_pull_policies c)
       (\<lambda>p. ''executor.docker pull policies must be always, if-not-present or never, got '' @ debug_str p)) (\<lambda>_.
     rbind (check (case dc_builds_dir c of None \<Rightarrow> True | Some d \<Rightarrow> path_absolute d)
       (''executor.docker.builds_dir must be an absolute path, got '' @
          debug_str (case dc_builds_dir c of Some d \<Rightarrow> d | None \<Rightarrow> []))) (\<lambda>_.
     rbind (first_bad (\<lambda>s. trim (scf_name s) \<noteq> []) (dc_services c)
       (\<lambda>s. ''executor.docker.services: every service needs a name ('' @ debug_service s @ '')'')) (\<lambda>_.
     rbind (first_bad (\<lambda>v. prefix ''/'' v \<or> CHR '':'' \<in> set v) (dc_volumes c)
       (\<lambda>v. ''executor.docker.volumes: '' @ debug_str v @
          '' must be an absolute container path or host:container'')) (\<lambda>_.
     rbind (first_bad valid_registry (dc_insecure_registries c @ map fst (dc_registry_ca c))
       (\<lambda>r. ''executor.docker: registry '' @ debug_str r @
          '' must be host or host:port, without a scheme or path'')) (\<lambda>_.
     validate_cas read_ca (dc_registry_ca c)))))))))"

definition environment_entry_ok :: "string \<Rightarrow> bool" where
  "environment_entry_ok entry \<longleftrightarrow>
     (case split_once ''='' entry of None \<Rightarrow> False | Some (key, _) \<Rightarrow> trim key \<noteq> [])"

definition validate ::
  "(string \<Rightarrow> (string, url) result) \<Rightarrow> (string \<Rightarrow> (string, nat) result) \<Rightarrow> runner_config \<Rightarrow> (chain, unit) result" where
  "validate parse_url read_ca c =
     rbind (check (trim (rc_runner_token c) \<noteq> [])
       ''runner_token is empty: set the runner authentication token (glrt-...)'') (\<lambda>_.
     rbind (check (prefix ''https://'' (rc_gitlab_url c) \<or> prefix ''http://'' (rc_gitlab_url c))
       (''gitlab_url must start with https:// or http://, got '' @ debug_str (rc_gitlab_url c))) (\<lambda>_.
     rbind (check (rc_concurrent c \<noteq> 0) ''concurrent must be at least 1'') (\<lambda>_.
     rbind (check (rc_check_interval c \<noteq> 0) ''check_interval must be at least 1 second'') (\<lambda>_.
     rbind (case rc_proxy c of
         Some proxy \<Rightarrow>
           check (case parse_url proxy of
               Inr u \<Rightarrow> u_scheme u \<in> {''http'', ''https''} \<and> u_host u \<noteq> None | Inl _ \<Rightarrow> False)
             ''proxy must be an http:// or https:// URL with a host''
       | None \<Rightarrow> check (rc_no_proxy c = None) ''no_proxy needs proxy to be set'') (\<lambda>_.
     rbind (validate_docker read_ca (ec_docker (rc_executor c))) (\<lambda>_.
     rbind (first_bad environment_entry_ok (rc_environment c)
       (\<lambda>e. ''environment entries must look like KEY=value, got '' @ debug_str e)) (\<lambda>_.
     rbind (case rc_cache_s3 c of
         None \<Rightarrow> Inr ()
       | Some s3 \<Rightarrow>
           rbind (s3_location_parse parse_url (s3c_url s3) (s3c_region s3)) (\<lambda>_.
           check (trim (s3c_access_key s3) \<noteq> [] \<and> trim (s3c_secret_key s3) \<noteq> [])
             ''cache_s3 needs access_key and secret_key'')) (\<lambda>_.
     check (ec_executor_type (rc_executor c) \<in> {''docker'', ''shell''})
       (''executor_type must be '' @ [dq] @ ''docker'' @ [dq] @ '' or '' @ [dq] @ ''shell'' @ [dq] @ '', got '' @
          debug_str (ec_executor_type (rc_executor c)))))))))))"

section \<open>Loading\<close>

text \<open>A TOML table keeps its keys sorted; other values count as one.\<close>

datatype toml = TomlTable "(string \<times> toml) list" | TomlValue

fun walk_keys :: "(string \<times> toml) list \<Rightarrow> (string \<times> toml) list \<Rightarrow> string \<Rightarrow> string list" where
  "walk_keys [] known pre = []"
| "walk_keys ((key, v) # given) known pre =
     (case (v, map_of known key) of
        (TomlTable g, Some (TomlTable k)) \<Rightarrow> walk_keys g k (pre @ key @ ''.'')
      | (_, Some _) \<Rightarrow> []
      | (_, None) \<Rightarrow> [pre @ key]) @ walk_keys given known pre"

definition unknown_keys :: "(string, (string \<times> toml) list) result \<Rightarrow> (string, (string \<times> toml) list) result \<Rightarrow> string list" where
  "unknown_keys given known =
     (case (given, known) of (Inr g, Inr k) \<Rightarrow> walk_keys g k [] | _ \<Rightarrow> [])"

definition config_parse ::
  "(string \<Rightarrow> (string, runner_config) result) \<Rightarrow> string \<Rightarrow> (chain, runner_config) result" where
  "config_parse from_toml content =
     (case from_toml content of
        Inl e \<Rightarrow> Inl [e]
      | Inr c \<Rightarrow>
          Inr (if dc_builds_dir (ec_docker (rc_executor c)) = None
               then c\<lparr>rc_executor := (rc_executor c)\<lparr>ec_docker := (ec_docker (rc_executor c))
                      \<lparr>dc_builds_dir := Some (path_join (rc_state_dir c) ''builds'')\<rparr>\<rparr>\<rparr>
               else c))"

definition config_load ::
  "(string \<Rightarrow> (string, url) result) \<Rightarrow> (string \<Rightarrow> (string, nat) result) \<Rightarrow> (string \<Rightarrow> (string, runner_config) result) \<Rightarrow>
     (string \<Rightarrow> (string, string) result) \<Rightarrow> string \<Rightarrow> (chain, runner_config) result" where
  "config_load parse_url read_ca from_toml read_file path =
     (case read_file path of
        Inl e \<Rightarrow> Inl [''Failed to read config file: '' @ debug_str path, e]
      | Inr content \<Rightarrow>
          (case config_parse from_toml content of
             Inl es \<Rightarrow> Inl ((''Invalid config file: '' @ debug_str path) # es)
           | Inr c \<Rightarrow> rbind (validate parse_url read_ca c) (\<lambda>_. Inr c)))"

definition s3_cache :: "runner_config \<Rightarrow> s3_cache_config option" where
  "s3_cache c = (case rc_cache_s3 c of None \<Rightarrow> None | Some s3 \<Rightarrow> if \<not> rc_cache_enabled c then None else Some s3)"

record network =
  nw_proxy :: "string option"
  nw_no_proxy :: "string option"
  nw_ca_pem :: "string option"

definition config_network :: "(string \<Rightarrow> (string, string) result) \<Rightarrow> runner_config \<Rightarrow> (chain, network) result" where
  "config_network read_file c =
     (case rc_tls_ca_file c of
        None \<Rightarrow> Inr \<lparr>nw_proxy = rc_proxy c, nw_no_proxy = rc_no_proxy c, nw_ca_pem = None\<rparr>
      | Some path \<Rightarrow>
          (case read_file path of
             Inl e \<Rightarrow> Inl [''Cannot read tls_ca_file '' @ path, e]
           | Inr pem \<Rightarrow> Inr \<lparr>nw_proxy = rc_proxy c, nw_no_proxy = rc_no_proxy c, nw_ca_pem = Some pem\<rparr>))"

definition config_save ::
  "(runner_config \<Rightarrow> (string, string) result) \<Rightarrow> (string \<Rightarrow> string \<Rightarrow> 'w \<Rightarrow> (string, unit) result \<times> 'w) \<Rightarrow> runner_config \<Rightarrow>
     string \<Rightarrow> 'w \<Rightarrow> (chain, unit) result \<times> 'w" where
  "config_save to_toml write_file c path w =
     (case to_toml c of
        Inl e \<Rightarrow> (Inl [''Failed to serialize config to TOML'', e], w)
      | Inr content \<Rightarrow>
          (case write_file path content w of
             (Inl e, w1) \<Rightarrow> (Inl [''Failed to write config file: '' @ debug_str path, e], w1)
           | (Inr _, w1) \<Rightarrow> (Inr (), w1)))"

definition create_example ::
  "(runner_config \<Rightarrow> (string, string) result) \<Rightarrow> (string \<Rightarrow> string \<Rightarrow> 'w \<Rightarrow> (string, unit) result \<times> 'w) \<Rightarrow> string \<Rightarrow> 'w \<Rightarrow>
     (chain, unit) result \<times> 'w" where
  "create_example to_toml write_file path w = config_save to_toml write_file runner_config_default path w"

end
