(* ===== verification/Image.thy ===== *)
theory Image
  imports Gitlab_Types Utf8 "HOL-Library.Word"
begin

text \<open>
  Docker image references (\<open>src/runner_daemon/image.rs\<close>): repository, tag and registry of an image
  name, service aliases, dind commands, CIDR matching on 32- and 128-bit addresses, registry
  credentials and pull policies. The JSON parser and the base64 decoder are arguments of
  \<open>docker_config_auth\<close>. IP addresses are parsed as the standard library does.
\<close>

unbundle bit_operations_syntax

section \<open>Image names\<close>

text \<open>\<open>rfind(':')\<close>: the last offset of a byte.\<close>

fun rfind_char :: "char \<Rightarrow> string \<Rightarrow> nat option" where
  "rfind_char d [] = None"
| "rfind_char d (c # s) =
     (case rfind_char d s of Some i \<Rightarrow> Some (Suc i) | None \<Rightarrow> if c = d then Some 0 else None)"

definition repository :: "string \<Rightarrow> string" where
  "repository img =
     (let without_digest = hd (split_on (CHR ''@'') img) in
      case rfind_char (CHR '':'') without_digest of
        None \<Rightarrow> without_digest
      | Some colon \<Rightarrow>
          if CHR ''/'' \<in> set (drop colon without_digest) then without_digest
          else take colon without_digest)"

definition with_default_tag :: "string \<Rightarrow> string" where
  "with_default_tag img =
     (if CHR ''@'' \<notin> set img \<and> repository img = img then img @ '':latest'' else img)"

definition registry_host_part :: "string \<Rightarrow> bool" where
  "registry_host_part first \<longleftrightarrow>
     CHR ''.'' \<in> set first \<or> CHR '':'' \<in> set first \<or> first = ''localhost'' \<or> list_ex is_ascii_upper first"

definition registry :: "string \<Rightarrow> string" where
  "registry img =
     (case split_once ''/'' (repository img) of
        Some (first, _) \<Rightarrow> if registry_host_part first then first else ''docker.io''
      | None \<Rightarrow> ''docker.io'')"

text \<open>\<open>split(|c| c == ',' || c.is_whitespace())\<close>; empty pieces are dropped by the caller.\<close>

function split_alias :: "string \<Rightarrow> string \<Rightarrow> string list" where
  "split_alias s cur =
     (if s = [] then [cur]
      else if hd s = CHR '','' then cur # split_alias (tl s) []
      else if ws_len s > 0 then cur # split_alias (drop (ws_len s) s) []
      else split_alias (tl s) (cur @ [hd s]))"
  by pat_completeness auto
termination
  by (relation "measure (\<lambda>(s, cur). length s)") (auto simp: neq_Nil_conv)

declare split_alias.simps [simp del]

definition service_aliases :: "string \<Rightarrow> string option \<Rightarrow> string list" where
  "service_aliases img alias =
     (let repo = repository img in
      remdups_adj
        ([replace_char (CHR ''/'') ''__'' repo, replace_char (CHR ''/'') ''-'' repo] @
         filter (\<lambda>a. a \<noteq> []) (split_alias (case alias of None \<Rightarrow> [] | Some a \<Rightarrow> a) [])))"

definition is_dind :: "string \<Rightarrow> bool" where
  "is_dind img \<longleftrightarrow> contains (to_ascii_lowercase img) ''dind''"

definition insecure_flag :: "string \<Rightarrow> string" where
  "insecure_flag host = ''--insecure-registry='' @ host"

fun add_flags :: "string list \<Rightarrow> string list \<Rightarrow> string list" where
  "add_flags args [] = args"
| "add_flags args (host # hosts) =
     (let flag = insecure_flag host in
      add_flags (if flag \<in> set args then args else args @ [flag]) hosts)"

definition dind_command :: "string list option \<Rightarrow> string list \<Rightarrow> string list option" where
  "dind_command command insecure =
     (if insecure = [] then command
      else Some (add_flags (case command of None \<Rightarrow> [] | Some c \<Rightarrow> c) insecure))"

section \<open>IP addresses\<close>

datatype ip_addr = V4 "32 word" | V6 "128 word"

type_synonym 'a parser = "string \<Rightarrow> ('a \<times> string) option"

definition hex_val :: "char \<Rightarrow> nat" where
  "hex_val c = (let b = byte c in if b \<le> 57 then b - 48 else if b \<le> 70 then b - 55 else b - 87)"

text \<open>
  \<open>Parser::read_number\<close>: at most \<open>maxd\<close> digits of the radix, no overflow beyond \<open>maxn\<close>, and (for
  decimal numbers) no leading zero. One digit too many or an overflow is a failure.
\<close>

definition read_number :: "nat \<Rightarrow> nat \<Rightarrow> bool \<Rightarrow> nat \<Rightarrow> nat parser" where
  "read_number radix maxd zero_prefix maxn s =
     (let ds = takeWhile (if radix = 16 then is_ascii_hexdigit else is_ascii_digit) s;
          n = foldl (\<lambda>n c. radix * n + hex_val c) 0 ds
      in if ds = [] \<or> length ds > maxd \<or> n > maxn \<or>
            (\<not> zero_prefix \<and> hd ds = CHR ''0'' \<and> length ds > 1) then None
         else Some (n, drop (length ds) s))"

definition read_char :: "char \<Rightarrow> unit parser" where
  "read_char c s = (case s of [] \<Rightarrow> None | d # t \<Rightarrow> if c = d then Some ((), t) else None)"

definition read_separator :: "char \<Rightarrow> nat \<Rightarrow> 'a parser \<Rightarrow> 'a parser" where
  "read_separator sep i p s =
     (if i > 0 then (case read_char sep s of None \<Rightarrow> None | Some (_, t) \<Rightarrow> p t) else p s)"

fun read_octets :: "nat \<Rightarrow> nat \<Rightarrow> nat \<Rightarrow> nat parser" where
  "read_octets i 0 acc s = Some (acc, s)"
| "read_octets i (Suc k) acc s =
     (case read_separator (CHR ''.'') i (read_number 10 3 False 255) s of
        None \<Rightarrow> None | Some (n, t) \<Rightarrow> read_octets (Suc i) k (256 * acc + n) t)"

definition read_ipv4 :: "nat parser" where
  "read_ipv4 s = read_octets 0 4 0 s"

text \<open>\<open>read_groups\<close>: up to \<open>limit\<close> groups, an embedded IPv4 address counting for two.\<close>

fun read_groups :: "nat \<Rightarrow> nat \<Rightarrow> string \<Rightarrow> nat list \<times> bool \<times> string" where
  "read_groups i 0 s = ([], False, s)"
| "read_groups i (Suc k) s =
     (case (if k > 0 then read_separator (CHR '':'') i read_ipv4 s else None) of
        Some (v4, t) \<Rightarrow> ([v4 div 65536, v4 mod 65536], True, t)
      | None \<Rightarrow>
        (case read_separator (CHR '':'') i (read_number 16 4 True 65535) s of
           None \<Rightarrow> ([], False, s)
         | Some (g, t) \<Rightarrow> (case read_groups (Suc i) k t of (gs, v4, r) \<Rightarrow> (g # gs, v4, r))))"

definition groups_val :: "nat list \<Rightarrow> nat" where
  "groups_val gs = foldl (\<lambda>n g. 65536 * n + g) 0 gs"

definition read_ipv6 :: "nat parser" where
  "read_ipv6 s =
     (case read_groups 0 8 s of
        (head, head_v4, t) \<Rightarrow>
          if length head = 8 then Some (groups_val head, t)
          else if head_v4 then None
          else (case strip_prefix ''::'' t of
                  None \<Rightarrow> None
                | Some u \<Rightarrow>
                    (case read_groups 0 (8 - (length head + 1)) u of
                       (tail, _, r) \<Rightarrow>
                         Some (groups_val (head @ replicate (8 - length head - length tail) 0 @ tail), r))))"

definition parse_ip :: "string \<Rightarrow> ip_addr option" where
  "parse_ip s =
     (case read_ipv4 s of
        Some (n, []) \<Rightarrow> Some (V4 (of_nat n))
      | _ \<Rightarrow> (case read_ipv6 s of Some (n, []) \<Rightarrow> Some (V6 (of_nat n)) | _ \<Rightarrow> None))"

text \<open>\<open>u32::MAX.checked_shl(n).unwrap_or(0)\<close> and its 128-bit counterpart.\<close>

definition mask_shl :: "nat \<Rightarrow> 'a::len word" where
  "mask_shl n = (if n < LENGTH('a) then push_bit n (- 1) else 0)"

definition ip_in_net :: "ip_addr \<Rightarrow> ip_addr \<Rightarrow> nat \<Rightarrow> bool" where
  "ip_in_net ip network bits =
     (case (ip, network) of
        (V4 i, V4 n) \<Rightarrow> bits \<le> 32 \<and> i AND mask_shl (32 - bits) = n AND mask_shl (32 - bits)
      | (V6 i, V6 n) \<Rightarrow> bits \<le> 128 \<and> i AND mask_shl (128 - bits) = n AND mask_shl (128 - bits)
      | _ \<Rightarrow> False)"

definition ip_in_cidr :: "ip_addr \<Rightarrow> string \<Rightarrow> bool" where
  "ip_in_cidr ip cidr =
     (case split_once ''/'' cidr of
        None \<Rightarrow> False
      | Some (network, bits) \<Rightarrow>
          (case (parse_ip network, parse_uint u32_max bits) of
             (Some n, Some b) \<Rightarrow> ip_in_net ip n b
           | _ \<Rightarrow> False))"

section \<open>Registries and credentials\<close>

definition host_of :: "string \<Rightarrow> string" where
  "host_of url =
     hd (split_on (CHR ''/'') (case split_once ''://'' url of None \<Rightarrow> url | Some (_, rest) \<Rightarrow> rest))"

definition is_docker_hub :: "string \<Rightarrow> bool" where
  "is_docker_hub host \<longleftrightarrow>
     host = ''docker.io'' \<or> host = ''index.docker.io'' \<or> host = ''registry-1.docker.io''"

definition same_registry :: "string \<Rightarrow> string \<Rightarrow> bool" where
  "same_registry host reg \<longleftrightarrow> host = reg \<or> (is_docker_hub host \<and> is_docker_hub reg)"

definition registry_pull_hint :: "string \<Rightarrow> string \<Rightarrow> string option" where
  "registry_pull_hint error reg =
     (let tls = contains error ''x509:'' \<or> contains error ''certificate'';
          http = contains error ''server gave HTTP response to HTTPS client''
      in if \<not> (tls \<or> http) then None
         else if is_docker_hub reg then Some
           (''Hint: dockerd cannot verify Docker Hub, usually because a proxy intercepts '' @
            ''TLS. Add the proxy'' @ [sq] @ ''s CA to the host'' @ [sq] @ ''s system trust store '' @
            ''(/usr/local/share/ca-certificates + update-ca-certificates, or '' @
            ''/etc/pki/ca-trust/source/anchors + update-ca-trust) and restart dockerd; '' @
            ''the runner'' @ [sq] @ ''s registry options do not apply to Docker Hub'')
         else Some
           (''Hint: dockerd cannot verify '' @ reg @ ''. Put its CA in '' @
            ''/etc/docker/certs.d/'' @ reg @ ''/ca.crt (and executor.docker.registry_ca '' @
            ''for docker:dind), or list it in dockerd'' @ [sq] @ ''s insecure-registries (and '' @
            ''executor.docker.insecure_registries)''))"

definition credentials_for :: "string \<Rightarrow> credential list \<Rightarrow> credential option" where
  "credentials_for img creds =
     (let reg = registry img in
      find (\<lambda>c. to_ascii_lowercase (cred_type c) = ''registry'' \<and> same_registry (host_of (cred_url c)) reg)
        creds)"

definition docker_config_auth ::
  "(string \<Rightarrow> json option) \<Rightarrow> (string \<Rightarrow> string option) \<Rightarrow> string \<Rightarrow> string \<Rightarrow> (string \<times> string) option" where
  "docker_config_auth parse_json b64 config img =
     (let reg = registry img in
      case Option.bind (Option.bind (parse_json config) (json_get ''auths'')) json_obj of
        None \<Rightarrow> None
      | Some auths \<Rightarrow>
        (case find (\<lambda>kv. same_registry (host_of (fst kv)) reg) auths of
           None \<Rightarrow> None
         | Some (_, entry) \<Rightarrow>
           (case (Option.bind (json_get ''username'' entry) json_str,
                  Option.bind (json_get ''password'' entry) json_str) of
              (Some user, Some password) \<Rightarrow> Some (user, password)
            | _ \<Rightarrow>
              (case Option.bind (json_get ''auth'' entry) json_str of
                 None \<Rightarrow> None
               | Some text \<Rightarrow>
                 (case b64 (trim text) of
                    None \<Rightarrow> None
                  | Some decoded \<Rightarrow>
                      if utf8_valid decoded then split_once '':'' decoded else None)))))"

section \<open>Pull policies\<close>

datatype pull_policy = Always | IfNotPresent | Never

definition pull_policy_parse :: "string \<Rightarrow> pull_policy option" where
  "pull_policy_parse policy =
     (if policy = ''always'' then Some Always
      else if policy = ''if-not-present'' then Some IfNotPresent
      else if policy = ''never'' then Some Never else None)"

definition pull_policy_resolve ::
  "string list \<Rightarrow> string \<Rightarrow> string list \<Rightarrow> (string, pull_policy) result" where
  "pull_policy_resolve job_policies default_policy allowed =
     (if job_policies = [] then
        Inr (case pull_policy_parse default_policy of None \<Rightarrow> Always | Some p \<Rightarrow> p)
      else
        (let allowed' = (if allowed = [] then [default_policy] else allowed) in
         ok_or (''pull_policy '' @ debug_strs job_policies @
                '' is not one of the runner'' @ [sq] @ ''s allowed pull policies '' @ debug_strs allowed')
           (find_map pull_policy_parse (filter (\<lambda>p. p \<in> set allowed') job_policies))))"

section \<open>Lemmas\<close>

lemma rfind_char_None: "rfind_char d s = None \<longleftrightarrow> d \<notin> set s"
  by (induction s) (auto split: option.splits)

lemma rfind_char_snoc: "d \<notin> set t \<Longrightarrow> rfind_char d (s @ d # t) = Some (length s)"
proof (induction s)
  case Nil
  then show ?case using rfind_char_None[of d t] by simp
qed simp

lemma repository_tagged:
  assumes "CHR ''@'' \<notin> set img" "CHR ''@'' \<notin> set tag" "CHR '':'' \<notin> set tag" "CHR ''/'' \<notin> set tag"
  shows "repository (img @ '':'' @ tag) = img"
proof -
  have "CHR ''@'' \<notin> set (img @ CHR '':'' # tag)" using assms(1,2) by auto
  then have "split_on (CHR ''@'') (img @ CHR '':'' # tag) = [img @ CHR '':'' # tag]"
    by (rule split_on_single)
  then show ?thesis using assms by (simp add: repository_def rfind_char_snoc)
qed

lemma set_add_flags: "set (add_flags args hosts) = set args \<union> insecure_flag ` set hosts"
  by (induction args hosts rule: add_flags.induct) (auto simp: Let_def)

lemma prefix_add_flags: "prefix args (add_flags args hosts)"
proof (induction args hosts rule: add_flags.induct)
  case (2 args host hosts)
  then show ?case using append_prefixD by (auto simp: Let_def)
qed simp

lemma distinct_add_flags: "distinct args \<Longrightarrow> distinct (add_flags args hosts)"
  by (induction args hosts rule: add_flags.induct) (auto simp: Let_def)

lemma mask_and_eq:
  fixes i n :: "'a::len word"
  assumes "k \<le> LENGTH('a)"
  shows "i AND mask_shl k = n AND mask_shl k \<longleftrightarrow> drop_bit k i = drop_bit k n"
proof -
  have bits: "bit (mask_shl k :: 'a word) m \<longleftrightarrow> k \<le> m \<and> m < LENGTH('a)" for m
    by (auto simp: mask_shl_def bit_not_iff bit_mask_iff possible_bit_word dest: bit_imp_le_length)
  show ?thesis
  proof
    assume eq: "i AND mask_shl k = n AND mask_shl k"
    show "drop_bit k i = drop_bit k n"
    proof (rule bit_word_eqI)
      fix m assume "m < LENGTH('a)"
      have "bit (i AND mask_shl k) (k + m) = bit (n AND mask_shl k) (k + m)" using eq by simp
      then show "bit (drop_bit k i) m = bit (drop_bit k n) m"
        by (auto simp: bit_and_iff bits bit_drop_bit_eq dest: bit_imp_le_length)
    qed
  next
    assume eq: "drop_bit k i = drop_bit k n"
    show "i AND mask_shl k = n AND mask_shl k"
    proof (rule bit_word_eqI)
      fix m assume m: "m < LENGTH('a)"
      have "bit (drop_bit k i) (m - k) = bit (drop_bit k n) (m - k)" using eq by simp
      then show "bit (i AND mask_shl k) m = bit (n AND mask_shl k) m"
        by (auto simp: bit_and_iff bits bit_drop_bit_eq)
    qed
  qed
qed

lemma find_map_parse:
  "find_map f (filter (\<lambda>p. p \<in> A) qs) = Option.bind (find (\<lambda>q. q \<in> A \<and> f q \<noteq> None) qs) f"
  by (induction qs) (auto split: option.splits)

lemma resolve_nonempty:
  assumes "qs \<noteq> []" "A = (if allowed = [] then [default_policy] else allowed)"
  shows "pull_policy_resolve qs default_policy allowed =
     (case find (\<lambda>q. q \<in> set A \<and> pull_policy_parse q \<noteq> None) qs of
        Some q \<Rightarrow> Inr (the (pull_policy_parse q))
      | None \<Rightarrow> Inl (''pull_policy '' @ debug_strs qs @
          '' is not one of the runner'' @ [sq] @ ''s allowed pull policies '' @ debug_strs A))"
proof (cases "find (\<lambda>q. q \<in> set A \<and> pull_policy_parse q \<noteq> None) qs")
  case None
  then show ?thesis
    using assms(1) unfolding pull_policy_resolve_def Let_def assms(2)[symmetric] find_map_parse by simp
next
  case (Some q)
  then have "pull_policy_parse q \<noteq> None" using find_Some_in by fastforce
  with Some show ?thesis
    using assms(1) unfolding pull_policy_resolve_def Let_def assms(2)[symmetric] find_map_parse by auto
qed

section \<open>Properties\<close>

text \<open>Adding the default tag to an image changes neither its repository nor the registry it is
  pulled from, and does nothing the second time.\<close>

theorem default_tag_keeps_repository:
  "repository (with_default_tag img) = repository img \<and>
   registry (with_default_tag img) = registry img \<and>
   with_default_tag (with_default_tag img) = with_default_tag img"
proof (cases "CHR ''@'' \<notin> set img \<and> repository img = img")
  case True
  then have w: "with_default_tag img = img @ '':'' @ ''latest''" by (simp add: with_default_tag_def)
  have r: "repository (img @ '':'' @ ''latest'') = img"
    using True by (intro repository_tagged) auto
  moreover have "img \<noteq> img @ '':'' @ ''latest''" by simp
  ultimately have "with_default_tag (img @ '':'' @ ''latest'') = img @ '':'' @ ''latest''"
    unfolding with_default_tag_def by metis
  with r w True show ?thesis by (simp add: registry_def)
next
  case False
  then have w: "with_default_tag img = img" by (auto simp: with_default_tag_def)
  show ?thesis by (simp add: w)
qed

text \<open>An address is in \<open>network/bits\<close> exactly when both are of the same family, \<open>bits\<close> is at
  most the width, and the leading \<open>bits\<close> bits agree; a prefix of 0 matches every address of the
  family.\<close>

theorem ip_in_net_leading_bits:
  "ip_in_net ip network bits =
     (case (ip, network) of
        (V4 i, V4 n) \<Rightarrow> bits \<le> 32 \<and> drop_bit (32 - bits) i = drop_bit (32 - bits) n
      | (V6 i, V6 n) \<Rightarrow> bits \<le> 128 \<and> drop_bit (128 - bits) i = drop_bit (128 - bits) n
      | _ \<Rightarrow> False)"
  by (cases ip; cases network) (auto simp: ip_in_net_def mask_and_eq)



text \<open>A job can only use a pull policy the runner allows: what \<open>resolve\<close> returns for a job
  that names policies is the first of them that is allowed (or is the runner's default, when no
  list is set) and is a policy; if there is none it is an error, never the default.\<close>

theorem pull_policy_allowed:
  "pull_policy_resolve (p # ps) default_policy allowed =
     (let ok = (\<lambda>q. q \<in> set (if allowed = [] then [default_policy] else allowed) \<and> pull_policy_parse q \<noteq> None)
      in case find ok (p # ps) of
           Some q \<Rightarrow> Inr (the (pull_policy_parse q))
         | None \<Rightarrow> Inl (''pull_policy '' @ debug_strs (p # ps) @
                '' is not one of the runner'' @ [sq] @ ''s allowed pull policies '' @
                debug_strs (if allowed = [] then [default_policy] else allowed)))"
  using resolve_nonempty[OF _ refl, of "p # ps" default_policy allowed] by (simp add: Let_def)

text \<open>The command of a dind service keeps the configured command as its beginning and holds
  the insecure-registry flag of every configured host and nothing else; flags already there are
  not repeated.\<close>

theorem dind_command_flags:
  "case dind_command command insecure of
     None \<Rightarrow> command = None \<and> insecure = []
   | Some args \<Rightarrow>
       (let given = (case command of None \<Rightarrow> [] | Some c \<Rightarrow> c) in
        prefix given args \<and> set args = set given \<union> insecure_flag ` set insecure \<and>
        (distinct given \<le> distinct args))"
  by (auto simp: dind_command_def set_add_flags prefix_add_flags distinct_add_flags
      split: option.splits if_splits)

end
