(* ===== verification/Docker.thy ===== *)
theory Docker
  imports Runners Config Image
begin

text \<open>
  The Docker executor (\<open>src/runner_daemon/executor/docker.rs\<close>): the containers, network, services
  and volumes of a job, from the first image to the release of everything that was created. The
  Docker API is the parameter \<open>docker_api\<close>; its configuration is that of \<open>Config\<close>, the scripts run
  as \<open>docker_run\<close> of \<open>Runners\<close> does.
\<close>

section \<open>What the API takes and gives\<close>

record mount =
  mt_target :: string
  mt_source :: string
  mt_read_only :: bool

record host_config =
  hc_binds :: "string list option"
  hc_network_mode :: "string option"
  hc_privileged :: "bool option"
  hc_memory :: "int option"
  hc_memory_swap :: "int option"
  hc_memory_reservation :: "int option"
  hc_shm_size :: "int option"
  hc_oom_score_adj :: "int option"
  hc_nano_cpus :: "int option"
  hc_mounts :: "mount list option"

definition host_config_default :: host_config where
  "host_config_default = \<lparr>hc_binds = None, hc_network_mode = None, hc_privileged = None, hc_memory = None,
     hc_memory_swap = None, hc_memory_reservation = None, hc_shm_size = None, hc_oom_score_adj = None,
     hc_nano_cpus = None, hc_mounts = None\<rparr>"

text \<open>A container to create; \<open>ct_endpoint\<close> is the network it joins with its aliases there.\<close>

record container =
  ct_image :: string
  ct_working_dir :: "string option"
  ct_env :: "string list option"
  ct_entrypoint :: "string list option"
  ct_cmd :: "string list option"
  ct_user :: "string option"
  ct_labels :: "string \<rightharpoonup> string"
  ct_network_disabled :: bool
  ct_host_config :: host_config
  ct_endpoint :: "(string \<times> string list) option"

definition container_default :: "string \<Rightarrow> container" where
  "container_default img = \<lparr>ct_image = img, ct_working_dir = None, ct_env = None, ct_entrypoint = None,
     ct_cmd = None, ct_user = None, ct_labels = Map.empty, ct_network_disabled = False,
     ct_host_config = host_config_default, ct_endpoint = None\<rparr>"

record container_config =
  cc_labels :: "(string \<rightharpoonup> string) option"
  cc_env :: "string list option"
  cc_exposed_ports :: "string list option"

record container_info =
  ci_name :: "string option"
  ci_config :: "container_config option"

text \<open>The progress of a pull, with what happens to the job meanwhile.\<close>

datatype pull_event = PullProgress | PullError string | PullCancelReached | PullRemoteUpdate remote_state

record 'w docker_api =
  da_image_present :: "string \<Rightarrow> 'w \<Rightarrow> bool \<times> 'w"
  da_pull :: "string \<Rightarrow> (string \<times> string \<times> string) option \<Rightarrow> 'w \<Rightarrow> pull_event list \<times> 'w"
  da_inspect :: "string \<Rightarrow> 'w \<Rightarrow> container_info option \<times> 'w"
  da_create :: "string \<Rightarrow> container \<Rightarrow> 'w \<Rightarrow> (string, string) result \<times> 'w"
  da_start :: "string \<Rightarrow> 'w \<Rightarrow> (string, unit) result \<times> 'w"
  da_remove :: "string \<Rightarrow> 'w \<Rightarrow> (string, unit) result \<times> 'w"
  da_wait :: "string \<Rightarrow> 'w \<Rightarrow> (string, unit) result option \<times> 'w"
  da_logs :: "string \<Rightarrow> bool \<Rightarrow> 'w \<Rightarrow> (string, string) result list \<times> 'w"
  da_create_network :: "string \<Rightarrow> (string \<rightharpoonup> string) \<Rightarrow> 'w \<Rightarrow> (string, unit) result \<times> 'w"
  da_remove_network :: "string \<Rightarrow> 'w \<Rightarrow> (string, unit) result \<times> 'w"
  da_volume_present :: "string \<Rightarrow> 'w \<Rightarrow> bool \<times> 'w"
  da_create_volume :: "string \<Rightarrow> (string \<rightharpoonup> string) \<Rightarrow> 'w \<Rightarrow> (string, unit) result \<times> 'w"
  da_list_containers :: "string \<Rightarrow> 'w \<Rightarrow> (string, string option list) result \<times> 'w"
  da_list_networks :: "string \<Rightarrow> 'w \<Rightarrow> (string, string option list) result \<times> 'w"
  da_exec :: "string \<Rightarrow> 'w docker_exec"

text \<open>The host: making directories and variable files, owners, the registry login file.\<close>

record 'w docker_host =
  dh_mkdirs :: "string \<Rightarrow> 'w \<Rightarrow> (string, unit) result \<times> 'w"
  dh_mkparent :: "string \<Rightarrow> 'w \<Rightarrow> (string, unit) result \<times> 'w"
  dh_write_file :: "string \<Rightarrow> string \<Rightarrow> 'w \<Rightarrow> (string, unit) result \<times> 'w"
  dh_owner :: "string \<Rightarrow> 'w \<Rightarrow> (string, nat \<times> nat) result"
  dh_read :: "string \<Rightarrow> 'w \<Rightarrow> string option"
  dh_home :: "'w \<Rightarrow> string option"
  dh_parse_json :: "string \<Rightarrow> json option"
  dh_b64 :: "string \<Rightarrow> string option"
  dh_hash_hex :: "string \<Rightarrow> string"

record docker_executor =
  dx_config :: docker_config
  dx_ca_pem :: "string option"
  dx_owner :: string

record job_containers =
  jc_network :: "string option"
  jc_helper :: "string option"
  jc_services :: "string list"
  jc_job :: "string option"

definition no_containers :: job_containers where
  "no_containers = \<lparr>jc_network = None, jc_helper = None, jc_services = [], jc_job = None\<rparr>"

definition OWNER_LABEL :: string where "OWNER_LABEL = ''turboci.runner''"

text \<open>\<open>DockerExecutor::new\<close>: a rejected configuration gives no executor.\<close>

definition docker_new ::
  "(string, unit) result \<Rightarrow> (string \<Rightarrow> (string, nat) result) \<Rightarrow> docker_config \<Rightarrow> (chain, docker_executor) result" where
  "docker_new connect read_ca config =
     (case connect of
        Inl e \<Rightarrow> Inl [''Failed to connect to Docker daemon'', e]
      | Inr _ \<Rightarrow> rbind (validate_docker read_ca config) (\<lambda>_.
          Inr \<lparr>dx_config = config, dx_ca_pem = None, dx_owner = ''turboci''\<rparr>))"

definition with_owner :: "docker_executor \<Rightarrow> string \<Rightarrow> docker_executor" where
  "with_owner dx owner = dx\<lparr>dx_owner := owner\<rparr>"

definition docker_builds_root :: "docker_executor \<Rightarrow> string" where
  "docker_builds_root dx = (case dc_builds_dir (dx_config dx) of Some d \<Rightarrow> d | None \<Rightarrow> DOCKER_BUILDS_ROOT)"

definition labels :: "docker_executor \<Rightarrow> string \<rightharpoonup> string" where
  "labels dx = [OWNER_LABEL \<mapsto> dx_owner dx]"

section \<open>Services and dockerd\<close>

definition tcp_port :: "string \<Rightarrow> nat option" where
  "tcp_port port = Option.bind (strip_suffix ''/tcp'' port) (parse_uint u16_max)"

definition health_port :: "string \<Rightarrow> nat option" where
  "health_port entry =
     (case split_once ''='' entry of
        Some (key, v) \<Rightarrow>
          if to_ascii_lowercase key = to_ascii_lowercase ''HEALTHCHECK_TCP_PORT''
          then parse_uint u16_max (trim v) else None
      | None \<Rightarrow> None)"

definition service_ports :: "container_config option \<Rightarrow> nat list" where
  "service_ports config =
     (case config of
        None \<Rightarrow> []
      | Some c \<Rightarrow>
          (case find_map health_port (case cc_env c of Some e \<Rightarrow> e | None \<Rightarrow> []) of
             Some port \<Rightarrow> [port]
           | None \<Rightarrow> take 20 (sort (filter_map tcp_port
               (case cc_exposed_ports c of Some ps \<Rightarrow> ps | None \<Rightarrow> [])))))"

text \<open>\<open>registry_host\<close>: the host of \<open>host\<close>, \<open>host:port\<close> or \<open>[v6]:port\<close>.\<close>

definition registry_host :: "string \<Rightarrow> string" where
  "registry_host reg =
     (case Option.bind (strip_prefix ''['' reg) (split_once '']:'') of
        Some (host, _) \<Rightarrow> host
      | None \<Rightarrow>
          (case split_once '':'' reg of
             Some (host, port) \<Rightarrow> if CHR '':'' \<in> set port then reg else host
           | None \<Rightarrow> reg))"

definition dind_ca_mounts :: "(string \<times> string) list \<Rightarrow> mount list" where
  "dind_ca_mounts registry_ca =
     map (\<lambda>(reg, path). \<lparr>mt_target = ''/etc/docker/certs.d/'' @ reg @ ''/ca.crt'', mt_source = path,
       mt_read_only = True\<rparr>) registry_ca"

record system_info =
  sy_http_proxy :: "string option"
  sy_https_proxy :: "string option"
  sy_index_secure :: "string \<rightharpoonup> bool option"
  sy_insecure_cidrs :: "string list"

definition listed_insecure :: "system_info \<Rightarrow> string \<Rightarrow> bool" where
  "listed_insecure info reg \<longleftrightarrow> sy_index_secure info reg = Some (Some False)"

definition in_insecure_cidr :: "(string \<Rightarrow> ip_addr list) \<Rightarrow> system_info \<Rightarrow> string \<Rightarrow> bool" where
  "in_insecure_cidr resolve info reg =
     (let host = registry_host reg;
          addrs = (case parse_ip host of
                     Some ip \<Rightarrow> [ip]
                   | None \<Rightarrow> if sy_insecure_cidrs info = [] then [] else resolve host)
      in list_ex (\<lambda>ip. list_ex (ip_in_cidr ip) (sy_insecure_cidrs info)) addrs)"

definition proxy_warning :: string where
  "proxy_warning = ''proxy is set but dockerd has none, so image pulls bypass it. Add '' @
     ''/etc/systemd/system/docker.service.d/proxy.conf with [Service] Environment='' @ [dq] @
     ''HTTP_PROXY=...'' @ [dq] @ '' '' @ [dq] @ ''HTTPS_PROXY=...'' @ [dq] @ '' '' @ [dq] @ ''NO_PROXY=...'' @
     [dq] @ '', then systemctl daemon-reload && systemctl restart docker''"

definition daemon_warnings ::
  "system_info \<Rightarrow> docker_config \<Rightarrow> bool \<Rightarrow> string \<Rightarrow> (string \<Rightarrow> bool) \<Rightarrow> (string \<Rightarrow> ip_addr list) \<Rightarrow> string list" where
  "daemon_warnings info config proxy certs_dir exists_path resolve =
     (let dockerd_proxy = list_ex (\<lambda>v. or_empty v \<noteq> []) [sy_http_proxy info, sy_https_proxy info] in
      (if proxy \<and> \<not> dockerd_proxy then [proxy_warning] else []) @
      map (\<lambda>reg. ''dockerd does not treat '' @ reg @ '' as insecure, so pulls from it fail. Add it to '' @ [dq] @
          ''insecure-registries'' @ [dq] @ '' in /etc/docker/daemon.json and restart dockerd'')
        (filter (\<lambda>reg. \<not> (listed_insecure info reg \<or> in_insecure_cidr resolve info reg))
           (dc_insecure_registries config)) @
      map (\<lambda>(reg, path). ''dockerd has no CA for '' @ reg @
          '', so pulls from it fail. Run: install -D -m 0644 '' @ path @ '' '' @ certs_dir @ ''/'' @ reg @
          ''/ca.crt (no dockerd restart needed)'')
        (filter (\<lambda>(reg, path). \<not> exists_path (path_join (path_join certs_dir reg) ''ca.crt''))
           (dc_registry_ca config)))"

section \<open>Images\<close>

text \<open>\<open>registry_login\<close> and \<open>ensure_image\<close>. \<open>None\<close> is an image the job may use.\<close>

definition registry_login ::
  "'w docker_host \<Rightarrow> docker_executor \<Rightarrow> string \<Rightarrow> job \<Rightarrow> 'w \<Rightarrow> (string \<times> string) option" where
  "registry_login dh dx img j w =
     (let auth = (\<lambda>config. docker_config_auth (dh_parse_json dh) (dh_b64 dh) config img) in
      case Option.bind (variable_value j ''DOCKER_AUTH_CONFIG'') auth of
        Some login \<Rightarrow> Some login
      | None \<Rightarrow>
          (let path = (case dc_auth_config_file (dx_config dx) of
                Some p \<Rightarrow> Some p
              | None \<Rightarrow> map_option (\<lambda>home. home @ ''/.docker/config.json'') (dh_home dh w)) in
           case Option.bind (Option.bind path (\<lambda>p. dh_read dh p w)) auth of
             Some login \<Rightarrow> Some login
           | None \<Rightarrow> map_option (\<lambda>c. (cred_username c, cred_password c))
               (credentials_for img (job_credentials j))))"

definition pull_failure :: "string \<Rightarrow> job_failure" where
  "pull_failure message = \<lparr>jf_reason = ImagePullFailure, jf_exit_code = None, jf_message = message\<rparr>"

fun pull_loop :: "string \<Rightarrow> pull_event list \<Rightarrow> 'w state \<Rightarrow> job_outcome \<times> 'w state" where
  "pull_loop img [] st = (None, st)"
| "pull_loop img (ev # evs) st =
     (case ev of
        PullProgress \<Rightarrow> pull_loop img evs st
      | PullError e \<Rightarrow>
          (Some (pull_failure (''failed to pull image '' @ img @ '': '' @ e @
             (case registry_pull_hint e (registry img) of Some hint \<Rightarrow> [nl] @ hint | None \<Rightarrow> []))), st)
      | PullCancelReached \<Rightarrow>
          if cancel_reached Aborted (tw_cancel (fst st)) then (Some canceled_failure, st)
          else pull_loop img evs st
      | PullRemoteUpdate s \<Rightarrow> pull_loop img evs (raise_cancel s st))"

definition pull_image ::
  "'w http \<Rightarrow> 'w docker_api \<Rightarrow> 'w docker_host \<Rightarrow> docker_executor \<Rightarrow> string \<Rightarrow> job \<Rightarrow> 'w state \<Rightarrow>
     job_outcome \<times> 'w state" where
  "pull_image io api dh dx img j st =
     (let st1 = trace_write io (''Pulling image '' @ img @ '' ...'' @ [nl]) st;
          credentials = map_option (\<lambda>(user, password). (user, password, registry img))
            (registry_login dh dx img j (snd st1))
      in case da_pull api (with_default_tag img) credentials (snd st1) of
           (evs, w) \<Rightarrow> pull_loop img evs (fst st1, w))"

definition ensure_image ::
  "'w http \<Rightarrow> 'w docker_api \<Rightarrow> 'w docker_host \<Rightarrow> docker_executor \<Rightarrow> string \<Rightarrow> string list option \<Rightarrow> job \<Rightarrow>
     'w state \<Rightarrow> job_outcome \<times> 'w state" where
  "ensure_image io api dh dx img job_policies j st =
     (case da_image_present api (with_default_tag img) (snd st) of
        (present, w) \<Rightarrow>
          (let st1 = (fst st, w) in
           case (case job_policies of
                   None \<Rightarrow> Inr IfNotPresent
                 | Some policies \<Rightarrow> pull_policy_resolve policies (dc_pull_policy (dx_config dx))
                     (dc_allowed_pull_policies (dx_config dx))) of
             Inl e \<Rightarrow> (Some (pull_failure e), st1)
           | Inr policy \<Rightarrow>
               if policy = Never then
                 ((if present then None
                   else Some (pull_failure (''image '' @ img @ '' is not present and pull_policy is never''))), st1)
               else if policy = IfNotPresent \<and> present then
                 (None, trace_write io (''Using locally found image '' @ img @ [nl]) st1)
               else pull_image io api dh dx img j st1))"

section \<open>Containers\<close>

text \<open>Sequencing of operations that can fail.\<close>

definition sbind ::
  "('s \<Rightarrow> ('e, 'a) result \<times> 's) \<Rightarrow> ('a \<Rightarrow> 's \<Rightarrow> ('e, 'b) result \<times> 's) \<Rightarrow> 's \<Rightarrow> ('e, 'b) result \<times> 's" where
  "sbind m f s = (case m s of (Inl e, s') \<Rightarrow> (Inl e, s') | (Inr a, s') \<Rightarrow> f a s')"

definition sreturn :: "'a \<Rightarrow> 's \<Rightarrow> ('e, 'a) result \<times> 's" where
  "sreturn a s = (Inr a, s)"

definition sresult :: "('e, 'a) result \<Rightarrow> 's \<Rightarrow> ('e, 'a) result \<times> 's" where
  "sresult r s = (r, s)"

text \<open>Another error; an ignored result; a result kept while something runs after it.\<close>

definition smap_error :: "('e \<Rightarrow> 'f) \<Rightarrow> ('s \<Rightarrow> ('e, 'a) result \<times> 's) \<Rightarrow> 's \<Rightarrow> ('f, 'a) result \<times> 's" where
  "smap_error g m s = (case m s of (Inl e, s') \<Rightarrow> (Inl (g e), s') | (Inr a, s') \<Rightarrow> (Inr a, s'))"

definition signore :: "('s \<Rightarrow> 'a \<times> 's) \<Rightarrow> 's \<Rightarrow> ('e, unit) result \<times> 's" where
  "signore m s = (Inr (), snd (m s))"

definition sfinally :: "('s \<Rightarrow> 'r \<times> 's) \<Rightarrow> ('s \<Rightarrow> 'a \<times> 's) \<Rightarrow> 's \<Rightarrow> 'r \<times> 's" where
  "sfinally m after s = (case m s of (r, s') \<Rightarrow> (r, snd (after s')))"

definition sget :: "('s \<Rightarrow> 'a \<times> 's) \<Rightarrow> 's \<Rightarrow> ('e, 'a) result \<times> 's" where
  "sget m s = (case m s of (a, s') \<Rightarrow> (Inr a, s'))"

definition create_named :: "'w docker_api \<Rightarrow> docker_executor \<Rightarrow> string \<Rightarrow> container \<Rightarrow> 'w \<Rightarrow> (chain, string) result \<times> 'w" where
  "create_named api dx name config =
     sbind (sget (da_inspect api name)) (\<lambda>existing.
     sbind (sresult (case existing of
         None \<Rightarrow> Inr ()
       | Some info \<Rightarrow>
           if Option.bind (Option.bind (ci_config info) cc_labels) (\<lambda>ls. ls OWNER_LABEL) = Some (dx_owner dx)
           then Inr () else Inl [''container name '' @ name @ '' is used by another runner''])) (\<lambda>_.
     sbind (signore (da_remove api name)) (\<lambda>_.
     smap_error (\<lambda>e. [''Failed to create container'', e])
       (da_create api name (config\<lparr>ct_labels := ct_labels config ++ labels dx\<rparr>)))))"

text \<open>\<open>pull_if_missing\<close>: the runner's own image, without a job to cancel it.\<close>

fun pull_progress :: "string \<Rightarrow> pull_event list \<Rightarrow> (chain, unit) result" where
  "pull_progress img [] = Inr ()"
| "pull_progress img (PullError e # evs) = Inl [''Failed to pull '' @ img, e]"
| "pull_progress img (_ # evs) = pull_progress img evs"

definition pull_if_missing :: "'w docker_api \<Rightarrow> string \<Rightarrow> 'w \<Rightarrow> (chain, unit) result \<times> 'w" where
  "pull_if_missing api img =
     sbind (sget (da_image_present api (with_default_tag img))) (\<lambda>present.
     if present then sreturn ()
     else sbind (sget (da_pull api (with_default_tag img) None)) (\<lambda>evs. sresult (pull_progress img evs)))"

text \<open>
  \<open>run_helper\<close>: start, wait (at most \<open>CLEANUP_TIMEOUT\<close>) and read the output; the container is then
  removed whatever happened.
\<close>

definition wait_exited :: "'w docker_api \<Rightarrow> string \<Rightarrow> string \<Rightarrow> 'w \<Rightarrow> (chain, unit) result \<times> 'w" where
  "wait_exited api message cid w =
     (case da_wait api cid w of
        (None, w') \<Rightarrow> (Inl [message, ''deadline has elapsed''], w')
      | (Some (Inl e), w') \<Rightarrow> (Inl [e], w')
      | (Some (Inr _), w') \<Rightarrow> (Inr (), w'))"

fun concat_logs :: "(string, string) result list \<Rightarrow> (chain, string) result" where
  "concat_logs [] = Inr []"
| "concat_logs (Inl e # _) = Inl [e]"
| "concat_logs (Inr s # chunks) = rbind (concat_logs chunks) (\<lambda>rest. Inr (s @ rest))"

definition start_and_read :: "'w docker_api \<Rightarrow> string \<Rightarrow> bool \<Rightarrow> 'w \<Rightarrow> (chain, string) result \<times> 'w" where
  "start_and_read api cid stdout_only =
     sbind (smap_error (\<lambda>e. [e]) (da_start api cid)) (\<lambda>_.
     sbind (wait_exited api ''service check timed out'' cid) (\<lambda>_.
     sbind (sget (da_logs api cid (\<not> stdout_only))) (\<lambda>chunks. sresult (concat_logs chunks))))"

definition run_helper ::
  "'w docker_api \<Rightarrow> docker_executor \<Rightarrow> string \<Rightarrow> string \<Rightarrow> host_config \<Rightarrow> bool \<Rightarrow> string option \<Rightarrow> 'w \<Rightarrow>
     (chain, string) result \<times> 'w" where
  "run_helper api dx name script hc stdout_only user =
     sbind (pull_if_missing api (dc_helper_image (dx_config dx))) (\<lambda>_.
     sbind (create_named api dx name
       (container_default (dc_helper_image (dx_config dx))\<lparr>ct_entrypoint := Some [''sh'', ''-c''],
          ct_cmd := Some [script], ct_host_config := hc, ct_user := user\<rparr>)) (\<lambda>cid.
     sfinally (start_and_read api cid stdout_only) (da_remove api cid)))"

definition uid_gid :: "nat \<times> nat \<Rightarrow> string" where
  "uid_gid = (\<lambda>(uid, gid). dec uid @ '':'' @ dec gid)"

definition workspace_owner :: "'w docker_host \<Rightarrow> string \<Rightarrow> 'w \<Rightarrow> string option" where
  "workspace_owner dh dir w = (case dh_owner dh dir w of Inl _ \<Rightarrow> None | Inr ids \<Rightarrow> Some (uid_gid ids))"

definition docker_untracked_files ::
  "'w docker_api \<Rightarrow> 'w docker_host \<Rightarrow> docker_executor \<Rightarrow> nat \<Rightarrow> string \<Rightarrow> string \<Rightarrow> 'w \<Rightarrow>
     (chain, string) result \<times> 'w" where
  "docker_untracked_files api dh dx jid host_dir subdir w =
     (let dir = ''/builds/'' @ subdir;
          script = ''GIT_CONFIG_NOSYSTEM=1 GIT_CONFIG_GLOBAL=/dev/null git -c safe.directory='' @ dir @ '' '' @
            join '' '' NO_REPO_COMMANDS @ '' -C '' @ dir @ '' ls-files --others -z''
      in run_helper api dx (''turboci-job-'' @ dec jid @ ''-untracked'') script
           (host_config_default\<lparr>hc_binds := Some [host_dir @ '':/builds''], hc_network_mode := Some ''none''\<rparr>)
           True (workspace_owner dh host_dir w) w)"

definition reset_ownership ::
  "'w docker_api \<Rightarrow> 'w docker_host \<Rightarrow> docker_executor \<Rightarrow> nat \<Rightarrow> string \<Rightarrow> 'w \<Rightarrow> (chain, unit) result \<times> 'w" where
  "reset_ownership api dh dx jid host_dir w =
     (case dh_owner dh host_dir w of
        Inl e \<Rightarrow> (Inl [e], w)
      | Inr ids \<Rightarrow>
          sbind (pull_if_missing api (dc_helper_image (dx_config dx))) (\<lambda>_.
          sbind (create_named api dx (''turboci-job-'' @ dec jid @ ''-cleanup'')
            (container_default (dc_helper_image (dx_config dx))\<lparr>ct_user := Some ''0'',
               ct_entrypoint := Some [''sh'', ''-c''],
               ct_cmd := Some [''chown -R '' @ uid_gid ids @ '' /builds''], ct_network_disabled := True,
               ct_host_config := host_config_default\<lparr>hc_binds := Some [host_dir @ '':/builds'']\<rparr>\<rparr>)) (\<lambda>cid.
          sfinally
            (sbind (smap_error (\<lambda>e. [e]) (da_start api cid)) (\<lambda>_. wait_exited api ''chown timed out'' cid))
            (da_remove api cid))) w)"

section \<open>A job's containers\<close>

text \<open>
  \<open>host_config\<close>. The limits were validated when the executor was made; a \<open>cpus\<close> that is not finite
  does not pass.
\<close>

definition nano_cpus :: "float_value \<Rightarrow> int" where
  "nano_cpus cpus =
     (case cpus of
        NotFinite \<Rightarrow> 0
      | Finite x \<Rightarrow>
          (case f64_mult (Some x) (Some 1000000000) of
             Some y \<Rightarrow> min \<lfloor>y\<rfloor> (int i64_max) | None \<Rightarrow> int i64_max))"

definition ok_flatten :: "('e, 'a option) result \<Rightarrow> 'a option" where
  "ok_flatten r = (case r of Inr (Some a) \<Rightarrow> Some a | _ \<Rightarrow> None)"

definition make_host_config :: "docker_executor \<Rightarrow> string list \<Rightarrow> string option \<Rightarrow> host_config" where
  "make_host_config dx binds network =
     (let c = dx_config dx in
      \<lparr>hc_binds = (if binds = [] then None else Some binds),
       hc_network_mode = Some (case network of Some n \<Rightarrow> n | None \<Rightarrow> dc_network_mode c),
       hc_privileged = Some (dc_privileged c), hc_memory = ok_flatten (memory_bytes c),
       hc_memory_swap = ok_flatten (memory_swap_bytes c),
       hc_memory_reservation = ok_flatten (memory_reservation_bytes c),
       hc_shm_size = ok_flatten (shm_size_bytes c), hc_oom_score_adj = dc_oom_score_adjust c,
       hc_nano_cpus = map_option nano_cpus (dc_cpus c), hc_mounts = None\<rparr>)"

definition volume_name :: "'w docker_host \<Rightarrow> job \<Rightarrow> string \<Rightarrow> string" where
  "volume_name dh j volume = ''turboci-cache-p'' @ dec (job_project j) @ ''-c'' @
     (case variable_value j ''CI_CONCURRENT_PROJECT_ID'' of Some v \<Rightarrow> v | None \<Rightarrow> ''0'') @ ''-'' @
     take 12 (dh_hash_hex dh volume)"

fun job_volumes ::
  "'w docker_api \<Rightarrow> 'w docker_host \<Rightarrow> docker_executor \<Rightarrow> job \<Rightarrow> string list \<Rightarrow> 'w \<Rightarrow>
     (chain, string list) result \<times> 'w" where
  "job_volumes api dh dx j [] w = (Inr [], w)"
| "job_volumes api dh dx j (volume # volumes) w =
     (let name = volume_name dh j volume in
      sbind (if CHR '':'' \<in> set volume then sreturn volume
        else sbind (sget (da_volume_present api name)) (\<lambda>present.
          if present then sreturn (name @ '':'' @ volume)
          else sbind (smap_error (\<lambda>e. [''Failed to create volume for '' @ volume, e])
            (da_create_volume api name ((labels dx)(''turboci.volume'' \<mapsto> volume))))
            (\<lambda>_. sreturn (name @ '':'' @ volume)))) (\<lambda>bind.
      sbind (job_volumes api dh dx j volumes) (\<lambda>binds. sreturn (bind # binds))) w)"

definition create_network :: "'w docker_api \<Rightarrow> docker_executor \<Rightarrow> string \<Rightarrow> 'w \<Rightarrow> (chain, unit) result \<times> 'w" where
  "create_network api dx name =
     sbind (signore (da_remove_network api name)) (\<lambda>_.
     smap_error (\<lambda>e. [''Failed to create network '' @ name, e]) (da_create_network api name (labels dx)))"

definition create_service ::
  "'w docker_api \<Rightarrow> docker_executor \<Rightarrow> job \<Rightarrow> string \<Rightarrow> string \<Rightarrow> service \<Rightarrow> (string \<rightharpoonup> string) \<Rightarrow> host_config \<Rightarrow>
     'w \<Rightarrow> (chain, string) result \<times> 'w" where
  "create_service api dx j name img svc values hc =
     create_named api dx name
       (container_default img\<lparr>ct_env := Some (service_env j (svc_variables svc) values),
          ct_entrypoint := svc_entrypoint svc, ct_cmd := svc_command svc, ct_host_config := hc,
          ct_endpoint := map_option (\<lambda>network. (network, service_aliases img (svc_alias svc)))
            (hc_network_mode hc)\<rparr>)"

definition helper_container :: "docker_executor \<Rightarrow> string \<Rightarrow> job_env \<Rightarrow> container" where
  "helper_container dx host_dir env =
     container_default (dc_helper_image (dx_config dx))\<lparr>ct_working_dir := Some ''/builds'',
       ct_env := Some (to_docker env), ct_entrypoint := Some [''sh'', ''-c''],
       ct_cmd := Some [''while :; do sleep 3600; done''],
       ct_host_config := host_config_default\<lparr>hc_binds := Some [host_dir @ '':/builds''],
         hc_network_mode := Some (dc_network_mode (dx_config dx))\<rparr>\<rparr>"

definition start_helper ::
  "'w docker_api \<Rightarrow> docker_executor \<Rightarrow> job \<Rightarrow> string \<Rightarrow> job_env \<Rightarrow> 'w \<Rightarrow> (chain, string) result \<times> 'w" where
  "start_helper api dx j host_dir env =
     sbind (create_named api dx (''turboci-job-'' @ dec (job_id j) @ ''-sources'')
       (helper_container dx host_dir env)) (\<lambda>cid.
     sbind (smap_error (\<lambda>e. [''Failed to start helper container'', e]) (da_start api cid))
       (\<lambda>_. sreturn cid))"

section \<open>Waiting for services\<close>

definition wait_check :: "string \<Rightarrow> nat list \<Rightarrow> string" where
  "wait_check host ports =
     ''( i=0; until '' @ join '' || '' (map (\<lambda>p. ''nc -z -w1 '' @ host @ '' '' @ dec p) ports) @
     ''; do i=$((i+1)); if [ $i -ge 150 ]; then echo '' @ [dq] @ ''WARNING: service '' @ host @ '' (port '' @
     join '', '' (map dec ports) @ '') did not respond within 30s'' @ [dq] @
     ''; break; fi; sleep 0.2; done ) &''"

fun service_checks :: "'w docker_api \<Rightarrow> string list \<Rightarrow> 'w \<Rightarrow> string list \<times> 'w" where
  "service_checks api [] w = ([], w)"
| "service_checks api (cid # cids) w =
     (case da_inspect api cid w of
        (info, w1) \<Rightarrow>
          (let new = (case info of
                 None \<Rightarrow> []
               | Some i \<Rightarrow>
                   (let ports = service_ports (ci_config i) in
                    if ports = [] then []
                    else [wait_check (dropWhile ((=) (CHR ''/'')) (or_empty (ci_name i))) ports]))
           in case service_checks api cids w1 of (checks, w2) \<Rightarrow> (new @ checks, w2)))"

definition wait_for_services ::
  "'w http \<Rightarrow> 'w docker_api \<Rightarrow> docker_executor \<Rightarrow> nat \<Rightarrow> string \<Rightarrow> string list \<Rightarrow> 'w state \<Rightarrow> 'w state" where
  "wait_for_services io api dx jid network services st =
     (case service_checks api services (snd st) of
        (checks, w) \<Rightarrow>
          if checks = [] then (fst st, w)
          else
            (let st1 = trace_write io
                  (''Waiting for services to be up and running (timeout 30 seconds)...'' @ [nl]) (fst st, w) in
             case run_helper api dx (''turboci-job-'' @ dec jid @ ''-svc-wait'')
                 (join [nl] (checks @ [''wait'']))
                 (host_config_default\<lparr>hc_network_mode := Some network\<rparr>) False None (snd st1) of
               (Inl _, w2) \<Rightarrow> (fst st1, w2)
             | (Inr output, w2) \<Rightarrow> trace_write io output (fst st1, w2)))"

section \<open>Running a job\<close>

text \<open>
  The state of \<open>start_and_run\<close> is what was created so far, the trace and the world. Each operation
  is lifted to it with the failure its error means.
\<close>

type_synonym 'w dstate = "job_containers \<times> 'w state"

type_synonym ('a, 'w) djob = "'w dstate \<Rightarrow> (job_failure, 'a) result \<times> 'w dstate"

definition on_world :: "('e \<Rightarrow> job_failure) \<Rightarrow> ('w \<Rightarrow> ('e, 'a) result \<times> 'w) \<Rightarrow> ('a, 'w) djob" where
  "on_world g m = (\<lambda>(ct, tw, w). case smap_error g m w of (r, w') \<Rightarrow> (r, ct, tw, w'))"

definition on_state :: "('w state \<Rightarrow> job_outcome \<times> 'w state) \<Rightarrow> (unit, 'w) djob" where
  "on_state m = (\<lambda>(ct, st). case m st of
     (None, st') \<Rightarrow> (Inr (), ct, st') | (Some f, st') \<Rightarrow> (Inl f, ct, st'))"

definition on_trace :: "('w state \<Rightarrow> 'w state) \<Rightarrow> (unit, 'w) djob" where
  "on_trace m = (\<lambda>(ct, st). (Inr (), ct, m st))"

definition recorded :: "(job_containers \<Rightarrow> job_containers) \<Rightarrow> (unit, 'w) djob" where
  "recorded f = (\<lambda>(ct, st). (Inr (), f ct, st))"

abbreviation (input) system_chain :: "chain \<Rightarrow> job_failure" where
  "system_chain e \<equiv> system_failure (full_chain e)"

definition service_host_config ::
  "docker_executor \<Rightarrow> string \<Rightarrow> string list \<Rightarrow> string option \<Rightarrow> host_config" where
  "service_host_config dx img volumes network =
     (let hc = make_host_config dx volumes network; mounts = dind_ca_mounts (dc_registry_ca (dx_config dx)) in
      if is_dind img then hc\<lparr>hc_mounts := (if mounts = [] then None else Some mounts)\<rparr> else hc)"

definition service_to_start :: "docker_executor \<Rightarrow> string \<Rightarrow> service \<Rightarrow> service" where
  "service_to_start dx img svc =
     (if is_dind img
      then svc\<lparr>svc_command := dind_command (svc_command svc) (dc_insecure_registries (dx_config dx))\<rparr> else svc)"

fun start_services ::
  "'w http \<Rightarrow> 'w docker_api \<Rightarrow> 'w docker_host \<Rightarrow> docker_executor \<Rightarrow> job \<Rightarrow> (string \<rightharpoonup> string) \<Rightarrow> string list \<Rightarrow>
     string option \<Rightarrow> nat \<Rightarrow> service list \<Rightarrow> (unit, 'w) djob" where
  "start_services io api dh dx j values volumes network index [] = sreturn ()"
| "start_services io api dh dx j values volumes network index (svc # svcs) =
     (let img = expand (svc_name svc) values; to_start = service_to_start dx img svc in
      sbind (on_trace (trace_write io (''Starting service '' @ img @ '' ...'' @ [nl]))) (\<lambda>_.
      sbind (on_state (ensure_image io api dh dx img (Some (svc_pull_policy svc)) j)) (\<lambda>_.
      sbind (on_world (\<lambda>e. system_failure (''service '' @ svc_name svc @ '': '' @ full_chain e))
        (create_service api dx j (''turboci-job-'' @ dec (job_id j) @ ''-svc-'' @ dec index) img to_start values
           (service_host_config dx img volumes network))) (\<lambda>cid.
      sbind (recorded (\<lambda>ct. ct\<lparr>jc_services := jc_services ct @ [cid]\<rparr>)) (\<lambda>_.
      sbind (on_world (\<lambda>e. system_failure (''service '' @ img @ '': '' @ e)) (da_start api cid)) (\<lambda>_.
      start_services io api dh dx j values volumes network (index + 1) svcs))))))"

definition config_service :: "service_config \<Rightarrow> service" where
  "config_service s = \<lparr>svc_name = scf_name s, svc_alias = scf_alias s, svc_entrypoint = scf_entrypoint s,
     svc_command = scf_command s, svc_pull_policy = [], svc_variables = []\<rparr>"

definition needs_helper :: "job \<Rightarrow> bool" where
  "needs_helper j \<longleftrightarrow>
     job_git_info j \<noteq> None \<and> strategy (job_variables j) (job_allow_git_fetch j) \<noteq> GitNone"

definition job_container :: "docker_executor \<Rightarrow> job \<Rightarrow> string \<Rightarrow> string \<Rightarrow> job_env \<Rightarrow> string list \<Rightarrow> string option \<Rightarrow> container" where
  "job_container dx j host_dir img env volumes network =
     container_default img\<lparr>ct_working_dir := Some ''/builds'', ct_env := Some (to_docker env),
       ct_entrypoint := Option.bind (job_image j) img_entrypoint,
       ct_cmd := Some [''sh'', ''-c'', ''while :; do sleep 3600; done''],
       ct_host_config := make_host_config dx ((host_dir @ '':/builds'') # volumes) network\<rparr>"

text \<open>The job's own container, and its steps in it; the sources come from the helper if there is one.\<close>

definition run_in_container ::
  "'w http \<Rightarrow> 'w docker_api \<Rightarrow> (limits \<Rightarrow> 'w state \<Rightarrow> restore_end \<times> 'w state) \<Rightarrow> job \<Rightarrow> job_env \<Rightarrow> string \<Rightarrow>
     string \<Rightarrow> (unit, 'w) djob" where
  "run_in_container io api restore j env subdir cid = (\<lambda>(ct, st).
     on_state (run_job_steps io
         (docker_run io (da_exec api (case jc_helper ct of Some h \<Rightarrow> h | None \<Rightarrow> cid)) (to_docker env))
         (docker_run io (da_exec api cid) (to_docker env)) restore j
         \<lparr>jd_builds = ''/builds'', jd_project = ''/builds/'' @ subdir\<rparr>) (ct, st))"

definition start_job_container ::
  "'w http \<Rightarrow> 'w docker_api \<Rightarrow> docker_executor \<Rightarrow> (limits \<Rightarrow> 'w state \<Rightarrow> restore_end \<times> 'w state) \<Rightarrow> job \<Rightarrow>
     string \<Rightarrow> string \<Rightarrow> job_env \<Rightarrow> string \<Rightarrow> string list \<Rightarrow> string option \<Rightarrow> (unit, 'w) djob" where
  "start_job_container io api dx restore j host_dir img env subdir volumes network =
     sbind (on_world system_chain
       (create_named api dx (''turboci-job-'' @ dec (job_id j))
          (job_container dx j host_dir img env volumes network))) (\<lambda>cid.
     sbind (recorded (\<lambda>ct. ct\<lparr>jc_job := Some cid\<rparr>)) (\<lambda>_.
     sbind (on_world (\<lambda>e. system_failure (''Failed to start container: '' @ e)) (da_start api cid)) (\<lambda>_.
     run_in_container io api restore j env subdir cid)))"

definition start_sources ::
  "'w http \<Rightarrow> 'w docker_api \<Rightarrow> 'w docker_host \<Rightarrow> docker_executor \<Rightarrow> job \<Rightarrow> string \<Rightarrow> job_env \<Rightarrow> (unit, 'w) djob" where
  "start_sources io api dh dx j host_dir env =
     (if needs_helper j then
        sbind (on_state (ensure_image io api dh dx (dc_helper_image (dx_config dx)) None j)) (\<lambda>_.
        sbind (on_world system_chain (start_helper api dx j host_dir env)) (\<lambda>cid.
        recorded (\<lambda>ct. ct\<lparr>jc_helper := Some cid\<rparr>)))
      else sreturn ())"

definition start_network ::
  "'w docker_api \<Rightarrow> docker_executor \<Rightarrow> job \<Rightarrow> service list \<Rightarrow> (string option, 'w) djob" where
  "start_network api dx j services =
     (let network = ''turboci-job-'' @ dec (job_id j) in
      if services = [] then sreturn None
      else sbind (on_world system_chain (create_network api dx network)) (\<lambda>_.
        sbind (recorded (\<lambda>ct. ct\<lparr>jc_network := Some network\<rparr>)) (\<lambda>_. sreturn (Some network))))"

definition await_services ::
  "'w http \<Rightarrow> 'w docker_api \<Rightarrow> docker_executor \<Rightarrow> job \<Rightarrow> string option \<Rightarrow> (unit, 'w) djob" where
  "await_services io api dx j network = (\<lambda>(ct, st).
     case network of
       None \<Rightarrow> (Inr (), ct, st)
     | Some n \<Rightarrow> (Inr (), ct, wait_for_services io api dx (job_id j) n (jc_services ct) st))"

definition start_and_run ::
  "'w http \<Rightarrow> 'w docker_api \<Rightarrow> 'w docker_host \<Rightarrow> docker_executor \<Rightarrow>
     (limits \<Rightarrow> 'w state \<Rightarrow> restore_end \<times> 'w state) \<Rightarrow> job \<Rightarrow> string \<Rightarrow> (unit, 'w) djob" where
  "start_and_run io api dh dx restore j host_dir =
     (let env = make_job_env j ''/builds'' host_dir \<lparr>rv_disposable = True, rv_ca_pem = dx_ca_pem dx\<rparr>;
          values = map_of (je_vars env);
          (img, policies) = (case job_image j of
              Some i \<Rightarrow> (expand (img_name i) values, img_pull_policy i)
            | None \<Rightarrow> (dc_default_image (dx_config dx), []));
          services = map config_service (dc_services (dx_config dx)) @ job_services j
      in sbind (on_trace (trace_write io (''Using Docker executor with image '' @ img @ '' ...'' @ [nl]))) (\<lambda>_.
         sbind (on_state (ensure_image io api dh dx img (Some policies) j)) (\<lambda>_.
         sbind (on_world (\<lambda>e. system_failure (outermost e))
           (write_variable_files (dh_mkparent dh) (dh_write_file dh) (je_files env))) (\<lambda>_.
         sbind (on_world system_failure (sresult (project_subdir j))) (\<lambda>subdir.
         sbind (on_world (\<lambda>e. system_failure (''Failed to create host workspace: '' @ e))
           (dh_mkdirs dh (path_join host_dir subdir))) (\<lambda>_.
         sbind (start_sources io api dh dx j host_dir env) (\<lambda>_.
         sbind (on_world system_chain (job_volumes api dh dx j (dc_volumes (dx_config dx)))) (\<lambda>volumes.
         sbind (start_network api dx j services) (\<lambda>network.
         sbind (start_services io api dh dx j values volumes network 0 services) (\<lambda>_.
         sbind (await_services io api dx j network) (\<lambda>_.
         start_job_container io api dx restore j host_dir img env subdir volumes network)))))))))))"

text \<open>\<open>release\<close>: what fails is only logged. And \<open>execute\<close>, which always ends with it.\<close>

definition force_remove_all :: "'w docker_api \<Rightarrow> string list \<Rightarrow> 'w \<Rightarrow> 'w" where
  "force_remove_all api cids w = foldl (\<lambda>w cid. snd (da_remove api cid w)) w cids"

definition opt_list :: "'a option \<Rightarrow> 'a list" where
  "opt_list x = (case x of None \<Rightarrow> [] | Some a \<Rightarrow> [a])"

definition all_containers :: "job_containers \<Rightarrow> string list" where
  "all_containers ct = opt_list (jc_job ct) @ opt_list (jc_helper ct) @ jc_services ct"

definition release ::
  "'w docker_api \<Rightarrow> 'w docker_host \<Rightarrow> docker_executor \<Rightarrow> nat \<Rightarrow> job_containers \<Rightarrow> string \<Rightarrow> 'w \<Rightarrow> 'w" where
  "release api dh dx jid ct host_dir w =
     (let w1 = force_remove_all api (all_containers ct) w;
          w2 = (case jc_network ct of Some n \<Rightarrow> snd (da_remove_network api n w1) | None \<Rightarrow> w1)
      in if jc_job ct \<noteq> None \<or> jc_helper ct \<noteq> None
         then snd (reset_ownership api dh dx jid host_dir w2) else w2)"

definition docker_execute ::
  "'w http \<Rightarrow> 'w docker_api \<Rightarrow> 'w docker_host \<Rightarrow> docker_executor \<Rightarrow>
     (limits \<Rightarrow> 'w state \<Rightarrow> restore_end \<times> 'w state) \<Rightarrow> job \<Rightarrow> string \<Rightarrow> 'w state \<Rightarrow> job_outcome \<times> 'w state" where
  "docker_execute io api dh dx restore j host_dir st =
     (case start_and_run io api dh dx restore j host_dir (no_containers, st) of
        (r, ct, tw, w) \<Rightarrow>
          ((case r of Inl f \<Rightarrow> Some f | Inr _ \<Rightarrow> None), tw, release api dh dx (job_id j) ct host_dir w))"

section \<open>Leftovers of an earlier run\<close>

fun sweep_containers :: "'w docker_api \<Rightarrow> string option list \<Rightarrow> 'w \<Rightarrow> 'w" where
  "sweep_containers api [] w = w"
| "sweep_containers api (None # cs) w = sweep_containers api cs w"
| "sweep_containers api (Some cid # cs) w = sweep_containers api cs (snd (da_remove api cid w))"

fun sweep_networks :: "'w docker_api \<Rightarrow> string option list \<Rightarrow> 'w \<Rightarrow> 'w" where
  "sweep_networks api [] w = w"
| "sweep_networks api (None # ns) w = sweep_networks api ns w"
| "sweep_networks api (Some n # ns) w = sweep_networks api ns (snd (da_remove_network api n w))"

definition or_default :: "('e, 'a list) result \<Rightarrow> 'a list" where
  "or_default r = (case r of Inl _ \<Rightarrow> [] | Inr xs \<Rightarrow> xs)"

definition sweep_orphans :: "'w docker_api \<Rightarrow> docker_executor \<Rightarrow> 'w \<Rightarrow> 'w" where
  "sweep_orphans api dx w =
     (let filter_text = OWNER_LABEL @ ''='' @ dx_owner dx in
      case da_list_containers api filter_text w of
        (cs, w1) \<Rightarrow>
          (let w2 = sweep_containers api (or_default cs) w1 in
           case da_list_networks api filter_text w2 of
             (ns, w3) \<Rightarrow> sweep_networks api (or_default ns) w3))"

section \<open>What is kept\<close>

text \<open>
  A property of the state that an operation keeps, with the rules for the ways operations are put
  together.
\<close>

definition kept :: "('s \<Rightarrow> bool) \<Rightarrow> ('s \<Rightarrow> 'r \<times> 's) \<Rightarrow> bool" where
  "kept P m \<longleftrightarrow> (\<forall>s. P s \<longrightarrow> P (snd (m s)))"

named_theorems kept_rules

lemma kept_bind [kept_rules]: "kept P m \<Longrightarrow> (\<And>a. kept P (f a)) \<Longrightarrow> kept P (sbind m f)"
  unfolding kept_def sbind_def by (simp add: case_prod_beta split: sum.splits)

lemma kept_return [kept_rules]: "kept P (sreturn a)" "kept P (sresult r)"
  by (simp_all add: kept_def sreturn_def sresult_def)

lemma kept_map_error [kept_rules]: "kept P m \<Longrightarrow> kept P (smap_error g m)"
  unfolding kept_def smap_error_def by (simp add: case_prod_beta split: sum.splits)

lemma kept_ignore [kept_rules]: "kept P m \<Longrightarrow> kept P (signore m)"
  by (simp add: kept_def signore_def)

lemma kept_get [kept_rules]: "kept P m \<Longrightarrow> kept P (sget m)"
  by (simp add: kept_def sget_def case_prod_beta)

lemma kept_if [kept_rules]: "(b \<Longrightarrow> kept P m) \<Longrightarrow> (\<not> b \<Longrightarrow> kept P m') \<Longrightarrow> kept P (if b then m else m')"
  by simp

lemma kept_apply: "kept P m \<Longrightarrow> P s \<Longrightarrow> P (snd (m s))"
  by (simp add: kept_def)

text \<open>
  Containers: \<open>live w\<close> are those that exist. What is documented of the API, and of everything else
  that happens to the world, is that only creating adds one, and that a forced removal leaves none.
\<close>

definition adds_none :: "('w \<Rightarrow> string set) \<Rightarrow> ('w \<Rightarrow> 'a \<times> 'w) \<Rightarrow> bool" where
  "adds_none live m \<longleftrightarrow> (\<forall>w. live (snd (m w)) \<subseteq> live w)"

definition exec_law :: "('w \<Rightarrow> string set) \<Rightarrow> 'w docker_exec \<Rightarrow> bool" where
  "exec_law live dk \<longleftrightarrow> (\<forall>argv dir env. adds_none live (de_create dk argv dir env)) \<and>
     (\<forall>e. adds_none live (de_start dk e)) \<and> (\<forall>e. adds_none live (de_inspect dk e)) \<and>
     (\<forall>w. live (de_stop_scripts dk w) \<subseteq> live w)"

definition docker_law :: "('w \<Rightarrow> string set) \<Rightarrow> 'w docker_api \<Rightarrow> bool" where
  "docker_law live api \<longleftrightarrow>
     (\<forall>n. adds_none live (da_image_present api n)) \<and> (\<forall>n c. adds_none live (da_pull api n c)) \<and>
     (\<forall>n. adds_none live (da_inspect api n)) \<and>
     (\<forall>n c w r w'. da_create api n c w = (r, w') \<longrightarrow>
        live w' \<subseteq> (case r of Inr cid \<Rightarrow> insert cid (live w) | Inl _ \<Rightarrow> live w)) \<and>
     (\<forall>cid. adds_none live (da_start api cid)) \<and>
     (\<forall>cid w. live (snd (da_remove api cid w)) \<subseteq> live w - {cid}) \<and>
     (\<forall>cid. adds_none live (da_wait api cid)) \<and> (\<forall>cid b. adds_none live (da_logs api cid b)) \<and>
     (\<forall>n ls. adds_none live (da_create_network api n ls)) \<and> (\<forall>n. adds_none live (da_remove_network api n)) \<and>
     (\<forall>n. adds_none live (da_volume_present api n)) \<and> (\<forall>n ls. adds_none live (da_create_volume api n ls)) \<and>
     (\<forall>cid. exec_law live (da_exec api cid))"

definition host_law ::
  "('w \<Rightarrow> string set) \<Rightarrow> 'w http \<Rightarrow> 'w docker_host \<Rightarrow> (limits \<Rightarrow> 'w state \<Rightarrow> restore_end \<times> 'w state) \<Rightarrow> bool" where
  "host_law live io dh restore \<longleftrightarrow>
     (\<forall>rq. adds_none live (http_send io rq)) \<and> (\<forall>ms w. live (http_sleep io ms w) \<subseteq> live w) \<and>
     (\<forall>p. adds_none live (dh_mkdirs dh p)) \<and> (\<forall>p. adds_none live (dh_mkparent dh p)) \<and>
     (\<forall>p c. adds_none live (dh_write_file dh p c)) \<and>
     (\<forall>lm st. live (snd (snd (restore lm st))) \<subseteq> live (snd st))"

text \<open>All containers are in \<open>S\<close>.\<close>

definition only :: "('w \<Rightarrow> string set) \<Rightarrow> string set \<Rightarrow> 'w \<Rightarrow> bool" where
  "only live S w \<longleftrightarrow> live w \<subseteq> S"

lemma adds_none_kept: "adds_none live m \<Longrightarrow> kept (only live S) m"
  unfolding adds_none_def kept_def only_def by blast

lemma docker_law_remove: "docker_law live api \<Longrightarrow> live (snd (da_remove api cid w)) \<subseteq> live w - {cid}"
  by (simp add: docker_law_def)

lemma docker_law_kept:
  assumes "docker_law live api"
  shows "kept (only live S) (da_image_present api n)" "kept (only live S) (da_pull api n c)"
    "kept (only live S) (da_inspect api n)" "kept (only live S) (da_start api n)"
    "kept (only live S) (da_remove api n)" "kept (only live S) (da_wait api n)"
    "kept (only live S) (da_logs api n b)" "kept (only live S) (da_create_network api n ls)"
    "kept (only live S) (da_remove_network api n)" "kept (only live S) (da_volume_present api n)"
    "kept (only live S) (da_create_volume api n ls)"
proof -
  show "kept (only live S) (da_remove api n)"
    using docker_law_remove[OF assms] unfolding kept_def only_def by blast
qed (use assms in \<open>auto simp: docker_law_def intro!: adds_none_kept\<close>)

lemma pull_if_missing_kept: "docker_law live api \<Longrightarrow> kept (only live S) (pull_if_missing api img)"
  unfolding pull_if_missing_def by (intro kept_rules docker_law_kept)

text \<open>A container that is created is new; one that is removed again leaves nothing.\<close>

lemma create_named_adds:
  assumes d: "docker_law live api" and w: "only live S w" and c: "create_named api dx n config w = (r, w')"
  shows "only live (case r of Inr cid \<Rightarrow> insert cid S | Inl _ \<Rightarrow> S) w'"
proof -
  let ?new = "da_create api n (config\<lparr>ct_labels := ct_labels config ++ labels dx\<rparr>)"
  obtain info w1 where i: "da_inspect api n w = (info, w1)" by (meson surj_pair)
  have w1: "only live S w1" using kept_apply[OF docker_law_kept(3)[OF d] w, of n] i by simp
  let ?w2 = "snd (da_remove api n w1)"
  have w2: "only live S ?w2" using kept_apply[OF docker_law_kept(5)[OF d] w1] .
  obtain s w3 where s: "?new ?w2 = (s, w3)" by (meson surj_pair)
  have "live w3 \<subseteq> (case s of Inr cid \<Rightarrow> insert cid (live ?w2) | Inl _ \<Rightarrow> live ?w2)"
    using d s unfolding docker_law_def by blast
  then have w3: "only live (case s of Inr cid \<Rightarrow> insert cid S | Inl _ \<Rightarrow> S) w3"
    using w2 by (auto simp: only_def split: sum.splits)
  show ?thesis
    using c i s w1 w3
    by (auto simp: create_named_def sbind_def sget_def sresult_def signore_def smap_error_def
        split: option.splits if_splits sum.splits)
qed

lemma create_remove_kept:
  assumes d: "docker_law live api"
    and run: "\<And>cid T. kept (only live T) (m cid)"
  shows "kept (only live S) (sbind (create_named api dx n config) (\<lambda>cid. sfinally (m cid) (da_remove api cid)))"
  unfolding kept_def
proof (intro allI impI)
  fix w assume w: "only live S w"
  obtain r w1 where c: "create_named api dx n config w = (r, w1)" by (meson surj_pair)
  note w1 = create_named_adds[OF d w c]
  show "only live S (snd (sbind (create_named api dx n config) (\<lambda>cid. sfinally (m cid) (da_remove api cid)) w))"
  proof (cases r)
    case (Inr cid)
    obtain q w2 where q: "m cid w1 = (q, w2)" by (meson surj_pair)
    have "live w2 \<subseteq> insert cid S"
      using kept_apply[OF run, of _ w1 cid] w1 Inr q by (simp add: only_def)
    moreover have "live (snd (da_remove api cid w2)) \<subseteq> live w2 - {cid}" by (rule docker_law_remove[OF d])
    ultimately have "only live S (snd (da_remove api cid w2))" by (auto simp: only_def)
    then show ?thesis using c Inr q by (simp add: sbind_def sfinally_def)
  qed (use c w1 in \<open>simp add: sbind_def\<close>)
qed

lemma wait_exited_kept: "docker_law live api \<Longrightarrow> kept (only live S) (wait_exited api m cid)"
  using docker_law_kept(6)[of live api S cid]
  by (simp add: kept_def wait_exited_def case_prod_beta split: option.splits sum.splits)

lemma run_helper_kept:
  assumes "docker_law live api"
  shows "kept (only live S) (run_helper api dx n script hc b user)"
  unfolding run_helper_def start_and_read_def
  by (intro kept_bind pull_if_missing_kept create_remove_kept[OF assms] kept_rules wait_exited_kept
      docker_law_kept assms)

lemma reset_ownership_kept:
  assumes d: "docker_law live api"
  shows "kept (only live S) (reset_ownership api dh dx jid dir)"
proof -
  have "kept (only live S)
      (sbind (pull_if_missing api (dc_helper_image (dx_config dx))) (\<lambda>_.
         sbind (create_named api dx n config) (\<lambda>cid.
         sfinally (sbind (smap_error (\<lambda>e. [e]) (da_start api cid)) (\<lambda>_. wait_exited api ''chown timed out'' cid))
           (da_remove api cid))))" for n config
    by (intro kept_bind pull_if_missing_kept create_remove_kept[OF d] kept_rules wait_exited_kept
        docker_law_kept d)
  then show ?thesis unfolding kept_def reset_ownership_def by (auto split: sum.splits)
qed

section \<open>Everything created is released\<close>

lemma retry_keeps:
  assumes "\<And>w. P w \<Longrightarrow> P (snd (m w))" "\<And>ms w. P w \<Longrightarrow> P (http_sleep io ms w)" "P w"
  shows "P (snd (retry_with_backoff io m w))"
  using retry_rule[of P w m "\<lambda>_ _. True" io] assms by simp

lemma trace_write_keeps:
  assumes "\<And>rq w. P w \<Longrightarrow> P (snd (http_send io rq w))" "\<And>ms w. P w \<Longrightarrow> P (http_sleep io ms w)" "P (snd st)"
  shows "P (snd (trace_write io text st))" "P (snd (trace_flush_if_due io st))"
proof -
  have patch: "P w \<Longrightarrow> P (snd (patch_trace io c jid token t n w))" for c jid token t n w
    by (auto intro!: retry_keeps[where P = P, OF _ assms(2)] simp: patch_trace_def case_prod_beta assms(1))
  have flush: "P (snd st) \<Longrightarrow> P (snd (snd (trace_flush io st)))" for st
    using patch by (auto simp: trace_flush_def Let_def case_prod_beta split: option.splits)
  show "P (snd (trace_flush_if_due io st))"
    using flush[of st] assms(3) by (simp add: trace_flush_if_due_def case_prod_beta)
  show "P (snd (trace_write io text st))"
    using flush assms(3)
    by (cases st) (simp add: trace_write_def trace_flush_if_due_def Let_def case_prod_beta)
qed

definition lives_in ::
  "('w \<Rightarrow> string set) \<Rightarrow> 'w http \<Rightarrow> 'w docker_api \<Rightarrow> 'w docker_host \<Rightarrow>
     (limits \<Rightarrow> 'w state \<Rightarrow> restore_end \<times> 'w state) \<Rightarrow> string set \<Rightarrow> 'w state \<Rightarrow> bool" where
  "lives_in live io api dh restore S st \<longleftrightarrow>
     (docker_law live api \<and> host_law live io dh restore \<longrightarrow> only live S (snd st))"

lemma host_law_http:
  "host_law live io dh restore \<Longrightarrow> only live S w \<Longrightarrow> only live S (snd (http_send io rq w))"
  "host_law live io dh restore \<Longrightarrow> only live S w \<Longrightarrow> only live S (http_sleep io ms w)"
  unfolding host_law_def adds_none_def only_def by blast+

lemma lives_in_keeps:
  assumes w: "lives_in live io api dh restore S st"
  shows "lives_in live io api dh restore S (trace_write io text st)"
    "lives_in live io api dh restore S (trace_flush_if_due io st)"
    "lives_in live io api dh restore S (raise_cancel r st)"
proof -
  have k: "only live S (snd (trace_write io text st))" "only live S (snd (trace_flush_if_due io st))"
    if "host_law live io dh restore" "only live S (snd st)"
    using trace_write_keeps[where P = "only live S", OF host_law_http[OF that(1)] that(2)] by blast+
  show "lives_in live io api dh restore S (trace_write io text st)"
    "lives_in live io api dh restore S (trace_flush_if_due io st)"
    using w k by (simp_all add: lives_in_def)
  show "lives_in live io api dh restore S (raise_cancel r st)"
    using w by (simp add: lives_in_def raise_cancel_def)
qed

interpretation lived: trace_keeper io "lives_in live io api dh restore S"
  for live io api dh restore S
  by unfold_locales (rule lives_in_keeps, assumption)+

lemma adds_none_only: "adds_none live m \<Longrightarrow> only live S w \<Longrightarrow> only live S (snd (m w))"
  unfolding adds_none_def only_def by blast

lemma exec_law_of: "docker_law live api \<Longrightarrow> exec_law live (da_exec api cid)"
  by (simp add: docker_law_def)

lemma exec_lives_in:
  assumes "lives_in live io api dh restore S st"
  shows "lives_in live io api dh restore S (snd (docker_run io (da_exec api cid) env script dir lm st))"
proof (rule lived.keeps_docker_run[OF _ _ _ _ assms])
  fix st argv dir env x
  assume w: "lives_in live io api dh restore S st"
  show "lives_in live io api dh restore S (fst st, snd (de_create (da_exec api cid) argv dir env (snd st)))"
    using w exec_law_of[of live api cid] by (auto simp: lives_in_def exec_law_def intro: adds_none_only)
  show "lives_in live io api dh restore S (fst st, snd (de_start (da_exec api cid) x (snd st)))"
    using w exec_law_of[of live api cid] by (auto simp: lives_in_def exec_law_def intro: adds_none_only)
  show "lives_in live io api dh restore S (fst st, snd (de_inspect (da_exec api cid) x (snd st)))"
    using w exec_law_of[of live api cid] by (auto simp: lives_in_def exec_law_def intro: adds_none_only)
  show "lives_in live io api dh restore S (fst st, de_stop_scripts (da_exec api cid) (snd st))"
    using w exec_law_of[of live api cid] unfolding lives_in_def exec_law_def only_def
    by (metis fst_conv snd_conv subset_trans)
qed

interpretation contained: job_runner io "docker_run io (da_exec api cid) env"
    "docker_run io (da_exec api helper) env" "lives_in live io api dh restore S" restore
  for live io api dh restore S cid helper env
proof
  fix st lm
  assume w: "lives_in live io api dh restore S st"
  have "only live S (snd (snd (restore lm st)))" if "host_law live io dh restore" "only live S (snd st)"
    using that unfolding host_law_def only_def by blast
  then show "lives_in live io api dh restore S (snd (restore lm st))" using w by (simp add: lives_in_def)
qed (rule lived.keeps_write exec_lives_in, assumption)+

text \<open>
  The state: besides what was there before (\<open>S\<close>), only containers that are recorded exist. \<open>C\<close> says
  what is not recorded yet.
\<close>

definition safe :: "('w \<Rightarrow> string set) \<Rightarrow> string set \<Rightarrow> (job_containers \<Rightarrow> bool) \<Rightarrow> 'w dstate \<Rightarrow> bool" where
  "safe live S C = (\<lambda>(ct, st). C ct \<and> only live (S \<union> set (all_containers ct)) (snd st))"

definition ends ::
  "('s \<Rightarrow> bool) \<Rightarrow> ('s \<Rightarrow> bool) \<Rightarrow> ('s \<Rightarrow> ('e, 'a) result \<times> 's) \<Rightarrow> ('a \<Rightarrow> 's \<Rightarrow> bool) \<Rightarrow> bool" where
  "ends E P m Q \<longleftrightarrow> (\<forall>s s'. P s \<longrightarrow>
     (\<forall>e. m s = (Inl e, s') \<longrightarrow> E s') \<and> (\<forall>a. m s = (Inr a, s') \<longrightarrow> Q a s'))"

lemma ends_bind:
  assumes m: "ends E P m Q" and f: "\<And>a. ends E (Q a) (f a) R"
  shows "ends E P (sbind m f) R"
  unfolding ends_def
proof (intro allI impI)
  fix s s' assume "P s"
  obtain r s1 where r: "m s = (r, s1)" by (meson surj_pair)
  show "(\<forall>e. sbind m f s = (Inl e, s') \<longrightarrow> E s') \<and> (\<forall>a. sbind m f s = (Inr a, s') \<longrightarrow> R a s')"
  proof (cases r)
    case (Inl e)
    then show ?thesis using m \<open>P s\<close> r unfolding ends_def by (auto simp: sbind_def)
  next
    case (Inr a)
    then have "Q a s1" using m \<open>P s\<close> r unfolding ends_def by blast
    then show ?thesis using f[of a] r Inr unfolding ends_def by (auto simp: sbind_def)
  qed
qed

lemma kept_ends:
  "kept (safe live S C) m \<Longrightarrow> ends (safe live S (\<lambda>_. True)) (safe live S C) m (\<lambda>_. safe live S C)"
  unfolding ends_def kept_def safe_def by (metis (mono_tags, lifting) case_prod_beta snd_conv)

lemma ends_weaken: "ends E P m Q \<Longrightarrow> (\<And>a s. Q a s \<Longrightarrow> R a s) \<Longrightarrow> ends E P m R"
  unfolding ends_def by blast

text \<open>A container was created and is about to be recorded.\<close>

definition fresh :: "('w \<Rightarrow> string set) \<Rightarrow> string set \<Rightarrow> (job_containers \<Rightarrow> bool) \<Rightarrow> string \<Rightarrow> 'w dstate \<Rightarrow> bool" where
  "fresh live S C cid = (\<lambda>(ct, st). C ct \<and> only live (S \<union> insert cid (set (all_containers ct))) (snd st))"

lemma created_ends:
  assumes add: "\<And>T w r w'. S \<subseteq> T \<Longrightarrow> only live T w \<Longrightarrow> m w = (r, w') \<Longrightarrow>
      only live (case r of Inr cid \<Rightarrow> insert cid T | Inl _ \<Rightarrow> T) w'"
  shows "ends (safe live S (\<lambda>_. True)) (safe live S C) (on_world g m) (fresh live S C)"
  unfolding ends_def
proof (intro allI impI)
  fix s s' assume s: "safe live S C s"
  obtain ct tw w where e: "s = (ct, tw, w)" by (cases s) auto
  obtain r w' where r: "m w = (r, w')" by (meson surj_pair)
  have "only live (case r of Inr cid \<Rightarrow> insert cid (S \<union> set (all_containers ct))
      | Inl _ \<Rightarrow> S \<union> set (all_containers ct)) w'"
    using add[OF _ _ r, of "S \<union> set (all_containers ct)"] s e by (simp add: safe_def)
  then show "(\<forall>x. on_world g m s = (Inl x, s') \<longrightarrow> safe live S (\<lambda>_. True) s') \<and>
      (\<forall>cid. on_world g m s = (Inr cid, s') \<longrightarrow> fresh live S C cid s')"
    using s e r by (auto simp: on_world_def smap_error_def safe_def fresh_def split: sum.splits)
qed

lemma recorded_ends:
  assumes "\<And>ct. C ct \<Longrightarrow> C' (f ct) \<and> insert cid (set (all_containers ct)) \<subseteq> set (all_containers (f ct))"
  shows "ends E (fresh live S C cid) (recorded f) (\<lambda>_. safe live S C')"
  using assms unfolding ends_def fresh_def recorded_def safe_def only_def by fastforce

lemma on_world_kept [kept_rules]:
  "(\<And>T. kept (only live T) m) \<Longrightarrow> kept (safe live S C) (on_world g m)"
  using kept_map_error[of "only live T" m g for T] unfolding kept_def on_world_def safe_def
  by (auto simp: case_prod_beta)

lemma on_state_kept [kept_rules]:
  "(\<And>T. kept (\<lambda>st. only live T (snd st)) m) \<Longrightarrow> kept (safe live S C) (on_state m)"
  unfolding kept_def on_state_def safe_def by (auto simp: case_prod_beta split: option.splits)

lemma on_trace_kept [kept_rules]:
  "(\<And>T st. only live T (snd st) \<Longrightarrow> only live T (snd (m st))) \<Longrightarrow> kept (safe live S C) (on_trace m)"
  unfolding kept_def on_trace_def safe_def by auto

lemma recorded_kept [kept_rules]:
  "(\<And>ct. C ct \<Longrightarrow> C (f ct) \<and> set (all_containers ct) \<subseteq> set (all_containers (f ct))) \<Longrightarrow>
     kept (safe live S C) (recorded f)"
  unfolding kept_def recorded_def safe_def only_def by fastforce

text \<open>The operations of \<open>start_and_run\<close>.\<close>

lemma trace_only:
  assumes "host_law live io dh restore" "only live T (snd st)"
  shows "only live T (snd (trace_write io text st))"
  using trace_write_keeps(1)[where P = "only live T", OF host_law_http[OF assms(1)] assms(2)] by blast

lemma pull_loop_world: "snd (snd (pull_loop img evs st)) = snd st"
  by (induction evs arbitrary: st) (auto split: pull_event.splits simp: raise_cancel_def)

lemma ensure_image_kept:
  assumes d: "docker_law live api" and h: "host_law live io dh restore"
  shows "kept (\<lambda>st. only live T (snd st)) (ensure_image io api dh dx img ps j)"
proof -
  have pull: "only live T (snd st) \<Longrightarrow> only live T (snd (snd (pull_image io api dh dx img j st)))" for st
    using kept_apply[OF docker_law_kept(2)[OF d] trace_only[OF h]]
    by (simp add: pull_image_def Let_def case_prod_beta pull_loop_world)
  have "only live T (snd st) \<Longrightarrow> only live T (snd (da_image_present api n (snd st)))" for st n
    using kept_apply[OF docker_law_kept(1)[OF d]] .
  then show ?thesis
    unfolding kept_def ensure_image_def using pull trace_only[OF h]
    by (auto simp: Let_def case_prod_beta split: sum.splits option.splits)
qed

lemma job_volumes_kept:
  assumes "docker_law live api"
  shows "kept (only live S) (job_volumes api dh dx j vs)"
proof (induction vs)
  case (Cons v vs)
  then show ?case
    unfolding job_volumes.simps Let_def using docker_law_kept[OF assms]
    by (auto intro!: kept_rules simp: kept_def[of _ "\<lambda>w. sbind _ _ w"] intro: kept_apply)
qed (simp add: kept_def)

lemma variable_files_kept:
  assumes "\<And>p. kept (only live S) (mkparent p)" "\<And>p c. kept (only live S) (write p c)"
  shows "kept (only live S) (write_variable_files mkparent write files)"
proof -
  let ?step = "\<lambda>(r, w) (path, content).
       case r of
         Inl e \<Rightarrow> (Inl e, w)
       | Inr () \<Rightarrow>
           (case mkparent path w of
              (Inl e, w1) \<Rightarrow> (Inl [e], w1)
            | (Inr (), w1) \<Rightarrow>
                (case write path content w1 of
                   (Inl e, w2) \<Rightarrow> (Inl [''Failed to write variable file '' @ path, e], w2)
                 | (Inr (), w2) \<Rightarrow> (Inr (), w2)))"
  have "only live S (snd (?step p f))" if "only live S (snd p)" for p f
    using that
    by (simp add: kept_apply[OF assms(1)] kept_apply[OF assms(2)] unit_case case_prod_beta split: sum.split)
  then have "only live S (snd (foldl ?step (Inr (), w) files))" if "only live S w" for w
    using that by (intro foldl_rule[where P = "\<lambda>p. only live S (snd p)"]) simp_all
  then show ?thesis unfolding kept_def write_variable_files_def by blast
qed

lemma create_network_kept: "docker_law live api \<Longrightarrow> kept (only live S) (create_network api dx n)"
  unfolding create_network_def by (intro kept_rules docker_law_kept)

lemma service_checks_kept:
  assumes "docker_law live api"
  shows "kept (only live S) (service_checks api cids)"
proof (induction cids)
  case (Cons c cids)
  then show ?case using docker_law_kept(3)[OF assms, of S c]
    unfolding kept_def by (simp add: case_prod_beta Let_def)
qed (simp add: kept_def)

lemma wait_for_services_only:
  assumes d: "docker_law live api" and h: "host_law live io dh restore" and st: "only live S (snd st)"
  shows "only live S (snd (wait_for_services io api dx jid n cids st))"
  using kept_apply[OF service_checks_kept[OF d] st, of cids] kept_apply[OF run_helper_kept[OF d]] trace_only[OF h]
  by (auto simp: wait_for_services_def Let_def case_prod_beta split: sum.splits)

lemma start_helper_adds:
  assumes d: "docker_law live api" and L: "{cid. \<exists>w e w'. da_start api cid w = (Inl e, w')} \<subseteq> T"
    and w: "only live T w" and run: "start_helper api dx j dir env w = (r, w')"
  shows "only live (case r of Inr cid \<Rightarrow> insert cid T | Inl _ \<Rightarrow> T) w'"
proof -
  obtain c w1 where c: "create_named api dx (''turboci-job-'' @ dec (job_id j) @ ''-sources'')
      (helper_container dx dir env) w = (c, w1)" by (meson surj_pair)
  note w1 = create_named_adds[OF d w c]
  have eq: "start_helper api dx j dir env w =
      (case c of Inl e \<Rightarrow> (Inl e, w1)
       | Inr cid \<Rightarrow> sbind (smap_error (\<lambda>e. [''Failed to start helper container'', e]) (da_start api cid))
           (\<lambda>_. sreturn cid) w1)"
    using c by (simp add: start_helper_def sbind_def)
  show ?thesis
  proof (cases c)
    case (Inr cid)
    obtain s w2 where s: "da_start api cid w1 = (s, w2)" by (meson surj_pair)
    have w2: "only live (insert cid T) w2"
      using kept_apply[OF docker_law_kept(4)[OF d], of _ w1 cid] w1 Inr s by simp
    show ?thesis
    proof (cases s)
      case (Inl e)
      then have "cid \<in> T" using s L by blast
      then show ?thesis using run eq Inr s Inl w2 by (auto simp: sbind_def smap_error_def insert_absorb)
    qed (use run eq Inr s w2 in \<open>auto simp: sbind_def smap_error_def sreturn_def\<close>)
  qed (use run eq w1 in simp)
qed

text \<open>What may fail to start; only a helper that does so is not recorded.\<close>

definition unstarted :: "'w docker_api \<Rightarrow> job \<Rightarrow> string set" where
  "unstarted api j = (if needs_helper j then {cid. \<exists>w e w'. da_start api cid w = (Inl e, w')} else {})"

lemma start_sources_ends:
  assumes d: "docker_law live api" and h: "host_law live io dh restore" and S: "unstarted api j \<subseteq> S"
  shows "ends (safe live S (\<lambda>_. True)) (safe live S (\<lambda>ct. jc_helper ct = None \<and> jc_job ct = None))
    (start_sources io api dh dx j dir env) (\<lambda>_. safe live S (\<lambda>ct. jc_job ct = None))"
proof (cases "needs_helper j")
  case True
  have created: "ends (safe live S (\<lambda>_. True)) (safe live S C)
      (on_world g (start_helper api dx j dir env)) (fresh live S C)" for g C
    using start_helper_adds[OF d] S True by (intro created_ends) (auto simp: unstarted_def)
  have "ends (safe live S (\<lambda>_. True)) (safe live S (\<lambda>ct. jc_helper ct = None \<and> jc_job ct = None))
     (sbind (on_state (ensure_image io api dh dx (dc_helper_image (dx_config dx)) None j)) (\<lambda>_.
        sbind (on_world system_chain (start_helper api dx j dir env)) (\<lambda>cid.
        recorded (\<lambda>ct. ct\<lparr>jc_helper := Some cid\<rparr>)))) (\<lambda>_. safe live S (\<lambda>ct. jc_job ct = None))"
    by (rule ends_bind[OF kept_ends[OF on_state_kept[OF ensure_image_kept[OF d h]]]
          ends_bind[OF created recorded_ends]]) (auto simp: all_containers_def opt_list_def)
  then show ?thesis using True by (simp add: start_sources_def)
next
  case False
  then show ?thesis by (auto simp: start_sources_def ends_def sreturn_def safe_def)
qed

abbreviation (input) no_job :: "job_containers \<Rightarrow> bool" where
  "no_job ct \<equiv> jc_job ct = None"

lemma start_services_ends:
  assumes d: "docker_law live api" and h: "host_law live io dh restore"
  shows "ends (safe live S (\<lambda>_. True)) (safe live S no_job)
    (start_services io api dh dx j values volumes network n svcs) (\<lambda>_. safe live S no_job)"
proof (induction svcs arbitrary: n)
  case Nil
  show ?case by (simp add: kept_ends kept_return)
next
  case (Cons svc svcs)
  have created: "ends (safe live S (\<lambda>_. True)) (safe live S no_job)
      (on_world g (create_service api dx j name img sv vals hc)) (fresh live S no_job)" for g name img sv vals hc
    unfolding create_service_def by (rule created_ends) (rule create_named_adds[OF d])
  have log: "kept (safe live S no_job) (on_trace (trace_write io t))" for t
    by (rule on_trace_kept) (rule trace_only[OF h])
  have image: "kept (safe live S no_job) (on_state (ensure_image io api dh dx img ps j))" for img ps
    by (rule on_state_kept) (rule ensure_image_kept[OF d h])
  have start: "kept (safe live S no_job) (on_world g (da_start api cid))" for g cid
    by (rule on_world_kept) (rule docker_law_kept(4)[OF d])
  have "ends E (fresh live S no_job cid) (recorded (\<lambda>ct. ct\<lparr>jc_services := jc_services ct @ [cid]\<rparr>))
      (\<lambda>_. safe live S no_job)" for E cid
    by (rule recorded_ends) (auto simp: all_containers_def)
  note step = ends_bind[OF kept_ends[OF log] ends_bind[OF kept_ends[OF image]
      ends_bind[OF created ends_bind[OF this ends_bind[OF kept_ends[OF start] Cons.IH]]]]]
  show ?case unfolding start_services.simps Let_def by (rule step)
qed

lemma start_network_kept:
  assumes "docker_law live api"
  shows "kept (safe live S no_job) (start_network api dx j services)"
  unfolding start_network_def Let_def
  by (intro kept_rules create_network_kept[OF assms]) (auto simp: all_containers_def)

lemma start_job_container_ends:
  assumes d: "docker_law live api" and h: "host_law live io dh restore"
  shows "ends (safe live S (\<lambda>_. True)) (safe live S no_job)
    (start_job_container io api dx restore j dir img env subdir volumes network) (\<lambda>_. safe live S (\<lambda>_. True))"
proof -
  have created: "ends (safe live S (\<lambda>_. True)) (safe live S no_job)
      (on_world g (create_named api dx n config)) (fresh live S no_job)" for g n config
    by (rule created_ends) (rule create_named_adds[OF d])
  have rec: "ends E (fresh live S no_job cid) (recorded (\<lambda>ct. ct\<lparr>jc_job := Some cid\<rparr>))
      (\<lambda>_. safe live S (\<lambda>_. True))" for E cid
    by (rule recorded_ends) (auto simp: all_containers_def opt_list_def)
  have start: "kept (safe live S C) (on_world g (da_start api cid))" for g C cid
    by (rule on_world_kept) (rule docker_law_kept(4)[OF d])
  have "kept (\<lambda>st. only live T (snd st)) (run_job_steps io (docker_run io (da_exec api c1) e)
      (docker_run io (da_exec api c2) e) restore j dirs)" for T c1 c2 e dirs
    using contained.keeps_job[of live io api dh restore T] d h
    unfolding kept_def lives_in_def by blast
  then have "kept (safe live S C) (on_state (run_job_steps io (docker_run io (da_exec api c1) e)
      (docker_run io (da_exec api c2) e) restore j dirs))" for C c1 c2 e dirs
    by (rule on_state_kept)
  then have run: "kept (safe live S C) (run_in_container io api restore j env subdir cid)" for C cid
    unfolding kept_def run_in_container_def by (auto simp: case_prod_beta)
  note steps = ends_bind[OF created ends_bind[OF rec ends_bind[OF kept_ends[OF start] kept_ends[OF run]]]]
  show ?thesis unfolding start_job_container_def by (rule steps)
qed

lemma start_and_run_ends:
  assumes d: "docker_law live api" and h: "host_law live io dh restore" and S: "unstarted api j \<subseteq> S"
  shows "ends (safe live S (\<lambda>_. True)) (safe live S (\<lambda>ct. jc_helper ct = None \<and> jc_job ct = None))
    (start_and_run io api dh dx restore j dir) (\<lambda>_. safe live S (\<lambda>_. True))"
proof -
  obtain img policies where i: "(case job_image j of
      Some i \<Rightarrow> (expand (img_name i)
        (map_of (je_vars (make_job_env j ''/builds'' dir \<lparr>rv_disposable = True, rv_ca_pem = dx_ca_pem dx\<rparr>))),
        img_pull_policy i)
    | None \<Rightarrow> (dc_default_image (dx_config dx), [])) = (img, policies)" by (meson surj_pair)
  have log: "kept (safe live S C) (on_trace (trace_write io t))" for t C
    by (rule on_trace_kept) (rule trace_only[OF h])
  have image: "kept (safe live S C) (on_state (ensure_image io api dh dx n ps j))" for n ps C
    by (rule on_state_kept) (rule ensure_image_kept[OF d h])
  have host: "kept (only live T) (dh_mkdirs dh p)" "kept (only live T) (dh_mkparent dh p)"
      "kept (only live T) (dh_write_file dh p c)" for T p c
    using h by (auto simp: host_law_def intro!: adds_none_kept)
  have files: "kept (safe live S C) (on_world g (write_variable_files (dh_mkparent dh) (dh_write_file dh) fs))" for C g fs
    by (rule on_world_kept) (intro variable_files_kept host)
  have dirs: "kept (safe live S C) (on_world g (dh_mkdirs dh p))" for C g p
    by (rule on_world_kept) (rule host)
  have subdir: "kept (safe live S C) (on_world g (sresult r))" for C g r
    by (rule on_world_kept) (rule kept_return)
  have volumes: "kept (safe live S C) (on_world g (job_volumes api dh dx j vs))" for C g vs
    by (rule on_world_kept) (rule job_volumes_kept[OF d])
  have wait: "kept (safe live S no_job) (await_services io api dx j network)" for network
    using wait_for_services_only[OF d h]
    by (auto simp: kept_def await_services_def safe_def split: option.splits)
  note steps = ends_bind[OF kept_ends[OF log] ends_bind[OF kept_ends[OF image]
    ends_bind[OF kept_ends[OF files] ends_bind[OF kept_ends[OF subdir] ends_bind[OF kept_ends[OF dirs]
    ends_bind[OF start_sources_ends[OF d h S] ends_bind[OF kept_ends[OF volumes]
    ends_bind[OF kept_ends[OF start_network_kept[OF d]] ends_bind[OF start_services_ends[OF d h]
    ends_bind[OF kept_ends[OF wait] start_job_container_ends[OF d h]]]]]]]]]]]
  show ?thesis unfolding start_and_run_def Let_def i prod.case by (rule steps)
qed

lemma force_remove_all_only:
  assumes d: "docker_law live api"
  shows "only live (S \<union> set cids) w \<Longrightarrow> only live S (force_remove_all api cids w)"
proof (induction cids arbitrary: w)
  case (Cons cid cids)
  have "only live (S \<union> set cids) (snd (da_remove api cid w))"
    using docker_law_remove[OF d, of cid w] Cons.prems by (auto simp: only_def)
  from Cons.IH[OF this] show ?case by (simp add: force_remove_all_def)
qed (simp add: force_remove_all_def)

lemma release_only:
  assumes d: "docker_law live api" and w: "only live (S \<union> set (all_containers ct)) w"
  shows "only live S (release api dh dx jid ct dir w)"
proof -
  have w1: "only live S (force_remove_all api (all_containers ct) w)" by (rule force_remove_all_only[OF d w])
  then have "only live S (snd (da_remove_network api n (force_remove_all api (all_containers ct) w)))" for n
    by (rule kept_apply[OF docker_law_kept(9)[OF d]])
  then show ?thesis
    using w1 kept_apply[OF reset_ownership_kept[OF d]] by (simp add: release_def Let_def split: option.splits)
qed



section \<open>Limits\<close>

lemma docker_size_None: "docker_size field v = Inr m \<Longrightarrow> m = None \<longleftrightarrow> v = None"
  by (auto simp: docker_size_def rbind_def split: option.splits sum.splits)

lemma ok_flatten_Inr [simp]: "ok_flatten (Inr m) = m"
  by (simp add: ok_flatten_def split: option.splits)

lemma validate_docker_parts:
  assumes "validate_docker read_ca c = Inr ()"
  shows "\<exists>m r s w. memory_bytes c = Inr m \<and> memory_reservation_bytes c = Inr r \<and> shm_size_bytes c = Inr s \<and>
      memory_swap_bytes c = Inr w \<and> \<not> list_ex negative_size [m, r, s] \<and>
      (case (w, m) of (Some sw, Some me) \<Rightarrow> sw = -1 \<or> me \<le> sw | (Some sw, None) \<Rightarrow> sw = -1 | _ \<Rightarrow> True)"
    and "case dc_cpus c of None \<Rightarrow> True | Some v \<Rightarrow> cpus_ok v"
  using assms
  by (auto simp: validate_docker_def validate_memory_def rbind_def check_def
      split: sum.splits if_splits option.splits)

lemma round_half_even_le: "of_int (round_half_even y) \<le> y + 1 / 2"
proof -
  have "y - 1 < of_int \<lfloor>y\<rfloor>" "of_int \<lfloor>y\<rfloor> \<le> y" by linarith+
  then show ?thesis unfolding round_half_even_def Let_def by (auto; linarith)
qed

lemma round_half_even_ge: "0 \<le> y \<Longrightarrow> 0 \<le> round_half_even y"
  by (auto simp: round_half_even_def Let_def)

lemma f64_round_bounds:
  assumes x: "0 < x" "x \<le> 2 ^ 60"
  shows "\<exists>r. f64_round x = Some r \<and> 0 \<le> r \<and> r \<le> x + max x 1 / 2 ^ 53"
proof -
  define e r where "e = max (f64_exp x) (-1022)"
    and "r = of_int (round_half_even (x / pow2 (e - 52))) * pow2 (e - 52)"
  let ?ulp = "pow2 (e - 52)"
  have p: "0 < ?ulp" by (rule pow2_pos)
  have "pow2 e \<le> max x 1"
  proof (cases "f64_exp x \<ge> -1022")
    case True
    then show ?thesis using f64_exp_le[OF x(1)] by (simp add: e_def max_def)
  next
    case False
    then have "pow2 e < pow2 0" unfolding pow2_less by (simp add: e_def)
    then show ?thesis by (simp add: pow2_powi)
  qed
  moreover have "?ulp = pow2 e / 2 ^ 52"
    using pow2_add[of e "-52"] by (simp add: pow2_powi power_int_minus)
  ultimately have ulp: "?ulp / 2 \<le> max x 1 / 2 ^ 53" by simp
  have "r \<le> (x / ?ulp + 1 / 2) * ?ulp"
    unfolding r_def using round_half_even_le[of "x / ?ulp"] p by (intro mult_right_mono) auto
  also have "\<dots> = x + ?ulp / 2" using p by (simp add: field_simps)
  finally have upper: "r \<le> x + max x 1 / 2 ^ 53" using ulp by simp
  have "x + max x 1 / 2 ^ 53 < 2 ^ 61" using x by (simp add: max_def)
  also have "(2 :: rat) ^ 61 = pow2 61" by (simp add: pow2_powi)
  also have "pow2 61 < pow2 1024" unfolding pow2_less by simp
  finally have "r < pow2 1024" using upper by simp
  then have "f64_round x = Some r" using x(1) by (simp add: f64_round_def Let_def e_def r_def)
  moreover have "0 \<le> r" unfolding r_def using round_half_even_ge[of "x / ?ulp"] x p by simp
  ultimately show ?thesis using upper by blast
qed

lemma nano_cpus_bounds:
  assumes "cpus_ok v"
  shows "0 \<le> nano_cpus v \<and> nano_cpus v \<le> 1024 * 10 ^ 9"
proof -
  obtain x where v: "v = Finite x" "0 < x" "x \<le> 1024" using assms by (auto simp: cpus_ok_def split: float_value.splits)
  then have "0 < x * 1000000000" "x * 1000000000 \<le> 2 ^ 60" by simp_all
  from f64_round_bounds[OF this] obtain r where r: "f64_round (x * 1000000000) = Some r" "0 \<le> r"
    "r \<le> x * 1000000000 + max (x * 1000000000) 1 / 2 ^ 53" by blast
  have "r < 1024 * 1000000000 + 1" using r(3) v(3) by (auto simp: max_def split: if_splits)
  then have "\<lfloor>r\<rfloor> \<le> 1024 * 1000000000" by linarith
  then show ?thesis using r(1,2) v(1) by (auto simp: nano_cpus_def f64_mult_def min_def i64_max_def)
qed

text \<open>
  With a configuration that was accepted no limit is lost on the way to Docker: each size that
  is set is a number in the container's settings, never dropped; sizes are not negative, and swap is
  unlimited or at least the memory; the CPU limit is at most 1024 CPUs.
\<close>

theorem validated_limits_applied:
  assumes "validate_docker read_ca (dx_config dx) = Inr ()"
  shows "let c = dx_config dx; hc = make_host_config dx binds network in
    (hc_memory hc = None \<longleftrightarrow> dc_memory c = None) \<and> (hc_memory_swap hc = None \<longleftrightarrow> dc_memory_swap c = None) \<and>
    (hc_memory_reservation hc = None \<longleftrightarrow> dc_memory_reservation c = None) \<and>
    (hc_shm_size hc = None \<longleftrightarrow> dc_shm_size c = None) \<and>
    \<not> list_ex negative_size [hc_memory hc, hc_memory_reservation hc, hc_shm_size hc] \<and>
    (case (hc_memory_swap hc, hc_memory hc) of
       (Some swap, Some memory) \<Rightarrow> swap = -1 \<or> memory \<le> swap
     | (Some swap, None) \<Rightarrow> swap = -1
     | _ \<Rightarrow> True) \<and>
    (case hc_nano_cpus hc of Some n \<Rightarrow> 0 \<le> n \<and> n \<le> 1024 * 10 ^ 9 | None \<Rightarrow> dc_cpus c = None)"
proof -
  let ?c = "dx_config dx"
  obtain m r s w where p: "memory_bytes ?c = Inr m" "memory_reservation_bytes ?c = Inr r"
    "shm_size_bytes ?c = Inr s" "memory_swap_bytes ?c = Inr w" "\<not> list_ex negative_size [m, r, s]"
    "case (w, m) of (Some sw, Some me) \<Rightarrow> sw = -1 \<or> me \<le> sw | (Some sw, None) \<Rightarrow> sw = -1 | _ \<Rightarrow> True"
    using validate_docker_parts(1)[OF assms] by blast
  have none: "m = None \<longleftrightarrow> dc_memory ?c = None" "r = None \<longleftrightarrow> dc_memory_reservation ?c = None"
    "s = None \<longleftrightarrow> dc_shm_size ?c = None" "w = None \<longleftrightarrow> dc_memory_swap ?c = None"
    using p(1-4) docker_size_None
    unfolding memory_bytes_def memory_reservation_bytes_def shm_size_bytes_def memory_swap_bytes_def by blast+
  have cpus: "case map_option nano_cpus (dc_cpus ?c) of Some n \<Rightarrow> 0 \<le> n \<and> n \<le> 1024 * 10 ^ 9 | None \<Rightarrow> dc_cpus ?c = None"
    using validate_docker_parts(2)[OF assms] nano_cpus_bounds by (auto split: option.splits)
  show ?thesis
    unfolding Let_def make_host_config_def using p(5,6) none cpus by (simp add: p(1-4))
qed

section \<open>A concrete Docker host\<close>

text \<open>The world is the list of containers; a container's id is its name, and its scripts exit with 0.\<close>

definition sample_net :: "string list http" where
  "sample_net = \<lparr>http_send = (\<lambda>_ w. (Inl ''offline'', w)), http_sleep = (\<lambda>_ w. w),
     http_open = (\<lambda>_ w. (Inr (), w)), http_create = (\<lambda>_ w. (Inr (), w)), http_write = (\<lambda>_ _ w. (Inr (), w)),
     http_status_text = dec, http_now = (\<lambda>_. 0), http_unix_secs = (\<lambda>_. 0)\<rparr>"

definition sample_exec :: "string list docker_exec" where
  "sample_exec = \<lparr>de_create = (\<lambda>_ _ _ w. (Inr ''exec'', w)), de_start = (\<lambda>_ w. (Inr (Some [DEnd]), w)),
     de_inspect = (\<lambda>_ w. (Inr (Some 0), w)), de_stop_scripts = (\<lambda>w. w)\<rparr>"

definition sample_api :: "string list docker_api" where
  "sample_api = \<lparr>da_image_present = (\<lambda>_ w. (True, w)), da_pull = (\<lambda>_ _ w. ([], w)),
     da_inspect = (\<lambda>_ w. (None, w)), da_create = (\<lambda>n _ w. (Inr n, n # w)), da_start = (\<lambda>_ w. (Inr (), w)),
     da_remove = (\<lambda>c w. (Inr (), removeAll c w)), da_wait = (\<lambda>_ w. (Some (Inr ()), w)),
     da_logs = (\<lambda>_ _ w. ([], w)), da_create_network = (\<lambda>_ _ w. (Inr (), w)),
     da_remove_network = (\<lambda>_ w. (Inr (), w)), da_volume_present = (\<lambda>_ w. (True, w)),
     da_create_volume = (\<lambda>_ _ w. (Inr (), w)), da_list_containers = (\<lambda>_ w. (Inr (map Some w), w)),
     da_list_networks = (\<lambda>_ w. (Inr [], w)), da_exec = (\<lambda>_. sample_exec)\<rparr>"

definition sample_host :: "string list docker_host" where
  "sample_host = \<lparr>dh_mkdirs = (\<lambda>_ w. (Inr (), w)), dh_mkparent = (\<lambda>_ w. (Inr (), w)),
     dh_write_file = (\<lambda>_ _ w. (Inr (), w)), dh_owner = (\<lambda>_ _. Inr (1000, 1000)), dh_read = (\<lambda>_ _. None),
     dh_home = (\<lambda>_. None), dh_parse_json = (\<lambda>_. None), dh_b64 = (\<lambda>_. None), dh_hash_hex = (\<lambda>s. s)\<rparr>"

definition sample_executor :: docker_executor where
  "sample_executor = \<lparr>dx_config = docker_config_default\<lparr>dc_memory := Some ''512m'', dc_cpus := Some (Finite 2)\<rparr>,
     dx_ca_pem = None, dx_owner = ''r_1''\<rparr>"

definition sample_trace :: trace_writer where
  "sample_trace = trace_new None 7 ''job-token'' sample_scrubber 0"

definition no_restore :: "limits \<Rightarrow> 'w state \<Rightarrow> restore_end \<times> 'w state" where
  "no_restore lm st = (RestoreEnded None, st)"

lemma sample_laws: "docker_law set sample_api" "host_law set sample_net sample_host no_restore"
  by (auto simp: docker_law_def host_law_def adds_none_def exec_law_def sample_api_def sample_exec_def
      sample_net_def sample_host_def no_restore_def)


definition sample_git_job :: job where
  "sample_git_job = sample_job\<lparr>job_git_info := Some sample_git\<rparr>"


lemma parse512: "parse_size field ''512m'' = Inr 536870912"
proof -
  have "to_ascii_lowercase (trim ''512m'') = ''512m''" "takeWhile is_ascii_digit ''512m'' = ''512''"
    "dropWhile is_ascii_digit ''512m'' = ''m''" "digits_val ''512'' = 512" by code_simp+
  then show ?thesis by (simp add: parse_size_def Let_def size_multiplier_def parse_i64_digits_def i64_max_def)
qed

lemma validated_limits_applied_witness:
  "hc_memory (make_host_config sample_executor [] None) \<noteq> None"
proof -
  have "validate_docker (\<lambda>_. Inr 1) (dx_config sample_executor) = Inr ()"
    by (simp add: validate_docker_def validate_memory_def memory_bytes_def memory_swap_bytes_def
        memory_reservation_bytes_def shm_size_bytes_def docker_size_def check_def cpus_ok_def first_bad_def
        pull_policy_name_def sample_executor_def docker_config_default_def parse512)
  from validated_limits_applied[OF this, of "[]" None] show ?thesis
    by (simp add: Let_def sample_executor_def docker_config_default_def)
qed

end
