(* ===== verification/Artifacts.thy ===== *)
theory Artifacts
  imports Gitlab_Client Cancel
begin

text \<open>
  Artifact and cache archives (\<open>src/runner_daemon/artifacts.rs\<close>): extracting an untrusted ZIP into
  the workspace, and collecting and archiving files. The file system, the zip and gzip formats and
  glob patterns are parameters; what is modelled is what the code does with them: which handles and
  names it uses, the limits, the checks, and the order of the operations.
\<close>

section \<open>Extraction\<close>

record extract_limits =
  el_max_entries :: nat
  el_max_total_bytes :: nat

definition extract_limits_default :: extract_limits where
  "extract_limits_default = \<lparr>el_max_entries = 100000, el_max_total_bytes = 10 * 1024 * 1024 * 1024\<rparr>"

text \<open>
  The operations of \<open>safe_fs\<close>, relative to directory handles: opening a directory never follows a
  symlink (\<open>DIR_FLAGS\<close>), a file is created exclusively.
\<close>

datatype errno = NOENT | EXIST | Errno string

record ('h, 'f, 'w) dir_fs =
  fs_mkdirs :: "string \<Rightarrow> 'w \<Rightarrow> (string, unit) result \<times> 'w"
  fs_open :: "string \<Rightarrow> 'w \<Rightarrow> (errno, 'h) result \<times> 'w"
  fs_openat :: "'h \<Rightarrow> string \<Rightarrow> 'w \<Rightarrow> (errno, 'h) result \<times> 'w"
  fs_mkdirat :: "'h \<Rightarrow> string \<Rightarrow> 'w \<Rightarrow> (errno, unit) result \<times> 'w"
  fs_unlinkat :: "'h \<Rightarrow> string \<Rightarrow> 'w \<Rightarrow> (errno, unit) result \<times> 'w"
  fs_create_excl :: "'h \<Rightarrow> string \<Rightarrow> 'w \<Rightarrow> (errno, 'f) result \<times> 'w"
  fs_symlinkat :: "string \<Rightarrow> 'h \<Rightarrow> string \<Rightarrow> 'w \<Rightarrow> (errno, unit) result \<times> 'w"
  fs_write :: "'f \<Rightarrow> string \<Rightarrow> 'w \<Rightarrow> (string, unit) result \<times> 'w"
  fs_fchmod :: "'f \<Rightarrow> nat \<Rightarrow> 'w \<Rightarrow> (errno, unit) result \<times> 'w"

fun errno_text :: "errno \<Rightarrow> string" where
  "errno_text NOENT = ''No such file or directory (os error 2)''"
| "errno_text EXIST = ''File exists (os error 17)''"
| "errno_text (Errno e) = e"

definition open_root :: "('h, 'f, 'w) dir_fs \<Rightarrow> string \<Rightarrow> 'w \<Rightarrow> (chain, 'h) result \<times> 'w" where
  "open_root fs base w =
     (case fs_open fs base w of
        (Inl e, w1) \<Rightarrow> (Inl [''Failed to open workspace '' @ debug_str base, errno_text e], w1)
      | (Inr h, w1) \<Rightarrow> (Inr h, w1))"

definition open_or_create_dir ::
  "('h, 'f, 'w) dir_fs \<Rightarrow> 'h \<Rightarrow> string \<Rightarrow> 'w \<Rightarrow> (chain, 'h) result \<times> 'w" where
  "open_or_create_dir fs dir name w =
     (case fs_openat fs dir name w of
        (Inr h, w1) \<Rightarrow> (Inr h, w1)
      | (Inl e, w1) \<Rightarrow>
          if e = NOENT then
            (case fs_mkdirat fs dir name w1 of
               (made, w2) \<Rightarrow>
                 if made = Inr () \<or> made = Inl EXIST then
                   (case fs_openat fs dir name w2 of
                      (Inr h, w3) \<Rightarrow> (Inr h, w3)
                    | (Inl e, w3) \<Rightarrow> (Inl [errno_text e], w3))
                 else (Inl [case made of Inl e \<Rightarrow> errno_text e | Inr _ \<Rightarrow> []], w2))
          else (Inl [debug_str name @ '' is not a plain directory ('' @ errno_text e @ '')''], w1))"

fun open_components ::
  "('h, 'f, 'w) dir_fs \<Rightarrow> string \<Rightarrow> 'h \<Rightarrow> component list \<Rightarrow> 'w \<Rightarrow> (chain, 'h) result \<times> 'w" where
  "open_components fs rel dir [] w = (Inr dir, w)"
| "open_components fs rel dir (c # cs) w =
     (case c of
        Normal name \<Rightarrow>
          (case open_or_create_dir fs dir name w of
             (Inl e, w1) \<Rightarrow> (Inl ((''Refusing to extract through '' @ debug_str rel) # e), w1)
           | (Inr dir', w1) \<Rightarrow> open_components fs rel dir' cs w1)
      | _ \<Rightarrow> (Inl [''Unsafe path component in '' @ debug_str rel], w))"

text \<open>\<open>open_dirs\<close>: the path is its text (for messages) and its components.\<close>

definition open_dirs ::
  "('h, 'f, 'w) dir_fs \<Rightarrow> 'h \<Rightarrow> string \<Rightarrow> component list \<Rightarrow> 'w \<Rightarrow> (chain, 'h) result \<times> 'w" where
  "open_dirs fs base rel cs w =
     (case fs_openat fs base ''.'' w of
        (Inl e, w1) \<Rightarrow> (Inl [errno_text e], w1)
      | (Inr dir, w1) \<Rightarrow> open_components fs rel dir cs w1)"

text \<open>The text of a path given by its components; \<open>split_leaf\<close>: the parent and the file name.\<close>

definition path_text :: "component list \<Rightarrow> string" where
  "path_text cs = (if cs = [RootDir] then ''/''
     else join ''/'' (map (\<lambda>c. case c of Normal n \<Rightarrow> n | ParentDir \<Rightarrow> ''..'' | CurDir \<Rightarrow> ''.'' | RootDir \<Rightarrow> []) cs))"

definition split_leaf :: "string \<Rightarrow> (chain, component list \<times> string) result" where
  "split_leaf rel =
     (case path_file_name rel of
        None \<Rightarrow> Inl [''Archive entry '' @ debug_str rel @ '' has no file name'']
      | Some name \<Rightarrow> Inr (case parent_components rel of Some cs \<Rightarrow> cs | None \<Rightarrow> [], name))"

definition clear_leaf :: "('h, 'f, 'w) dir_fs \<Rightarrow> 'h \<Rightarrow> string \<Rightarrow> 'w \<Rightarrow> (chain, unit) result \<times> 'w" where
  "clear_leaf fs dir name w =
     (case fs_unlinkat fs dir name w of
        (Inr _, w1) \<Rightarrow> (Inr (), w1)
      | (Inl e, w1) \<Rightarrow> if e = NOENT then (Inr (), w1)
                     else (Inl [''Cannot replace '' @ debug_str name, errno_text e], w1))"

definition create_file :: "('h, 'f, 'w) dir_fs \<Rightarrow> 'h \<Rightarrow> string \<Rightarrow> 'w \<Rightarrow> (chain, 'f) result \<times> 'w" where
  "create_file fs dir name w =
     (case clear_leaf fs dir name w of
        (Inl e, w1) \<Rightarrow> (Inl e, w1)
      | (Inr _, w1) \<Rightarrow>
          (case fs_create_excl fs dir name w1 of
             (Inl e, w2) \<Rightarrow> (Inl [''Failed to create '' @ debug_str name, errno_text e], w2)
           | (Inr f, w2) \<Rightarrow> (Inr f, w2)))"

definition create_symlink ::
  "('h, 'f, 'w) dir_fs \<Rightarrow> 'h \<Rightarrow> string \<Rightarrow> string \<Rightarrow> 'w \<Rightarrow> (chain, unit) result \<times> 'w" where
  "create_symlink fs dir name target w =
     (case clear_leaf fs dir name w of
        (Inl e, w1) \<Rightarrow> (Inl e, w1)
      | (Inr _, w1) \<Rightarrow>
          (case fs_symlinkat fs target dir name w1 of
             (Inl e, w2) \<Rightarrow> (Inl [''Failed to create symlink '' @ debug_str name, errno_text e], w2)
           | (Inr _, w2) \<Rightarrow> (Inr (), w2)))"

text \<open>\<open>symlink_stays_inside\<close>, with \<open>depth\<close> counted over the target's components.\<close>

fun stays_inside :: "nat \<Rightarrow> component list \<Rightarrow> bool" where
  "stays_inside depth [] = True"
| "stays_inside depth (c # cs) =
     (case c of
        Normal _ \<Rightarrow> stays_inside (depth + 1) cs
      | CurDir \<Rightarrow> stays_inside depth cs
      | ParentDir \<Rightarrow> depth > 0 \<and> stays_inside (depth - 1) cs
      | RootDir \<Rightarrow> False)"

definition symlink_stays_inside :: "string \<Rightarrow> string \<Rightarrow> bool" where
  "symlink_stays_inside link target \<longleftrightarrow> \<not> path_absolute target \<and>
     stays_inside (case parent_components link of None \<Rightarrow> 0 | Some cs \<Rightarrow> length cs) (components target)"

text \<open>
  An entry of the archive as the zip library presents it: its raw name, \<open>enclosed_name\<close>, its kind,
  the reads of its content (decompression can fail), and the mode. \<open>stopped\<close> reads the stop flag,
  which another task may set meanwhile.
\<close>

record zip_entry =
  ze_name :: string
  ze_enclosed_name :: "string option"
  ze_is_dir :: bool
  ze_is_symlink :: bool
  ze_reads :: "(string, string) result list"
  ze_unix_mode :: "nat option"

text \<open>
  \<open>io::copy\<close> from \<open>StopReader\<close> over \<open>take(n)\<close>: the flag is checked before every read; a read gives
  at most the bytes left of \<open>n\<close>; the copy ends with the content or when \<open>n\<close> bytes were read.
\<close>

fun copy_bounded ::
  "('h, 'f, 'w) dir_fs \<Rightarrow> ('w \<Rightarrow> bool \<times> 'w) \<Rightarrow> 'f \<Rightarrow> nat \<Rightarrow> (string, string) result list \<Rightarrow> nat \<Rightarrow> 'w \<Rightarrow>
     (chain, nat) result \<times> 'w" where
  "copy_bounded fs stopped f n [] written w =
     (case stopped w of (b, w1) \<Rightarrow>
        (case stop_check b of Inl e \<Rightarrow> (Inl [e], w1) | Inr _ \<Rightarrow> (Inr written, w1)))"
| "copy_bounded fs stopped f n (r # rs) written w =
     (case stopped w of (b, w1) \<Rightarrow>
        (case stop_check b of
           Inl e \<Rightarrow> (Inl [e], w1)
         | Inr _ \<Rightarrow>
             if n = 0 then (Inr written, w1)
             else
               (case r of
                  Inl e \<Rightarrow> (Inl [e], w1)
                | Inr bytes \<Rightarrow>
                    (let part = take n bytes in
                     case fs_write fs f part w1 of
                       (Inl e, w2) \<Rightarrow> (Inl [e], w2)
                     | (Inr _, w2) \<Rightarrow>
                         copy_bounded fs stopped f (n - length part) rs (written + length part) w2))))"

text \<open>\<open>read_to_string\<close> of a symlink's target.\<close>

fun read_all :: "(string, string) result list \<Rightarrow> (string, string) result" where
  "read_all [] = Inr []"
| "read_all (Inl e # rs) = Inl e"
| "read_all (Inr b # rs) = rbind (read_all rs) (\<lambda>s. Inr (b @ s))"

definition extract_file ::
  "('h, 'f, 'w) dir_fs \<Rightarrow> ('w \<Rightarrow> bool \<times> 'w) \<Rightarrow> extract_limits \<Rightarrow> 'h \<Rightarrow> string \<Rightarrow> zip_entry \<Rightarrow> nat \<Rightarrow> 'w \<Rightarrow>
     (chain, nat) result \<times> 'w" where
  "extract_file fs stopped lm dir name e received w =
     (let remaining = el_max_total_bytes lm - received in
      case create_file fs dir name w of
        (Inl err, w1) \<Rightarrow> (Inl err, w1)
      | (Inr f, w1) \<Rightarrow>
          (case copy_bounded fs stopped f (min (remaining + 1) u64_max) (ze_reads e) 0 w1 of
             (Inl err, w2) \<Rightarrow> (Inl err, w2)
           | (Inr written, w2) \<Rightarrow>
               if written > remaining then
                 (Inl [''Archive exceeds uncompressed size limit of '' @ dec (el_max_total_bytes lm) @
                    '' bytes''], w2)
               else
                 (case ze_unix_mode e of
                    None \<Rightarrow> (Inr (received + written), w2)
                  | Some mode \<Rightarrow>
                      (case fs_fchmod fs f (mode mod 512) w2 of
                         (Inl err, w3) \<Rightarrow> (Inl [errno_text err], w3)
                       | (Inr _, w3) \<Rightarrow> (Inr (received + written), w3)))))"

text \<open>One entry; the result is the total number of bytes written so far.\<close>

definition extract_entry ::
  "('h, 'f, 'w) dir_fs \<Rightarrow> ('w \<Rightarrow> bool \<times> 'w) \<Rightarrow> extract_limits \<Rightarrow> 'h \<Rightarrow> zip_entry \<Rightarrow> nat \<Rightarrow> 'w \<Rightarrow>
     (chain, nat) result \<times> 'w" where
  "extract_entry fs stopped lm base e received w =
     (case ze_enclosed_name e of
        None \<Rightarrow> (Inl [''Unsafe path in archive: '' @ debug_str (ze_name e)], w)
      | Some rel \<Rightarrow>
          if ze_is_dir e then
            (case open_dirs fs base rel (components rel) w of
               (Inl err, w1) \<Rightarrow> (Inl err, w1) | (Inr _, w1) \<Rightarrow> (Inr received, w1))
          else
            (case split_leaf rel of
               Inl err \<Rightarrow> (Inl err, w)
             | Inr (parent, name) \<Rightarrow>
                 (case open_dirs fs base (path_text parent) parent w of
                    (Inl err, w1) \<Rightarrow> (Inl err, w1)
                  | (Inr dir, w1) \<Rightarrow>
                      if ze_is_symlink e then
                        (case rbind (read_all (ze_reads e)) (\<lambda>b. if utf8_valid b then Inr b
                              else Inl ''stream did not contain valid UTF-8'') of
                           Inl err \<Rightarrow> (Inl [err], w1)
                         | Inr target \<Rightarrow>
                             if symlink_stays_inside rel target then
                               (case create_symlink fs dir name target w1 of
                                  (Inl err, w2) \<Rightarrow> (Inl err, w2) | (Inr _, w2) \<Rightarrow> (Inr received, w2))
                             else (Inr received, w1))
                      else extract_file fs stopped lm dir name e received w1)))"

fun extract_entries ::
  "('h, 'f, 'w) dir_fs \<Rightarrow> ('w \<Rightarrow> bool \<times> 'w) \<Rightarrow> extract_limits \<Rightarrow> 'h \<Rightarrow> (string, zip_entry) result list \<Rightarrow> nat \<Rightarrow>
     'w \<Rightarrow> (chain, unit) result \<times> 'w" where
  "extract_entries fs stopped lm base [] received w = (Inr (), w)"
| "extract_entries fs stopped lm base (entry # es) received w =
     (case stopped w of (b, w1) \<Rightarrow>
        (case rbind (stop_check b) (\<lambda>_. entry) of
           Inl err \<Rightarrow> (Inl [err], w1)
         | Inr e \<Rightarrow>
             (case extract_entry fs stopped lm base e received w1 of
                (Inl err, w2) \<Rightarrow> (Inl err, w2)
              | (Inr received', w2) \<Rightarrow> extract_entries fs stopped lm base es received' w2)))"

text \<open>The archive is what the zip library reads from the file: its entries, or an error.\<close>

definition extract_zip_reader ::
  "('h, 'f, 'w) dir_fs \<Rightarrow> ('w \<Rightarrow> bool \<times> 'w) \<Rightarrow> (string, (string, zip_entry) result list) result \<Rightarrow> string \<Rightarrow>
     extract_limits \<Rightarrow> 'w \<Rightarrow> (chain, unit) result \<times> 'w" where
  "extract_zip_reader fs stopped archive workspace lm w =
     (case archive of
        Inl e \<Rightarrow> (Inl [''Failed to read ZIP archive'', e], w)
      | Inr entries \<Rightarrow>
          if length entries > el_max_entries lm then
            (Inl [''Archive has '' @ dec (length entries) @ '' entries, limit is '' @
               dec (el_max_entries lm)], w)
          else
            (case fs_mkdirs fs workspace w of
               (Inl e, w1) \<Rightarrow> (Inl [e], w1)
             | (Inr _, w1) \<Rightarrow>
                 (case open_root fs workspace w1 of
                    (Inl err, w2) \<Rightarrow> (Inl err, w2)
                  | (Inr base, w2) \<Rightarrow> extract_entries fs stopped lm base entries 0 w2)))"

definition extract_archive_file ::
  "('h, 'f, 'w) dir_fs \<Rightarrow> ('w \<Rightarrow> bool \<times> 'w) \<Rightarrow>
     (string \<Rightarrow> 'w \<Rightarrow> (string, (string, (string, zip_entry) result list) result) result \<times> 'w) \<Rightarrow>
     string \<Rightarrow> string \<Rightarrow> 'w \<Rightarrow> (chain, unit) result \<times> 'w" where
  "extract_archive_file fs stopped open_zip path workspace w =
     (case open_zip path w of
        (Inl e, w1) \<Rightarrow> (Inl [''Failed to open '' @ path, e], w1)
      | (Inr archive, w1) \<Rightarrow>
          extract_zip_reader fs stopped archive workspace extract_limits_default w1)"

section \<open>Collecting and archiving files\<close>

text \<open>
  What is read from the file system: canonical paths, glob matches, the walk over a directory (its
  items with whether they are directories, links not followed), \<open>lstat\<close>, links and contents.
\<close>

datatype file_kind = RegularFile | SymlinkFile | DirectoryFile | OtherFile

record file_meta =
  fm_kind :: file_kind
  fm_mode :: nat
  fm_inode :: "nat \<times> nat"

record 'w read_fs =
  rf_canonicalize :: "string \<Rightarrow> 'w \<Rightarrow> (string, string) result"
  rf_glob :: "string \<Rightarrow> 'w \<Rightarrow> (string, (string, string) result list) result"
  rf_walk :: "string \<Rightarrow> 'w \<Rightarrow> (string, string \<times> bool) result list"
  rf_lstat :: "string \<Rightarrow> 'w \<Rightarrow> (string, file_meta) result"
  rf_readlink :: "string \<Rightarrow> 'w \<Rightarrow> (string, string) result"
  rf_read :: "string \<Rightarrow> 'w \<Rightarrow> (string, file_meta \<times> (string, string) result list) result"

text \<open>The order of paths: by components, names by their bytes. A \<open>BTreeSet\<close> is a list in this order.\<close>

fun bytes_less :: "string \<Rightarrow> string \<Rightarrow> bool" where
  "bytes_less _ [] = False"
| "bytes_less [] (d # ds) = True"
| "bytes_less (c # cs) (d # ds) = (byte c < byte d \<or> (c = d \<and> bytes_less cs ds))"

fun component_rank :: "component \<Rightarrow> nat" where
  "component_rank RootDir = 0"
| "component_rank CurDir = 1"
| "component_rank ParentDir = 2"
| "component_rank (Normal _) = 3"

fun component_less :: "component \<Rightarrow> component \<Rightarrow> bool" where
  "component_less (Normal m) (Normal n) = bytes_less m n"
| "component_less c d = (component_rank c < component_rank d)"

fun components_less :: "component list \<Rightarrow> component list \<Rightarrow> bool" where
  "components_less _ [] = False"
| "components_less [] (d # ds) = True"
| "components_less (c # cs) (d # ds) = (component_less c d \<or> (c = d \<and> components_less cs ds))"

fun insert_path :: "string \<Rightarrow> string list \<Rightarrow> string list" where
  "insert_path p [] = [p]"
| "insert_path p (q # qs) =
     (if components p = components q then q # qs
      else if components_less (components p) (components q) then p # q # qs
      else q # insert_path p qs)"

definition is_inside_workspace :: "'w read_fs \<Rightarrow> string \<Rightarrow> string \<Rightarrow> 'w \<Rightarrow> bool" where
  "is_inside_workspace rf path root_canon w =
     (case parent_components path of
        None \<Rightarrow> False
      | Some cs \<Rightarrow>
          (case rf_canonicalize rf (path_text cs) w of
             Inl _ \<Rightarrow> False
           | Inr parent \<Rightarrow> prefix (components root_canon) (components parent)))"

fun collect_walk :: "(string, string \<times> bool) result list \<Rightarrow> string list \<Rightarrow> (string, string list) result" where
  "collect_walk [] entries = Inr entries"
| "collect_walk (Inl e # items) entries = Inl e"
| "collect_walk (Inr (path, is_dir) # items) entries =
     collect_walk items (if is_dir then entries else insert_path path entries)"

fun collect_matches ::
  "'w read_fs \<Rightarrow> string \<Rightarrow> 'w \<Rightarrow> (string, string) result list \<Rightarrow> string list \<Rightarrow> (string, string list) result" where
  "collect_matches rf root_canon w [] entries = Inr entries"
| "collect_matches rf root_canon w (Inl e # ms) entries = Inl e"
| "collect_matches rf root_canon w (Inr path # ms) entries =
     (if \<not> is_inside_workspace rf path root_canon w then collect_matches rf root_canon w ms entries
      else
        rbind (rf_lstat rf path w) (\<lambda>meta.
        rbind (if fm_kind meta = DirectoryFile then collect_walk (rf_walk rf path w) entries
               else Inr (insert_path path entries)) (\<lambda>entries'.
        collect_matches rf root_canon w ms entries')))"

definition unsafe_pattern :: "string \<Rightarrow> bool" where
  "unsafe_pattern pattern \<longleftrightarrow> path_absolute pattern \<or> ParentDir \<in> set (components pattern)"

fun collect_patterns ::
  "'w read_fs \<Rightarrow> string \<Rightarrow> string \<Rightarrow> 'w \<Rightarrow> string list \<Rightarrow> string list \<Rightarrow> (string, string list) result" where
  "collect_patterns rf base root_canon w [] entries = Inr entries"
| "collect_patterns rf base root_canon w (pattern # ps) entries =
     (if unsafe_pattern pattern then collect_patterns rf base root_canon w ps entries
      else
        rbind (rf_glob rf (path_join base pattern) w) (\<lambda>ms.
        rbind (collect_matches rf root_canon w ms entries) (\<lambda>entries'.
        collect_patterns rf base root_canon w ps entries')))"

definition path_strip_prefix :: "string \<Rightarrow> string \<Rightarrow> string option" where
  "path_strip_prefix base path =
     (if prefix (components base) (components path)
      then Some (path_text (drop (length (components base)) (components path))) else None)"

text \<open>\<open>artifacts:exclude\<close>: \<open>pattern\<close> compiles a pattern (with the options the code sets), \<open>None\<close> when invalid.\<close>

definition excluded :: "(string \<Rightarrow> (string \<Rightarrow> bool) option) \<Rightarrow> string list \<Rightarrow> string \<Rightarrow> string \<Rightarrow> bool" where
  "excluded pattern exclude base path =
     list_ex (\<lambda>matches. matches (case path_strip_prefix base path of Some r \<Rightarrow> r | None \<Rightarrow> path))
       (filter_map pattern exclude)"

definition collect_paths ::
  "'w read_fs \<Rightarrow> (string \<Rightarrow> (string \<Rightarrow> bool) option) \<Rightarrow> string \<Rightarrow> string list \<Rightarrow> string list \<Rightarrow> 'w \<Rightarrow>
     (chain, string list) result" where
  "collect_paths rf pattern base patterns exclude w =
     (case rf_canonicalize rf base w of
        Inl e \<Rightarrow> Inl [''Workspace '' @ base @ '' not found'', e]
      | Inr root_canon \<Rightarrow>
          (case collect_patterns rf base root_canon w patterns [] of
             Inl e \<Rightarrow> Inl [e]
           | Inr entries \<Rightarrow>
               Inr (filter (\<lambda>path. \<not> excluded pattern exclude base path) entries)))"

text \<open>The members of an archive; the encoders of zip, zstd and gzip are parameters.\<close>

datatype zip_member = ZipSymlink string string | ZipFile string nat string

datatype archive_content = Zip bool "zip_member list" | Gzip "string list" | Raw string

text \<open>\<open>add_path_to_zip\<close>: \<open>None\<close> when nothing is added.\<close>

definition add_path_to_zip :: "'w read_fs \<Rightarrow> string \<Rightarrow> string \<Rightarrow> 'w \<Rightarrow> (chain, zip_member option) result" where
  "add_path_to_zip rf path base w =
     (case path_strip_prefix base path of
        None \<Rightarrow> Inl [debug_str path @ '' is not inside the workspace'']
      | Some relative \<Rightarrow>
          (case rf_lstat rf path w of
             Inl e \<Rightarrow> Inl [e]
           | Inr meta \<Rightarrow>
               if fm_kind meta = SymlinkFile then
                 (case rf_readlink rf path w of
                    Inl e \<Rightarrow> Inl [e] | Inr target \<Rightarrow> Inr (Some (ZipSymlink relative (from_utf8_lossy target))))
               else if fm_kind meta \<noteq> RegularFile then Inr None
               else
                 (case rbind (rf_read rf path w) (\<lambda>(_, reads). read_all reads) of
                    Inl e \<Rightarrow> Inl [e]
                  | Inr content \<Rightarrow> Inr (Some (ZipFile relative (fm_mode meta) content)))))"

fun build_zip :: "'w read_fs \<Rightarrow> string \<Rightarrow> string list \<Rightarrow> 'w \<Rightarrow> (chain, zip_member list) result" where
  "build_zip rf base [] w = Inr []"
| "build_zip rf base (path # paths) w =
     rbind (add_path_to_zip rf path base w) (\<lambda>m.
     rbind (build_zip rf base paths w) (\<lambda>ms. Inr (case m of None \<Rightarrow> ms | Some x \<Rightarrow> x # ms)))"

fun build_gzip :: "'w read_fs \<Rightarrow> string list \<Rightarrow> 'w \<Rightarrow> (chain, string list) result" where
  "build_gzip rf [] w = Inr []"
| "build_gzip rf (path # paths) w =
     (case rf_lstat rf path w of
        Inl e \<Rightarrow> Inl [e]
      | Inr meta \<Rightarrow>
          if fm_kind meta \<noteq> RegularFile then build_gzip rf paths w
          else
            (case rbind (rf_read rf path w) (\<lambda>(_, reads). read_all reads) of
               Inl e \<Rightarrow> Inl [e]
             | Inr content \<Rightarrow> rbind (build_gzip rf paths w) (\<lambda>ms. Inr (content # ms))))"

definition MAX_RAW_ARTIFACT_BYTES :: nat where
  "MAX_RAW_ARTIFACT_BYTES = 256 * 1024 * 1024"

text \<open>Reading at most \<open>n\<close> bytes (\<open>take\<close>).\<close>

fun read_upto :: "nat \<Rightarrow> (string, string) result list \<Rightarrow> (string, string) result" where
  "read_upto n [] = Inr []"
| "read_upto n (r # rs) =
     (if n = 0 then Inr []
      else rbind r (\<lambda>b. rbind (read_upto (n - length b) rs) (\<lambda>s. Inr (take n b @ s))))"

definition copy_regular_file :: "'w read_fs \<Rightarrow> string \<Rightarrow> nat \<Rightarrow> 'w \<Rightarrow> (chain, string) result" where
  "copy_regular_file rf path maxn w =
     (case rf_lstat rf path w of
        Inl e \<Rightarrow> Inl [e]
      | Inr before \<Rightarrow>
          if fm_kind before \<noteq> RegularFile then Inl [path @ '' is not a regular file'']
          else
            (case rf_read rf path w of
               Inl e \<Rightarrow> Inl [e]
             | Inr (opened, reads) \<Rightarrow>
                 if fm_inode opened \<noteq> fm_inode before then Inl [path @ '' changed while it was being read'']
                 else
                   (case read_upto (maxn + 1) reads of
                      Inl e \<Rightarrow> Inl [e]
                    | Inr copied \<Rightarrow>
                        if length copied > maxn then Inl [path @ '' is larger than '' @ dec maxn @ '' bytes'']
                        else Inr copied)))"

definition build_archive :: "'w read_fs \<Rightarrow> string \<Rightarrow> string list \<Rightarrow> string \<Rightarrow> 'w \<Rightarrow> (chain, archive_content) result" where
  "build_archive rf workspace files format w =
     (if format = ''zip'' then rbind (build_zip rf workspace files w) (\<lambda>ms. Inr (Zip False ms))
      else if format = ''zip-zstd'' then rbind (build_zip rf workspace files w) (\<lambda>ms. Inr (Zip True ms))
      else if format = ''gzip'' then rbind (build_gzip rf files w) (\<lambda>ms. Inr (Gzip ms))
      else if format = ''raw'' then
        (case files of
           [path] \<Rightarrow> rbind (copy_regular_file rf path MAX_RAW_ARTIFACT_BYTES w) (\<lambda>c. Inr (Raw c))
         | _ \<Rightarrow> Inl [''raw artifacts need exactly one file, got '' @ dec (length files)])
      else Inl [''Unsupported artifact format '' @ debug_str format])"

text \<open>
  \<open>create_archive\<close>: \<open>stage\<close> makes a temporary file in a directory and \<open>store\<close> writes the encoded
  archive to it; the result is its path and length.
\<close>

record archive =
  ar_file :: string
  ar_len :: nat

record 'w archiver =
  av_read :: "'w read_fs"
  av_pattern :: "string \<Rightarrow> (string \<Rightarrow> bool) option"
  av_encode :: "archive_content \<Rightarrow> string"
  av_stage :: "string \<Rightarrow> 'w \<Rightarrow> (string, string) result \<times> 'w"
  av_store :: "string \<Rightarrow> string \<Rightarrow> 'w \<Rightarrow> (string, unit) result \<times> 'w"

definition create_archive ::
  "'w archiver \<Rightarrow> string \<Rightarrow> string list \<Rightarrow> string list \<Rightarrow> string \<Rightarrow> string \<Rightarrow> 'w \<Rightarrow>
     (chain, archive option) result \<times> 'w" where
  "create_archive av workspace patterns exclude format staging_dir w =
     (case collect_paths (av_read av) (av_pattern av) workspace patterns exclude w of
        Inl e \<Rightarrow> (Inl e, w)
      | Inr files \<Rightarrow>
          if files = [] then (Inr None, w)
          else
            (case av_stage av staging_dir w of
               (Inl e, w1) \<Rightarrow> (Inl [''Failed to create a file in '' @ staging_dir, e], w1)
             | (Inr path, w1) \<Rightarrow>
                 (case build_archive (av_read av) workspace files format w1 of
                    Inl e \<Rightarrow> (Inl e, w1)
                  | Inr content \<Rightarrow>
                      (case av_store av path (av_encode av content) w1 of
                         (Inl e, w2) \<Rightarrow> (Inl [e], w2)
                       | (Inr _, w2) \<Rightarrow>
                           (Inr (Some \<lparr>ar_file = path, ar_len = length (av_encode av content)\<rparr>), w2)))))"

definition create_cache_archive ::
  "'w archiver \<Rightarrow> string \<Rightarrow> string list \<Rightarrow> string \<Rightarrow> 'w \<Rightarrow> (chain, archive option) result \<times> 'w" where
  "create_cache_archive av workspace patterns staging_dir w =
     create_archive av workspace patterns [] ''zip-zstd'' staging_dir w"

section \<open>Downloads\<close>

definition download_and_extract_artifacts ::
  "'w http \<Rightarrow> ('h, 'f, 'w) dir_fs \<Rightarrow> ('w \<Rightarrow> bool \<times> 'w) \<Rightarrow>
     (string \<Rightarrow> 'w \<Rightarrow> (string, (string, (string, zip_entry) result list) result) result \<times> 'w) \<Rightarrow>
     (string \<Rightarrow> 'w \<Rightarrow> (string, string) result \<times> 'w) \<Rightarrow> gitlab_client \<Rightarrow> nat \<Rightarrow> string \<Rightarrow> string \<Rightarrow> string \<Rightarrow> 'w \<Rightarrow>
     (chain, nat) result \<times> 'w" where
  "download_and_extract_artifacts io fs stopped open_zip stage c jid token workspace staging_dir w =
     (case stopped w of (b, w1) \<Rightarrow>
        (case stop_check b of
           Inl e \<Rightarrow> (Inl [e], w1)
         | Inr _ \<Rightarrow>
             (case stage staging_dir w1 of
                (Inl e, w2) \<Rightarrow> (Inl [e], w2)
              | (Inr staged, w2) \<Rightarrow>
                  (case download_artifacts_to io c jid token staged w2 of
                     (Inl e, w3) \<Rightarrow> (Inl [e], w3)
                   | (Inr n, w3) \<Rightarrow>
                       (case extract_archive_file fs stopped open_zip staged workspace w3 of
                          (Inl e, w4) \<Rightarrow> (Inl e, w4)
                        | (Inr _, w4) \<Rightarrow> (Inr n, w4))))))"

section \<open>Extraction stays in the workspace and within its limits\<close>

text \<open>
  What the operating system documents of these operations, for the directory handles \<open>inside\<close> the
  workspace and the files created through them: with a plain name (no separator, not \<open>..\<close>) they
  change nothing outside (\<open>obs\<close>), opening a directory without following links gives a handle inside
  again, and only a write adds content, at most what it is given (\<open>bytes\<close>).
\<close>

definition plain_name :: "string \<Rightarrow> bool" where
  "plain_name n \<longleftrightarrow> n \<notin> {[], ''.'', ''..''} \<and> CHR ''/'' \<notin> set n"

definition grown :: "('w \<Rightarrow> 'o) \<Rightarrow> ('w \<Rightarrow> nat) \<Rightarrow> nat \<Rightarrow> 'w \<Rightarrow> 'w \<Rightarrow> bool" where
  "grown obs bytes n w w' \<longleftrightarrow> obs w' = obs w \<and> bytes w' \<le> bytes w + n"

record ('h, 'f, 'o, 'w) view =
  vw_inside :: "'h \<Rightarrow> bool"
  vw_file :: "'f \<Rightarrow> bool"
  vw_obs :: "'w \<Rightarrow> 'o"
  vw_bytes :: "'w \<Rightarrow> nat"

abbreviation grows :: "('h, 'f, 'o, 'w) view \<Rightarrow> nat \<Rightarrow> 'w \<Rightarrow> 'w \<Rightarrow> bool" where
  "grows v \<equiv> grown (vw_obs v) (vw_bytes v)"

definition confined_fs ::
  "('h, 'f, 'w) dir_fs \<Rightarrow> ('w \<Rightarrow> bool \<times> 'w) \<Rightarrow> string \<Rightarrow> ('h, 'f, 'o, 'w) view \<Rightarrow> bool" where
  "confined_fs fs stopped ws v \<longleftrightarrow>
     (\<forall>w b w'. stopped w = (b, w') \<longrightarrow> grows v 0 w w') \<and>
     (\<forall>w u w'. fs_mkdirs fs ws w = (u, w') \<longrightarrow> grows v 0 w w') \<and>
     (\<forall>w h w'. fs_open fs ws w = (h, w') \<longrightarrow> grows v 0 w w' \<and> pred_sum (\<lambda>_. True) (vw_inside v) h) \<and>
     (\<forall>d n w h w'. vw_inside v d \<and> (plain_name n \<or> n = ''.'') \<and> fs_openat fs d n w = (h, w') \<longrightarrow>
        grows v 0 w w' \<and> pred_sum (\<lambda>_. True) (vw_inside v) h) \<and>
     (\<forall>d n w u w'. vw_inside v d \<and> plain_name n \<and> fs_mkdirat fs d n w = (u, w') \<longrightarrow> grows v 0 w w') \<and>
     (\<forall>d n w u w'. vw_inside v d \<and> plain_name n \<and> fs_unlinkat fs d n w = (u, w') \<longrightarrow> grows v 0 w w') \<and>
     (\<forall>d n w u w' target. vw_inside v d \<and> plain_name n \<and> fs_symlinkat fs target d n w = (u, w') \<longrightarrow>
        grows v 0 w w') \<and>
     (\<forall>d n w f w'. vw_inside v d \<and> plain_name n \<and> fs_create_excl fs d n w = (f, w') \<longrightarrow>
        grows v 0 w w' \<and> pred_sum (\<lambda>_. True) (vw_file v) f) \<and>
     (\<forall>f mode w u w'. vw_file v f \<and> fs_fchmod fs f mode w = (u, w') \<longrightarrow> grows v 0 w w') \<and>
     (\<forall>f data w u w'. vw_file v f \<and> fs_write fs f data w = (u, w') \<longrightarrow> grows v (length data) w w')"

lemma grown_refl: "grown obs bytes n w w"
  by (simp add: grown_def)

lemma grown_trans: "grown obs bytes m w1 w2 \<Longrightarrow> grown obs bytes n w2 w3 \<Longrightarrow> grown obs bytes (m + n) w1 w3"
  by (auto simp: grown_def)

lemma grown_mono: "grown obs bytes m w1 w2 \<Longrightarrow> m \<le> n \<Longrightarrow> grown obs bytes n w1 w2"
  by (auto simp: grown_def)

lemma grown_0_trans: "grown obs bytes 0 w1 w2 \<Longrightarrow> grown obs bytes n w2 w3 \<Longrightarrow> grown obs bytes n w1 w3"
  using grown_trans by fastforce

lemma grown_trans_0: "grown obs bytes n w1 w2 \<Longrightarrow> grown obs bytes 0 w2 w3 \<Longrightarrow> grown obs bytes n w1 w3"
  using grown_trans by fastforce

text \<open>The laws, one by one, on the equations a run gives.\<close>

lemma confined_laws:
  assumes "confined_fs fs stopped ws v"
  shows "stopped w = (b, w1) \<Longrightarrow> grows v 0 w w1"
    and "fs_mkdirs fs ws w = (u, w1) \<Longrightarrow> grows v 0 w w1"
    and "fs_open fs ws w = (h, w1) \<Longrightarrow> grows v 0 w w1 \<and> pred_sum (\<lambda>_. True) (vw_inside v) h"
    and "vw_inside v d \<Longrightarrow> plain_name n \<or> n = ''.'' \<Longrightarrow> fs_openat fs d n w = (h, w1) \<Longrightarrow>
      grows v 0 w w1 \<and> pred_sum (\<lambda>_. True) (vw_inside v) h"
    and "vw_inside v d \<Longrightarrow> plain_name n \<Longrightarrow> fs_mkdirat fs d n w = (e, w1) \<Longrightarrow> grows v 0 w w1"
    and "vw_inside v d \<Longrightarrow> plain_name n \<Longrightarrow> fs_unlinkat fs d n w = (e, w1) \<Longrightarrow> grows v 0 w w1"
    and "vw_inside v d \<Longrightarrow> plain_name n \<Longrightarrow> fs_symlinkat fs target d n w = (e, w1) \<Longrightarrow> grows v 0 w w1"
    and "vw_inside v d \<Longrightarrow> plain_name n \<Longrightarrow> fs_create_excl fs d n w = (f, w1) \<Longrightarrow>
      grows v 0 w w1 \<and> pred_sum (\<lambda>_. True) (vw_file v) f"
    and "vw_file v g \<Longrightarrow> fs_fchmod fs g mode w = (e, w1) \<Longrightarrow> grows v 0 w w1"
    and "vw_file v g \<Longrightarrow> fs_write fs g data w = (u, w1) \<Longrightarrow> grows v (length data) w w1"
  using assms unfolding confined_fs_def by (elim conjE; metis)+

lemma components_plain: "Normal n \<in> set (components p) \<Longrightarrow> plain_name n"
proof -
  assume "Normal n \<in> set (components p)"
  then have n: "n \<in> set (split_on (CHR ''/'') p)" "n \<noteq> []" "n \<noteq> ''.''" "n \<noteq> ''..''"
    by (auto simp: components_def Let_def path_part_def split: if_splits)
  then show ?thesis using split_on_no_sep by (auto simp: plain_name_def)
qed

lemma parent_components_subset: "parent_components p = Some cs \<Longrightarrow> set cs \<subseteq> set (components p)"
  unfolding parent_components_def
  by (cases "rev (components p)") (auto split: component.splits dest: arg_cong[where f = set])

lemma split_leaf_plain:
  assumes "split_leaf rel = Inr (parent, name)"
  shows "plain_name name" "Normal n \<in> set parent \<Longrightarrow> plain_name n"
proof -
  from assms obtain rest where r: "rev (components rel) = Normal name # rest"
    by (auto simp: split_leaf_def path_file_name_def split: option.splits list.splits component.splits)
  then have "Normal name \<in> set (components rel)" by (metis in_set_conv_decomp append_Nil set_rev)
  then show "plain_name name" by (rule components_plain)
  show "plain_name n" if "Normal n \<in> set parent"
    using assms that components_plain[of n rel] parent_components_subset[of rel]
    by (auto simp: split_leaf_def split: option.splits)
qed

lemma open_or_create_grows:
  assumes c: "confined_fs fs stopped ws v" and d: "vw_inside v d" "plain_name n"
    and run: "open_or_create_dir fs d n w = (r, w')"
  shows "grows v 0 w w' \<and> pred_sum (\<lambda>_. True) (vw_inside v) r"
proof -
  obtain h w1 where o1: "fs_openat fs d n w = (h, w1)" by (meson surj_pair)
  note l1 = confined_laws(4)[OF c d(1) disjI1[OF d(2)] o1]
  show ?thesis
  proof (cases "h = Inl NOENT")
    case True
    obtain m w2 where m: "fs_mkdirat fs d n w1 = (m, w2)" by (meson surj_pair)
    obtain h2 w3 where o2: "fs_openat fs d n w2 = (h2, w3)" by (meson surj_pair)
    have "grows v 0 w w2" using grown_0_trans[OF conjunct1[OF l1] confined_laws(5)[OF c d m]] .
    moreover have "grows v 0 w w3"
      using grown_0_trans[OF calculation conjunct1[OF confined_laws(4)[OF c d(1) disjI1[OF d(2)] o2]]] .
    ultimately show ?thesis
      using run o1 True m o2 confined_laws(4)[OF c d(1) disjI1[OF d(2)] o2]
      by (auto simp: open_or_create_dir_def split: if_splits sum.splits)
  next
    case False
    then show ?thesis using run o1 l1 by (cases h) (auto simp: open_or_create_dir_def)
  qed
qed

lemma open_components_grows:
  assumes c: "confined_fs fs stopped ws v"
  shows "vw_inside v d \<Longrightarrow> (\<And>n. Normal n \<in> set cs \<Longrightarrow> plain_name n) \<Longrightarrow>
    open_components fs rel d cs w = (r, w') \<Longrightarrow> grows v 0 w w' \<and> pred_sum (\<lambda>_. True) (vw_inside v) r"
proof (induction cs arbitrary: d w)
  case (Cons x cs)
  show ?case
  proof (cases x)
    case (Normal n)
    obtain h w1 where o1: "open_or_create_dir fs d n w = (h, w1)" by (meson surj_pair)
    have l1: "grows v 0 w w1 \<and> pred_sum (\<lambda>_. True) (vw_inside v) h"
      using open_or_create_grows[OF c Cons.prems(1) _ o1] Cons.prems(2) Normal by simp
    show ?thesis
    proof (cases h)
      case (Inr d')
      then have "open_components fs rel d' cs w1 = (r, w')" using Cons.prems(3) Normal o1 by simp
      then show ?thesis using Cons.IH[of d'] Cons.prems(2) l1 Inr grown_0_trans by fastforce
    qed (use Cons.prems(3) Normal o1 l1 in auto)
  qed (use Cons.prems(3) grown_refl in auto)
qed (auto intro: grown_refl)

lemma open_dirs_grows:
  assumes c: "confined_fs fs stopped ws v" and d: "vw_inside v d" "\<And>n. Normal n \<in> set cs \<Longrightarrow> plain_name n"
    and run: "open_dirs fs d rel cs w = (r, w')"
  shows "grows v 0 w w' \<and> pred_sum (\<lambda>_. True) (vw_inside v) r"
proof -
  obtain h w1 where o1: "fs_openat fs d ''.'' w = (h, w1)" by (meson surj_pair)
  note l1 = confined_laws(4)[OF c d(1) disjI2[OF refl] o1]
  show ?thesis
  proof (cases h)
    case (Inr d')
    then have "open_components fs rel d' cs w1 = (r, w')" using run o1 by (simp add: open_dirs_def)
    then show ?thesis using open_components_grows[OF c _ d(2)] l1 Inr grown_0_trans by fastforce
  qed (use run o1 l1 in \<open>auto simp: open_dirs_def\<close>)
qed

lemma clear_leaf_grows:
  assumes "confined_fs fs stopped ws v" "vw_inside v d" "plain_name n" "clear_leaf fs d n w = (r, w')"
  shows "grows v 0 w w'"
proof -
  obtain u w1 where "fs_unlinkat fs d n w = (u, w1)" by (meson surj_pair)
  then show ?thesis
    using assms(4) confined_laws(6)[OF assms(1-3)]
    by (auto simp: clear_leaf_def split: sum.splits if_splits)
qed

lemma create_file_grows:
  assumes c: "confined_fs fs stopped ws v" and d: "vw_inside v d" "plain_name n"
    and run: "create_file fs d n w = (r, w')"
  shows "grows v 0 w w' \<and> pred_sum (\<lambda>_. True) (vw_file v) r"
proof -
  obtain u w1 where u: "clear_leaf fs d n w = (u, w1)" by (meson surj_pair)
  obtain f w2 where f: "fs_create_excl fs d n w1 = (f, w2)" by (meson surj_pair)
  have "grows v 0 w w2"
    using grown_0_trans[OF clear_leaf_grows[OF c d u] conjunct1[OF confined_laws(8)[OF c d f]]] .
  then show ?thesis
    using run u f clear_leaf_grows[OF c d u] confined_laws(8)[OF c d f]
    by (cases u; cases f) (auto simp: create_file_def)
qed

lemma create_symlink_grows:
  assumes c: "confined_fs fs stopped ws v" and d: "vw_inside v d" "plain_name n"
    and run: "create_symlink fs d n target w = (r, w')"
  shows "grows v 0 w w'"
proof -
  obtain u w1 where u: "clear_leaf fs d n w = (u, w1)" by (meson surj_pair)
  obtain e w2 where e: "fs_symlinkat fs target d n w1 = (e, w2)" by (meson surj_pair)
  have "grows v 0 w w2"
    using grown_0_trans[OF clear_leaf_grows[OF c d u] confined_laws(7)[OF c d e]] .
  then show ?thesis
    using run u e clear_leaf_grows[OF c d u] by (cases u; cases e) (auto simp: create_symlink_def)
qed

lemma copy_bounded_grows:
  assumes c: "confined_fs fs stopped ws v" and f: "vw_file v f"
  shows "copy_bounded fs stopped f n rs k w = (r, w') \<Longrightarrow>
    grows v n w w' \<and> pred_sum (\<lambda>_. True) (\<lambda>m. k \<le> m \<and> m \<le> k + n \<and> grows v (m - k) w w') r"
proof (induction rs arbitrary: n k w)
  case Nil
  obtain b w1 where b: "stopped w = (b, w1)" by (meson surj_pair)
  have g: "grows v 0 w w1" using confined_laws(1)[OF c b] .
  show ?case
    using Nil b g grown_mono[OF g] by (cases b) (auto simp: stop_check_def)
next
  case (Cons x rs)
  obtain b w1 where b: "stopped w = (b, w1)" by (meson surj_pair)
  have g1: "grows v 0 w w1" using confined_laws(1)[OF c b] .
  consider "b \<or> n = 0" | e where "\<not> b" "n \<noteq> 0" "x = Inl e" | bytes where "\<not> b" "n \<noteq> 0" "x = Inr bytes"
    by (cases x) auto
  then show ?case
  proof cases
    case 3
    obtain u w2 where u: "fs_write fs f (take n bytes) w1 = (u, w2)" by (meson surj_pair)
    define l where "l = length (take n bytes)"
    have l: "l \<le> n" by (simp add: l_def)
    have g2: "grows v l w w2"
      using grown_0_trans[OF g1 confined_laws(10)[OF c f u]] by (simp add: l_def)
    show ?thesis
    proof (cases u)
      case (Inl e)
      then show ?thesis using Cons.prems 3 b u grown_mono[OF g2 l] by (auto simp: stop_check_def Let_def)
    next
      case (Inr _)
      then have run: "copy_bounded fs stopped f (n - l) rs (k + l) w2 = (r, w')"
        using Cons.prems 3 b u by (simp add: stop_check_def Let_def l_def)
      from Cons.IH[OF run] have ih: "grows v (n - l) w2 w'"
        "pred_sum (\<lambda>_. True) (\<lambda>m. k + l \<le> m \<and> m \<le> k + l + (n - l) \<and> grows v (m - (k + l)) w2 w') r"
        by auto
      have "grows v n w w'" using grown_trans[OF g2 ih(1)] l by simp
      moreover have "pred_sum (\<lambda>_. True) (\<lambda>m. k \<le> m \<and> m \<le> k + n \<and> grows v (m - k) w w') r"
        using ih(2) grown_trans[OF g2] l by (cases r) fastforce+
      ultimately show ?thesis ..
    qed
  qed (use Cons.prems b g1 grown_mono[OF g1] in \<open>auto simp: stop_check_def split: if_splits\<close>)
qed

abbreviation step_bounds :: "extract_limits \<Rightarrow> ('h, 'f, 'o, 'w) view \<Rightarrow> nat \<Rightarrow> (chain, nat) result \<Rightarrow> 'w \<Rightarrow> 'w \<Rightarrow> bool" where
  "step_bounds lm v k r w w' \<equiv> grows v (el_max_total_bytes lm - k + 1) w w' \<and>
     pred_sum (\<lambda>_. True) (\<lambda>m. k \<le> m \<and> m \<le> el_max_total_bytes lm \<and> grows v (m - k) w w') r"

lemma step_bounds_idle:
  assumes "grows v 0 w w'" "k \<le> el_max_total_bytes lm"
  shows "step_bounds lm v k (Inr k) w w'" "step_bounds lm v k (Inl e) w w'"
  using assms grown_mono[OF assms(1)] by simp_all

lemma extract_file_bounds:
  assumes c: "confined_fs fs stopped ws v" and d: "vw_inside v d" "plain_name n"
    and k: "k \<le> el_max_total_bytes lm" and run: "extract_file fs stopped lm d n e k w = (r, w')"
  shows "step_bounds lm v k r w w'"
proof -
  define left where "left = el_max_total_bytes lm - k"
  obtain f w1 where f: "create_file fs d n w = (f, w1)" by (meson surj_pair)
  note g1 = create_file_grows[OF c d f]
  show ?thesis
  proof (cases f)
    case (Inl err)
    then show ?thesis using run f g1 k step_bounds_idle(2)[of v w w1] by (auto simp: extract_file_def)
  next
    case (Inr h)
    then have h: "vw_file v h" using g1 by simp
    obtain m w2 where m: "copy_bounded fs stopped h (min (left + 1) u64_max) (ze_reads e) 0 w1 = (m, w2)"
      by (meson surj_pair)
    note cp = copy_bounded_grows[OF c h m]
    have "grows v (left + 1) w w2"
      by (rule grown_0_trans[OF conjunct1[OF g1] grown_mono[OF conjunct1[OF cp]]]) simp
    then have g2: "grows v (el_max_total_bytes lm - k + 1) w w2" by (simp add: left_def)
    show ?thesis
    proof (cases m)
      case (Inl err)
      then show ?thesis using run f Inr m g2 by (auto simp: extract_file_def Let_def left_def)
    next
      case wr: (Inr written)
      then have gw: "grows v written w w2"
        using cp grown_0_trans[OF conjunct1[OF g1]] by fastforce
      show ?thesis
      proof (cases "written > left \<or> ze_unix_mode e = None")
        case True
        then show ?thesis using run f Inr m wr g2 gw k
          by (auto simp: extract_file_def Let_def left_def split: if_splits)
      next
        case False
        then obtain mode where mode: "ze_unix_mode e = Some mode" "written \<le> left" by auto
        obtain u w3 where u: "fs_fchmod fs h (mode mod 512) w2 = (u, w3)" by (meson surj_pair)
        have "grows v written w w3" "grows v (el_max_total_bytes lm - k + 1) w w3"
          using grown_trans_0[OF gw confined_laws(9)[OF c h u]] grown_trans_0[OF g2 confined_laws(9)[OF c h u]]
          by auto
        then show ?thesis using run f Inr m wr k mode u
          by (cases u) (auto simp: extract_file_def Let_def left_def split: if_splits)
      qed
    qed
  qed
qed

lemma extract_entry_bounds:
  assumes c: "confined_fs fs stopped ws v" and b: "vw_inside v b"
    and k: "k \<le> el_max_total_bytes lm" and run: "extract_entry fs stopped lm b e k w = (r, w')"
  shows "step_bounds lm v k r w w'"
proof (cases "ze_enclosed_name e")
  case None
  then show ?thesis using run k grown_refl by (auto simp: extract_entry_def)
next
  case (Some rel)
  show ?thesis
  proof (cases "ze_is_dir e")
    case True
    obtain h w1 where h: "open_dirs fs b rel (components rel) w = (h, w1)" by (meson surj_pair)
    have "grows v 0 w w1" using open_dirs_grows[OF c b components_plain h] by simp
    then show ?thesis
      using run Some True h k step_bounds_idle[OF _ k] by (cases h) (auto simp: extract_entry_def)
  next
    case False
    show ?thesis
    proof (cases "split_leaf rel")
      case (Inl err)
      then show ?thesis using run Some False k grown_refl by (auto simp: extract_entry_def)
    next
      case (Inr leaf)
      obtain parent name where pn: "leaf = (parent, name)" by fastforce
      note plain = split_leaf_plain[OF Inr[unfolded pn]]
      obtain h w1 where h: "open_dirs fs b (path_text parent) parent w = (h, w1)" by (meson surj_pair)
      have g1: "grows v 0 w w1" "pred_sum (\<lambda>_. True) (vw_inside v) h"
        using open_dirs_grows[OF c b plain(2) h] by auto
      show ?thesis
      proof (cases h)
        case (Inl err)
        then show ?thesis using run Some False Inr pn h step_bounds_idle(2)[OF g1(1) k]
          by (auto simp: extract_entry_def)
      next
        case dir: (Inr d)
        then have d: "vw_inside v d" using g1(2) by simp
        show ?thesis
        proof (cases "ze_is_symlink e")
          case link: True
          have sym: "step_bounds lm v k r w w'"
            if t: "create_symlink fs d name target w1 = (u, w2)"
              "(r, w') = (case u of Inl err \<Rightarrow> (Inl err, w2) | Inr _ \<Rightarrow> (Inr k, w2))" for target u w2
            using t(2) grown_0_trans[OF g1(1) create_symlink_grows[OF c d plain(1) t(1)]]
              step_bounds_idle[OF _ k, of v w w2] by (cases u) auto
          have run': "(case rbind (read_all (ze_reads e)) (\<lambda>b. if utf8_valid b then Inr b
                else Inl ''stream did not contain valid UTF-8'') of
              Inl err \<Rightarrow> (Inl [err], w1)
            | Inr target \<Rightarrow>
                if symlink_stays_inside rel target then
                  (case create_symlink fs d name target w1 of
                     (Inl err, w2) \<Rightarrow> (Inl err, w2) | (Inr _, w2) \<Rightarrow> (Inr k, w2))
                else (Inr k, w1)) = (r, w')" (is "(case ?t of Inl err \<Rightarrow> _ err | Inr target \<Rightarrow> _ target) = _")
            using run Some False Inr pn h dir link by (simp add: extract_entry_def)
          show ?thesis
          proof (cases ?t)
            case (Inr target)
            show ?thesis
            proof (cases "symlink_stays_inside rel target")
              case True
              obtain u w2 where u: "create_symlink fs d name target w1 = (u, w2)" by (meson surj_pair)
              show ?thesis using run' Inr True u by (intro sym[OF u]) (cases u, auto)
            qed (use run' Inr step_bounds_idle(1)[OF g1(1) k] in auto)
          qed (use run' step_bounds_idle(2)[OF g1(1) k] in auto)
        next
          case plain_file: False
          then have "extract_file fs stopped lm d name e k w1 = (r, w')"
            using run Some False Inr pn h dir by (simp add: extract_entry_def)
          from extract_file_bounds[OF c d plain(1) k this] show ?thesis
            using grown_0_trans[OF g1(1)] by (cases r) auto
        qed
      qed
    qed
  qed
qed

lemma extract_entries_bounds:
  assumes c: "confined_fs fs stopped ws v" and b: "vw_inside v b"
  shows "k \<le> el_max_total_bytes lm \<Longrightarrow> extract_entries fs stopped lm b es k w = (r, w') \<Longrightarrow>
    grows v (el_max_total_bytes lm - k + 1) w w' \<and>
    (r = Inr () \<longrightarrow> grows v (el_max_total_bytes lm - k) w w')"
proof (induction es arbitrary: k w)
  case Nil
  then show ?case by (auto intro: grown_refl)
next
  case (Cons entry es)
  obtain s w1 where s: "stopped w = (s, w1)" by (meson surj_pair)
  have g1: "grows v 0 w w1" using confined_laws(1)[OF c s] .
  show ?case
  proof (cases "rbind (stop_check s) (\<lambda>_. entry)")
    case (Inl err)
    then show ?thesis using Cons.prems s grown_mono[OF g1] by auto
  next
    case (Inr e)
    obtain m w2 where m: "extract_entry fs stopped lm b e k w1 = (m, w2)" by (meson surj_pair)
    note eb = extract_entry_bounds[OF c b Cons.prems(1) m]
    show ?thesis
    proof (cases m)
      case (Inl err)
      then show ?thesis using Cons.prems s Inr m eb grown_0_trans[OF g1] by auto
    next
      case later: (Inr k')
      then have run: "extract_entries fs stopped lm b es k' w2 = (r, w')" and k': "k' \<le> el_max_total_bytes lm"
          "k \<le> k'" and g2: "grows v (k' - k) w w2"
        using Cons.prems s Inr m eb grown_0_trans[OF g1] by auto
      from Cons.IH[OF k'(1) run] grown_trans[OF g2] k' show ?thesis by fastforce
    qed
  qed
qed

text \<open>
  C7: whatever an untrusted archive holds (any names, any symlinks, any lies about sizes) and even
  if another process changes the workspace meanwhile, extracting it changes nothing outside the
  workspace, and writes at most one byte more than the limit before it fails; when it succeeds,
  it wrote at most the limit. The operations on directory handles are assumed to do what the
  operating system documents (\<open>confined_fs\<close>).
\<close>

theorem extract_confined:
  assumes "confined_fs fs stopped ws v" "extract_zip_reader fs stopped archive ws lm w = (r, w')"
  shows "vw_obs v w' = vw_obs v w \<and> vw_bytes v w' \<le> vw_bytes v w + el_max_total_bytes lm + 1 \<and>
    (r = Inr () \<longrightarrow> vw_bytes v w' \<le> vw_bytes v w + el_max_total_bytes lm)"
proof -
  have "grows v (el_max_total_bytes lm + 1) w w' \<and> (r = Inr () \<longrightarrow> grows v (el_max_total_bytes lm) w w')"
  proof (cases archive)
    case (Inl e)
    then show ?thesis using assms(2) grown_refl by (auto simp: extract_zip_reader_def)
  next
    case (Inr entries)
    obtain u w1 where u: "fs_mkdirs fs ws w = (u, w1)" by (meson surj_pair)
    obtain h w2 where h: "fs_open fs ws w1 = (h, w2)" by (meson surj_pair)
    have g: "grows v 0 w w1" "grows v 0 w w2"
      using confined_laws(2)[OF assms(1) u] grown_0_trans[OF _ conjunct1[OF confined_laws(3)[OF assms(1) h]]]
      by auto
    consider "length entries > el_max_entries lm \<or> (\<exists>e. u = Inl e) \<or> (\<exists>e. h = Inl e)"
      | d where "length entries \<le> el_max_entries lm" "u = Inr ()" "h = Inr d" by (cases u; cases h) force+
    then show ?thesis
    proof cases
      case 1
      then show ?thesis using assms(2) Inr u h grown_refl grown_mono[OF g(1)] grown_mono[OF g(2)]
        by (auto simp: extract_zip_reader_def open_root_def split: if_splits sum.splits)
    next
      case 2
      then have "extract_entries fs stopped lm d entries 0 w2 = (r, w')" "vw_inside v d"
        using assms(2) Inr u h confined_laws(3)[OF assms(1) h]
        by (auto simp: extract_zip_reader_def open_root_def)
      from extract_entries_bounds[OF assms(1) this(2) _ this(1)] grown_0_trans[OF g(2)]
      show ?thesis by auto
    qed
  qed
  then show ?thesis by (auto simp: grown_def)
qed

text \<open>A file system that only counts: its state is the host's files and what is in the workspace.\<close>

definition counting_fs :: "(unit, unit, string list \<times> string) dir_fs" where
  "counting_fs = \<lparr>fs_mkdirs = (\<lambda>_ w. (Inr (), w)), fs_open = (\<lambda>_ w. (Inr (), w)),
     fs_openat = (\<lambda>_ _ w. (Inr (), w)), fs_mkdirat = (\<lambda>_ _ w. (Inr (), w)),
     fs_unlinkat = (\<lambda>_ _ w. (Inl NOENT, w)), fs_create_excl = (\<lambda>_ _ w. (Inr (), w)),
     fs_symlinkat = (\<lambda>_ _ _ w. (Inr (), w)), fs_write = (\<lambda>_ data (host, files). (Inr (), (host, files @ data))),
     fs_fchmod = (\<lambda>_ _ w. (Inr (), w))\<rparr>"

definition counting_view :: "(unit, unit, string list, string list \<times> string) view" where
  "counting_view = \<lparr>vw_inside = (\<lambda>_. True), vw_file = (\<lambda>_. True), vw_obs = fst, vw_bytes = (\<lambda>w. length (snd w))\<rparr>"

lemma counting_confined: "confined_fs counting_fs (\<lambda>w. (False, w)) ws counting_view"
  by (auto simp: confined_fs_def counting_fs_def counting_view_def grown_def)

definition sample_bomb :: zip_entry where
  "sample_bomb = \<lparr>ze_name = ''a/b'', ze_enclosed_name = Some ''a/b'', ze_is_dir = False, ze_is_symlink = False,
     ze_reads = [Inr ''xxxx'', Inr ''yyyy'', Inr ''zzzz''], ze_unix_mode = Some 2541\<rparr>"

lemma extract_confined_witness:
  "let w' = snd (extract_zip_reader counting_fs (\<lambda>w. (False, w)) (Inr [Inr sample_bomb]) ''/ws''
       \<lparr>el_max_entries = 10, el_max_total_bytes = 6\<rparr> ([''host''], [])) in
   fst w' = [''host''] \<and> length (snd w') \<le> 7"
  unfolding Let_def
  using extract_confined[OF counting_confined prod.collapse[symmetric], of "Inr [Inr sample_bomb]" "''/ws''"
      "\<lparr>el_max_entries = 10, el_max_total_bytes = 6\<rparr>" "([''host''], [])"]
  by (simp add: counting_view_def)

section \<open>Symlinks\<close>

text \<open>
  A reference for \<open>symlink_stays_inside\<close>: walking the target's components from the link's directory,
  kept as the stack of names below the workspace. \<open>None\<close>: the walk left the workspace.
\<close>

fun walk :: "string list \<Rightarrow> component list \<Rightarrow> string list option" where
  "walk dir [] = Some dir"
| "walk dir (Normal n # cs) = walk (n # dir) cs"
| "walk dir (CurDir # cs) = walk dir cs"
| "walk dir (ParentDir # cs) = (case dir of [] \<Rightarrow> None | _ # up \<Rightarrow> walk up cs)"
| "walk dir (RootDir # cs) = None"

lemma stays_inside_walk: "stays_inside (length dir) cs \<longleftrightarrow> walk dir cs \<noteq> None"
proof (induction cs arbitrary: dir)
  case (Cons c cs)
  show ?case
  proof (cases c)
    case ParentDir
    then show ?thesis using Cons by (cases dir) simp_all
  next
    case (Normal n)
    then show ?thesis using Cons[of "n # dir"] by simp
  qed (use Cons in simp_all)
qed simp

lemma walk_Normals: "walk dir (map Normal ns @ cs) = walk (rev ns @ dir) cs"
  by (induction ns arbitrary: dir) simp_all

text \<open>
  C39: for a link whose directory was reached through plain names (the only ones the extraction
  creates links in), a target is accepted exactly when it is relative and following it name by
  name from the link's directory never goes above the workspace.
\<close>

theorem symlink_check_is_walk:
  assumes "parent_components link = Some (map Normal ns)"
  shows "symlink_stays_inside link target \<longleftrightarrow>
    \<not> path_absolute target \<and> walk [] (map Normal ns @ components target) \<noteq> None"
  using assms stays_inside_walk[of "rev ns" "components target"]
  by (simp add: symlink_stays_inside_def walk_Normals)

lemma symlink_check_is_walk_witness:
  "symlink_stays_inside ''a/b/link'' ''../../c'' \<longleftrightarrow>
     \<not> path_absolute ''../../c'' \<and> walk [] (map Normal [''a'', ''b''] @ components ''../../c'') \<noteq> None"
  by (rule symlink_check_is_walk) code_simp

text \<open>
  What the operating system does with a path below the workspace: a name that is a link is replaced
  by the link's target (\<open>links\<close>: from the stack of names to the target). \<open>None\<close>: it left the
  workspace; the fuel bounds the number of steps, as \<open>ELOOP\<close> does.
\<close>

fun resolve :: "nat \<Rightarrow> (string list \<times> string) list \<Rightarrow> string list \<Rightarrow> component list \<Rightarrow> string list option" where
  "resolve 0 links dir cs = Some dir"
| "resolve (Suc k) links dir [] = Some dir"
| "resolve (Suc k) links dir (c # cs) =
     (case c of
        Normal n \<Rightarrow>
          (case map_of links (n # dir) of
             Some target \<Rightarrow> if path_absolute target then None else resolve k links dir (components target @ cs)
           | None \<Rightarrow> resolve k links (n # dir) cs)
      | CurDir \<Rightarrow> resolve k links dir cs
      | ParentDir \<Rightarrow> (case dir of [] \<Rightarrow> None | _ # up \<Rightarrow> resolve k links up cs)
      | RootDir \<Rightarrow> None)"

text \<open>
  The check is made for each link alone and does not compose: an archive with the links
  \<open>p/d -> ..\<close> and \<open>e -> p/d/../x\<close> has both accepted (each, name by name, stays inside), but once
  both exist \<open>e\<close> resolves to a path outside the workspace.
\<close>

theorem accepted_symlinks_escape:
  "symlink_stays_inside ''p/d'' ''..'' \<and> symlink_stays_inside ''e'' ''p/d/../x'' \<and>
   resolve 10 [([''d'', ''p''], ''..''), ([''e''], ''p/d/../x'')] [] (components ''e'') = None"
  by code_simp

section \<open>Only files of the workspace are archived\<close>

text \<open>
  A walk that does not follow links stays below a directory whose parent is in the workspace
  (documented for \<open>WalkDir\<close> without \<open>follow_links\<close>).
\<close>

definition walk_law :: "'w read_fs \<Rightarrow> string \<Rightarrow> 'w \<Rightarrow> bool" where
  "walk_law rf root_canon w \<longleftrightarrow>
     (\<forall>d meta p is_dir. is_inside_workspace rf d root_canon w \<and> rf_lstat rf d w = Inr meta \<and>
        fm_kind meta = DirectoryFile \<and> Inr (p, is_dir) \<in> set (rf_walk rf d w) \<and> \<not> is_dir \<longrightarrow>
        is_inside_workspace rf p root_canon w)"

lemma set_insert_path: "set (insert_path p ps) \<subseteq> insert p (set ps)"
  by (induction ps) auto

lemma collect_walk_set:
  "collect_walk items entries = Inr out \<Longrightarrow>
     set out \<subseteq> set entries \<union> {p. Inr (p, False) \<in> set items}"
proof (induction items entries rule: collect_walk.induct)
  case (3 path is_dir items entries)
  then show ?case using set_insert_path[of path entries] by (fastforce split: if_splits)
qed auto

lemma collect_matches_inside:
  "walk_law rf root_canon w \<Longrightarrow> collect_matches rf root_canon w ms entries = Inr out \<Longrightarrow>
    (\<And>p. p \<in> set entries \<Longrightarrow> is_inside_workspace rf p root_canon w) \<Longrightarrow>
    p \<in> set out \<Longrightarrow> is_inside_workspace rf p root_canon w"
proof (induction rf root_canon w ms entries rule: collect_matches.induct)
  case (3 rf root_canon w path ms entries)
  show ?case
  proof (cases "is_inside_workspace rf path root_canon w")
    case True
    then obtain meta entries' where m: "rf_lstat rf path w = Inr meta"
        "(if fm_kind meta = DirectoryFile then collect_walk (rf_walk rf path w) entries
          else Inr (insert_path path entries)) = Inr entries'"
        "collect_matches rf root_canon w ms entries' = Inr out"
      using "3.prems"(2) by (auto simp: rbind_Inr_conv)
    have "is_inside_workspace rf q root_canon w" if "q \<in> set entries'" for q
    proof (cases "fm_kind meta = DirectoryFile")
      case dir: True
      then show ?thesis
        using collect_walk_set[of "rf_walk rf path w" entries entries'] m(1,2) that True "3.prems"(1,3)
        unfolding walk_law_def by auto blast
    next
      case False
      then show ?thesis using set_insert_path[of path entries] m(2) that True "3.prems"(3) by auto
    qed
    then show ?thesis using "3.IH"(2)[OF _ "3.prems"(1) m(3)] True "3.prems"(4) by blast
  qed (use "3.IH"(1) "3.prems" in auto)
qed auto


lemma collect_patterns_inside:
  "walk_law rf root_canon w \<Longrightarrow> collect_patterns rf base root_canon w ps entries = Inr out \<Longrightarrow>
    (\<And>p. p \<in> set entries \<Longrightarrow> is_inside_workspace rf p root_canon w) \<Longrightarrow>
    p \<in> set out \<Longrightarrow> is_inside_workspace rf p root_canon w"
proof (induction rf base root_canon w ps entries rule: collect_patterns.induct)
  case (2 rf base root_canon w pattern ps entries)
  show ?case
  proof (cases "unsafe_pattern pattern")
    case False
    then obtain ms entries' where m: "rf_glob rf (path_join base pattern) w = Inr ms"
        "collect_matches rf root_canon w ms entries = Inr entries'"
        "collect_patterns rf base root_canon w ps entries' = Inr out"
      using "2.prems"(2) by (auto simp: rbind_Inr_conv)
    then show ?thesis
      using "2.IH"(2)[OF False "2.prems"(1) m(3)]
        collect_matches_inside[OF "2.prems"(1) m(2)] "2.prems"(3,4) by blast
  qed (use "2.IH"(1) "2.prems" in auto)
qed auto


definition sample_files :: "unit read_fs" where
  "sample_files = \<lparr>rf_canonicalize = (\<lambda>p _. Inr (if p = ''/ws/out'' then ''/etc'' else p)),
     rf_glob = (\<lambda>_ _. Inr [Inr ''/ws/b'', Inr ''/ws/out/passwd'', Inr ''/ws/a.log'', Inr ''/ws/b'']),
     rf_walk = (\<lambda>_ _. []), rf_lstat = (\<lambda>_ _. Inr \<lparr>fm_kind = RegularFile, fm_mode = 420, fm_inode = (1, 2)\<rparr>),
     rf_readlink = (\<lambda>_ _. Inl []), rf_read = (\<lambda>_ _. Inl [])\<rparr>"

lemma sample_files_collected:
  "collect_paths sample_files (\<lambda>p. Some (\<lambda>path. path = p)) ''/ws'' [''*'', ''../x''] [''a.log''] () = Inr [''/ws/b'']"
  by code_simp


end
