(* ===== verification/Job_Cache.thy ===== *)
theory Job_Cache
  imports S3 Artifacts Executor Image
begin

text \<open>
  The job cache (\<open>src/runner_daemon/job_cache.rs\<close>): archives on the runner's disk, one directory per
  project, with S3 as an optional second layer; the file \<open>x.etag\<close> next to an archive holds the ETag
  of its S3 object. The disk and the hash of long keys are parameters; the second layer is a pair
  of operations, which \<open>s3_remote\<close> takes from \<open>S3\<close>.
\<close>

section \<open>Names\<close>

definition sidecar :: "string \<Rightarrow> string" where
  "sidecar archive = archive @ ''.etag''"

definition encode_key :: "(string \<Rightarrow> string) \<Rightarrow> string \<Rightarrow> string" where
  "encode_key hash_hex key =
     (let encoded = encode_key_bytes key in
      if length encoded \<le> 200 then encoded else ''h-'' @ hash_hex key)"

definition resolve_key :: "string \<Rightarrow> (string \<rightharpoonup> string) \<Rightarrow> string" where
  "resolve_key key variables =
     (let trimmed = trim (expand key variables) in if trimmed = [] then ''default'' else trimmed)"

section \<open>State and parameters\<close>

record 'w remote =
  rm_get :: "string \<Rightarrow> string option \<Rightarrow> string \<Rightarrow> 'w \<Rightarrow> (chain, download) result \<times> 'w"
  rm_put :: "string \<Rightarrow> string \<Rightarrow> 'w \<Rightarrow> (chain, string option) result \<times> 'w"
  rm_object_key :: "nat \<Rightarrow> string \<Rightarrow> string"

definition s3_remote :: "'w s3_io \<Rightarrow> hashes \<Rightarrow> bucket \<Rightarrow> 'w remote" where
  "s3_remote io hs bk = \<lparr>rm_get = get_to_file io hs bk, rm_put = put_file io hs bk,
     rm_object_key = object_key bk\<rparr>"

record 'w local_cache =
  lc_root :: string
  lc_max_age :: "nat option"
  lc_remote :: "'w remote option"

definition local_cache_new :: "string \<Rightarrow> 'w local_cache" where
  "local_cache_new base = \<lparr>lc_root = base, lc_max_age = None, lc_remote = None\<rparr>"

definition with_remote :: "'w local_cache \<Rightarrow> 'w remote \<Rightarrow> 'w local_cache" where
  "with_remote lc r = lc\<lparr>lc_remote := Some r\<rparr>"

definition with_max_age_days :: "'w local_cache \<Rightarrow> nat \<Rightarrow> 'w local_cache" where
  "with_max_age_days lc days =
     lc\<lparr>lc_max_age := (if days > 0 then Some (days * 24 * 3600 * nanos) else None)\<rparr>"

text \<open>
  The disk. An entry of a directory has the time since it was modified, when that can be read; a
  walk gives files and directories with the length of files.
\<close>

datatype found = Found | Missing | Unreadable string

record 'w disk =
  dk_mkdirs :: "string \<Rightarrow> 'w \<Rightarrow> (string, unit) result \<times> 'w"
  dk_metadata :: "string \<Rightarrow> 'w \<Rightarrow> found"
  dk_touch :: "string \<Rightarrow> 'w \<Rightarrow> 'w"
  dk_read :: "string \<Rightarrow> 'w \<Rightarrow> string option"
  dk_write :: "string \<Rightarrow> string \<Rightarrow> 'w \<Rightarrow> (string, unit) result \<times> 'w"
  dk_remove :: "string \<Rightarrow> 'w \<Rightarrow> 'w"
  dk_persist :: "string \<Rightarrow> string \<Rightarrow> 'w \<Rightarrow> (string, unit) result \<times> 'w"
  dk_entries :: "string \<Rightarrow> 'w \<Rightarrow> (string \<times> nat option) list option"
  dk_walk :: "string \<Rightarrow> 'w \<Rightarrow> (string \<times> bool \<times> nat option) list"

datatype source = Local | S3NotModified | S3Downloaded nat

text \<open>\<open>{:.1}\<close> of a number of bytes (below 2^53) in MB.\<close>

definition mb_text :: "nat \<Rightarrow> string" where
  "mb_text n = (let t = nat (round_half_even (of_nat (10 * n) / of_nat 1048576))
                in dec (t div 10) @ ''.'' @ dec (t mod 10))"

fun source_text :: "source \<Rightarrow> string" where
  "source_text Local = ''local copy''"
| "source_text S3NotModified = ''S3: not modified, local copy''"
| "source_text (S3Downloaded n) = ''downloaded '' @ mb_text n @ '' MB from S3''"

record restore_outcome =
  ro_hit :: "(string \<times> source) option"
  ro_warnings :: "string list"

record saved =
  sv_size :: nat
  sv_upload :: "(string, unit) result option"

section \<open>Operations\<close>

definition cache_dir_of :: "'w local_cache \<Rightarrow> nat \<Rightarrow> string" where
  "cache_dir_of lc project_id = path_join (lc_root lc) (''project-'' @ dec project_id)"

definition archive_name :: "(string \<Rightarrow> string) \<Rightarrow> string \<Rightarrow> string" where
  "archive_name hash_hex key = encode_key hash_hex key @ ''.zip''"

definition archive_path :: "(string \<Rightarrow> string) \<Rightarrow> 'w local_cache \<Rightarrow> nat \<Rightarrow> string \<Rightarrow> string" where
  "archive_path hash_hex lc project_id key = path_join (cache_dir_of lc project_id) (archive_name hash_hex key)"

text \<open>\<open>Path::extension\<close>\<close>

definition path_extension :: "string \<Rightarrow> string option" where
  "path_extension p =
     (case path_file_name p of
        None \<Rightarrow> None
      | Some n \<Rightarrow>
          (case rfind_char (CHR ''.'') n of
             Some i \<Rightarrow> if i = 0 then None else Some (drop (i + 1) n)
           | None \<Rightarrow> None))"

fun evict_files :: "'w disk \<Rightarrow> nat \<Rightarrow> (string \<times> nat option) list \<Rightarrow> 'w \<Rightarrow> 'w" where
  "evict_files dk max_age [] w = w"
| "evict_files dk max_age ((path, age) # es) w =
     (if path_extension path = Some ''etag'' then evict_files dk max_age es w
      else if (case age of Some a \<Rightarrow> a > max_age | None \<Rightarrow> False)
      then evict_files dk max_age es (dk_remove dk (sidecar path) (dk_remove dk path w))
      else evict_files dk max_age es w)"

definition evict :: "'w disk \<Rightarrow> 'w local_cache \<Rightarrow> string \<Rightarrow> 'w \<Rightarrow> 'w" where
  "evict dk lc dir w =
     (case lc_max_age lc of
        None \<Rightarrow> w
      | Some max_age \<Rightarrow>
          (case dk_entries dk dir w of None \<Rightarrow> w | Some entries \<Rightarrow> evict_files dk max_age entries w))"

definition stats :: "'w disk \<Rightarrow> 'w local_cache \<Rightarrow> 'w \<Rightarrow> nat \<times> nat" where
  "stats dk lc w =
     foldl (\<lambda>(count, bytes) (path, is_file, len). (count + 1, bytes + (case len of Some n \<Rightarrow> n | None \<Rightarrow> 0))) (0, 0)
       (filter (\<lambda>(path, is_file, len). is_file \<and> path_extension path = Some ''zip'') (dk_walk dk (lc_root lc) w))"

definition fetch ::
  "'w disk \<Rightarrow> (string \<Rightarrow> string) \<Rightarrow> 'w local_cache \<Rightarrow> 'w remote \<Rightarrow> nat \<Rightarrow> string \<Rightarrow> string \<Rightarrow> 'w \<Rightarrow>
     (chain, source option) result \<times> 'w" where
  "fetch dk hash_hex lc rm project_id key path w =
     (let dir = cache_dir_of lc project_id in
      case dk_mkdirs dk dir w of
        (Inl e, w1) \<Rightarrow> (Inl [e], w1)
      | (Inr _, w1) \<Rightarrow>
          (let etag = (if dk_metadata dk path w1 = Found then dk_read dk (sidecar path) w1 else None);
               object = rm_object_key rm project_id (archive_name hash_hex key)
           in case rm_get rm object etag dir w1 of
                (Inl e, w2) \<Rightarrow> (Inl e, w2)
              | (Inr NotModified, w2) \<Rightarrow> (Inr (Some S3NotModified), w2)
              | (Inr NoSuchObject, w2) \<Rightarrow> (Inr None, w2)
              | (Inr (Downloaded staged new_etag n), w2) \<Rightarrow>
                  (case dk_persist dk staged path w2 of
                     (Inl e, w3) \<Rightarrow> (Inl [''Failed to save '' @ path, e], w3)
                   | (Inr _, w3) \<Rightarrow>
                       (case (case new_etag of
                                Some t \<Rightarrow> dk_write dk (sidecar path) t w3
                              | None \<Rightarrow> (Inr (), dk_remove dk (sidecar path) w3)) of
                          (Inl e, w4) \<Rightarrow> (Inl [e], w4)
                        | (Inr _, w4) \<Rightarrow> (Inr (Some (S3Downloaded n)), evict dk lc dir w4)))))"

text \<open>\<open>extract\<close> is \<open>extract_archive_file\<close> of \<open>Artifacts\<close> with its parameters.\<close>

fun restore_keys ::
  "'w disk \<Rightarrow> (string \<Rightarrow> string) \<Rightarrow> ('w \<Rightarrow> bool \<times> 'w) \<Rightarrow> (string \<Rightarrow> string \<Rightarrow> 'w \<Rightarrow> (chain, unit) result \<times> 'w) \<Rightarrow>
     'w local_cache \<Rightarrow> nat \<Rightarrow> string \<Rightarrow> string list \<Rightarrow> string list \<Rightarrow> 'w \<Rightarrow> (chain, restore_outcome) result \<times> 'w" where
  "restore_keys dk hash_hex stopped extract lc project_id ws [] warnings w =
     (Inr \<lparr>ro_hit = None, ro_warnings = warnings\<rparr>, w)"
| "restore_keys dk hash_hex stopped extract lc project_id ws (key # keys) warnings w =
     (case stopped w of (b, w0) \<Rightarrow>
        (case stop_check b of
           Inl e \<Rightarrow> (Inl [e], w0)
         | Inr _ \<Rightarrow>
             (let path = archive_path hash_hex lc project_id key in
              case (case lc_remote lc of
                      None \<Rightarrow> (Local, warnings, w0)
                    | Some rm \<Rightarrow>
                        (case fetch dk hash_hex lc rm project_id key path w0 of
                           (Inr (Some fetched), w1) \<Rightarrow> (fetched, warnings, w1)
                         | (Inr None, w1) \<Rightarrow> (Local, warnings, w1)
                         | (Inl e, w1) \<Rightarrow>
                             (Local, warnings @ [''S3 unavailable for cache '' @ key @ '': '' @ full_chain e], w1))) of
                (src, warnings', w1) \<Rightarrow>
                  (case dk_metadata dk path w1 of
                     Found \<Rightarrow>
                       (case extract path ws (dk_touch dk path w1) of
                          (Inl e, w2) \<Rightarrow> (Inl e, w2)
                        | (Inr _, w2) \<Rightarrow> (Inr \<lparr>ro_hit = Some (key, src), ro_warnings = warnings'\<rparr>, w2))
                   | Missing \<Rightarrow>
                       restore_keys dk hash_hex stopped extract lc project_id ws keys warnings' w1
                   | Unreadable e \<Rightarrow> (Inl [''Failed to read '' @ path, e], w1)))))"

definition cache_restore ::
  "'w disk \<Rightarrow> (string \<Rightarrow> string) \<Rightarrow> ('w \<Rightarrow> bool \<times> 'w) \<Rightarrow> (string \<Rightarrow> string \<Rightarrow> 'w \<Rightarrow> (chain, unit) result \<times> 'w) \<Rightarrow>
     'w local_cache \<Rightarrow> nat \<Rightarrow> string list \<Rightarrow> string \<Rightarrow> 'w \<Rightarrow> (chain, restore_outcome) result \<times> 'w" where
  "cache_restore dk hash_hex stopped extract lc project_id keys ws w =
     restore_keys dk hash_hex stopped extract lc project_id ws keys [] w"

text \<open>\<open>LocalCache::save\<close>; \<open>None\<close> when no file matched.\<close>

definition upload_saved ::
  "'w disk \<Rightarrow> (string \<Rightarrow> string) \<Rightarrow> 'w remote option \<Rightarrow> nat \<Rightarrow> string \<Rightarrow> string \<Rightarrow> 'w \<Rightarrow>
     (string, unit) result option \<times> 'w" where
  "upload_saved dk hash_hex remote project_id key path w =
     (case remote of
        None \<Rightarrow> (None, dk_remove dk (sidecar path) w)
      | Some rm \<Rightarrow>
          (case rm_put rm (rm_object_key rm project_id (archive_name hash_hex key)) path w of
             (Inr (Some t), w1) \<Rightarrow> (Some (Inr ()), snd (dk_write dk (sidecar path) t w1))
           | (Inr None, w1) \<Rightarrow> (Some (Inr ()), dk_remove dk (sidecar path) w1)
           | (Inl e, w1) \<Rightarrow> (Some (Inl (full_chain e)), w1)))"

definition cache_save ::
  "'w disk \<Rightarrow> (string \<Rightarrow> string) \<Rightarrow> 'w archiver \<Rightarrow> 'w local_cache \<Rightarrow> nat \<Rightarrow> string \<Rightarrow> string \<Rightarrow> string list \<Rightarrow> 'w \<Rightarrow>
     (chain, saved option) result \<times> 'w" where
  "cache_save dk hash_hex av lc project_id key ws paths w =
     (let path = archive_path hash_hex lc project_id key; dir = cache_dir_of lc project_id in
      case dk_mkdirs dk dir w of
        (Inl e, w1) \<Rightarrow> (Inl [''Failed to create cache directory '' @ dir, e], w1)
      | (Inr _, w1) \<Rightarrow>
          (case create_cache_archive av ws paths dir w1 of
             (Inl e, w2) \<Rightarrow> (Inl e, w2)
           | (Inr None, w2) \<Rightarrow> (Inr None, w2)
           | (Inr (Some ar), w2) \<Rightarrow>
               (case dk_persist dk (ar_file ar) path w2 of
                  (Inl e, w3) \<Rightarrow> (Inl [''Failed to save '' @ path, e], w3)
                | (Inr _, w3) \<Rightarrow>
                    (case upload_saved dk hash_hex (lc_remote lc) project_id key path w3 of
                       (upload, w4) \<Rightarrow>
                         (Inr (Some \<lparr>sv_size = ar_len ar, sv_upload = upload\<rparr>), evict dk lc dir w4)))))"

section \<open>Archives of different caches\<close>

text \<open>What a hash of a key prints: 64 hexadecimal digits.\<close>

definition hash_law :: "(string \<Rightarrow> string) \<Rightarrow> bool" where
  "hash_law hash_hex \<longleftrightarrow> (\<forall>k. length (hash_hex k) = 64 \<and> list_all is_ascii_hexdigit (hash_hex k))"

definition long_key :: "string \<Rightarrow> bool" where
  "long_key key \<longleftrightarrow> length (encode_key_bytes key) > 200"

lemma encode_key_branches:
  "encode_key h k = (if long_key k then ''h-'' @ h k else encode_key_bytes k)"
  by (simp add: encode_key_def long_key_def)

lemma hash_chars:
  assumes "hash_law h"
  shows "list_all key_char (''h-'' @ h k)"
proof -
  have hex: "is_ascii_hexdigit c \<Longrightarrow> key_char c" for c
    by (auto simp: key_char_def ascii_defs)
  have "list_all is_ascii_hexdigit (h k)" using assms by (simp add: hash_law_def)
  then have "list_all key_char (h k)" using hex by (metis list.pred_mono_strong)
  then show ?thesis by (simp add: key_char_def ascii_defs)
qed

lemma hashed_is_literal: "hash_law h \<Longrightarrow> encode_key_bytes (''h-'' @ h k) = ''h-'' @ h k"
  using key.encode_safe hash_chars by blast

lemma encode_key_eq:
  assumes h: "hash_law h"
  shows "encode_key h k1 = encode_key h k2 \<longleftrightarrow>
    (if long_key k1 = long_key k2 then (if long_key k1 then h k1 = h k2 else k1 = k2)
     else if long_key k1 then k2 = ''h-'' @ h k1 else k1 = ''h-'' @ h k2)"
  using hashed_is_literal[OF h] key.encode_inj
  by (auto simp: encode_key_branches simp del: append.simps) (metis append.simps)+

lemma encode_key_chars:
  assumes h: "hash_law h"
  shows "list_all (\<lambda>c. key_char c \<or> c = CHR ''%'') (encode_key h k)"
proof -
  have "list_all (\<lambda>c. key_char c \<or> c = CHR ''%'') (encode_key_bytes k)"
    using key.encode_chars[of k] by (auto simp: list_all_iff key_char_def ascii_defs)
  moreover have "list_all (\<lambda>c. key_char c \<or> c = CHR ''%'') (''h-'' @ h k)"
    using hash_chars[OF h, of k] unfolding list_all_iff by blast
  ultimately show ?thesis by (simp add: encode_key_branches)
qed

lemma archive_name_plain:
  assumes h: "hash_law h"
  shows "plain_name (archive_name h k)"
proof -
  have "CHR ''/'' \<notin> set (encode_key h k)"
    using encode_key_chars[OF h, of k] by (auto simp: list_all_iff key_char_def ascii_defs)
  moreover have "archive_name h k \<noteq> ''.''" "archive_name h k \<noteq> ''..''"
    by (auto simp: archive_name_def dest: arg_cong[where f = length])
  ultimately show ?thesis by (auto simp: plain_name_def archive_name_def)
qed

text \<open>
  C29: the archive of a cache is a file directly in its project's directory of the cache, whatever
  the key holds, and two caches share one exactly when project and key agree, or, for keys too long
  for a file name, when the hashes agree; or when one key is the literal text of the other's hashed
  name: a key \<open>h-<hash>\<close> names the archive of the long key with that hash.
\<close>

theorem archive_paths_separate:
  assumes h: "hash_law h" and base: "lc_root lc \<noteq> []" "last (lc_root lc) \<noteq> CHR ''/''"
  shows "components (archive_path h lc p1 k1) =
      components (lc_root lc) @ [Normal (''project-'' @ dec p1), Normal (archive_name h k1)] \<and>
    (archive_path h lc p1 k1 = archive_path h lc p2 k2 \<longleftrightarrow> p1 = p2 \<and>
      (if long_key k1 = long_key k2 then (if long_key k1 then h k1 = h k2 else k1 = k2)
       else if long_key k1 then k2 = ''h-'' @ h k1 else k1 = ''h-'' @ h k2))"
proof -
  have nodash: "c \<in> set (dec p) \<Longrightarrow> c \<noteq> CHR ''/''" for c p
    using dec_digits[of p] by (auto simp: list_all_iff is_ascii_digit_def)
  have proj: "plain_name (''project-'' @ dec p)" for p
    using nodash by (auto simp: plain_name_def)
  have dir: "cache_dir_of lc p = lc_root lc @ ''/'' @ ''project-'' @ dec p" for p
    using base by (simp add: cache_dir_of_def path_join_def path_absolute_def)
  have last: "last (cache_dir_of lc p) \<noteq> CHR ''/''" for p
    using last_dec[of p] by (auto simp: dir)
  have name: "\<not> path_absolute (archive_name h k)" for k
    using archive_name_plain[OF h, of k]
    by (cases "archive_name h k") (auto simp: plain_name_def path_absolute_def)
  have path: "archive_path h lc p k = cache_dir_of lc p @ ''/'' @ archive_name h k" for p k
    using last[of p] name[of k] by (simp add: archive_path_def path_join_def dir)
  have "components (archive_path h lc p1 k1) =
      components (lc_root lc) @ [Normal (''project-'' @ dec p1), Normal (archive_name h k1)]"
  proof -
    have "components (cache_dir_of lc p1) = components (lc_root lc) @ [Normal (''project-'' @ dec p1)]"
      unfolding dir using proj[of p1] base(1) unfolding plain_name_def by (intro components_snoc) blast+
    then show ?thesis
      using archive_name_plain[OF h, of k1] components_snoc[of "archive_name h k1" "cache_dir_of lc p1"]
      unfolding path by (simp add: plain_name_def dir)
  qed
  moreover have "archive_path h lc p1 k1 = archive_path h lc p2 k2 \<longleftrightarrow> p1 = p2 \<and> encode_key h k1 = encode_key h k2"
    unfolding path dir using dec_sep_inj[of "CHR ''/''" "''/'' @ archive_name h k1" "''/'' @ archive_name h k2" p1 p2]
    by (auto simp: archive_name_def is_ascii_digit_def)
  ultimately show ?thesis using encode_key_eq[OF h] by simp
qed

definition sample_hash :: "string \<Rightarrow> string" where
  "sample_hash k = replicate 64 (CHR ''a'')"

definition sample_cache :: "unit local_cache" where
  "sample_cache = local_cache_new ''/c''"

lemma archive_paths_separate_witness:
  "archive_path sample_hash sample_cache 1 (replicate 201 (CHR ''k'')) =
     archive_path sample_hash sample_cache 1 (''h-'' @ replicate 64 (CHR ''a'')) \<and>
   archive_path sample_hash sample_cache 1 ''k'' \<noteq> archive_path sample_hash sample_cache 2 ''k''"
proof -
  have law: "hash_law sample_hash" by (simp add: hash_law_def sample_hash_def list_all_iff ascii_defs)
  have enc: "encode_key_bytes (replicate n (CHR ''k'')) = replicate n (CHR ''k'')" for n
    by (rule key.encode_safe) (simp add: list_all_iff key_char_def ascii_defs)
  have short: "\<not> long_key (''h-'' @ replicate 64 (CHR ''a''))" "long_key (replicate 201 (CHR ''k''))" "\<not> long_key ''k''"
    using hashed_is_literal[OF law, of "[]"] enc[of 201] enc[of 1] by (simp_all add: long_key_def sample_hash_def)
  have base: "lc_root sample_cache \<noteq> []" "last (lc_root sample_cache) \<noteq> CHR ''/''"
    by (simp_all add: sample_cache_def local_cache_new_def)
  show ?thesis
    using archive_paths_separate[OF law base, of 1 "replicate 201 (CHR ''k'')" 1 "''h-'' @ replicate 64 (CHR ''a'')"]
      archive_paths_separate[OF law base, of 1 "''k''" 2 "''k''"] short
    by (simp add: sample_hash_def)
qed

end
