(* ===== verification/Net.thy ===== *)
theory Net
  imports Config
begin

text \<open>
  HTTP client settings (\<open>src/net.rs\<close>): name resolution, the client builder and the \<open>NO_PROXY\<close> of
  jobs. \<open>getaddrinfo\<close> and the HTTP library's builder are parameters.
\<close>

datatype addr_family = Inet | Inet6

text \<open>\<open>lookup\<close>: a family's query fails, or gives results of which some may be errors.\<close>

fun lookup_families ::
  "(string \<Rightarrow> addr_family \<Rightarrow> (string, (string, 'a) result list) result) \<Rightarrow> string \<Rightarrow> addr_family list \<Rightarrow>
     (string, 'a list) result" where
  "lookup_families getaddrinfo host [] = Inl (''could not resolve '' @ host)"
| "lookup_families getaddrinfo host (family # families) =
     (case getaddrinfo host family of
        Inl _ \<Rightarrow> lookup_families getaddrinfo host families
      | Inr results \<Rightarrow>
          (let addrs = filter_map (\<lambda>r. case r of Inl _ \<Rightarrow> None | Inr a \<Rightarrow> Some a) results in
           if addrs \<noteq> [] then Inr addrs else lookup_families getaddrinfo host families))"

definition lookup ::
  "(string \<Rightarrow> addr_family \<Rightarrow> (string, (string, 'a) result list) result) \<Rightarrow> string \<Rightarrow> (string, 'a list) result" where
  "lookup getaddrinfo host = lookup_families getaddrinfo host [Inet, Inet6]"

text \<open>The builder: what is set on it, in order.\<close>

datatype 'c client_setting = Ipv4FirstResolver | ProxyAll string "string option" | RootCertificate 'c

definition network_client_builder ::
  "(string \<Rightarrow> (string, unit) result) \<Rightarrow> (string \<Rightarrow> string option) \<Rightarrow> (string \<Rightarrow> (string, 'c list) result) \<Rightarrow> network \<Rightarrow>
     (chain, 'c client_setting list) result" where
  "network_client_builder proxy_url no_proxy_from read_pem nw =
     rbind (case nw_proxy nw of
         None \<Rightarrow> Inr [Ipv4FirstResolver]
       | Some proxy \<Rightarrow>
           (case proxy_url proxy of
              Inl e \<Rightarrow> Inl [''Invalid proxy URL'', e]
            | Inr _ \<Rightarrow> Inr [Ipv4FirstResolver, ProxyAll proxy (Option.bind (nw_no_proxy nw) no_proxy_from)])) (\<lambda>b.
     (case nw_ca_pem nw of
        None \<Rightarrow> Inr b
      | Some pem \<Rightarrow>
          (case read_pem pem of
             Inl e \<Rightarrow> Inl [''Invalid CA certificate (PEM)'', e]
           | Inr certificates \<Rightarrow>
               if certificates = [] then Inl [''The CA file contains no PEM certificate'']
               else Inr (b @ map RootCertificate certificates))))"

definition effective_no_proxy :: "string option \<Rightarrow> string list \<Rightarrow> string" where
  "effective_no_proxy configured extra =
     (let given = map trim (split_on (CHR '','') (or_empty configured)) in
      join '','' (foldl (\<lambda>entries e. if e \<noteq> [] \<and> e \<notin> set entries then entries @ [e] else entries) []
        (given @ [''localhost'', ''127.0.0.1'', ''::1''] @ extra)))"

lemma no_proxy_entries:
  "distinct es \<Longrightarrow>
   distinct (foldl (\<lambda>entries e. if e \<noteq> [] \<and> e \<notin> set entries then entries @ [e] else entries) es xs) \<and>
   set (foldl (\<lambda>entries e. if e \<noteq> [] \<and> e \<notin> set entries then entries @ [e] else entries) es xs) =
     set es \<union> {x \<in> set xs. x \<noteq> []}"
  by (induction xs arbitrary: es) auto

lemma split_join_no_sep:
  "xs \<noteq> [] \<Longrightarrow> (\<And>x. x \<in> set xs \<Longrightarrow> d \<notin> set x) \<Longrightarrow> split_on d (join [d] xs) = xs"
proof (induction xs)
  case (Cons x xs)
  show ?case
  proof (cases xs)
    case (Cons y ys)
    then show ?thesis using Cons.IH Cons.prems(2)
      by (simp add: split_on_join2 split_on_single)
  qed (use Cons.prems(2) in \<open>simp add: split_on_single\<close>)
qed simp

text \<open>
  What the variable means to a client (a list of entries split at commas): each entry given in the
  configuration, the loopback names and the service aliases, each once, and no empty one.
\<close>

lemma effective_no_proxy_entries:
  assumes "list_all (\<lambda>a. CHR '','' \<notin> set a) extra"
  shows "let es = split_on (CHR '','') (effective_no_proxy configured extra) in
    distinct es \<and> set es = {e \<in> trim ` set (split_on (CHR '','') (or_empty configured)) \<union>
      {''localhost'', ''127.0.0.1'', ''::1''} \<union> set extra. e \<noteq> []}"
proof -
  let ?given = "map trim (split_on (CHR '','') (or_empty configured))"
  let ?xs = "?given @ [''localhost'', ''127.0.0.1'', ''::1''] @ extra"
  define es where "es = foldl (\<lambda>entries e. if e \<noteq> [] \<and> e \<notin> set entries then entries @ [e] else entries) [] ?xs"
  have es: "distinct es" "set es = {x \<in> set ?xs. x \<noteq> []}"
    using no_proxy_entries[of "[]" ?xs] by (simp_all add: es_def)
  have "CHR '','' \<notin> set x" if "x \<in> set ?given" for x
    using that split_on_no_sep set_trim by fastforce
  then have no_comma: "CHR '','' \<notin> set x" if "x \<in> set ?xs" for x
    using that assms unfolding list_all_iff set_append by (elim UnE) auto
  have "''localhost'' \<in> set es" unfolding es(2) by simp
  then have "es \<noteq> []" by (metis list.set_cases list.distinct(1))
  moreover have "CHR '','' \<notin> set x" if "x \<in> set es" for x
    using that es(2) no_comma by blast
  ultimately have "split_on (CHR '','') (join '','' es) = es"
    by (rule split_join_no_sep)
  moreover have "effective_no_proxy configured extra = join '','' es"
    by (simp add: effective_no_proxy_def Let_def es_def)
  moreover have "{x \<in> set ?xs. x \<noteq> []} = {e \<in> trim ` set (split_on (CHR '','') (or_empty configured)) \<union>
      {''localhost'', ''127.0.0.1'', ''::1''} \<union> set extra. e \<noteq> []}" by auto
  ultimately show ?thesis using es by (simp only: Let_def)
qed

end
