(* ===== verification/Slots.thy ===== *)
theory Slots
  imports Executor "HOL-Library.FSet"
begin

text \<open>
  How many jobs run at once and with which numbers (\<open>src/runner_daemon/mod.rs\<close>): the slots behind
  \<open>CI_CONCURRENT_ID\<close> and \<open>CI_CONCURRENT_PROJECT_ID\<close>, and the permits of the job loop. The loop and
  the tasks it spawns interleave, so they are a step relation; what holds in every reachable state
  is proved by rule induction, and that the pool is a bounded counter by a simulation.
\<close>

section \<open>Slots\<close>

record concurrency_slots =
  sl_runner :: "nat fset"
  sl_projects :: "nat \<rightharpoonup> nat fset"

definition no_slots :: concurrency_slots where
  "no_slots = \<lparr>sl_runner = {||}, sl_projects = Map.empty\<rparr>"

text \<open>The search for the lowest free number, from \<open>n\<close> upwards.\<close>

function free_from :: "nat fset \<Rightarrow> nat \<Rightarrow> nat" where
  "free_from used n = (if n |\<in>| used then free_from used (n + 1) else n)"
  by pat_completeness auto
termination
proof (relation "measure (\<lambda>(used, n). card {k \<in> fset used. n \<le> k})")
  fix used and n :: nat
  assume n: "n |\<in>| used"
  let ?above = "\<lambda>m. {k \<in> fset used. m \<le> k}"
  have "?above (n + 1) \<subseteq> ?above n" by (rule Collect_mono) simp
  moreover have "n \<in> ?above n" "n \<notin> ?above (n + 1)" using n by simp_all
  ultimately have "?above (n + 1) \<subset> ?above n" by blast
  moreover have "finite {k \<in> fset used. n \<le> k}" by simp
  ultimately show "((used, n + 1), used, n) \<in> measure (\<lambda>(used, n). card {k \<in> fset used. n \<le> k})"
    unfolding in_measure prod.case by (rule psubset_card_mono[rotated])
qed simp

declare free_from.simps [simp del]

definition lowest_free :: "nat fset \<Rightarrow> nat" where
  "lowest_free used = free_from used 0"

definition project_used :: "concurrency_slots \<Rightarrow> nat \<Rightarrow> nat fset" where
  "project_used sl project = (case sl_projects sl project of Some used \<Rightarrow> used | None \<Rightarrow> {||})"

definition acquire :: "concurrency_slots \<Rightarrow> nat \<Rightarrow> (nat \<times> nat) \<times> concurrency_slots" where
  "acquire sl project =
     (let n = lowest_free (sl_runner sl); used = project_used sl project; pn = lowest_free used
      in ((n, pn), \<lparr>sl_runner = finsert n (sl_runner sl),
                    sl_projects = (sl_projects sl)(project \<mapsto> finsert pn used)\<rparr>))"

definition release_slot :: "concurrency_slots \<Rightarrow> nat \<Rightarrow> nat \<times> nat \<Rightarrow> concurrency_slots" where
  "release_slot sl project = (\<lambda>(n, pn).
     \<lparr>sl_runner = fminus (sl_runner sl) {|n|},
      sl_projects =
        (case sl_projects sl project of
           None \<Rightarrow> sl_projects sl
         | Some used \<Rightarrow>
             (let left = fminus used {|pn|} in
              if left = {||} then (sl_projects sl)(project := None)
              else (sl_projects sl)(project \<mapsto> left)))\<rparr>)"

lemma free_from_spec:
  "n \<le> free_from used n \<and> free_from used n |\<notin>| used \<and> (\<forall>k. n \<le> k \<and> k < free_from used n \<longrightarrow> k |\<in>| used)"
proof (induction used n rule: free_from.induct)
  case (1 used n)
  show ?case
  proof (cases "n |\<in>| used")
    case True
    then have eq: "free_from used n = free_from used (n + 1)" by (simp add: free_from.simps)
    have "k |\<in>| used" if "n \<le> k" "k < free_from used n" for k
      using that 1[OF True] True eq by (cases "k = n") auto
    then show ?thesis using 1[OF True] eq by auto
  qed (auto simp: free_from.simps)
qed

lemma lowest_free_spec:
  "lowest_free used |\<notin>| used \<and> (\<forall>k < lowest_free used. k |\<in>| used) \<and> lowest_free used \<le> fcard used"
proof -
  have s: "lowest_free used |\<notin>| used" "\<forall>k < lowest_free used. k |\<in>| used"
    using free_from_spec[of 0 used] by (auto simp: lowest_free_def)
  then have "{0..<lowest_free used} \<subseteq> fset used" by auto
  then have "card {0..<lowest_free used} \<le> card (fset used)" by (rule card_mono[OF finite_fset])
  then show ?thesis using s by (simp add: fcard.rep_eq)
qed

text \<open>
  C31: the search for a number ends whatever is in use, at the lowest one that is free; with \<open>n\<close> numbers
  in use it is at most \<open>n\<close>.
\<close>

theorem lowest_free_is_least:
  "lowest_free used |\<notin>| used \<and> (\<forall>k < lowest_free used. k |\<in>| used) \<and> lowest_free used \<le> fcard used"
  by (rule lowest_free_spec)

lemma lowest_free_is_least_witness: "lowest_free {|0, 1, 3|} = 2"
proof -
  let ?n = "lowest_free {|0, 1, 3|}"
  have n: "?n |\<notin>| {|0, 1, 3|}" "\<forall>k < ?n. k |\<in>| {|0, 1, 3|}"
    using lowest_free_is_least[of "{|0, 1, 3|}"] by blast+
  have "\<not> 2 < ?n" using n(2) by auto
  then show ?thesis using n(1) by simp
qed

section \<open>The pool\<close>

text \<open>
  The job loop holds a permit while it asks for a job; a job it gets takes the permit along into a
  task that is \<open>spawned\<close>, \<open>running\<close> once it has a slot, and \<open>ending\<close> when the slot is given back and
  the permit is still to be dropped.
\<close>

record pool =
  pl_free :: nat
  pl_holding :: bool
  pl_spawned :: "job list"
  pl_running :: "(job \<times> nat \<times> nat) list"
  pl_ending :: nat
  pl_slots :: concurrency_slots

definition pool_start :: "nat \<Rightarrow> pool" where
  "pool_start concurrent = \<lparr>pl_free = concurrent, pl_holding = False, pl_spawned = [], pl_running = [],
     pl_ending = 0, pl_slots = no_slots\<rparr>"

text \<open>\<open>execute_job\<close> gives the job its slot.\<close>

definition with_slot :: "job \<Rightarrow> nat \<times> nat \<Rightarrow> job" where
  "with_slot j slot = j\<lparr>job_project_slot := snd slot\<rparr>"

inductive pool_step :: "pool \<Rightarrow> pool \<Rightarrow> bool" where
  take_permit: "pl_free s > 0 \<Longrightarrow> \<not> pl_holding s \<Longrightarrow>
    pool_step s (s\<lparr>pl_free := pl_free s - 1, pl_holding := True\<rparr>)"
| no_job: "pl_holding s \<Longrightarrow> pool_step s (s\<lparr>pl_free := pl_free s + 1, pl_holding := False\<rparr>)"
| claimed: "pl_holding s \<Longrightarrow> pool_step s (s\<lparr>pl_holding := False, pl_spawned := j # pl_spawned s\<rparr>)"
| started: "pl_spawned s = xs @ j # ys \<Longrightarrow> acquire (pl_slots s) (job_project j) = (slot, sl) \<Longrightarrow>
    pool_step s (s\<lparr>pl_spawned := xs @ ys, pl_running := (with_slot j slot, slot) # pl_running s, pl_slots := sl\<rparr>)"
| finished: "pl_running s = xs @ (j, slot) # ys \<Longrightarrow>
    pool_step s (s\<lparr>pl_running := xs @ ys, pl_ending := pl_ending s + 1,
      pl_slots := release_slot (pl_slots s) (job_project j) slot\<rparr>)"
| dropped: "pl_ending s > 0 \<Longrightarrow>
    pool_step s (s\<lparr>pl_ending := pl_ending s - 1, pl_free := pl_free s + 1\<rparr>)"

inductive pool_reachable :: "nat \<Rightarrow> pool \<Rightarrow> bool" for concurrent where
  start: "pool_reachable concurrent (pool_start concurrent)"
| step: "pool_reachable concurrent s \<Longrightarrow> pool_step s s' \<Longrightarrow> pool_reachable concurrent s'"

inductive_cases pool_stepE: "pool_step s s'"

section \<open>What holds in every reachable state\<close>

definition busy :: "pool \<Rightarrow> nat" where
  "busy s = (if pl_holding s then 1 else 0) + length (pl_spawned s) + length (pl_running s) + pl_ending s"

text \<open>The slots are exactly those of the running jobs, each used once.\<close>

definition project_slots :: "nat \<Rightarrow> (job \<times> nat \<times> nat) list \<Rightarrow> nat list" where
  "project_slots project running =
     map (\<lambda>(j, n, pn). pn) (filter (\<lambda>(j, slot). job_project j = project) running)"

definition slots_match :: "concurrency_slots \<Rightarrow> (job \<times> nat \<times> nat) list \<Rightarrow> bool" where
  "slots_match sl running \<longleftrightarrow>
     distinct (map (fst \<circ> snd) running) \<and> fset (sl_runner sl) = set (map (fst \<circ> snd) running) \<and>
     (\<forall>p. distinct (project_slots p running) \<and> fset (project_used sl p) = set (project_slots p running)) \<and>
     list_all (\<lambda>(j, n, pn). job_project_slot j = pn) running"

definition pool_inv :: "nat \<Rightarrow> pool \<Rightarrow> bool" where
  "pool_inv concurrent s \<longleftrightarrow> pl_free s + busy s = concurrent \<and> slots_match (pl_slots s) (pl_running s) \<and>
     list_all (\<lambda>(j, n, pn). n < concurrent \<and> pn < concurrent) (pl_running s)"

lemma project_with_slot [simp]: "job_project (with_slot j slot) = job_project j"
  by (simp add: with_slot_def job_project_def)

lemma slot_with_slot [simp]: "job_project_slot (with_slot j slot) = snd slot"
  by (simp add: with_slot_def)

lemma project_slots_Cons:
  "project_slots p ((j, n, pn) # running) =
     (if job_project j = p then pn # project_slots p running else project_slots p running)"
  by (simp add: project_slots_def)

lemma acquire_match:
  assumes m: "slots_match sl running" and a: "acquire sl (job_project j) = (slot, sl')"
  shows "slots_match sl' ((with_slot j slot, slot) # running)"
proof -
  let ?p = "job_project j"
  obtain n pn where s: "slot = (n, pn)" by fastforce
  have n: "n = lowest_free (sl_runner sl)" "pn = lowest_free (project_used sl ?p)"
    and sl': "sl' = \<lparr>sl_runner = finsert n (sl_runner sl),
      sl_projects = (sl_projects sl)(?p \<mapsto> finsert pn (project_used sl ?p))\<rparr>"
    using a s by (auto simp: acquire_def Let_def)
  have used: "project_used sl' q = (if q = ?p then finsert pn (project_used sl ?p) else project_used sl q)" for q
    by (simp add: sl' project_used_def)
  have fresh: "n \<notin> fset (sl_runner sl)" "pn \<notin> fset (project_used sl ?p)"
    using lowest_free_spec n by simp_all
  show ?thesis
    using m fresh unfolding slots_match_def s used project_slots_Cons
    by (auto simp: sl')
qed

lemma project_slots_append:
  "project_slots p (xs @ (j, n, pn) # ys) =
     project_slots p xs @ (if job_project j = p then [pn] else []) @ project_slots p ys"
  by (simp add: project_slots_def)

lemma release_match:
  assumes m: "slots_match sl (xs @ (j, slot) # ys)"
  shows "slots_match (release_slot sl (job_project j) slot) (xs @ ys)"
proof -
  let ?p = "job_project j"
  obtain n pn where s: "slot = (n, pn)" by fastforce
  let ?sl = "release_slot sl ?p (n, pn)"
  have used: "fset (project_used ?sl q) = (if q = ?p then fset (project_used sl q) - {pn} else fset (project_used sl q))" for q
    unfolding release_slot_def project_used_def
    by (cases "sl_projects sl ?p") (auto simp: Let_def split: option.splits)
  have runner: "fset (sl_runner ?sl) = fset (sl_runner sl) - {n}" by (simp add: release_slot_def)
  have app: "project_slots q (xs @ ys) = project_slots q xs @ project_slots q ys" for q
    by (simp add: project_slots_def)
  note m' = m[unfolded slots_match_def s project_slots_append]
  have "distinct (project_slots q (xs @ ys)) \<and> fset (project_used ?sl q) = set (project_slots q (xs @ ys))" for q
    using m' unfolding used app by (cases "q = ?p") auto
  moreover have "fset (sl_runner ?sl) = set (map (fst \<circ> snd) (xs @ ys))" "distinct (map (fst \<circ> snd) (xs @ ys))"
    using m' unfolding runner by auto
  moreover have "list_all (\<lambda>(j, n, pn). job_project_slot j = pn) (xs @ ys)" using m' by simp
  ultimately show ?thesis unfolding slots_match_def s by blast
qed

lemma acquire_bounds:
  assumes m: "slots_match sl running" and a: "acquire sl project = ((n, pn), sl')"
  shows "n \<le> length running \<and> pn \<le> length running"
proof -
  have eq: "n = lowest_free (sl_runner sl)" "pn = lowest_free (project_used sl project)"
    using a by (auto simp: acquire_def Let_def)
  have "fcard (sl_runner sl) \<le> length running"
    using m card_length[of "map (fst \<circ> snd) running"] by (simp add: slots_match_def fcard.rep_eq)
  moreover have "fcard (project_used sl project) \<le> length running"
  proof -
    have "fset (project_used sl project) = set (project_slots project running)"
      using m unfolding slots_match_def by blast
    moreover have "length (project_slots project running) \<le> length running" by (simp add: project_slots_def)
    ultimately show ?thesis
      using card_length[of "project_slots project running"] unfolding fcard.rep_eq by simp
  qed
  ultimately show ?thesis
    using lowest_free_spec[of "sl_runner sl"] lowest_free_spec[of "project_used sl project"] eq by simp
qed

lemma pool_step_inv: "pool_step s s' \<Longrightarrow> pool_inv c s \<Longrightarrow> pool_inv c s'"
proof (induction rule: pool_step.induct)
  case (started s xs j ys slot sl)
  obtain n pn where slot: "slot = (n, pn)" by fastforce
  have m: "slots_match (pl_slots s) (pl_running s)" using started.prems by (simp add: pool_inv_def)
  have "slots_match sl ((with_slot j slot, slot) # pl_running s)"
    using acquire_match[OF m started.hyps(2)] .
  then show ?case
    using acquire_bounds[OF m started.hyps(2)[unfolded slot]] started slot by (auto simp: pool_inv_def busy_def)
next
  case (finished s xs j slot ys)
  then have "slots_match (release_slot (pl_slots s) (job_project j) slot) (xs @ ys)"
    by (intro release_match) (auto simp: pool_inv_def)
  then show ?case using finished by (auto simp: pool_inv_def busy_def)
qed (auto simp: pool_inv_def busy_def)

lemma pool_reachable_inv: "pool_reachable c s \<Longrightarrow> pool_inv c s"
proof (induction rule: pool_reachable.induct)
  case start
  show ?case
    by (simp add: pool_inv_def pool_start_def busy_def slots_match_def no_slots_def project_slots_def project_used_def)
qed (rule pool_step_inv)

text \<open>
  C5: however the job loop, the jobs and their ends interleave, no more jobs than \<open>concurrent\<close> are
  under way (permits held, jobs spawned, running or ending), the numbers of running jobs are below
  it and each is used once, and two running jobs never share a workspace (assuming that GitLab does
  not hand out a job that is still running).
\<close>

theorem running_jobs_separate:
  assumes "pool_reachable concurrent s" "distinct (map (job_id \<circ> fst) (pl_running s))"
  shows "busy s \<le> concurrent \<and> list_all (\<lambda>(j, n, pn). n < concurrent) (pl_running s) \<and>
    distinct (map (fst \<circ> snd) (pl_running s)) \<and>
    distinct (map (\<lambda>(j, slot). fst (workspace j)) (pl_running s))"
proof -
  have inv: "pool_inv concurrent s" by (rule pool_reachable_inv[OF assms(1)])
  have m: "slots_match (pl_slots s) (pl_running s)" using inv by (simp add: pool_inv_def)
  have "slots_match sl running \<Longrightarrow> distinct (map (job_id \<circ> fst) running) \<Longrightarrow>
      distinct (map (\<lambda>(j, slot). fst (workspace j)) running)" for sl running
  proof (induction running arbitrary: sl)
    case (Cons r running)
    obtain j n pn where r: "r = (j, n, pn)" by (cases r)
    have "slots_match (release_slot sl (job_project j) (n, pn)) ([] @ running)"
      by (rule release_match) (use Cons.prems(1) r in simp)
    then have "distinct (map (\<lambda>(j, slot). fst (workspace j)) running)" using Cons by simp
    moreover have "fst (workspace j) \<noteq> fst (workspace j')" if "(j', n', pn') \<in> set running" for j' n' pn'
    proof
      assume "fst (workspace j) = fst (workspace j')"
      then have same: "job_project j = job_project j' \<and> job_project_slot j = job_project_slot j' \<or> job_id j = job_id j'"
        unfolding workspace_same by (simp split: option.splits)
      have "job_id j \<noteq> job_id j'" using Cons.prems(2) r that by force
      moreover have "job_project_slot j = pn" "job_project_slot j' = pn'"
        using Cons.prems(1) r that by (auto simp: slots_match_def list_all_iff)
      moreover have "pn \<notin> set (project_slots (job_project j) running)"
      proof -
        have "distinct (project_slots (job_project j) ((j, n, pn) # running))"
          using Cons.prems(1) unfolding r slots_match_def by blast
        then show ?thesis unfolding project_slots_Cons by simp
      qed
      then have "job_project j' = job_project j \<Longrightarrow> pn' \<noteq> pn"
        using that by (force simp: project_slots_def)
      ultimately show False using same by metis
    qed
    ultimately show ?case using r by fastforce
  qed simp
  from this[OF m assms(2)] show ?thesis
    using inv m by (auto simp: pool_inv_def slots_match_def list_all_iff)
qed

section \<open>The pool is a bounded counter\<close>

inductive counter_step :: "nat \<Rightarrow> nat \<Rightarrow> nat \<Rightarrow> bool" for limit where
  enter: "n < limit \<Longrightarrow> counter_step limit n (n + 1)"
| leave: "counter_step limit (n + 1) n"
| stay: "counter_step limit n n"

text \<open>
  C13: the pool refines a counter that starts at zero, goes up only below \<open>concurrent\<close> and down by
  one: each step of the pool is one of the counter, on the number of jobs under way.
\<close>

theorem pool_refines_counter:
  assumes "pool_reachable concurrent s" "pool_step s s'"
  shows "busy (pool_start concurrent) = 0 \<and> counter_step concurrent (busy s) (busy s')"
proof -
  have inv: "pl_free s + busy s = concurrent" using pool_reachable_inv[OF assms(1)] by (simp add: pool_inv_def)
  have "counter_step concurrent (busy s) (busy s')" using assms(2)
  proof cases
    case take_permit
    then have "busy s < concurrent" "busy s' = busy s + 1" using inv by (simp_all add: busy_def)
    then show ?thesis using counter_step.enter by simp
  next
    case no_job
    then have "busy s = busy s' + 1" by (simp add: busy_def)
    then show ?thesis using counter_step.leave by simp
  next
    case dropped
    then have "busy s = busy s' + 1" by (simp add: busy_def)
    then show ?thesis using counter_step.leave by simp
  qed (simp_all add: busy_def counter_step.stay)
  then show ?thesis by (simp add: pool_start_def busy_def)
qed

section \<open>A concrete pool\<close>

definition sample_claimed :: pool where
  "sample_claimed = \<lparr>pl_free = 1, pl_holding = False, pl_spawned = [sample_job], pl_running = [], pl_ending = 0,
     pl_slots = no_slots\<rparr>"

definition sample_running :: pool where
  "sample_running = \<lparr>pl_free = 1, pl_holding = False, pl_spawned = [],
     pl_running = [(with_slot sample_job (0, 0), 0, 0)], pl_ending = 0,
     pl_slots = snd (acquire no_slots (job_project sample_job))\<rparr>"

lemma sample_claimed_reachable: "pool_reachable 2 sample_claimed"
proof -
  have "pool_reachable 2 ((pool_start 2)\<lparr>pl_free := 1, pl_holding := True\<rparr>)"
    using pool_reachable.step[OF pool_reachable.start pool_step.take_permit[of "pool_start 2"]]
    by (simp add: pool_start_def)
  from pool_reachable.step[OF this pool_step.claimed[of _ sample_job]] show ?thesis
    by (simp add: pool_start_def sample_claimed_def)
qed

lemma sample_step_started: "pool_step sample_claimed sample_running"
proof -
  have free: "free_from {||} 0 = 0" by (simp add: free_from.simps)
  have "acquire no_slots p = ((0, 0), snd (acquire no_slots p))" for p
    using free by (simp add: acquire_def Let_def lowest_free_def no_slots_def project_used_def)
  then have "acquire (pl_slots sample_claimed) (job_project sample_job) =
      ((0, 0), snd (acquire no_slots (job_project sample_job)))" by (simp add: sample_claimed_def)
  from pool_step.started[of sample_claimed "[]" sample_job "[]", OF _ this]
  show ?thesis by (simp add: sample_claimed_def sample_running_def)
qed

lemma running_jobs_separate_witness:
  "busy sample_running \<le> 2 \<and> list_all (\<lambda>(j, n, pn). n < 2) (pl_running sample_running)"
  using running_jobs_separate[OF pool_reachable.step[OF sample_claimed_reachable sample_step_started]]
  by (simp add: sample_running_def)

lemma pool_refines_counter_witness:
  "counter_step 2 (busy sample_claimed) (busy sample_running)"
  using pool_refines_counter[OF sample_claimed_reachable sample_step_started] by simp

end
