(* ===== verification/Token.thy ===== *)
theory Token
  imports S3 Duration
begin

text \<open>
  The rotated runner token on disk (\<open>src/runner_daemon/token.rs\<close>; the time of the reset is in
  \<open>Duration\<close>). The key derivation, JSON and files are parameters.
\<close>

record stored_token =
  st_replaces :: string
  st_token :: string
  st_obtained_at :: int
  st_expires_at :: "int option"

record token_store =
  ts_path :: string
  ts_replaces :: string

definition token_store_new :: "(string \<Rightarrow> string) \<Rightarrow> string \<Rightarrow> string \<Rightarrow> token_store" where
  "token_store_new derive_key state_dir config_token =
     \<lparr>ts_path = path_join state_dir ''runner_token.json'', ts_replaces = hex (derive_key config_token)\<rparr>"

text \<open>
  Files: reading one, and writing one atomically (a temporary file readable by its owner only,
  written, synced and renamed over the path), each of whose parts can fail.
\<close>

record 'w token_io =
  tk_read :: "string \<Rightarrow> 'w \<Rightarrow> string option"
  tk_from_json :: "string \<Rightarrow> stored_token option"
  tk_to_json :: "stored_token \<Rightarrow> string"
  tk_stage :: "string \<Rightarrow> 'w \<Rightarrow> (string, string) result \<times> 'w"
  tk_chmod :: "string \<Rightarrow> nat \<Rightarrow> 'w \<Rightarrow> (string, unit) result \<times> 'w"
  tk_write :: "string \<Rightarrow> string \<Rightarrow> 'w \<Rightarrow> (string, unit) result \<times> 'w"
  tk_sync :: "string \<Rightarrow> 'w \<Rightarrow> (string, unit) result \<times> 'w"
  tk_persist :: "string \<Rightarrow> string \<Rightarrow> 'w \<Rightarrow> (string, unit) result \<times> 'w"

definition token_load :: "'w token_io \<Rightarrow> token_store \<Rightarrow> 'w \<Rightarrow> stored_token option" where
  "token_load io ts w =
     (case Option.bind (tk_read io (ts_path ts) w) (tk_from_json io) of
        None \<Rightarrow> None
      | Some stored \<Rightarrow>
          if st_replaces stored = ts_replaces ts \<and> st_token stored \<noteq> [] then Some stored else None)"

definition token_save ::
  "'w token_io \<Rightarrow> token_store \<Rightarrow> string \<Rightarrow> int \<Rightarrow> int option \<Rightarrow> 'w \<Rightarrow> (chain, unit) result \<times> 'w" where
  "token_save io ts token obtained_at expires w =
     (let stored = \<lparr>st_replaces = ts_replaces ts, st_token = token, st_obtained_at = obtained_at,
          st_expires_at = expires\<rparr>;
          dir = (case parent_components (ts_path ts) of
                   Some cs \<Rightarrow> (if cs = [RootDir] then ''/''
                     else join ''/'' (map (\<lambda>c. case c of Normal n \<Rightarrow> n | ParentDir \<Rightarrow> ''..'' | CurDir \<Rightarrow> ''.'' | RootDir \<Rightarrow> []) cs))
                 | None \<Rightarrow> ''.'')
      in case tk_stage io dir w of
           (Inl e, w1) \<Rightarrow> (Inl [''Failed to create a file in '' @ dir, e], w1)
         | (Inr staged, w1) \<Rightarrow>
             (case tk_chmod io staged 384 w1 of
                (Inl e, w2) \<Rightarrow> (Inl [e], w2)
              | (Inr _, w2) \<Rightarrow>
                  (case tk_write io staged (tk_to_json io stored) w2 of
                     (Inl e, w3) \<Rightarrow> (Inl [e], w3)
                   | (Inr _, w3) \<Rightarrow>
                       (case tk_sync io staged w3 of
                          (Inl e, w4) \<Rightarrow> (Inl [e], w4)
                        | (Inr _, w4) \<Rightarrow>
                            (case tk_persist io staged (ts_path ts) w4 of
                               (Inl e, w5) \<Rightarrow> (Inl [''Failed to save '' @ ts_path ts, e], w5)
                             | (Inr _, w5) \<Rightarrow> (Inr (), w5))))))"

text \<open>
  What is documented of files and JSON: \<open>file w p\<close> is the content of the file at \<open>p\<close>; a file that
  is written and renamed is there with its content, and until then the old one is untouched.
\<close>

definition token_files :: "'w token_io \<Rightarrow> ('w \<Rightarrow> string \<Rightarrow> string option) \<Rightarrow> string \<Rightarrow> bool" where
  "token_files io content path \<longleftrightarrow>
     (\<forall>p w. tk_read io p w = content w p) \<and> (\<forall>s. tk_from_json io (tk_to_json io s) = Some s) \<and>
     (\<forall>d w r w'. tk_stage io d w = (r, w') \<longrightarrow> content w' path = content w path \<and> r \<noteq> Inr path) \<and>
     (\<forall>f m w r w'. tk_chmod io f m w = (r, w') \<longrightarrow> content w' = content w) \<and>
     (\<forall>f s w r w'. f \<noteq> path \<and> tk_write io f s w = (r, w') \<longrightarrow>
        content w' path = content w path \<and> (r = Inr () \<longrightarrow> content w' f = Some s)) \<and>
     (\<forall>f w r w'. tk_sync io f w = (r, w') \<longrightarrow> content w' = content w) \<and>
     (\<forall>f w r w'. tk_persist io f path w = (r, w') \<longrightarrow>
        content w' path = (case r of Inr _ \<Rightarrow> content w f | Inl _ \<Rightarrow> content w path))"

lemma token_files_laws:
  assumes "token_files io content path"
  shows "tk_stage io d w = (r, w') \<Longrightarrow> content w' path = content w path \<and> r \<noteq> Inr path"
    and "tk_chmod io f m w = (q, w') \<Longrightarrow> content w' = content w"
    and "f \<noteq> path \<Longrightarrow> tk_write io f x w = (q, w') \<Longrightarrow>
      content w' path = content w path \<and> (q = Inr () \<longrightarrow> content w' f = Some x)"
    and "tk_sync io f w = (q, w') \<Longrightarrow> content w' = content w"
    and "tk_persist io f path w = (q, w') \<Longrightarrow>
      content w' path = (case q of Inr _ \<Rightarrow> content w f | Inl _ \<Rightarrow> content w path)"
    and "tk_read io path w = content w path" and "tk_from_json io (tk_to_json io s) = Some s"
  subgoal using assms unfolding token_files_def by metis
  subgoal using assms unfolding token_files_def by metis
  subgoal using assms unfolding token_files_def by metis
  subgoal using assms unfolding token_files_def by metis
  subgoal using assms unfolding token_files_def by metis
  subgoal using assms unfolding token_files_def by metis
  subgoal using assms unfolding token_files_def by metis
  done

text \<open>Saving is all or nothing: the token can be loaded afterwards, or the old file is still there.\<close>

lemma token_save_atomic:
  assumes io: "token_files io content (ts_path ts)"
    and save: "token_save io ts token obtained expires w = (r, w')"
  shows "content w' (ts_path ts) = (case r of
      Inr _ \<Rightarrow> Some (tk_to_json io \<lparr>st_replaces = ts_replaces ts, st_token = token, st_obtained_at = obtained,
          st_expires_at = expires\<rparr>)
    | Inl _ \<Rightarrow> content w (ts_path ts))"
proof -
  let ?json = "tk_to_json io \<lparr>st_replaces = ts_replaces ts, st_token = token, st_obtained_at = obtained,
      st_expires_at = expires\<rparr>" and ?p = "ts_path ts"
  let ?dir = "case parent_components ?p of
                   Some cs \<Rightarrow> (if cs = [RootDir] then ''/''
                     else join ''/'' (map (\<lambda>c. case c of Normal n \<Rightarrow> n | ParentDir \<Rightarrow> ''..'' | CurDir \<Rightarrow> ''.'' | RootDir \<Rightarrow> []) cs))
                 | None \<Rightarrow> ''.''"
  obtain s w1 where s: "tk_stage io ?dir w = (s, w1)" by (meson surj_pair)
  note run = save[unfolded token_save_def Let_def s prod.case]
  have c1: "content w1 ?p = content w ?p" "s \<noteq> Inr ?p"
    using token_files_laws(1)[OF io s] by simp_all
  show ?thesis
  proof (cases s)
    case (Inr f)
    then have f: "f \<noteq> ?p" using c1(2) by auto
    obtain a w2 where a: "tk_chmod io f 384 w1 = (a, w2)" by (meson surj_pair)
    obtain b w3 where b: "tk_write io f ?json w2 = (b, w3)" by (meson surj_pair)
    obtain d w4 where d: "tk_sync io f w3 = (d, w4)" by (meson surj_pair)
    obtain e w5 where e: "tk_persist io f ?p w4 = (e, w5)" by (meson surj_pair)
    have c: "content w2 = content w1" "content w3 ?p = content w2 ?p"
        "b = Inr () \<longrightarrow> content w3 f = Some ?json" "content w4 = content w3"
        "content w5 ?p = (case e of Inr _ \<Rightarrow> content w4 f | Inl _ \<Rightarrow> content w4 ?p)"
      using token_files_laws(2)[OF io a] token_files_laws(3)[OF io f b] token_files_laws(4)[OF io d]
        token_files_laws(5)[OF io e] by simp_all
    show ?thesis using run Inr a b d e c c1
      by (cases a; cases b; cases d; cases e) auto
  qed (use run c1 in auto)
qed

lemma token_load_saved:
  assumes io: "token_files io content (ts_path ts)" and token: "token \<noteq> []"
    and save: "token_save io ts token obtained expires w = (Inr (), w')"
  shows "token_load io ts w' = Some \<lparr>st_replaces = ts_replaces ts, st_token = token,
    st_obtained_at = obtained, st_expires_at = expires\<rparr>"
  using token_save_atomic[OF io save] token_files_laws(6,7)[OF io] token by (simp add: token_load_def)

end
