(* ===== verification/Daemon.thy ===== *)
theory Daemon
  imports Docker Job_Cache Net Slots Token Patterns
begin

text \<open>
  The runner daemon (\<open>src/runner_daemon/mod.rs\<close>): what it adds to a job, the run of a job from the
  workspace to the final report, the restores and uploads around the executor, and the token and
  scrubber it starts with. The executors are those of \<open>Runners\<close> and \<open>Docker\<close>; the record \<open>platform\<close> has
  what lies outside (HTTP, files, processes, Docker, the other tasks of the daemon).
\<close>

section \<open>What the runner adds to a job\<close>

definition attempts :: "job \<Rightarrow> string \<Rightarrow> nat" where
  "attempts j key =
     (let n = (case Option.bind (variable_value j key) parse_u32 of Some n \<Rightarrow> n | None \<Rightarrow> 1)
      in max 1 (min 10 n))"

text \<open>\<open>job_variables\<close> of the source: the values for expanding names and cache keys.\<close>

definition job_values :: "job \<Rightarrow> (string \<rightharpoonup> string)" where
  "job_values j = map_of (je_vars (make_job_env j [] [] runner_vars_default))"

definition runner_variable :: "string \<Rightarrow> string \<Rightarrow> bool \<Rightarrow> variable" where
  "runner_variable key given raw = \<lparr>var_key = key, var_value = Some given, var_public = True, var_masked = False,
     var_raw = raw, var_file = False, var_internal = True\<rparr>"

text \<open>Each is inserted at the front, one after another.\<close>

definition push_front :: "(string \<times> string) list \<Rightarrow> bool \<Rightarrow> job \<Rightarrow> job" where
  "push_front kvs raw j = j\<lparr>job_variables :=
     foldl (\<lambda>vars (key, v). runner_variable key v raw # vars) (job_variables j) kvs\<rparr>"

definition job_aliases :: "job \<Rightarrow> runner_config \<Rightarrow> string list" where
  "job_aliases j config =
     concat (map (\<lambda>(name, alias). service_aliases (expand name (job_values j)) alias)
       (map (\<lambda>s. (scf_name s, scf_alias s)) (dc_services (ec_docker (rc_executor config))) @
        map (\<lambda>s. (svc_name s, svc_alias s)) (job_services j)))"

definition proxy_variables :: "runner_config \<Rightarrow> job \<Rightarrow> (string \<times> string) list" where
  "proxy_variables config j =
     (case rc_proxy config of
        None \<Rightarrow> []
      | Some proxy \<Rightarrow>
          (let no_proxy = effective_no_proxy (rc_no_proxy config) (job_aliases j config) in
           [(''HTTP_PROXY'', proxy), (''HTTPS_PROXY'', proxy), (''http_proxy'', proxy),
             (''https_proxy'', proxy), (''NO_PROXY'', no_proxy), (''no_proxy'', no_proxy)]))"

definition with_proxy :: "runner_config \<Rightarrow> job \<Rightarrow> job" where
  "with_proxy config j = push_front (proxy_variables config j) True j"

definition environment_variable :: "string \<Rightarrow> variable option" where
  "environment_variable entry =
     map_option (\<lambda>(key, v). runner_variable (trim key) v False) (split_once ''='' entry)"

definition runner_hook :: "string \<Rightarrow> string option \<Rightarrow> json list \<Rightarrow> json list" where
  "runner_hook name script hooks =
     (case script of
        None \<Rightarrow> hooks
      | Some s \<Rightarrow> JObj [(''name'', JStr name), (''script'', JArr [JStr s])] # hooks)"

definition with_build_scripts :: "runner_config \<Rightarrow> step \<Rightarrow> step" where
  "with_build_scripts config s =
     (if step_name s \<noteq> ''script'' then s
      else s\<lparr>step_before_script :=
               (case rc_pre_build_script config of Some x \<Rightarrow> [x] | None \<Rightarrow> []) @ step_before_script s,
             step_script :=
               step.step_script s @ (case rc_post_build_script config of Some x \<Rightarrow> [x] | None \<Rightarrow> [])\<rparr>)"

definition apply_runner_config :: "runner_config \<Rightarrow> job \<Rightarrow> job" where
  "apply_runner_config config j =
     (let j1 = with_proxy config j;
          j2 = j1\<lparr>job_variables := job_variables j1 @ filter_map environment_variable (rc_environment config)\<rparr>
      in j2\<lparr>job_hooks :=
              runner_hook ''pre_get_sources_script'' (rc_pre_get_sources_script config)
                (runner_hook ''post_get_sources_script'' (rc_post_get_sources_script config) (job_hooks j2)),
            job_steps := map (with_build_scripts config) (job_steps j2)\<rparr>)"

definition executable_arch :: "string \<Rightarrow> string \<Rightarrow> string" where
  "executable_arch os arch =
     go_os os @ ''/'' @ (if arch = ''x86_64'' then ''amd64'' else if arch = ''aarch64'' then ''arm64''
       else if arch = ''x86'' then ''386'' else arch)"

definition short_token :: "string \<Rightarrow> string" where
  "short_token token =
     (let rest = (case strip_prefix ''glrtr-'' token of
            Some r \<Rightarrow> r
          | None \<Rightarrow> (case strip_prefix ''glrt-'' token of Some r \<Rightarrow> r | None \<Rightarrow> token));
          rest' = (case rest of
              a # b # c # others \<Rightarrow>
                if a = CHR ''t'' \<and> b \<in> {CHR ''1'', CHR ''2'', CHR ''3''} \<and> c = CHR ''_'' then others else rest
            | _ \<Rightarrow> rest)
      in take_chars 9 rest')"

record build_facts =
  bf_version :: string
  bf_revision :: string
  bf_os :: string
  bf_arch :: string

definition slot_variables :: "build_facts \<Rightarrow> string \<Rightarrow> nat \<times> nat \<Rightarrow> (string \<times> string) list" where
  "slot_variables bf token slot =
     [(''CI_CONCURRENT_ID'', dec (fst slot)), (''CI_CONCURRENT_PROJECT_ID'', dec (snd slot)),
      (''CI_RUNNER_VERSION'', bf_version bf), (''CI_RUNNER_REVISION'', bf_revision bf),
      (''CI_RUNNER_EXECUTABLE_ARCH'', executable_arch (bf_os bf) (bf_arch bf)),
      (''CI_RUNNER_SHORT_TOKEN'', short_token token)]"

text \<open>What \<open>execute_job\<close> makes of a job before it runs.\<close>

definition prepare_job :: "build_facts \<Rightarrow> runner_config \<Rightarrow> string \<Rightarrow> nat \<times> nat \<Rightarrow> job \<Rightarrow> job" where
  "prepare_job bf config token slot j =
     apply_runner_config config (with_slot (push_front (slot_variables bf token slot) False j) slot)"

section \<open>Which value a variable has\<close>

lemma rfind_append: "rfind p (xs @ ys) = (case rfind p ys of Some y \<Rightarrow> Some y | None \<Rightarrow> rfind p xs)"
proof -
  have "find p (us @ vs) = (case find p us of Some y \<Rightarrow> Some y | None \<Rightarrow> find p vs)" for us vs
    by (induction us) auto
  then show ?thesis unfolding rfind_def rev_append by blast
qed

lemma push_front_variables:
  "job_variables (push_front kvs raw j) = map (\<lambda>(key, v). runner_variable key v raw) (rev kvs) @ job_variables j"
proof -
  have "foldl (\<lambda>vars (key, v). runner_variable key v raw # vars) vs kvs =
      map (\<lambda>(key, v). runner_variable key v raw) (rev kvs) @ vs" for vs
    by (induction kvs arbitrary: vs) auto
  then show ?thesis by (simp add: push_front_def)
qed

lemma find_pushed:
  "find (\<lambda>v. var_key v = key) (map (\<lambda>(k, v). runner_variable k v raw) kvs) =
     map_option (\<lambda>v. runner_variable key v raw) (map_of kvs key)"
  by (induction kvs) (auto simp: runner_variable_def)

lemma pushed_value:
  "variable_value (push_front kvs raw j) key =
     (if key \<in> var_key ` set (job_variables j) then variable_value j key else map_of kvs key)"
proof -
  let ?has = "\<lambda>v. var_key v = key"
  have none: "rfind ?has (job_variables j) = None \<longleftrightarrow> key \<notin> var_key ` set (job_variables j)"
    by (force simp: rfind_def find_None_iff)
  have "rfind ?has (map (\<lambda>(k, v). runner_variable k v raw) (rev kvs)) =
      map_option (\<lambda>v. runner_variable key v raw) (map_of kvs key)"
    using find_pushed by (simp add: rfind_def rev_map)
  moreover have "var_value (runner_variable k v b) = Some v" for k v b by (simp add: runner_variable_def)
  ultimately have "variable_value (push_front kvs raw j) key =
      (case rfind ?has (job_variables j) of Some v \<Rightarrow> var_value v | None \<Rightarrow> map_of kvs key)"
    by (cases "map_of kvs key")
      (simp_all add: variable_value_def last_variable_def push_front_variables rfind_append split: option.split)
  then show ?thesis
    using none by (cases "rfind ?has (job_variables j)") (simp_all add: variable_value_def last_variable_def)
qed

lemma pushed_keys: "var_key ` set (job_variables (push_front kvs raw j)) =
    fst ` set kvs \<union> var_key ` set (job_variables j)"
  by (force simp: push_front_variables runner_variable_def)

lemma prepared_value:
  "variable_value (prepare_job bf config token slot j) key =
     (case rfind (\<lambda>v. var_key v = key) (filter_map environment_variable (rc_environment config)) of
        Some v \<Rightarrow> var_value v
      | None \<Rightarrow>
          if key \<in> var_key ` set (job_variables j) then variable_value j key
          else if key \<in> fst ` set (slot_variables bf token slot) then map_of (slot_variables bf token slot) key
          else map_of (proxy_variables config
            (with_slot (push_front (slot_variables bf token slot) False j) slot)) key)"
proof -
  let ?j0 = "push_front (slot_variables bf token slot) False j"
  let ?j1 = "with_proxy config (with_slot ?j0 slot)"
  have vars: "job_variables (with_slot ?j0 slot) = job_variables ?j0" by (simp add: with_slot_def)
  then have same: "variable_value (with_slot ?j0 slot) key = variable_value ?j0 key"
    by (simp add: variable_value_def)
  have "variable_value ?j1 key =
      (if key \<in> var_key ` set (job_variables j) then variable_value j key
       else if key \<in> fst ` set (slot_variables bf token slot) then map_of (slot_variables bf token slot) key
       else map_of (proxy_variables config (with_slot ?j0 slot)) key)"
    unfolding with_proxy_def pushed_value same vars pushed_keys by auto
  moreover have "job_variables (prepare_job bf config token slot j) =
      job_variables ?j1 @ filter_map environment_variable (rc_environment config)"
    by (simp add: prepare_job_def apply_runner_config_def Let_def)
  ultimately show ?thesis
    by (simp add: variable_value_def last_variable_def rfind_append split: option.split)
qed

text \<open>
  C33: an entry of the configuration's \<open>environment\<close> wins over everything, the last of several over
  the others; then comes the job's own last variable of the name, then what the runner adds
  (\<open>CI_CONCURRENT_ID\<close> and the others), then the proxy variables. A name is taken from the next
  one only when the ones before do not have it at all.
\<close>

theorem variable_precedence:
  "variable_value (prepare_job bf config token slot j) key =
     (case rfind (\<lambda>v. var_key v = key) (filter_map environment_variable (rc_environment config)) of
        Some v \<Rightarrow> var_value v
      | None \<Rightarrow>
          if key \<in> var_key ` set (job_variables j) then variable_value j key
          else if key \<in> fst ` set (slot_variables bf token slot) then map_of (slot_variables bf token slot) key
          else map_of (proxy_variables config
            (with_slot (push_front (slot_variables bf token slot) False j) slot)) key)"
  by (rule prepared_value)

text \<open>
  C34: two jobs that are alike but for their slots get the same volumes for paths such as \<open>/cache\<close>
  exactly when their project slots agree or the job or the configuration sets
  \<open>CI_CONCURRENT_PROJECT_ID\<close> itself: the name is taken from the variable, which a pipeline can set,
  while the workspace is always taken from the slot.
\<close>

theorem volumes_follow_variable:
  "volume_name dh (prepare_job bf config token s1 j) v = volume_name dh (prepare_job bf config token s2 j) v \<longleftrightarrow>
     snd s1 = snd s2 \<or> ''CI_CONCURRENT_PROJECT_ID'' \<in> var_key ` set (job_variables j) \<union>
       var_key ` set (filter_map environment_variable (rc_environment config))"
proof -
  let ?key = "''CI_CONCURRENT_PROJECT_ID''" and ?env = "filter_map environment_variable (rc_environment config)"
  have project: "job_project (prepare_job bf config token s j) = job_project j" for s
    by (simp add: prepare_job_def apply_runner_config_def with_proxy_def push_front_def with_slot_def
        job_project_def Let_def)
  have slot: "map_of (slot_variables bf token s) ?key = Some (dec (snd s))"
    "?key \<in> fst ` set (slot_variables bf token s)" for s
    by (simp_all add: slot_variables_def)
  have none: "rfind (\<lambda>v. var_key v = ?key) ?env = None \<longleftrightarrow> ?key \<notin> var_key ` set ?env"
    by (force simp: rfind_def find_None_iff)
  show ?thesis
  proof (cases "?key \<in> var_key ` set (job_variables j) \<union> var_key ` set ?env")
    case True
    then have "variable_value (prepare_job bf config token s1 j) ?key =
        variable_value (prepare_job bf config token s2 j) ?key"
      using none by (auto simp: prepared_value split: option.split)
    then show ?thesis using True by (simp add: volume_name_def project)
  next
    case False
    then have "variable_value (prepare_job bf config token s j) ?key = Some (dec (snd s))" for s
      using none slot by (simp add: prepared_value)
    then show ?thesis
      using False dec_sep_inj[of "CHR ''-''" "''-'' @ take 12 (dh_hash_hex dh v)" "''-'' @ take 12 (dh_hash_hex dh v)" "snd s1" "snd s2"]
      by (auto simp: volume_name_def project is_ascii_digit_def)
  qed
qed

section \<open>The platform\<close>

text \<open>
  \<open>pf_beats\<close> is what has happened to the job's heartbeat since it was looked at last; \<open>pf_race\<close> and \<open>pf_race_save\<close> are the \<open>select!\<close> of a restore with its
  limits and of a save with an abort; \<open>pf_stopped\<close> is the stop flag of a restore.
\<close>

datatype beat_event = BeatTick | BeatAbort

datatype executor_type = DockerExecutor docker_executor | ShellExecutor shell_executor

record ('h, 'f, 'w) platform =
  pf_io :: "'w http"
  pf_docker :: "'w docker_api"
  pf_docker_host :: "'w docker_host"
  pf_shell :: "'w shell_os"
  pf_git :: "string list \<Rightarrow> (string \<times> string) list \<Rightarrow> 'w \<Rightarrow> (string, bool \<times> string \<times> string) result \<times> 'w"
  pf_mkdirs :: "string \<Rightarrow> 'w \<Rightarrow> (string, unit) result \<times> 'w"
  pf_mkparent :: "string \<Rightarrow> 'w \<Rightarrow> (string, unit) result \<times> 'w"
  pf_write :: "string \<Rightarrow> string \<Rightarrow> 'w \<Rightarrow> (string, unit) result \<times> 'w"
  pf_rm :: "string \<Rightarrow> 'w \<Rightarrow> rm_result \<times> 'w"
  pf_disk :: "'w disk"
  pf_hash_hex :: "string \<Rightarrow> string"
  pf_archiver :: "'w archiver"
  pf_fs :: "('h, 'f, 'w) dir_fs"
  pf_open_zip :: "string \<Rightarrow> 'w \<Rightarrow> (string, (string, (string, zip_entry) result list) result) result \<times> 'w"
  pf_glob_escape :: "string \<Rightarrow> string"
  pf_stopped :: "'w \<Rightarrow> bool \<times> 'w"
  pf_beats :: "'w \<Rightarrow> beat_event list \<times> 'w"
  pf_shutdown :: "'w \<Rightarrow> shutdown"
  pf_race :: "limits \<Rightarrow> ('w state \<Rightarrow> job_outcome \<times> 'w state) \<Rightarrow> 'w state \<Rightarrow> restore_end \<times> 'w state"
  pf_race_save :: "('w \<Rightarrow> (chain, saved option) result \<times> 'w) \<Rightarrow> 'w \<Rightarrow> (chain, saved option) result option \<times> 'w"
  pf_use_workspace :: "string \<Rightarrow> 'w \<Rightarrow> 'w"
  pf_unuse_workspace :: "string \<Rightarrow> 'w \<Rightarrow> 'w"
  pf_last_eviction :: "'w \<Rightarrow> nat option"
  pf_set_eviction :: "nat \<Rightarrow> 'w \<Rightarrow> 'w"
  pf_spawn_eviction :: "nat \<Rightarrow> 'w \<Rightarrow> 'w"

record 'w daemon =
  dm_cache :: "'w local_cache"
  dm_config :: runner_config
  dm_client :: gitlab_client
  dm_executor :: executor_type
  dm_scrubber :: secret_scrubber
  dm_facts :: build_facts

text \<open>\<open>ExecutorType\<close>\<close>

fun builds_root :: "executor_type \<Rightarrow> string" where
  "builds_root (DockerExecutor dx) = docker_builds_root dx"
| "builds_root (ShellExecutor se) = se_work_dir se"

definition executor_dir :: "executor_type \<Rightarrow> job \<Rightarrow> string" where
  "executor_dir ex j = job_dir (builds_root ex) j"

fun with_ca_pem :: "string option \<Rightarrow> executor_type \<Rightarrow> executor_type" where
  "with_ca_pem pem (DockerExecutor dx) = DockerExecutor (dx\<lparr>dx_ca_pem := pem\<rparr>)"
| "with_ca_pem pem (ShellExecutor se) = ShellExecutor (se\<lparr>se_ca_pem := pem\<rparr>)"

fun execute ::
  "('h, 'f, 'w) platform \<Rightarrow> executor_type \<Rightarrow> (limits \<Rightarrow> 'w state \<Rightarrow> restore_end \<times> 'w state) \<Rightarrow> job \<Rightarrow>
     'w state \<Rightarrow> job_outcome \<times> 'w state" where
  "execute pf (DockerExecutor dx) restore j st =
     docker_execute (pf_io pf) (pf_docker pf) (pf_docker_host pf) dx restore j
       (executor_dir (DockerExecutor dx) j) st"
| "execute pf (ShellExecutor se) restore j st =
     shell_execute (pf_io pf) (pf_shell pf) (pf_mkdirs pf) (pf_mkparent pf) (pf_write pf) se restore j st"

definition untracked_files ::
  "('h, 'f, 'w) platform \<Rightarrow> executor_type \<Rightarrow> job \<Rightarrow> 'w \<Rightarrow> (chain, string list) result \<times> 'w" where
  "untracked_files pf ex j w =
     (let dir = executor_dir ex j; subdir = subdir_or_project j in
      case (case ex of
              DockerExecutor dx \<Rightarrow>
                docker_untracked_files (pf_docker pf) (pf_docker_host pf) dx (job_id j) dir subdir w
            | ShellExecutor se \<Rightarrow> shell_untracked_files (pf_git pf) (path_join dir subdir) w) of
        (Inl e, w1) \<Rightarrow> (Inl e, w1)
      | (Inr output, w1) \<Rightarrow> (Inr (untracked_list output), w1))"

definition sweep :: "('h, 'f, 'w) platform \<Rightarrow> executor_type \<Rightarrow> 'w \<Rightarrow> 'w" where
  "sweep pf ex w = (case ex of DockerExecutor dx \<Rightarrow> sweep_orphans (pf_docker pf) dx w | ShellExecutor _ \<Rightarrow> w)"

section \<open>The daemon and its heartbeats\<close>

definition HEARTBEAT_INTERVAL :: nat where "HEARTBEAT_INTERVAL = 15 * nanos"
definition EVICTION_INTERVAL :: nat where "EVICTION_INTERVAL = 3600 * nanos"

text \<open>The scrubber \<open>RunnerDaemon::new\<close> starts with, and the token in use: a rotated one, if saved.\<close>

definition first_token :: "runner_config \<Rightarrow> stored_token option \<Rightarrow> string" where
  "first_token config saved_token =
     (case saved_token of Some t \<Rightarrow> st_token t | None \<Rightarrow> rc_runner_token config)"

definition first_scrubber :: "runner_config \<Rightarrow> string \<Rightarrow> secret_scrubber" where
  "first_scrubber config token =
     (let sc = add_secret (scrubber_new [rc_runner_token config]) token;
          sc1 = (if CHR ''@'' \<in> set (rc_gitlab_url config) then add_secret sc (rc_gitlab_url config) else sc)
      in case rc_proxy config of
           Some proxy \<Rightarrow> if CHR ''@'' \<in> set proxy then add_secret sc1 proxy else sc1
         | None \<Rightarrow> sc1)"

text \<open>
  The heartbeat of a job: a tick asks GitLab for the job's state, an abort of the daemon ends it.
\<close>

fun heartbeat ::
  "'w http \<Rightarrow> gitlab_client \<Rightarrow> nat \<Rightarrow> string \<Rightarrow> beat_event list \<Rightarrow> remote_state \<Rightarrow> 'w \<Rightarrow> remote_state \<times> 'w" where
  "heartbeat io c jid token [] cancel w = (cancel, w)"
| "heartbeat io c jid token (BeatTick # evs) cancel w =
     (case touch_job io c jid token w of
        (Inl _, w1) \<Rightarrow> heartbeat io c jid token evs cancel w1
      | (Inr s, w1) \<Rightarrow> heartbeat io c jid token evs (cancel_update cancel s) w1)"
| "heartbeat io c jid token (BeatAbort # evs) cancel w = (cancel_update cancel Aborted, w)"

text \<open>Looking at the signal: what the heartbeat has told it is there.\<close>

definition look :: "('h, 'f, 'w) platform \<Rightarrow> 'w daemon \<Rightarrow> job \<Rightarrow> 'w state \<Rightarrow> 'w state" where
  "look pf dm j st =
     (case pf_beats pf (snd st) of
        (evs, w) \<Rightarrow>
          (case heartbeat (pf_io pf) (dm_client dm) (job_id j) (job_token j) evs (tw_cancel (fst st)) w of
             (cancel, w1) \<Rightarrow> (fst st\<lparr>tw_cancel := cancel\<rparr>, w1)))"

definition evict_workspaces :: "('h, 'f, 'w) platform \<Rightarrow> 'w daemon \<Rightarrow> 'w \<Rightarrow> 'w" where
  "evict_workspaces pf dm w =
     (let days = ec_workspace_max_age_days (rc_executor (dm_config dm)); now = http_now (pf_io pf) w;
          due = (days > 0 \<and> (case pf_last_eviction pf w of
                               None \<Rightarrow> True | Some t0 \<Rightarrow> now - t0 \<ge> EVICTION_INTERVAL))
      in if due then pf_spawn_eviction pf (days * 24 * 60 * 60 * nanos) (pf_set_eviction pf now w) else w)"

definition project_dir :: "'w daemon \<Rightarrow> job \<Rightarrow> string" where
  "project_dir dm j = path_join (executor_dir (dm_executor dm) j) (subdir_or_project j)"

section \<open>Restoring\<close>

definition pulls :: "cache \<Rightarrow> bool" where
  "pulls c \<longleftrightarrow> cache_policy c \<in> {''pull'', ''pull-push''}"

definition pushes :: "cache \<Rightarrow> bool" where
  "pushes c \<longleftrightarrow> cache_policy c \<in> {''push'', ''pull-push''}"

definition PROTECTED_FALLBACK :: string where
  "PROTECTED_FALLBACK = ''WARNING: CACHE_FALLBACK_KEY ending in -protected is not allowed, ignoring it'' @ [nl]"

definition fallback_refused :: "(string \<rightharpoonup> string) \<Rightarrow> bool" where
  "fallback_refused values_of =
     (case values_of ''CACHE_FALLBACK_KEY'' of
        None \<Rightarrow> False
      | Some key \<Rightarrow> suffix ''-protected'' (resolve_key key values_of))"

definition restore_keys_of :: "(string \<rightharpoonup> string) \<Rightarrow> cache \<Rightarrow> string list" where
  "restore_keys_of values_of c =
     map (\<lambda>key. resolve_key key values_of)
       (cache_key c # cache_fallback_keys c @
        (if fallback_refused values_of then []
         else (case values_of ''CACHE_FALLBACK_KEY'' of Some key \<Rightarrow> [key] | None \<Rightarrow> [])))"

text \<open>A key of ordinary characters stands for itself.\<close>

lemma key_char_byte: "key_char c \<Longrightarrow> 44 < byte c \<and> byte c < 128"
  by (auto simp: key_char_def ascii_defs)

lemma key_char_plain: "key_char c \<Longrightarrow> c \<noteq> CHR ''$'' \<and> ws_len (c # s) = 0 \<and> ws_len_rev (c # s) = 0"
  using key_char_byte[of c] by (auto simp: ascii_ws_def ws2_def ws3_def split: list.split)

lemma resolve_plain: "list_all key_char k \<Longrightarrow> k \<noteq> [] \<Longrightarrow> resolve_key k vs = k"
proof -
  assume k: "list_all key_char k" "k \<noteq> []"
  have "expand k vs = k" using k(1) key_char_plain by (intro expand_plain) (auto simp: list_all_iff)
  moreover have "trim_start k = k" using k key_char_plain by (intro trim_start_idle) (cases k, auto)
  moreover have "ws_len_rev (rev k) = 0" using k key_char_plain by (cases k rule: rev_cases) auto
  ultimately show ?thesis using k(2) by (simp add: resolve_key_def trim_def trim_end_def trim_rev.simps)
qed

text \<open>
  C35: a \<open>CACHE_FALLBACK_KEY\<close> that ends in \<open>-protected\<close> is never tried. The archive it protects can
  still be reached: with the key of a protected cache \<open>k\<close> that is too long for a file name, the
  fallback \<open>h-<hash of k>\<close> is accepted and restores the archive of \<open>k\<close>.
\<close>

theorem fallback_reaches_protected:
  assumes h: "hash_law h" and long: "long_key k" and vs: "vs ''CACHE_FALLBACK_KEY'' = Some (''h-'' @ h k)"
  shows "(\<forall>key. vs' ''CACHE_FALLBACK_KEY'' = Some key \<and> suffix ''-protected'' (resolve_key key vs') \<longrightarrow>
      restore_keys_of vs' c = map (\<lambda>key. resolve_key key vs') (cache_key c # cache_fallback_keys c)) \<and>
    \<not> fallback_refused vs \<and>
    archive_path h lc p (last (restore_keys_of vs c)) = archive_path h lc p k"
proof -
  have res: "resolve_key (''h-'' @ h k) vs = ''h-'' @ h k"
    using hash_chars[OF h, of k] by (intro resolve_plain) simp_all
  have len: "length (h k) = 64" and hex: "list_all is_ascii_hexdigit (h k)"
    using h by (simp_all add: hash_law_def)
  have "\<not> suffix ''-protected'' (''h-'' @ h k)"
  proof
    assume s: "suffix ''-protected'' (''h-'' @ h k)"
    have "suffix (h k) (''h-'' @ h k)" by (simp add: suffix_def)
    from suffix_length_suffix[OF s this] len have "suffix ''-protected'' (h k)" by simp
    then have "CHR ''-'' \<in> set (h k)" by (auto simp: suffix_def)
    then show False using hex by (auto simp: list_all_iff ascii_defs)
  qed
  then have ok: "\<not> fallback_refused vs" by (simp add: fallback_refused_def vs res del: append.simps)
  have lst: "last (restore_keys_of vs c) = ''h-'' @ h k"
    using ok res by (simp add: restore_keys_of_def vs)
  have "\<not> long_key (''h-'' @ h k)"
    using hashed_is_literal[OF h, of k] len by (simp add: long_key_def)
  then have "encode_key h (''h-'' @ h k) = encode_key h k"
    using encode_key_eq[OF h, of "''h-'' @ h k" k] long by simp
  then show ?thesis
    using ok lst by (auto simp: archive_path_def archive_name_def restore_keys_of_def fallback_refused_def)
qed

definition sample_values :: "string \<rightharpoonup> string" where
  "sample_values = [''CACHE_FALLBACK_KEY'' \<mapsto> ''h-'' @ replicate 64 (CHR ''a'')]"

definition sample_entry :: cache where
  "sample_entry = \<lparr>cache_key = ''deps'', cache_untracked = None, cache_paths = [''vendor/''],
     cache_policy = ''pull-push'', cache_when = None, cache_fallback_keys = []\<rparr>"

lemma fallback_reaches_protected_witness:
  "archive_path sample_hash sample_cache 1 (last (restore_keys_of sample_values sample_entry)) =
     archive_path sample_hash sample_cache 1 (replicate 201 (CHR ''k'') @ ''-protected'')"
proof -
  have law: "hash_law sample_hash" by (simp add: hash_law_def sample_hash_def list_all_iff ascii_defs)
  have "encode_key_bytes (replicate 201 (CHR ''k'') @ ''-protected'') = replicate 201 (CHR ''k'') @ ''-protected''"
    by (rule key.encode_safe) (simp add: list_all_iff key_char_def ascii_defs)
  then have long: "long_key (replicate 201 (CHR ''k'') @ ''-protected'')" by (simp add: long_key_def)
  show ?thesis
    using fallback_reaches_protected[OF law long, of sample_values Map.empty sample_entry sample_cache 1]
    by (simp add: sample_values_def sample_hash_def)
qed

text \<open>Up to \<open>n\<close> more attempts after one that failed.\<close>

fun again :: "nat \<Rightarrow> ('w \<Rightarrow> (chain, 'a) result \<times> 'w) \<Rightarrow> (chain, 'a) result \<times> 'w \<Rightarrow> (chain, 'a) result \<times> 'w" where
  "again 0 act r = r"
| "again (Suc n) act (Inr x, w) = (Inr x, w)"
| "again (Suc n) act (Inl _, w) = again n act (act w)"

definition restored_text :: "restore_outcome \<Rightarrow> string" where
  "restored_text r =
     (case ro_hit r of
        Some (key, src) \<Rightarrow> ''Successfully restored cache '' @ key @ '' ('' @ source_text src @ '')'' @ [nl]
      | None \<Rightarrow> ''No cache found'' @ [nl])"

definition write_warning :: "'w http \<Rightarrow> string \<Rightarrow> 'w state \<Rightarrow> 'w state" where
  "write_warning io text_of st = trace_write io (''WARNING: '' @ text_of @ [nl]) st"

definition restore_cache :: "('h, 'f, 'w) platform \<Rightarrow> 'w daemon \<Rightarrow> job \<Rightarrow> cache \<Rightarrow> 'w state \<Rightarrow> 'w state" where
  "restore_cache pf dm j c st =
     (let io = pf_io pf; values_of = job_values j; keys = restore_keys_of values_of c;
          st1 = (if fallback_refused values_of then trace_write io PROTECTED_FALLBACK st else st);
          st2 = trace_write io (''Restoring cache '' @ hd keys @ ''...'' @ [nl]) st1;
          act = cache_restore (pf_disk pf) (pf_hash_hex pf) (pf_stopped pf)
                  (extract_archive_file (pf_fs pf) (pf_stopped pf) (pf_open_zip pf)) (dm_cache dm) (job_project j)
                  keys (project_dir dm j)
      in case again (attempts j ''RESTORE_CACHE_ATTEMPTS'' - 1) act (act (snd st2)) of
           (Inr r, w) \<Rightarrow>
             trace_write io (restored_text r)
               (foldl (\<lambda>s warning. write_warning io warning s) (fst st2, w) (ro_warnings r))
         | (Inl e, w) \<Rightarrow>
             write_warning io (''Failed to restore cache: '' @ outermost e) (fst st2, w))"

definition has_artifacts :: "dependency \<Rightarrow> bool" where
  "has_artifacts d \<longleftrightarrow> dep_artifacts_file d \<noteq> None"

definition script_failure :: "string \<Rightarrow> job_failure" where
  "script_failure m = \<lparr>jf_reason = ScriptFailure, jf_exit_code = None, jf_message = m\<rparr>"

fun download_dependencies ::
  "('h, 'f, 'w) platform \<Rightarrow> 'w daemon \<Rightarrow> job \<Rightarrow> dependency list \<Rightarrow> 'w state \<Rightarrow> job_outcome \<times> 'w state" where
  "download_dependencies pf dm j [] st = (None, st)"
| "download_dependencies pf dm j (d # ds) st =
     (let st1 = trace_write (pf_io pf)
            (''Downloading artifacts from job #'' @ dec (dep_id d) @ '' ('' @ dep_name d @ '')...'' @ [nl]) st;
          act = download_and_extract_artifacts (pf_io pf) (pf_fs pf) (pf_stopped pf) (pf_open_zip pf)
                  (av_stage (pf_archiver pf)) (dm_client dm) (dep_id d) (dep_token d) (project_dir dm j)
                  (executor_dir (dm_executor dm) j)
      in case again (attempts j ''ARTIFACT_DOWNLOAD_ATTEMPTS'' - 1) act (act (snd st1)) of
           (Inr _, w) \<Rightarrow> download_dependencies pf dm j ds (fst st1, w)
         | (Inl e, w) \<Rightarrow>
             (Some (script_failure (''failed to download artifacts from job #'' @ dec (dep_id d) @ '' ('' @
                dep_name d @ ''): '' @ full_chain e)), (fst st1, w)))"

definition restore_workspace ::
  "('h, 'f, 'w) platform \<Rightarrow> 'w daemon \<Rightarrow> job \<Rightarrow> 'w state \<Rightarrow> job_outcome \<times> 'w state" where
  "restore_workspace pf dm j st =
     (let io = pf_io pf;
          st1 = (if rc_cache_enabled (dm_config dm) \<and> list_ex pulls (job_cache j) then
                   section_end io ''restore_cache''
                     (foldl (\<lambda>s c. restore_cache pf dm j c s) (section_start io ''restore_cache'' ''Restoring cache'' st)
                       (filter pulls (job_cache j)))
                 else st)
      in if \<not> list_ex has_artifacts (job_dependencies j) then (None, st1)
         else (case download_dependencies pf dm j (filter has_artifacts (job_dependencies j))
                      (section_start io ''download_artifacts'' ''Downloading artifacts'' st1) of
                 (outcome, st2) \<Rightarrow> (outcome, section_end io ''download_artifacts'' st2)))"

section \<open>Uploads\<close>

definition wanted :: "string option \<Rightarrow> bool \<Rightarrow> bool" where
  "wanted policy succeeded \<longleftrightarrow>
     (if policy = Some ''always'' then True else if policy = Some ''on_failure'' then \<not> succeeded else succeeded)"

definition untracked_if_needed ::
  "('h, 'f, 'w) platform \<Rightarrow> 'w daemon \<Rightarrow> job \<Rightarrow> bool \<Rightarrow> 'w state \<Rightarrow> string list \<times> 'w state" where
  "untracked_if_needed pf dm j needed st =
     (if \<not> needed then ([], st)
      else (case untracked_files pf (dm_executor dm) j (snd st) of
              (Inr paths, w) \<Rightarrow> (map (pf_glob_escape pf) paths, (fst st, w))
            | (Inl e, w) \<Rightarrow>
                ([], write_warning (pf_io pf) (''Could not list untracked files: '' @ full_chain e) (fst st, w))))"

definition artifact_name :: "(string \<rightharpoonup> string) \<Rightarrow> artifact \<Rightarrow> string" where
  "artifact_name values_of a =
     (case art_name a of
        Some name \<Rightarrow> (let n = expand name values_of in if n = [] then ''artifacts'' else n)
      | None \<Rightarrow> ''artifacts'')"

definition artifact_extension :: "string \<Rightarrow> string" where
  "artifact_extension format =
     (if format = ''gzip'' then ''.gz'' else if format = ''zip'' then ''.zip'' else [])"

definition artifact_paths :: "(string \<rightharpoonup> string) \<Rightarrow> string list \<Rightarrow> artifact \<Rightarrow> string list" where
  "artifact_paths values_of untracked a =
     map (\<lambda>p. expand p values_of) (art_paths a) @ (if art_untracked a then untracked else [])"

text \<open>One entry that is wanted and has paths: its archive is built and sent; the error, if any.\<close>

definition upload_artifact ::
  "('h, 'f, 'w) platform \<Rightarrow> 'w daemon \<Rightarrow> job \<Rightarrow> string list \<Rightarrow> artifact \<Rightarrow> 'w state \<Rightarrow> job_outcome \<times> 'w state" where
  "upload_artifact pf dm j paths a st =
     (let io = pf_io pf; values_of = job_values j; name = artifact_name values_of a;
          type = (case art_type a of Some t \<Rightarrow> t | None \<Rightarrow> ''archive'');
          format = (case art_format a of Some f \<Rightarrow> f | None \<Rightarrow> ''zip'');
          st1 = trace_write io (''Uploading artifacts ('' @ name @ '', '' @ type @ '')...'' @ [nl]) st;
          failed = (\<lambda>e st. (Some (script_failure (''uploading artifacts ('' @ name @ '') failed: '' @ e)),
            trace_write io (''ERROR: Uploading artifacts failed: '' @ e @ [nl]) st))
      in case create_archive (pf_archiver pf) (project_dir dm j) paths
                (map (\<lambda>p. expand p values_of) (art_exclude a)) format (executor_dir (dm_executor dm) j) (snd st1) of
           (Inl e, w) \<Rightarrow> failed (full_chain e) (fst st1, w)
         | (Inr None, w) \<Rightarrow>
             (None, write_warning io ''No files matched the artifact paths, nothing uploaded'' (fst st1, w))
         | (Inr (Some ar), w) \<Rightarrow>
             (case upload_artifacts io (dm_client dm) (job_id j) (job_token j)
                     \<lparr>up_path = ar_file ar, up_len = ar_len ar, up_file_name = name @ artifact_extension format,
                       up_format = format, up_artifact_type = type, up_expire_in = art_expire_in a\<rparr> w of
                (Inl e, w1) \<Rightarrow> failed (error_text e) (fst st1, w1)
              | (Inr _, w1) \<Rightarrow> (None, (fst st1, w1))))"

text \<open>The first failure is kept; later entries are uploaded all the same.\<close>

fun upload_entries ::
  "('h, 'f, 'w) platform \<Rightarrow> 'w daemon \<Rightarrow> job \<Rightarrow> bool \<Rightarrow> string list \<Rightarrow> artifact list \<Rightarrow> job_outcome \<Rightarrow> 'w state \<Rightarrow>
     job_outcome \<times> 'w state" where
  "upload_entries pf dm j succeeded untracked [] failure st = (failure, st)"
| "upload_entries pf dm j succeeded untracked (a # as) failure st =
     (let paths = artifact_paths (job_values j) untracked a in
      if \<not> wanted (art_when a) succeeded \<or> paths = [] then
        upload_entries pf dm j succeeded untracked as failure st
      else (case upload_artifact pf dm j paths a st of
              (r, st1) \<Rightarrow>
                upload_entries pf dm j succeeded untracked as (if failure = None then r else failure) st1))"

definition upload_job_artifacts ::
  "('h, 'f, 'w) platform \<Rightarrow> 'w daemon \<Rightarrow> job \<Rightarrow> bool \<Rightarrow> 'w state \<Rightarrow> job_outcome \<times> 'w state" where
  "upload_job_artifacts pf dm j succeeded st =
     (case job_artifacts j of
        None \<Rightarrow> (None, st)
      | Some artifacts \<Rightarrow>
          (case untracked_if_needed pf dm j (list_ex art_untracked artifacts) st of
             (untracked, st1) \<Rightarrow> upload_entries pf dm j succeeded untracked artifacts None st1))"

text \<open>One cache that is wanted; the answer \<open>False\<close>: the job was aborted and nothing more is saved.\<close>

definition save_entry ::
  "('h, 'f, 'w) platform \<Rightarrow> 'w daemon \<Rightarrow> job \<Rightarrow> cache \<Rightarrow> string list \<Rightarrow> 'w state \<Rightarrow> bool \<times> 'w state" where
  "save_entry pf dm j c paths st =
     (let io = pf_io pf; key = resolve_key (cache_key c) (job_values j);
          st1 = look pf dm j (trace_write io (''Saving cache '' @ key @ ''...'' @ [nl]) st);
          canceled = (\<lambda>st. (False, trace_write io (''Cache not saved: job canceled'' @ [nl]) st))
      in if cancel_reached Aborted (tw_cancel (fst st1)) then canceled st1
         else
           (case pf_race_save pf
                   (cache_save (pf_disk pf) (pf_hash_hex pf) (pf_archiver pf) (dm_cache dm) (job_project j) key
                     (project_dir dm j) paths) (snd st1) of
              (None, w) \<Rightarrow> canceled (raise_cancel Aborted (fst st1, w))
            | (Some (Inr (Some sv)), w) \<Rightarrow>
                (let st2 = trace_write io (''Created cache '' @ key @ '' ('' @ dec (sv_size sv) @ '' bytes)'' @ [nl])
                       (fst st1, w)
                 in (True,
                     (case sv_upload sv of
                        Some (Inr _) \<Rightarrow>
                          trace_write io (''Uploaded cache '' @ key @ '' to S3 ('' @ mb_text (sv_size sv) @ '' MB)'' @ [nl]) st2
                      | Some (Inl e) \<Rightarrow>
                          write_warning io (''cache '' @ key @ '' saved locally, not uploaded to S3: '' @ e) st2
                      | None \<Rightarrow> st2)))
            | (Some (Inr None), w) \<Rightarrow>
                (True, trace_write io (''No files matched the paths of cache '' @ key @ '', not saved'' @ [nl]) (fst st1, w))
            | (Some (Inl e), w) \<Rightarrow>
                (True, write_warning io (''Failed to save cache: '' @ outermost e) (fst st1, w))))"

fun save_entries ::
  "('h, 'f, 'w) platform \<Rightarrow> 'w daemon \<Rightarrow> job \<Rightarrow> bool \<Rightarrow> string list \<Rightarrow> cache list \<Rightarrow> 'w state \<Rightarrow> 'w state" where
  "save_entries pf dm j succeeded untracked [] st = st"
| "save_entries pf dm j succeeded untracked (c # cs) st =
     (let paths = map (\<lambda>p. expand p (job_values j)) (cache_paths c) @
            (if cache_untracked c = Some True then untracked else [])
      in if \<not> wanted (cache_when c) succeeded \<or> paths = [] \<or> \<not> pushes c then
           save_entries pf dm j succeeded untracked cs st
         else (case save_entry pf dm j c paths st of
                 (True, st1) \<Rightarrow> save_entries pf dm j succeeded untracked cs st1
               | (False, st1) \<Rightarrow> st1))"

definition upload_cache :: "('h, 'f, 'w) platform \<Rightarrow> 'w daemon \<Rightarrow> job \<Rightarrow> bool \<Rightarrow> 'w state \<Rightarrow> 'w state" where
  "upload_cache pf dm j succeeded st =
     (if \<not> rc_cache_enabled (dm_config dm) then st
      else (case untracked_if_needed pf dm j (list_ex (\<lambda>c. cache_untracked c = Some True) (job_cache j)) st of
              (untracked, st1) \<Rightarrow> save_entries pf dm j succeeded untracked (job_cache j) st1))"

section \<open>A job from start to report\<close>

definition in_section :: "'w http \<Rightarrow> bool \<Rightarrow> string \<Rightarrow> string \<Rightarrow> ('w state \<Rightarrow> 'a \<times> 'w state) \<Rightarrow> 'w state \<Rightarrow> 'a \<times> 'w state" where
  "in_section io shown name title act st =
     (if shown then (case act (section_start io name title st) of (r, st1) \<Rightarrow> (r, section_end io name st1))
      else act st)"

definition result_word :: "job_outcome \<Rightarrow> string" where
  "result_word outcome = (if outcome = None then ''successful'' else ''failed'')"

text \<open>What follows the executor, unless the job was aborted.\<close>

definition upload_all ::
  "('h, 'f, 'w) platform \<Rightarrow> 'w daemon \<Rightarrow> job \<Rightarrow> job_outcome \<Rightarrow> 'w state \<Rightarrow> job_outcome \<times> 'w state" where
  "upload_all pf dm j outcome st =
     (let io = pf_io pf in
      case in_section io (case job_artifacts j of Some as \<Rightarrow> as \<noteq> [] | None \<Rightarrow> False)
             (if outcome = None then ''upload_artifacts_on_success'' else ''upload_artifacts_on_failure'')
             (''Uploading artifacts for '' @ result_word outcome @ '' job'')
             (upload_job_artifacts pf dm j (outcome = None)) st of
        (uploaded, st1) \<Rightarrow>
          (let outcome' = (if outcome = None then uploaded else outcome) in
           (outcome',
            snd (in_section io (rc_cache_enabled (dm_config dm) \<and> list_ex pushes (job_cache j)) ''archive_cache''
                  (''Saving cache for '' @ result_word outcome' @ '' job'')
                  (\<lambda>st. ((), upload_cache pf dm j (outcome' = None) st)) st1))))"

definition restore_race ::
  "('h, 'f, 'w) platform \<Rightarrow> 'w daemon \<Rightarrow> job \<Rightarrow> limits \<Rightarrow> 'w state \<Rightarrow> restore_end \<times> 'w state" where
  "restore_race pf dm j lm st = pf_race pf lm (restore_workspace pf dm j) st"

definition prepare_and_execute ::
  "('h, 'f, 'w) platform \<Rightarrow> 'w daemon \<Rightarrow> job \<Rightarrow> 'w state \<Rightarrow> job_outcome \<times> 'w state" where
  "prepare_and_execute pf dm j st =
     (case (case prepare (pf_mkdirs pf) (\<lambda>p. pf_write pf p []) (pf_rm pf) (builds_root (dm_executor dm)) j (snd st) of
              (Inl e, w) \<Rightarrow> (Inl e, w)
            | (Inr _, w) \<Rightarrow> pf_mkdirs pf (project_dir dm j) w) of
        (Inl e, w) \<Rightarrow> (Some (system_failure (''Failed to create workspace: '' @ e)), (fst st, w))
      | (Inr _, w) \<Rightarrow> execute pf (dm_executor dm) (restore_race pf dm j) j (fst st, w))"

definition stopped_by :: "shutdown \<Rightarrow> bool" where
  "stopped_by mode \<longleftrightarrow> mode = Abort"

text \<open>Jobs stopped by a shutdown are the runner's failure.\<close>

definition shutdown_outcome :: "bool \<Rightarrow> job_outcome \<Rightarrow> job_outcome" where
  "shutdown_outcome stopping outcome =
     map_option (\<lambda>f. if stopping \<and> jf_reason f = JobCanceled
       then f\<lparr>jf_reason := RunnerSystemFailure, jf_message := ''the runner is shutting down''\<rparr> else f) outcome"

definition final_text :: "secret_scrubber \<Rightarrow> job_outcome \<Rightarrow> string" where
  "final_text sc outcome =
     (case outcome of
        None \<Rightarrow> [nl] @ ''Job succeeded'' @ [nl]
      | Some f \<Rightarrow> [nl] @ ''ERROR: Job failed: '' @ scrub sc (jf_message f) @ [nl])"

definition report ::
  "'w http \<Rightarrow> gitlab_client \<Rightarrow> job \<Rightarrow> job_outcome \<Rightarrow> 'w \<Rightarrow> (string, unit) result \<times> 'w" where
  "report io c j outcome w =
     (case outcome of
        None \<Rightarrow> update_job io c (job_id j) (job_token j) Success None None w
      | Some f \<Rightarrow> update_job io c (job_id j) (job_token j) Failed (Some (jf_reason f)) (jf_exit_code f) w)"

definition job_scrubber :: "'w daemon \<Rightarrow> job \<Rightarrow> secret_scrubber" where
  "job_scrubber dm j = with_job_secrets (dm_scrubber dm) j"

text \<open>The job until its workspace is given back: its outcome and its trace.\<close>

definition work ::
  "('h, 'f, 'w) platform \<Rightarrow> 'w daemon \<Rightarrow> job \<Rightarrow> 'w \<Rightarrow> job_outcome \<times> 'w state" where
  "work pf dm j w =
     (let io = pf_io pf; ws = executor_dir (dm_executor dm) j;
          st = trace_write io (''Running with TurboCI '' @ bf_version (dm_facts dm) @ [nl])
            (trace_new (Some (dm_client dm)) (job_id j) (job_token j) (job_scrubber dm j) (http_now io w), w)
      in case prepare_and_execute pf dm j (fst st, evict_workspaces pf dm (pf_use_workspace pf ws (snd st))) of
           (outcome, st1) \<Rightarrow>
             (let st2 = look pf dm j st1 in
              case (if tw_cancel (fst st2) = Aborted then (outcome, st2) else upload_all pf dm j outcome st2) of
                (outcome', st3) \<Rightarrow>
                  (outcome', (fst st3, pf_unuse_workspace pf ws
                     (cleanup (pf_rm pf) (builds_root (dm_executor dm)) j
                       (ec_workspace_max_age_days (rc_executor (dm_config dm)) > 0) (snd st3))))))"

text \<open>The end: the final lines, the rest of the trace and the report. The heartbeat is over.\<close>

definition conclude ::
  "('h, 'f, 'w) platform \<Rightarrow> 'w daemon \<Rightarrow> job \<Rightarrow> bool \<Rightarrow> job_outcome \<Rightarrow> 'w state \<Rightarrow>
     (string, unit) result \<times> 'w state" where
  "conclude pf dm j stopping outcome st =
     (let io = pf_io pf;
          st1 = trace_finish io (trace_write io (final_text (job_scrubber dm j) outcome) st)
      in if tw_cancel (fst st1) = Aborted \<and> \<not> stopping then (Inr (), st1)
         else (case report io (dm_client dm) j outcome (snd st1) of (r, w) \<Rightarrow> (r, (fst st1, w))))"

definition run_job ::
  "('h, 'f, 'w) platform \<Rightarrow> 'w daemon \<Rightarrow> job \<Rightarrow> 'w \<Rightarrow> (string, unit) result \<times> 'w state" where
  "run_job pf dm j w =
     (case work pf dm j w of
        (outcome, st) \<Rightarrow>
          (let st1 = look pf dm j st; stopping = stopped_by (pf_shutdown pf (snd st1))
           in conclude pf dm j stopping (shutdown_outcome stopping outcome) st1))"

definition execute_job ::
  "('h, 'f, 'w) platform \<Rightarrow> 'w daemon \<Rightarrow> string \<Rightarrow> nat \<times> nat \<Rightarrow> job \<Rightarrow> 'w \<Rightarrow> (string, unit) result \<times> 'w state" where
  "execute_job pf dm token slot j w =
     run_job pf dm (prepare_job (dm_facts dm) (dm_config dm) token slot j) w"

end
