(* ===== verification/System_Id.thy ===== *)
theory System_Id
  imports S3
begin

text \<open>
  The runner's system ID (\<open>src/runner_daemon/system_id.rs\<close>). The key derivation, random UUIDs and
  files are parameters.
\<close>

definition ID_LENGTH :: nat where "ID_LENGTH = 12"

definition MACHINE_ID_PATHS :: "string list" where
  "MACHINE_ID_PATHS = [''/etc/machine-id'', ''/var/lib/dbus/machine-id'']"

definition id_is_valid :: "string \<Rightarrow> bool" where
  "id_is_valid i \<longleftrightarrow> length i = ID_LENGTH + 2 \<and> take 2 i \<in> {''s_'', ''r_''} \<and>
     list_all is_ascii_alnum (drop 2 i)"

definition from_machine_id :: "(string \<Rightarrow> string) \<Rightarrow> string \<Rightarrow> string" where
  "from_machine_id derive_key machine_id = ''s_'' @ take ID_LENGTH (hex (derive_key machine_id))"

definition random_id :: "string \<Rightarrow> string" where
  "random_id uuid = ''r_'' @ take ID_LENGTH uuid"

definition generate_id ::
  "(string \<Rightarrow> string) \<Rightarrow> (string \<Rightarrow> 'w \<Rightarrow> string option) \<Rightarrow> ('w \<Rightarrow> string) \<Rightarrow> string \<Rightarrow> 'w \<Rightarrow> string" where
  "generate_id derive_key read_file uuid instance_name w =
     (case find (\<lambda>i. i \<noteq> []) (filter_map (\<lambda>p. map_option trim (read_file p w)) MACHINE_ID_PATHS) of
        Some i \<Rightarrow> from_machine_id derive_key (i @ instance_name)
      | None \<Rightarrow> random_id (uuid w))"

definition load_or_create ::
  "(string \<Rightarrow> string) \<Rightarrow> (string \<Rightarrow> 'w \<Rightarrow> string option) \<Rightarrow> ('w \<Rightarrow> string) \<Rightarrow> (string \<Rightarrow> string \<Rightarrow> 'w \<Rightarrow> 'w) \<Rightarrow>
     string \<Rightarrow> string \<Rightarrow> 'w \<Rightarrow> string \<times> 'w" where
  "load_or_create derive_key read_file uuid write_file state_file instance_name w =
     (case map_option trim (read_file state_file w) of
        Some i \<Rightarrow> if id_is_valid i then (i, w)
                 else (let i = generate_id derive_key read_file uuid instance_name w in (i, write_file state_file i w))
      | None \<Rightarrow> (let i = generate_id derive_key read_file uuid instance_name w in (i, write_file state_file i w)))"

lemma hex_lower_alnum: "d < 16 \<Longrightarrow> is_ascii_alnum (hex_lower d)"
  by (auto simp: hex_lower_def ascii_defs)

lemma hex_alnum: "list_all is_ascii_alnum (hex s)"
proof -
  have "byte c div 16 < 16" "byte c mod 16 < 16" for c :: char using nat_of_char_less_256[of c] by linarith+
  then show ?thesis using hex_lower_alnum by (induction s) (auto simp: hex_def)
qed

lemma length_hex: "length (hex s) = 2 * length s"
  by (induction s) (simp_all add: hex_def)

text \<open>The ID the runner uses is always well formed, so the next start reads the saved one back.\<close>

lemma load_or_create_valid:
  assumes key: "\<And>s. 6 \<le> length (derive_key s)" and uuid: "\<And>w. 12 \<le> length (uuid w) \<and> list_all is_ascii_alnum (uuid w)"
  shows "id_is_valid (fst (load_or_create derive_key read_file uuid write_file state_file instance_name w))"
proof -
  have m: "id_is_valid (from_machine_id derive_key s)" for s
    using key[of s] hex_alnum[of "derive_key s"]
    by (auto simp: id_is_valid_def from_machine_id_def ID_LENGTH_def length_hex list_all_iff dest: in_set_takeD)
  have r: "id_is_valid (random_id (uuid w))" for w
    using uuid[of w] by (auto simp: id_is_valid_def random_id_def ID_LENGTH_def list_all_iff dest: in_set_takeD)
  have "id_is_valid (generate_id derive_key read_file uuid instance_name w)"
    using m r by (simp add: generate_id_def split: option.split)
  then show ?thesis by (simp add: load_or_create_def Let_def split: option.split)
qed

end
