(* ===== verification/Startup.thy ===== *)
theory Startup
  imports Daemon System_Id
begin

text \<open>
  The start of the runner (\<open>main\<close> with \<open>RunnerStart\<close> in \<open>src/main.rs\<close>, \<open>RunnerDaemon::new\<close> and
  \<open>with_s3_cache\<close>): how a configuration file becomes the daemon that runs the jobs, and what holds of
  every daemon that starts. Parsing the command line, installing the signal handlers and what is only logged (the probes of Docker
  and S3 in the background among it) are left out.
\<close>

text \<open>
  The outside: files, parsers, key derivation, the HTTP and Docker clients. \<open>su_http_client\<close> builds a
  client with the settings of \<open>Net\<close>.
\<close>

record ('c, 'w) startup_io =
  su_parse_url :: "string \<Rightarrow> (string, url) result"
  su_read_ca :: "string \<Rightarrow> (string, nat) result"
  su_from_toml :: "string \<Rightarrow> (string, runner_config) result"
  su_read_file :: "string \<Rightarrow> (string, string) result"
  su_derive_key :: "string \<Rightarrow> string"
  su_token_key :: "string \<Rightarrow> string"
  su_read_id :: "string \<Rightarrow> 'w \<Rightarrow> string option"
  su_uuid :: "'w \<Rightarrow> string"
  su_write_id :: "string \<Rightarrow> string \<Rightarrow> 'w \<Rightarrow> 'w"
  su_proxy_url :: "string \<Rightarrow> (string, unit) result"
  su_no_proxy_from :: "string \<Rightarrow> string option"
  su_read_pem :: "string \<Rightarrow> (string, 'c list) result"
  su_http_client :: "'c client_setting list \<Rightarrow> (string, unit) result"
  su_connect :: "(string, unit) result"
  su_tokens :: "'w token_io"
  su_s3 :: "'w s3_io"
  su_hashes :: hashes
  su_facts :: build_facts

text \<open>Runners installed side by side get an ID of their own, the packaged one the machine's.\<close>

definition instance_name :: "string \<Rightarrow> string" where
  "instance_name config = (if config = ''/etc/turboci-runner.toml'' then [] else config)"

text \<open>\<open>GitLabClient::new\<close> with the ID and the executor's name; its HTTP client follows below.\<close>

definition client_new :: "build_facts \<Rightarrow> string \<Rightarrow> string \<Rightarrow> string \<Rightarrow> gitlab_client" where
  "client_new facts gitlab_url system_id executor =
     with_executor (with_system_id \<lparr>gl_url = gitlab_url, gl_system_id = [], gl_executor = ''docker'',
       gl_version = bf_version facts, gl_os = bf_os facts, gl_arch = bf_arch facts\<rparr> system_id) executor"

definition with_network :: "('c, 'w) startup_io \<Rightarrow> network \<Rightarrow> (chain, unit) result" where
  "with_network io nw =
     rbind (network_client_builder (su_proxy_url io) (su_no_proxy_from io) (su_read_pem io) nw) (\<lambda>settings.
       case su_http_client io settings of Inl e \<Rightarrow> Inl [''Failed to build HTTP client'', e] | Inr _ \<Rightarrow> Inr ())"

definition make_executor :: "('c, 'w) startup_io \<Rightarrow> runner_config \<Rightarrow> string \<Rightarrow> (chain, executor_type) result" where
  "make_executor io c system_id =
     (let kind = ec_executor_type (rc_executor c) in
      if kind = ''shell'' then Inr (ShellExecutor (shell_new (Some (sh_work_dir (ec_shell (rc_executor c))))))
      else if kind = ''docker'' then
        rbind (docker_new (su_connect io) (su_read_ca io) (ec_docker (rc_executor c)))
          (\<lambda>dx. Inr (DockerExecutor (with_owner dx system_id)))
      else Inl [''Unknown executor type: '' @ kind @ ''. Use '' @ [sq] @ ''shell'' @ [sq] @ '' or '' @ [sq] @
                ''docker'' @ [sq]])"

text \<open>\<open>RunnerDaemon::new\<close>, before the S3 layer of the cache.\<close>

definition daemon_new ::
  "('c, 'w) startup_io \<Rightarrow> runner_config \<Rightarrow> gitlab_client \<Rightarrow> executor_type \<Rightarrow> 'w \<Rightarrow> 'w daemon" where
  "daemon_new io c client ex w =
     (let ts = token_store_new (su_token_key io) (rc_state_dir c) (rc_runner_token c);
          token = first_token c (token_load (su_tokens io) ts w)
      in \<lparr>dm_cache = with_max_age_days (local_cache_new (rc_cache_dir c)) (rc_cache_max_age_days c),
          dm_config = c, dm_client = client, dm_executor = ex,
          dm_scrubber = first_scrubber c token, dm_facts = su_facts io\<rparr>)"

definition with_s3_cache :: "('c, 'w) startup_io \<Rightarrow> network \<Rightarrow> 'w daemon \<Rightarrow> (chain, 'w daemon) result" where
  "with_s3_cache io nw dm =
     (case s3_cache (dm_config dm) of
        None \<Rightarrow> Inr dm
      | Some s3 \<Rightarrow>
          rbind (network_client_builder (su_proxy_url io) (su_no_proxy_from io) (su_read_pem io) nw) (\<lambda>settings.
          rbind (bucket_new (su_parse_url io) (su_http_client io settings) s3) (\<lambda>bk.
            Inr (dm\<lparr>dm_cache := with_remote (dm_cache dm) (s3_remote (su_s3 io) (su_hashes io) bk)\<rparr>))))"

definition runner_start :: "('c, 'w) startup_io \<Rightarrow> string \<Rightarrow> 'w \<Rightarrow> (chain, 'w daemon) result \<times> 'w" where
  "runner_start io config w =
     (case config_load (su_parse_url io) (su_read_ca io) (su_from_toml io) (su_read_file io) config of
        Inl e \<Rightarrow> (Inl e, w)
      | Inr c \<Rightarrow>
          (case load_or_create (su_derive_key io) (su_read_id io) (su_uuid io) (su_write_id io)
              (path_join (rc_state_dir c) ''.runner_system_id'') (instance_name config) w of
             (system_id, w1) \<Rightarrow>
               (rbind (config_network (su_read_file io) c) (\<lambda>nw.
                rbind (with_network io nw) (\<lambda>_.
                rbind (make_executor io c system_id) (\<lambda>ex.
                with_s3_cache io nw
                  (daemon_new io c (client_new (su_facts io) (rc_gitlab_url c) system_id
                      (ec_executor_type (rc_executor c)))
                     (with_ca_pem (nw_ca_pem nw) ex) w1)))), w1)))"

section \<open>What holds of a daemon that starts\<close>

text \<open>The kind of executor, by the name the configuration and GitLab know it by.\<close>

fun executor_name :: "executor_type \<Rightarrow> string" where
  "executor_name (DockerExecutor _) = ''docker''"
| "executor_name (ShellExecutor _) = ''shell''"

fun executor_ca :: "executor_type \<Rightarrow> string option" where
  "executor_ca (DockerExecutor dx) = dx_ca_pem dx"
| "executor_ca (ShellExecutor se) = se_ca_pem se"

lemma check_ok: "check b m = Inr u \<longleftrightarrow> b"
  by (auto simp: check_def)

lemma validated_facts:
  assumes "validate parse_url read_ca c = Inr u"
  shows "rc_concurrent c > 0" "trim (rc_runner_token c) \<noteq> []" "ec_executor_type (rc_executor c) \<in> {''docker'', ''shell''}"
    "validate_docker read_ca (ec_docker (rc_executor c)) = Inr ()"
  using assms unfolding validate_def by (auto simp: rbind_Inr_conv check_ok)

lemma make_executor_ok:
  assumes "make_executor io c system_id = Inr ex"
  shows "executor_name ex = ec_executor_type (rc_executor c)"
    "executor_ca (with_ca_pem pem ex) = pem" "executor_name (with_ca_pem pem ex) = executor_name ex"
    "ex = DockerExecutor dx \<Longrightarrow> dx_owner dx = system_id \<and> dx_config dx = ec_docker (rc_executor c)"
  using assms
  by (auto simp: make_executor_def Let_def rbind_Inr_conv docker_new_def with_owner_def split: if_splits sum.splits)

lemma load_valid:
  "config_load parse_url read_ca from_toml read_file path = Inr c \<Longrightarrow> validate parse_url read_ca c = Inr ()"
  by (auto simp: config_load_def rbind_Inr_conv split: sum.splits)

lemma s3_layer:
  assumes "with_s3_cache io nw dm = Inr dm'"
  shows "dm' = dm\<lparr>dm_cache := dm_cache dm'\<rparr>"
    "lc_remote (dm_cache dm) = None \<Longrightarrow>
       lc_remote (dm_cache dm') \<noteq> None \<longleftrightarrow> rc_cache_s3 (dm_config dm) \<noteq> None \<and> rc_cache_enabled (dm_config dm)"
  using assms
  by (auto simp: with_s3_cache_def s3_cache_def rbind_Inr_conv with_remote_def split: option.splits if_splits)

lemma client_facts:
  "gl_executor (client_new facts u i e) = e" "gl_system_id (client_new facts u i e) = i"
  by (simp_all add: client_new_def with_executor_def with_system_id_def)

lemma daemon_new_facts:
  "dm_config (daemon_new io c cl ex w) = c" "dm_client (daemon_new io c cl ex w) = cl"
  "dm_executor (daemon_new io c cl ex w) = ex" "lc_remote (dm_cache (daemon_new io c cl ex w)) = None"
  "rc_runner_token c \<in> set (sc_secrets (dm_scrubber (daemon_new io c cl ex w)))"
  "sc_patterns (dm_scrubber (daemon_new io c cl ex w)) = default_patterns"
  by (auto simp: daemon_new_def Let_def with_max_age_days_def local_cache_new_def first_scrubber_def add_secret_def
      scrubber_new_def split: option.split)


section \<open>A concrete start\<close>

definition sample_settings :: runner_config where
  "sample_settings = runner_config_default\<lparr>rc_runner_token := ''glrt-token'',
     rc_executor := (rc_executor runner_config_default)\<lparr>ec_executor_type := ''shell''\<rparr>\<rparr>"

definition sample_startup :: "(unit, string list) startup_io" where
  "sample_startup = \<lparr>su_parse_url = (\<lambda>_. Inl ''no URL''), su_read_ca = (\<lambda>_. Inl ''no file''),
     su_from_toml = (\<lambda>_. Inr sample_settings), su_read_file = (\<lambda>_. Inr []),
     su_derive_key = (\<lambda>_. ''derived''), su_token_key = (\<lambda>_. ''derived''),
     su_read_id = (\<lambda>_ _. None), su_uuid = (\<lambda>_. ''0123456789ab''), su_write_id = (\<lambda>_ i w. w @ [i]),
     su_proxy_url = (\<lambda>_. Inr ()), su_no_proxy_from = (\<lambda>_. None), su_read_pem = (\<lambda>_. Inl ''no PEM''),
     su_http_client = (\<lambda>_. Inr ()), su_connect = Inl ''no Docker'',
     su_tokens = \<lparr>tk_read = (\<lambda>_ _. None), tk_from_json = (\<lambda>_. None), tk_to_json = (\<lambda>_. []),
       tk_stage = (\<lambda>_ w. (Inr [], w)), tk_chmod = (\<lambda>_ _ w. (Inr (), w)), tk_write = (\<lambda>_ _ w. (Inr (), w)),
       tk_sync = (\<lambda>_ w. (Inr (), w)), tk_persist = (\<lambda>_ _ w. (Inr (), w))\<rparr>,
     su_s3 = \<lparr>si_send = (\<lambda>_ w. ([], w)), si_sleep = (\<lambda>_ w. w), si_now = (\<lambda>_. 0), si_amz_date = (\<lambda>_. []),
       si_breaker = (\<lambda>_. None), si_set_breaker = (\<lambda>_ w. w), si_open_len = (\<lambda>_ w. (Inl [], w)),
       si_metadata_len = (\<lambda>_ w. (Inl [], w)), si_read = (\<lambda>_ w. (Inl [], w)), si_stage = (\<lambda>_ w. (Inl [], w)),
       si_append = (\<lambda>_ _ w. (Inr (), w))\<rparr>,
     su_hashes = \<lparr>hs_sha256 = id, hs_hmac = (\<lambda>_ s. s)\<rparr>,
     su_facts = \<lparr>bf_version = ''1'', bf_revision = ''1'', bf_os = ''linux'', bf_arch = ''amd64''\<rparr>\<rparr>"


end
