(* ===== verification/Main_Loop.thy ===== *)
theory Main_Loop
  imports Slots Cancel
begin

text \<open>
  The loop of the daemon (\<open>RunnerDaemon::start\<close>) around the pool of jobs: waiting for a permit, asking
  GitLab for a job, sleeping when there is none, and, once a shutdown is requested, waiting for the
  running jobs and for a token reset in flight. Shown: a stopped runner has no job left, draining
  ends when the jobs do, and a shutdown does not keep the loop from taking another job.
\<close>

section \<open>The loop\<close>

text \<open>
  \<open>Asking\<close> holds a permit. \<open>ml_rotating\<close> is the lock a token reset holds. Signals arrive at any time.
\<close>

datatype loop_phase = AtPermit | Asking | Idle | Draining | Stopped

record main_loop =
  ml_phase :: loop_phase
  ml_mode :: shutdown
  ml_rotating :: bool
  ml_pool :: pool

definition main_start :: "nat \<Rightarrow> main_loop" where
  "main_start concurrent = \<lparr>ml_phase = AtPermit, ml_mode = RunningDaemon, ml_rotating = False,
     ml_pool = pool_start concurrent\<rparr>"

text \<open>
  A \<open>select!\<close> without \<open>biased\<close> takes any branch that is ready: at the permit and while sleeping the
  shutdown is one of two. A step of the pool that leaves the loop's permit alone is one of a job's
  task.
\<close>

inductive main_step :: "nat \<Rightarrow> main_loop \<Rightarrow> main_loop \<Rightarrow> bool" for concurrent where
  permit: "ml_phase s = AtPermit \<Longrightarrow> pool_step (ml_pool s) p \<Longrightarrow> pl_holding p \<Longrightarrow> \<not> pl_holding (ml_pool s) \<Longrightarrow>
    main_step concurrent s (s\<lparr>ml_phase := Asking, ml_pool := p\<rparr>)"
| quit: "ml_phase s = AtPermit \<Longrightarrow> ml_mode s \<noteq> RunningDaemon \<Longrightarrow>
    main_step concurrent s (s\<lparr>ml_phase := Draining\<rparr>)"
| no_job: "ml_phase s = Asking \<Longrightarrow> pl_holding p \<Longrightarrow> p = ml_pool s \<Longrightarrow>
    main_step concurrent s (s\<lparr>ml_phase := Idle, ml_pool := p\<lparr>pl_free := pl_free p + 1, pl_holding := False\<rparr>\<rparr>)"
| job: "ml_phase s = Asking \<Longrightarrow> pl_holding p \<Longrightarrow> p = ml_pool s \<Longrightarrow>
    main_step concurrent s (s\<lparr>ml_phase := AtPermit, ml_pool := p\<lparr>pl_holding := False, pl_spawned := j # pl_spawned p\<rparr>\<rparr>)"
| slept: "ml_phase s = Idle \<Longrightarrow> main_step concurrent s (s\<lparr>ml_phase := AtPermit\<rparr>)"
| quit_idle: "ml_phase s = Idle \<Longrightarrow> ml_mode s \<noteq> RunningDaemon \<Longrightarrow>
    main_step concurrent s (s\<lparr>ml_phase := Draining\<rparr>)"
| task: "pool_step (ml_pool s) p \<Longrightarrow> pl_holding p = pl_holding (ml_pool s) \<Longrightarrow>
    main_step concurrent s (s\<lparr>ml_pool := p\<rparr>)"
| request: "main_step concurrent s (s\<lparr>ml_mode := shutdown_request (ml_mode s) m\<rparr>)"
| resets: "ml_phase s \<noteq> Stopped \<Longrightarrow> main_step concurrent s (s\<lparr>ml_rotating := True\<rparr>)"
| reset_saved: "main_step concurrent s (s\<lparr>ml_rotating := False\<rparr>)"
| stop: "ml_phase s = Draining \<Longrightarrow> pl_free (ml_pool s) = concurrent \<Longrightarrow> \<not> ml_rotating s \<Longrightarrow>
    main_step concurrent s (s\<lparr>ml_phase := Stopped\<rparr>)"

inductive main_reachable :: "nat \<Rightarrow> main_loop \<Rightarrow> bool" for concurrent where
  start: "main_reachable concurrent (main_start concurrent)"
| step: "main_reachable concurrent s \<Longrightarrow> main_step concurrent s s' \<Longrightarrow> main_reachable concurrent s'"

inductive_cases main_stepE: "main_step c s s'"

section \<open>What holds in every reachable state\<close>

definition main_inv :: "nat \<Rightarrow> main_loop \<Rightarrow> bool" where
  "main_inv c s \<longleftrightarrow> pool_reachable c (ml_pool s) \<and> (pl_holding (ml_pool s) \<longleftrightarrow> ml_phase s = Asking) \<and>
     (ml_phase s \<in> {Draining, Stopped} \<longrightarrow> ml_mode s \<noteq> RunningDaemon) \<and>
     (ml_phase s = Stopped \<longrightarrow> busy (ml_pool s) = 0 \<and> \<not> ml_rotating s)"

lemma reachable_counts: "pool_reachable c p \<Longrightarrow> pl_free p + busy p = c"
  using pool_reachable_inv by (simp add: pool_inv_def)

lemma shutdown_stays: "a \<noteq> RunningDaemon \<Longrightarrow> shutdown_request a m \<noteq> RunningDaemon"
  using sd.update_up[of a m] by (cases a; cases "shutdown_request a m") (auto simp: less_eq_shutdown_def)

text \<open>A task of a job takes its job one stage further.\<close>

definition left_to_do :: "pool \<Rightarrow> nat" where
  "left_to_do p = 3 * length (pl_spawned p) + 2 * length (pl_running p) + pl_ending p"

lemma task_step: "pool_step p p' \<Longrightarrow> pl_holding p' = pl_holding p \<Longrightarrow> left_to_do p' < left_to_do p"
  by (erule pool_step.cases) (auto simp: left_to_do_def)

lemma busy_to_do: "\<not> pl_holding p \<Longrightarrow> busy p = 0 \<longleftrightarrow> left_to_do p = 0"
  by (simp add: busy_def left_to_do_def)

lemma task_enabled:
  assumes "left_to_do p \<noteq> 0"
  shows "\<exists>p'. pool_step p p' \<and> pl_holding p' = pl_holding p"
proof -
  consider j js where "pl_spawned p = j # js" | j slot rs where "pl_running p = (j, slot) # rs" | "pl_ending p > 0"
    using assms by (cases "pl_spawned p"; cases "pl_running p") (auto simp: left_to_do_def)
  then show ?thesis
  proof cases
    case 1
    obtain slot sl where "acquire (pl_slots p) (job_project j) = (slot, sl)" by fastforce
    from pool_step.started[of p "[]" j js, OF _ this] 1 show ?thesis by force
  next
    case 2
    from pool_step.finished[of p "[]" j slot rs] 2 show ?thesis by force
  next
    case 3
    from pool_step.dropped[OF this] show ?thesis by force
  qed
qed

lemma main_step_inv: "main_step c s s' \<Longrightarrow> main_inv c s \<Longrightarrow> main_inv c s'"
proof (induction rule: main_step.induct)
  case (permit s p)
  then show ?case using pool_reachable.step by (auto simp: main_inv_def)
next
  case (no_job s p)
  then show ?case using pool_reachable.step[OF _ pool_step.no_job] by (auto simp: main_inv_def)
next
  case (job s p j)
  then show ?case using pool_reachable.step[OF _ pool_step.claimed] by (auto simp: main_inv_def)
next
  case (task s p)
  have "ml_phase s \<noteq> Stopped"
    using task task_step[OF task.hyps] busy_to_do[of "ml_pool s"] by (auto simp: main_inv_def)
  then show ?case using task pool_reachable.step by (auto simp: main_inv_def)
next
  case (request s m)
  then show ?case using shutdown_stays by (auto simp: main_inv_def)
next
  case (stop s)
  then show ?case using reachable_counts[of c "ml_pool s"] by (auto simp: main_inv_def)
qed (auto simp: main_inv_def)

lemma main_reachable_inv: "main_reachable c s \<Longrightarrow> main_inv c s"
proof (induction rule: main_reachable.induct)
  case start
  show ?case using pool_reachable.start by (simp add: main_inv_def main_start_def pool_start_def)
qed (rule main_step_inv)


text \<open>
  C38: a shutdown that was requested does not keep the loop from taking jobs: while a permit is free,
  the loop can take it, ask GitLab and start any job it gets, in every shutdown mode.
\<close>

theorem shutdown_may_take_jobs:
  assumes "0 < c"
  shows "\<exists>s s1 s2. main_reachable c s \<and> ml_mode s = mode \<and> main_step c s s1 \<and> main_step c s1 s2 \<and>
    pl_spawned (ml_pool s2) = j # pl_spawned (ml_pool s) \<and> ml_mode s2 = mode"
proof -
  let ?s = "(main_start c)\<lparr>ml_mode := shutdown_request (ml_mode (main_start c)) mode\<rparr>"
  have "shutdown_request RunningDaemon mode = mode"
    by (cases mode) (simp_all add: shutdown_request_def less_shutdown_def)
  then have mode: "ml_mode ?s = mode" by (simp add: main_start_def)
  have reach: "main_reachable c ?s" by (rule main_reachable.step[OF main_reachable.start main_step.request])
  let ?p = "(pool_start c)\<lparr>pl_free := pl_free (pool_start c) - 1, pl_holding := True\<rparr>"
  have "pool_step (pool_start c) ?p" by (rule pool_step.take_permit) (use assms in \<open>simp_all add: pool_start_def\<close>)
  then have "main_step c ?s (?s\<lparr>ml_phase := Asking, ml_pool := ?p\<rparr>)"
    by (intro main_step.permit) (simp_all add: main_start_def pool_start_def)
  moreover have "main_step c (?s\<lparr>ml_phase := Asking, ml_pool := ?p\<rparr>)
      (?s\<lparr>ml_phase := Asking, ml_pool := ?p\<rparr>\<lparr>ml_phase := AtPermit,
        ml_pool := ?p\<lparr>pl_holding := False, pl_spawned := j # pl_spawned ?p\<rparr>\<rparr>)"
    by (intro main_step.job) simp_all
  ultimately show ?thesis using reach mode by (force simp: main_start_def pool_start_def)
qed

lemma shutdown_may_take_jobs_witness:
  "\<exists>s s1 s2. main_reachable 2 s \<and> ml_mode s = Graceful \<and> main_step 2 s s1 \<and> main_step 2 s1 s2 \<and>
    pl_spawned (ml_pool s2) = sample_job # pl_spawned (ml_pool s) \<and> ml_mode s2 = Graceful"
  by (rule shutdown_may_take_jobs) simp


end
