(* ===== verification/Rotation.thy ===== *)
theory Rotation
  imports Daemon "HOL-Library.Countable"
begin

text \<open>
  The rotation of the runner's token (\<open>RunnerDaemon::rotate_token\<close>): one round after another, until
  the token does not expire or cannot be saved. GitLab ends the old token when it gives a new one,
  so what counts is that the token in use is the one a restart finds.
\<close>

section \<open>Rounds\<close>

record rotation =
  rt_token :: string
  rt_scrubber :: secret_scrubber
  rt_expiry :: "(int \<times> int) option"

text \<open>\<open>token::now\<close> and the parsing of replies are parameters, as in \<open>Gitlab_Client\<close> and \<open>Token\<close>.\<close>

record 'w rotation_io =
  ro_io :: "'w http"
  ro_files :: "'w token_io"
  ro_parse :: "string \<Rightarrow> (string, token_response) result"
  ro_rfc3339 :: "string \<Rightarrow> int option"
  ro_now :: "'w \<Rightarrow> int"

datatype 'w round_end = Again rotation 'w | Over rotation 'w

fun end_rotation :: "'w round_end \<Rightarrow> rotation" where
  "end_rotation (Again rt w) = rt"
| "end_rotation (Over rt w) = rt"

fun end_world :: "'w round_end \<Rightarrow> 'w" where
  "end_world (Again rt w) = w"
| "end_world (Over rt w) = w"

definition RETRY_MS :: nat where "RETRY_MS = 10 * 60 * 1000"
definition RECHECK_MS :: nat where "RECHECK_MS = 60 * 60 * 1000"

text \<open>A round in which the expiry is known: from the wait to the reset.\<close>

definition reset_round ::
  "'w rotation_io \<Rightarrow> gitlab_client \<Rightarrow> token_store \<Rightarrow> rotation \<Rightarrow> int \<Rightarrow> int \<Rightarrow> 'w \<Rightarrow> 'w round_end" where
  "reset_round io c ts rt0 obtained_at expires w0 =
     (let rt = rt0\<lparr>rt_expiry := Some (obtained_at, expires)\<rparr>;
          wait = reset_time obtained_at expires - ro_now io w0;
          w = (if wait > 0 then http_sleep (ro_io io) (nat wait * 1000) w0 else w0)
      in case token_save (ro_files io) ts (rt_token rt) obtained_at (Some expires) w of
           (Inl _, w1) \<Rightarrow> Over rt w1
         | (Inr _, w1) \<Rightarrow>
             (case reset_runner_token (ro_io io) (ro_parse io) (ro_rfc3339 io) c (rt_token rt) w1 of
                (Inl _, w2) \<Rightarrow> Again rt (http_sleep (ro_io io) RETRY_MS w2)
              | (Inr (new, new_expiry), w2) \<Rightarrow>
                  (let now = ro_now io w2;
                       w3 = snd (token_save (ro_files io) ts new now new_expiry w2);
                       rt' = rt\<lparr>rt_scrubber := add_secret (rt_scrubber rt) new, rt_token := new\<rparr>
                   in case new_expiry of
                        Some e \<Rightarrow> Again (rt'\<lparr>rt_expiry := Some (now, e)\<rparr>) w3
                      | None \<Rightarrow> Over rt' w3)))"

definition rotation_round ::
  "'w rotation_io \<Rightarrow> gitlab_client \<Rightarrow> token_store \<Rightarrow> rotation \<Rightarrow> 'w \<Rightarrow> 'w round_end" where
  "rotation_round io c ts rt w =
     (case rt_expiry rt of
        Some (obtained_at, expires) \<Rightarrow> reset_round io c ts rt obtained_at expires w
      | None \<Rightarrow>
          (case verify_runner (ro_io io) (ro_parse io) (ro_rfc3339 io) c (rt_token rt) w of
             (Inr (Some expires), w1) \<Rightarrow> reset_round io c ts rt (ro_now io w1) expires w1
           | (Inr None, w1) \<Rightarrow> Over rt w1
           | (Inl _, w1) \<Rightarrow> Again rt (http_sleep (ro_io io) RECHECK_MS w1)))"

text \<open>What the rotation starts with, and \<open>n\<close> rounds of it (it may go on for ever).\<close>

definition rotation_start :: "'w token_io \<Rightarrow> token_store \<Rightarrow> runner_config \<Rightarrow> 'w \<Rightarrow> rotation" where
  "rotation_start files ts config w =
     (let stored = token_load files ts w; token = first_token config stored in
      \<lparr>rt_token = token, rt_scrubber = first_scrubber config token,
       rt_expiry = Option.bind stored (\<lambda>s. map_option (\<lambda>e. (st_obtained_at s, e)) (st_expires_at s))\<rparr>)"

fun rotate_token :: "nat \<Rightarrow> 'w rotation_io \<Rightarrow> gitlab_client \<Rightarrow> token_store \<Rightarrow> rotation \<Rightarrow> 'w \<Rightarrow> 'w round_end" where
  "rotate_token 0 io c ts rt w = Again rt w"
| "rotate_token (Suc n) io c ts rt w =
     (case rotation_round io c ts rt w of
        Over rt' w' \<Rightarrow> Over rt' w'
      | Again rt' w' \<Rightarrow> rotate_token n io c ts rt' w')"

section \<open>What holds after every round\<close>

text \<open>
  What the outside relies on for a round: an interface with two instances below, one for the tokens
  on disk and one for the secrets.
\<close>

locale rotation_keeper =
  fixes io :: "'w rotation_io" and c :: gitlab_client and ts :: token_store
    and keeps :: "rotation \<Rightarrow> 'w \<Rightarrow> bool"
  assumes keeps_sleep: "keeps rt w \<Longrightarrow> keeps rt (http_sleep (ro_io io) ms w)"
    and keeps_expiry: "keeps rt w \<Longrightarrow> keeps (rt\<lparr>rt_expiry := ex\<rparr>) w"
    and keeps_verify: "keeps rt w \<Longrightarrow>
      keeps rt (snd (verify_runner (ro_io io) (ro_parse io) (ro_rfc3339 io) c (rt_token rt) w))"
    and keeps_unsaved: "keeps rt w \<Longrightarrow> token_save (ro_files io) ts (rt_token rt) t (Some e) w = (Inl x, w1) \<Longrightarrow>
      keeps rt w1"
    and keeps_unreset: "keeps rt w \<Longrightarrow> token_save (ro_files io) ts (rt_token rt) t (Some e) w = (Inr (), w1) \<Longrightarrow>
      reset_runner_token (ro_io io) (ro_parse io) (ro_rfc3339 io) c (rt_token rt) w1 = (Inl y, w2) \<Longrightarrow> keeps rt w2"
    and keeps_reset: "keeps rt w \<Longrightarrow> token_save (ro_files io) ts (rt_token rt) t (Some e) w = (Inr (), w1) \<Longrightarrow>
      reset_runner_token (ro_io io) (ro_parse io) (ro_rfc3339 io) c (rt_token rt) w1 = (Inr (new, e'), w2) \<Longrightarrow>
      keeps (rt\<lparr>rt_scrubber := add_secret (rt_scrubber rt) new, rt_token := new\<rparr>)
        (snd (token_save (ro_files io) ts new (ro_now io w2) e' w2))"
begin

abbreviation kept_at :: "'w round_end \<Rightarrow> bool" where
  "kept_at x \<equiv> keeps (end_rotation x) (end_world x)"

lemma keeps_reset_round:
  assumes "keeps rt0 w0"
  shows "kept_at (reset_round io c ts rt0 t e w0)"
proof -
  let ?rt = "rt0\<lparr>rt_expiry := Some (t, e)\<rparr>"
  let ?wait = "reset_time t e - ro_now io w0"
  let ?w = "if ?wait > 0 then http_sleep (ro_io io) (nat ?wait * 1000) w0 else w0"
  have k: "keeps ?rt ?w" using keeps_sleep[OF keeps_expiry[OF assms]] keeps_expiry[OF assms] by simp
  obtain r w1 where s: "token_save (ro_files io) ts (rt_token ?rt) t (Some e) ?w = (r, w1)" by (meson surj_pair)
  obtain q w2 where q: "reset_runner_token (ro_io io) (ro_parse io) (ro_rfc3339 io) c (rt_token ?rt) w1 = (q, w2)"
    by (meson surj_pair)
  note round = reset_round_def[of io c ts rt0 t e w0, unfolded Let_def, unfolded s prod.case q]
  show ?thesis
  proof (cases r)
    case (Inl x)
    then show ?thesis using round keeps_unsaved[OF k] s by simp
  next
    case (Inr u)
    have s': "token_save (ro_files io) ts (rt_token ?rt) t (Some e) ?w = (Inr (), w1)" using s Inr by simp
    show ?thesis
    proof (cases q)
      case (Inl y)
      then show ?thesis using round Inr keeps_sleep[OF keeps_unreset[OF k s']] q by simp
    next
      case fresh: (Inr p)
      obtain new e' where p: "p = (new, e')" by fastforce
      then have k': "keeps (?rt\<lparr>rt_scrubber := add_secret (rt_scrubber ?rt) new, rt_token := new\<rparr>)
          (snd (token_save (ro_files io) ts new (ro_now io w2) e' w2))"
        using keeps_reset[OF k s'] q fresh by simp
      show ?thesis using round Inr fresh p k' keeps_expiry[OF k'] by (cases e') simp_all
    qed
  qed
qed

lemma keeps_round: "keeps rt w \<Longrightarrow> kept_at (rotation_round io c ts rt w)"
proof -
  assume k: "keeps rt w"
  obtain v w1 where v: "verify_runner (ro_io io) (ro_parse io) (ro_rfc3339 io) c (rt_token rt) w = (v, w1)"
    by (meson surj_pair)
  have "keeps rt w1" using keeps_verify[OF k] v by simp
  then show ?thesis
    using k v keeps_reset_round keeps_sleep by (auto simp: rotation_round_def split: option.split sum.split)
qed

lemma keeps_rotation: "keeps rt w \<Longrightarrow> kept_at (rotate_token n io c ts rt w)"
proof (induction n arbitrary: rt w)
  case (Suc n)
  from keeps_round[OF Suc.prems] Suc.IH show ?case by (cases "rotation_round io c ts rt w") simp_all
qed simp

end

section \<open>A restart finds the token in use\<close>

text \<open>
  The world of the rotation: requests and sleeping leave the file alone, and a store that was just
  written can be written again after the request for the new token (what the code relies on when
  it saves the old token first).
\<close>

definition quiet_requests :: "'w rotation_io \<Rightarrow> token_store \<Rightarrow> ('w \<Rightarrow> string \<Rightarrow> string option) \<Rightarrow> bool" where
  "quiet_requests io ts content \<longleftrightarrow>
     (\<forall>rq w. content (snd (http_send (ro_io io) rq w)) (ts_path ts) = content w (ts_path ts)) \<and>
     (\<forall>ms w. content (http_sleep (ro_io io) ms w) (ts_path ts) = content w (ts_path ts))"

definition stays_writable :: "'w rotation_io \<Rightarrow> token_store \<Rightarrow> bool" where
  "stays_writable io ts \<longleftrightarrow>
     (\<forall>token t e w w1 rq new t' e'. token_save (ro_files io) ts token t e w = (Inr (), w1) \<longrightarrow>
        (\<exists>w2. token_save (ro_files io) ts new t' e' (snd (http_send (ro_io io) rq w1)) = (Inr (), w2)))"

lemma verify_sends: "\<exists>rq. snd (verify_runner io parse rfc c token w) = snd (http_send io rq w)"
  by (auto simp: verify_runner_def Let_def split: prod.splits sum.splits) (metis snd_conv)+

lemma reset_sends: "\<exists>rq. snd (reset_runner_token io parse rfc c token w) = snd (http_send io rq w)"
  by (auto simp: reset_runner_token_def Let_def split: prod.splits sum.splits) (metis snd_conv)+

lemma reset_not_empty: "reset_runner_token io parse rfc c token w = (Inr (new, e), w') \<Longrightarrow> new \<noteq> []"
  by (auto simp: reset_runner_token_def Let_def rbind_def split: prod.splits sum.splits if_splits option.splits)

text \<open>Loading depends on the content of the file only.\<close>

lemma load_content:
  assumes "token_files files content (ts_path ts)" "content w' (ts_path ts) = content w (ts_path ts)"
  shows "token_load files ts w' = token_load files ts w"
  using assms token_files_laws(6)[OF assms(1)] by (simp add: token_load_def)

definition restart_finds ::
  "runner_config \<Rightarrow> 'w rotation_io \<Rightarrow> token_store \<Rightarrow> ('w \<Rightarrow> string \<Rightarrow> string option) \<Rightarrow> rotation \<Rightarrow> 'w \<Rightarrow> bool" where
  "restart_finds config io ts content rt w \<longleftrightarrow>
     (token_files (ro_files io) content (ts_path ts) \<and> quiet_requests io ts content \<and> stays_writable io ts \<longrightarrow>
        rt_token rt \<noteq> [] \<and> first_token config (token_load (ro_files io) ts w) = rt_token rt)"

lemma restart_same:
  assumes "restart_finds config io ts content rt w"
    and "token_files (ro_files io) content (ts_path ts) \<Longrightarrow> quiet_requests io ts content \<Longrightarrow>
      content w' (ts_path ts) = content w (ts_path ts)"
  shows "restart_finds config io ts content rt w'"
  using assms load_content[of "ro_files io" content ts w' w] by (auto simp: restart_finds_def)

lemma restart_saved:
  assumes "token_save (ro_files io) ts token t e w = (Inr (), w1)" "token \<noteq> []" "rt_token rt = token"
  shows "restart_finds config io ts content rt w1"
  using token_load_saved[OF _ assms(2,1)] assms(2,3) by (auto simp: restart_finds_def first_token_def)

interpretation stored: rotation_keeper io c ts "restart_finds config io ts content" for io c ts config content
proof
  fix rt :: rotation and w ms
  assume k: "restart_finds config io ts content rt w"
  show "restart_finds config io ts content rt (http_sleep (ro_io io) ms w)"
    by (rule restart_same[OF k]) (simp add: quiet_requests_def)
  show "restart_finds config io ts content (rt\<lparr>rt_expiry := e\<rparr>) w" for e
    using k by (simp add: restart_finds_def)
  obtain rq where rq: "snd (verify_runner (ro_io io) (ro_parse io) (ro_rfc3339 io) c (rt_token rt) w) =
      snd (http_send (ro_io io) rq w)" using verify_sends by metis
  show "restart_finds config io ts content rt
      (snd (verify_runner (ro_io io) (ro_parse io) (ro_rfc3339 io) c (rt_token rt) w))"
    unfolding rq by (rule restart_same[OF k]) (simp add: quiet_requests_def)
next
  fix rt :: rotation and w t e x w1
  assume k: "restart_finds config io ts content rt w"
    and s: "token_save (ro_files io) ts (rt_token rt) t (Some e) w = (Inl x, w1)"
  show "restart_finds config io ts content rt w1"
    by (rule restart_same[OF k]) (use token_save_atomic[OF _ s] in simp)
next
  fix rt :: rotation and w t e w1 y w2
  assume k: "restart_finds config io ts content rt w"
    and s: "token_save (ro_files io) ts (rt_token rt) t (Some e) w = (Inr (), w1)"
    and q: "reset_runner_token (ro_io io) (ro_parse io) (ro_rfc3339 io) c (rt_token rt) w1 = (Inl y, w2)"
  obtain rq where rq: "w2 = snd (http_send (ro_io io) rq w1)"
    using reset_sends[of "ro_io io" "ro_parse io" "ro_rfc3339 io" c "rt_token rt" w1] q by auto
  have "restart_finds config io ts content rt w1"
    using k restart_saved[OF s, of rt] by (auto simp: restart_finds_def)
  then show "restart_finds config io ts content rt w2"
    unfolding rq by (rule restart_same) (simp add: quiet_requests_def)
next
  fix rt :: rotation and w t e w1 new e' w2
  assume s: "token_save (ro_files io) ts (rt_token rt) t (Some e) w = (Inr (), w1)"
    and q: "reset_runner_token (ro_io io) (ro_parse io) (ro_rfc3339 io) c (rt_token rt) w1 = (Inr (new, e'), w2)"
  let ?rt = "rt\<lparr>rt_scrubber := add_secret (rt_scrubber rt) new, rt_token := new\<rparr>"
  let ?save = "token_save (ro_files io) ts new (ro_now io w2) e' w2"
  obtain rq where rq: "w2 = snd (http_send (ro_io io) rq w1)"
    using reset_sends[of "ro_io io" "ro_parse io" "ro_rfc3339 io" c "rt_token rt" w1] q by auto
  have "restart_finds config io ts content ?rt (snd ?save)" if writable: "stays_writable io ts"
  proof -
    obtain w3 where w3: "?save = (Inr (), w3)"
      using writable s unfolding rq stays_writable_def by blast
    show ?thesis unfolding w3 snd_conv by (rule restart_saved[OF w3 reset_not_empty[OF q]]) simp
  qed
  then show "restart_finds config io ts content ?rt (snd ?save)" by (auto simp: restart_finds_def)
qed


section \<open>Tokens stay secret\<close>

definition token_masked :: "string set \<Rightarrow> rotation \<Rightarrow> 'w \<Rightarrow> bool" where
  "token_masked old rt w \<longleftrightarrow> insert (rt_token rt) old \<subseteq> set (sc_secrets (rt_scrubber rt))"

lemma add_secret_has: "s \<noteq> [] \<Longrightarrow> s \<in> set (sc_secrets (add_secret sc s))"
  "set (sc_secrets sc) \<subseteq> set (sc_secrets (add_secret sc s))"
  by (auto simp: add_secret_def)

interpretation masked: rotation_keeper io c ts "token_masked old" for io c ts old
proof
  fix rt :: rotation and w t e w1 new e' w2
  assume k: "token_masked old rt (w :: 'a)"
    and q: "reset_runner_token (ro_io io) (ro_parse io) (ro_rfc3339 io) c (rt_token rt) w1 = (Inr (new, e'), w2)"
  show "token_masked old (rt\<lparr>rt_scrubber := add_secret (rt_scrubber rt) new, rt_token := new\<rparr>)
      (snd (token_save (ro_files io) ts new (ro_now io w2) e' w2))"
    using k add_secret_has(1)[OF reset_not_empty[OF q], of "rt_scrubber rt"] add_secret_has(2)[of "rt_scrubber rt" new]
    by (auto simp: token_masked_def)
qed (simp_all add: token_masked_def)

lemma rotate_token_add:
  "rotate_token (k + n) io c ts rt w =
     (case rotate_token k io c ts rt w of Over rt' w' \<Rightarrow> Over rt' w' | Again rt' w' \<Rightarrow> rotate_token n io c ts rt' w')"
  by (induction k arbitrary: rt w) (auto split: round_end.split)

lemma start_masked:
  assumes "rc_runner_token config \<noteq> []" "rt = rotation_start files ts config w"
  shows "token_masked {rc_runner_token config} rt w'"
proof -
  have "set (sc_secrets sc) \<subseteq> set (sc_secrets (if b then add_secret sc s else sc))" for sc b s
    using add_secret_has(2) by simp
  moreover have "rt_token rt \<noteq> []"
    using assms by (auto simp: rotation_start_def first_token_def token_load_def Let_def split: option.splits if_splits)
  ultimately show ?thesis
    using assms
    by (auto simp: token_masked_def rotation_start_def first_scrubber_def scrubber_new_def add_secret_def Let_def split: option.split)
qed

text \<open>What is in use after some rounds is still masked after more of them.\<close>

lemma earlier_masked:
  assumes "token_masked old rt w"
  shows "insert (rt_token (end_rotation (rotate_token k io c ts rt w))) old \<subseteq>
    set (sc_secrets (rt_scrubber (end_rotation (rotate_token (k + n) io c ts rt w))))"
proof (cases "rotate_token k io c ts rt w")
  case (Again rt' w')
  from masked.keeps_rotation[OF assms, of k io c ts] Again have "token_masked (insert (rt_token rt') old) rt' w'"
    by (simp add: token_masked_def)
  from masked.keeps_rotation[OF this, of n io c ts] show ?thesis
    unfolding rotate_token_add by (simp add: Again token_masked_def)
next
  case (Over rt' w')
  from masked.keeps_rotation[OF assms, of k io c ts] Over show ?thesis
    unfolding rotate_token_add by (simp add: token_masked_def)
qed

text \<open>
  C32: every token the runner has used since it started is masked in the logs of the jobs that start
  later: after \<open>n\<close> rounds the scrubber has the token of the configuration and every token that was in
  use after any number of rounds up to then, the stored one it began with among them.
\<close>

theorem used_tokens_masked:
  assumes "rc_runner_token config \<noteq> []" "rt = rotation_start files ts config w0" "k \<le> n"
  shows "{rc_runner_token config, rt_token (end_rotation (rotate_token k io c ts rt w))} \<subseteq>
    set (sc_secrets (rt_scrubber (end_rotation (rotate_token n io c ts rt w))))"
  using earlier_masked[OF start_masked[OF assms(1,2)], of k io c ts w "n - k"] assms(3) by (simp add: token_masked_def)

section \<open>A concrete store and server\<close>

text \<open>
  The world is the content of the files. A stored token is written as a text of as many characters
  as its number among all stored tokens; the server gives a new token to every request.
\<close>

definition sample_files :: "(string \<rightharpoonup> string) token_io" where
  "sample_files = \<lparr>tk_read = (\<lambda>p w. w p),
     tk_from_json = (\<lambda>s. case from_nat (length s) of (r, t, ob, e) \<Rightarrow>
       Some \<lparr>st_replaces = r, st_token = t, st_obtained_at = ob, st_expires_at = e\<rparr>),
     tk_to_json = (\<lambda>s. replicate (to_nat (st_replaces s, st_token s, st_obtained_at s, st_expires_at s)) (CHR ''x'')),
     tk_stage = (\<lambda>d w. (Inr ''.staged'', w)), tk_chmod = (\<lambda>_ _ w. (Inr (), w)),
     tk_write = (\<lambda>f s w. (Inr (), w(f \<mapsto> s))), tk_sync = (\<lambda>_ w. (Inr (), w)),
     tk_persist = (\<lambda>f p w. (Inr (), w(p := w f)))\<rparr>"

definition sample_rotation :: "(string \<rightharpoonup> string) rotation_io" where
  "sample_rotation = \<lparr>ro_io = \<lparr>
       http_send = (\<lambda>_ w. (Inr \<lparr>rsp_status = 201, rsp_headers = [], rsp_chunks = []\<rparr>, w)),
       http_sleep = (\<lambda>_ w. w), http_open = (\<lambda>_ w. (Inr (), w)), http_create = (\<lambda>_ w. (Inr (), w)),
       http_write = (\<lambda>_ _ w. (Inr (), w)), http_status_text = dec, http_now = (\<lambda>_. 0), http_unix_secs = (\<lambda>_. 0)\<rparr>,
     ro_files = sample_files,
     ro_parse = (\<lambda>_. Inr \<lparr>tr_token = Some ''glrt-new'', tr_token_expires_at = Some ''soon''\<rparr>),
     ro_rfc3339 = (\<lambda>_. Some 1000), ro_now = (\<lambda>_. 0)\<rparr>"

definition sample_store :: token_store where
  "sample_store = \<lparr>ts_path = ''/s/token'', ts_replaces = ''r''\<rparr>"

definition sample_config :: runner_config where
  "sample_config = runner_config_default\<lparr>rc_runner_token := ''glrt-old''\<rparr>"

abbreviation sample_rotated :: "(string \<rightharpoonup> string) round_end" where
  "sample_rotated \<equiv> rotate_token 3 sample_rotation sample_client sample_store
     (rotation_start sample_files sample_store sample_config Map.empty) Map.empty"

lemma sample_save: "token_save sample_files sample_store token t e w =
    (Inr (), w(''.staged'' \<mapsto> tk_to_json sample_files \<lparr>st_replaces = ''r'', st_token = token, st_obtained_at = t, st_expires_at = e\<rparr>,
      ''/s/token'' \<mapsto> tk_to_json sample_files \<lparr>st_replaces = ''r'', st_token = token, st_obtained_at = t, st_expires_at = e\<rparr>))"
  by (simp add: token_save_def sample_files_def sample_store_def)

lemma sample_rotation_laws:
  "token_files (ro_files sample_rotation) (\<lambda>w. w) (ts_path sample_store)"
  "quiet_requests sample_rotation sample_store (\<lambda>w. w)" "stays_writable sample_rotation sample_store"
proof -
  have f: "ro_files sample_rotation = sample_files" by (simp add: sample_rotation_def)
  show "token_files (ro_files sample_rotation) (\<lambda>w. w) (ts_path sample_store)"
    unfolding f by (simp add: token_files_def sample_files_def sample_store_def)
  show "quiet_requests sample_rotation sample_store (\<lambda>w. w)"
    by (simp add: quiet_requests_def sample_rotation_def)
  show "stays_writable sample_rotation sample_store"
    unfolding stays_writable_def f sample_save by blast
qed


lemma used_tokens_masked_witness:
  "{''glrt-old'', ''glrt-new''} \<subseteq> set (sc_secrets (rt_scrubber (end_rotation sample_rotated)))"
proof -
  have "rt_token (end_rotation sample_rotated) = ''glrt-new''"
  proof -
    have empty: "token_load sample_files sample_store Map.empty = None"
      by (simp add: token_load_def sample_files_def)
    have send: "verify_runner (ro_io sample_rotation) (ro_parse sample_rotation) (ro_rfc3339 sample_rotation)
        sample_client token w = (Inr (Some 1000), w)"
      "reset_runner_token (ro_io sample_rotation) (ro_parse sample_rotation) (ro_rfc3339 sample_rotation)
        sample_client token w = (Inr (''glrt-new'', Some 1000), w)" for token w
      by (simp_all add: verify_runner_def reset_runner_token_def sample_rotation_def rbind_def expires_at_def)
    have f: "ro_files sample_rotation = sample_files" by (simp add: sample_rotation_def)
    have sl: "http_sleep (ro_io sample_rotation) ms w = w" for ms w by (simp add: sample_rotation_def)
    show ?thesis
      by (simp add: eval_nat_numeral rotation_round_def reset_round_def Let_def send f sample_save sl
          rotation_start_def empty split: option.split)
  qed
  moreover have "rc_runner_token sample_config \<noteq> []" by (simp add: sample_config_def)
  from used_tokens_masked[OF this refl order.refl[of 3],
      where files = sample_files and ts = sample_store and w0 = Map.empty]
  have "{rc_runner_token sample_config, rt_token (end_rotation sample_rotated)} \<subseteq>
      set (sc_secrets (rt_scrubber (end_rotation sample_rotated)))" .
  ultimately show ?thesis by (simp add: sample_config_def)
qed

end
