(* ===== verification/Job_Log.thy ===== *)
theory Job_Log
  imports Daemon
begin

text \<open>
  What a whole job does to its log. Everything between \<open>RunnerDaemon::run_job\<close> and the writer of the
  trace only writes, flushes and raises the cancellation, so a property that these three keep is
  kept by a job: the interface \<open>job_log\<close>. Its instance \<open>logged\<close> gives the texts written in their
  order, and with it the end of the log is known for every job, and that no secret is in it.
\<close>

section \<open>The interface\<close>

locale log_keeper = trace_keeper io keeps for io :: "'w http" and keeps +
  assumes keeps_world: "keeps (tw, w) \<Longrightarrow> keeps (tw, w')"
begin

lemma keeps_any: "keeps st \<Longrightarrow> keeps (fst st, w)"
  using keeps_world by (cases st) simp

lemma keeps_section: "keeps st \<Longrightarrow> keeps (section_start io n h st)" "keeps st \<Longrightarrow> keeps (section_end io n st)"
  by (simp_all add: section_start_def section_end_def keeps_write)

lemma keeps_section_around:
  assumes "\<And>st. keeps st \<Longrightarrow> keeps (snd (act st))" "keeps st"
  shows "keeps (snd (in_section io shown n h act st))"
  using assms keeps_section by (simp add: in_section_def case_prod_beta)

lemma shell_runs: "keeps st \<Longrightarrow> keeps (snd (shell_run io os env script dir lm st))"
  using keeps_any by (intro keeps_shell_run)

lemma docker_runs: "keeps st \<Longrightarrow> keeps (snd (docker_run io dk env script dir lm st))"
  using keeps_any by (intro keeps_docker_run)

end

locale job_log = log_keeper io keeps for io :: "'w http" and keeps +
  fixes restore :: "limits \<Rightarrow> 'w state \<Rightarrow> restore_end \<times> 'w state"
  assumes keeps_restore: "keeps st \<Longrightarrow> keeps (snd (restore lm st))"

sublocale job_log \<subseteq> in_shell: job_runner io "shell_run io os env" "shell_run io os env" keeps restore for os env
  by unfold_locales (rule keeps_write shell_runs keeps_restore, assumption)+

sublocale job_log \<subseteq> in_docker: job_runner io "docker_run io dk env" "docker_run io dk' env" keeps restore for dk dk' env
  by unfold_locales (rule keeps_write docker_runs keeps_restore, assumption)+

context job_log
begin

lemma keeps_shell_execute:
  assumes "keeps st"
  shows "keeps (snd (shell_execute io os mkdirs mkparent write ex restore j st))"
  using keeps_any[OF keeps_write[OF assms]] in_shell.keeps_job keeps_write[OF assms]
  by (auto simp: shell_execute_def Let_def split: sum.splits prod.splits)

text \<open>The operations of the Docker executor; what only changes the world keeps anything.\<close>

abbreviation kept_log :: "(job_containers \<times> 'w state \<Rightarrow> 'r \<times> job_containers \<times> 'w state) \<Rightarrow> bool" where
  "kept_log \<equiv> kept (\<lambda>s. keeps (snd s))"

lemma log_world: "kept_log (on_world g m)"
  using keeps_world by (auto simp: kept_def on_world_def split: prod.splits)

lemma log_trace: "(\<And>st. keeps st \<Longrightarrow> keeps (m st)) \<Longrightarrow> kept_log (on_trace m)"
  by (simp add: kept_def on_trace_def case_prod_beta)

lemma log_state: "(\<And>st. keeps st \<Longrightarrow> keeps (snd (m st))) \<Longrightarrow> kept_log (on_state m)"
  by (auto simp: kept_def on_state_def case_prod_beta split: option.split)

lemma log_recorded: "kept_log (recorded f)"
  by (simp add: kept_def recorded_def case_prod_beta)

lemma keeps_pull_loop: "keeps st \<Longrightarrow> keeps (snd (pull_loop img evs st))"
  by (induction evs arbitrary: st) (auto split: pull_event.splits simp: keeps_raise)

lemma keeps_ensure_image: "keeps st \<Longrightarrow> keeps (snd (ensure_image io api dh dx img ps j st))"
proof -
  assume st: "keeps st"
  have pull: "keeps st \<Longrightarrow> keeps (snd (pull_image io api dh dx img j st))" for st
    using keeps_pull_loop keeps_any keeps_write by (simp add: pull_image_def Let_def case_prod_beta)
  show ?thesis
    using pull keeps_write keeps_any[OF st]
    by (auto simp: ensure_image_def Let_def case_prod_beta split: sum.splits option.splits)
qed

lemma keeps_wait_for_services: "keeps st \<Longrightarrow> keeps (wait_for_services io api dx jid n cids st)"
  using keeps_any keeps_write keeps_any[OF keeps_write]
  by (auto simp: wait_for_services_def Let_def case_prod_beta split: sum.splits)

lemma log_services: "kept_log (start_services io api dh dx j values volumes network n svcs)"
proof (induction svcs arbitrary: n)
  case (Cons svc svcs)
  show ?case
    unfolding start_services.simps Let_def
    by (intro kept_bind log_trace log_state log_world log_recorded Cons.IH keeps_write keeps_ensure_image)
qed (simp add: kept_return)

lemma log_run_in_container: "kept_log (run_in_container io api restore j env subdir cid)"
proof -
  have "kept_log (on_state (run_job_steps io (docker_run io d e) (docker_run io d' e) restore j dirs))" for d d' e dirs
    by (rule log_state) (rule in_docker.keeps_job)
  then show ?thesis unfolding kept_def run_in_container_def by (auto simp: case_prod_beta)
qed

lemma log_sources: "kept_log (start_sources io api dh dx j dir env)"
  unfolding start_sources_def
  by (intro kept_if kept_bind kept_return log_state log_world log_recorded keeps_ensure_image)

lemma log_network: "kept_log (start_network api dx j services)"
  unfolding start_network_def Let_def by (intro kept_if kept_bind kept_return log_world log_recorded)

lemma log_await: "kept_log (await_services io api dx j network)"
  using keeps_wait_for_services by (auto simp: kept_def await_services_def split: option.splits)

lemma log_job_container: "kept_log (start_job_container io api dx restore j dir img env subdir volumes network)"
  unfolding start_job_container_def by (intro kept_bind log_world log_recorded log_run_in_container)

lemma log_start_and_run: "kept_log (start_and_run io api dh dx restore j dir)"
proof -
  obtain img policies where i: "(case job_image j of
      Some i \<Rightarrow> (expand (img_name i)
        (map_of (je_vars (make_job_env j ''/builds'' dir \<lparr>rv_disposable = True, rv_ca_pem = dx_ca_pem dx\<rparr>))),
        img_pull_policy i)
    | None \<Rightarrow> (dc_default_image (dx_config dx), [])) = (img, policies)" by (meson surj_pair)
  show ?thesis unfolding start_and_run_def Let_def i prod.case
    by (intro kept_bind log_trace log_state log_world log_sources log_network log_services log_await
        log_job_container keeps_write keeps_ensure_image)
qed

lemma keeps_docker_execute: "keeps st \<Longrightarrow> keeps (snd (docker_execute io api dh dx restore j dir st))"
  using kept_apply[OF log_start_and_run, of "(no_containers, st)"] keeps_any
  by (simp add: docker_execute_def case_prod_beta)

end

section \<open>What the daemon does around the executor\<close>

locale daemon_log = log_keeper "pf_io pf" keeps
  for pf :: "('h, 'f, 'w) platform" and keeps :: "'w state \<Rightarrow> bool"
begin

lemma keeps_warning: "keeps st \<Longrightarrow> keeps (write_warning (pf_io pf) t st)"
  by (simp add: write_warning_def keeps_write)

lemma keeps_restore_cache: "keeps st \<Longrightarrow> keeps (restore_cache pf dm j c st)"
proof -
  assume st: "keeps st"
  have warnings: "keeps st \<Longrightarrow> keeps (foldl (\<lambda>s warning. write_warning (pf_io pf) warning s) st ws)" for st ws
    by (rule foldl_rule[where P = keeps]) (assumption, rule keeps_warning)
  have told: "keeps (case r of (Inr r, w) \<Rightarrow> trace_write (pf_io pf) (restored_text r)
               (foldl (\<lambda>s warning. write_warning (pf_io pf) warning s) (fst st, w) (ro_warnings r))
         | (Inl e, w) \<Rightarrow> write_warning (pf_io pf) (''Failed to restore cache: '' @ outermost e) (fst st, w))"
    if "keeps st" for r st
    using keeps_write[OF warnings[OF keeps_any[OF that]]] keeps_warning[OF keeps_any[OF that]]
    by (cases r) (simp split: sum.split)
  have "keeps (if fallback_refused (job_values j) then trace_write (pf_io pf) PROTECTED_FALLBACK st else st)"
    using st keeps_write by simp
  then show ?thesis unfolding restore_cache_def Let_def by (rule told[OF keeps_write])
qed

lemma keeps_downloads: "keeps st \<Longrightarrow> keeps (snd (download_dependencies pf dm j ds st))"
proof (induction ds arbitrary: st)
  case (Cons d ds)
  have "keeps (trace_write (pf_io pf) t st)" for t using Cons.prems by (rule keeps_write)
  then have "keeps (fst (trace_write (pf_io pf) t st), w)" for t w by (rule keeps_any)
  then show ?case using Cons.IH by (auto simp: Let_def split: prod.splits sum.splits)
qed simp

lemma keeps_restore_workspace: "keeps st \<Longrightarrow> keeps (snd (restore_workspace pf dm j st))"
proof -
  assume st: "keeps st"
  have caches: "keeps st \<Longrightarrow> keeps (foldl (\<lambda>s c. restore_cache pf dm j c s) st cs)" for st cs
    by (rule foldl_rule[where P = keeps]) (assumption, rule keeps_restore_cache)
  let ?st1 = "if rc_cache_enabled (dm_config dm) \<and> list_ex pulls (job_cache j) then
      section_end (pf_io pf) ''restore_cache'' (foldl (\<lambda>s c. restore_cache pf dm j c s)
        (section_start (pf_io pf) ''restore_cache'' ''Restoring cache'' st) (filter pulls (job_cache j))) else st"
  have st1: "keeps ?st1" using caches[OF keeps_section(1)[OF st]] st keeps_section(2) by simp
  let ?sec = "section_start (pf_io pf) ''download_artifacts'' ''Downloading artifacts'' ?st1"
  obtain r st2 where d: "download_dependencies pf dm j (filter has_artifacts (job_dependencies j)) ?sec = (r, st2)"
    by (meson surj_pair)
  have "keeps st2" using keeps_downloads[OF keeps_section(1)[OF st1]] d by (metis snd_conv)
  then show ?thesis
    unfolding restore_workspace_def Let_def d prod.case using st1 keeps_section(2) by simp
qed

lemma keeps_look: "keeps st \<Longrightarrow> keeps (look pf dm j st)"
proof -
  assume st: "keeps st"
  have beat: "\<exists>s. fst (heartbeat io c jid token evs cancel w) = cancel_update cancel s" for io :: "'w http" and c jid token evs cancel w
  proof (induction evs arbitrary: cancel w)
    case Nil
    show ?case by (intro exI[of _ cancel]) (simp add: cs.update_is_max)
  next
    case (Cons ev evs)
    have up: "cancel_update (cancel_update cancel s) t = cancel_update cancel (max s t)" for s t
      by (simp add: cs.update_is_max max.assoc)
    show ?case
    proof (cases ev)
      case BeatTick
      then show ?thesis using Cons.IH up by (auto split: prod.splits sum.splits) metis+
    qed (auto intro: exI[of _ Aborted])
  qed
  obtain evs w where e: "pf_beats pf (snd st) = (evs, w)" by fastforce
  obtain s where s: "fst (heartbeat (pf_io pf) (dm_client dm) (job_id j) (job_token j) evs (tw_cancel (fst st)) w) =
      cancel_update (tw_cancel (fst st)) s" using beat by blast
  have "keeps (fst (raise_cancel s st), v)" for v by (rule keeps_any[OF keeps_raise[OF st]])
  then show ?thesis using e s by (simp add: look_def raise_cancel_def case_prod_beta)
qed

lemma keeps_untracked: "keeps st \<Longrightarrow> keeps (snd (untracked_if_needed pf dm j needed st))"
  using keeps_any keeps_warning[OF keeps_any]
  by (auto simp: untracked_if_needed_def split: prod.splits sum.splits)

lemma keeps_artifact: "keeps st \<Longrightarrow> keeps (snd (upload_artifact pf dm j paths a st))"
  unfolding upload_artifact_def Let_def
  by (auto split: prod.splits sum.splits option.splits intro!: keeps_write keeps_warning keeps_any)

lemma keeps_entries: "keeps st \<Longrightarrow> keeps (snd (upload_entries pf dm j succeeded untracked as failure st))"
proof (induction as arbitrary: failure st)
  case (Cons a as)
  then show ?case using keeps_artifact[OF Cons.prems] by (simp add: Let_def case_prod_beta)
qed simp

lemma keeps_artifacts: "keeps st \<Longrightarrow> keeps (snd (upload_job_artifacts pf dm j succeeded st))"
  using keeps_entries keeps_untracked by (simp add: upload_job_artifacts_def case_prod_beta split: option.split)

lemma keeps_save: "keeps st \<Longrightarrow> keeps (snd (save_entry pf dm j c paths st))"
  unfolding save_entry_def Let_def
  by (auto split: prod.splits sum.splits option.splits
      intro!: keeps_write keeps_warning keeps_raise keeps_any keeps_look)

lemma keeps_saves: "keeps st \<Longrightarrow> keeps (save_entries pf dm j succeeded untracked cs st)"
proof (induction cs arbitrary: st)
  case (Cons c cs)
  let ?paths = "map (\<lambda>p. expand p (job_values j)) (cache_paths c) @
      (if cache_untracked c = Some True then untracked else [])"
  obtain ok st1 where r: "save_entry pf dm j c ?paths st = (ok, st1)" by (meson surj_pair)
  have "keeps st1" using keeps_save[OF Cons.prems] r by (metis snd_conv)
  then show ?case
    unfolding save_entries.simps Let_def r prod.case using Cons by (simp split: bool.split)
qed simp

lemma keeps_cache: "keeps st \<Longrightarrow> keeps (upload_cache pf dm j succeeded st)"
  using keeps_saves keeps_untracked by (simp add: upload_cache_def case_prod_beta)

lemma keeps_uploads: "keeps st \<Longrightarrow> keeps (snd (upload_all pf dm j outcome st))"
proof -
  assume st: "keeps st"
  let ?run = "in_section (pf_io pf) (case job_artifacts j of Some as \<Rightarrow> as \<noteq> [] | None \<Rightarrow> False)
      (if outcome = None then ''upload_artifacts_on_success'' else ''upload_artifacts_on_failure'')
      (''Uploading artifacts for '' @ result_word outcome @ '' job'') (upload_job_artifacts pf dm j (outcome = None))"
  obtain uploaded st1 where r: "?run st = (uploaded, st1)" by (meson surj_pair)
  have "keeps (snd (?run st))" by (rule keeps_section_around[OF keeps_artifacts st])
  then have st1: "keeps st1" unfolding r by simp
  have "keeps (snd (in_section (pf_io pf) b n h (\<lambda>st. ((), upload_cache pf dm j s st)) st1))" for b n h s
    by (rule keeps_section_around[OF _ st1]) (simp add: keeps_cache)
  then show ?thesis unfolding upload_all_def Let_def r prod.case snd_conv .
qed

end

section \<open>The texts written\<close>

inductive logged :: "'w http \<Rightarrow> trace_writer \<Rightarrow> string list \<Rightarrow> trace_writer \<Rightarrow> bool"
  for io :: "'w http" and tw0 :: trace_writer where
  nothing: "logged io tw0 [] tw0"
| chunk: "logged io tw0 cs tw \<Longrightarrow> logged io tw0 (cs @ [s]) (fst (trace_write io s (tw, w)))"
| flush: "logged io tw0 cs tw \<Longrightarrow> logged io tw0 cs (fst (trace_flush_if_due io (tw, w)))"
| raise: "logged io tw0 cs tw \<Longrightarrow> logged io tw0 cs (tw\<lparr>tw_cancel := cancel_update (tw_cancel tw) s\<rparr>)"

lemma logged_trans: "logged io tw1 ds tw2 \<Longrightarrow> logged io tw0 cs tw1 \<Longrightarrow> logged io tw0 (cs @ ds) tw2"
proof (induction rule: logged.induct)
  case (chunk ds tw s w)
  then show ?case using logged.chunk[of io tw0 "cs @ ds" tw s w] by simp
qed (auto intro: logged.intros)

lemma logged_written: "logged io tw0 ds tw \<Longrightarrow> written sc cs tw0 \<Longrightarrow> written sc (cs @ ds) tw"
proof (induction rule: logged.induct)
  case (chunk ds tw s w)
  then show ?case using written_write[of sc "cs @ ds" "(tw, w)" s io] by simp
next
  case (flush ds tw w)
  then show ?case using written_flush_due[of sc "cs @ ds" "(tw, w)" io] by simp
qed (simp_all add: written_def)

definition log_from :: "'w http \<Rightarrow> trace_writer \<Rightarrow> 'w state \<Rightarrow> bool" where
  "log_from io tw0 st \<longleftrightarrow> (\<exists>cs. logged io tw0 cs (fst st))"

lemma log_from_keeps:
  "log_from io tw0 st \<Longrightarrow> log_from io tw0 (trace_write io s st)"
  "log_from io tw0 st \<Longrightarrow> log_from io tw0 (trace_flush_if_due io st)"
  "log_from io tw0 st \<Longrightarrow> log_from io tw0 (raise_cancel r st)"
  "log_from io tw0 (tw, w) \<Longrightarrow> log_from io tw0 (tw, w')"
  unfolding log_from_def raise_cancel_def
  by (cases st, auto intro: logged.intros)+

interpretation written: daemon_log pf "log_from (pf_io pf) tw0" for pf tw0
  by unfold_locales (rule log_from_keeps, assumption)+

text \<open>
  The \<open>select!\<close> of a restore: a restore that is dropped has written a part of what it would have.
\<close>

definition race_law :: "('h, 'f, 'w) platform \<Rightarrow> bool" where
  "race_law pf \<longleftrightarrow> (\<forall>act. (\<forall>st. log_from (pf_io pf) (fst st) (snd (act st))) \<longrightarrow>
     (\<forall>lm st. log_from (pf_io pf) (fst st) (snd (pf_race pf lm act st))))"

lemma log_from_trans: "log_from io tw0 st \<Longrightarrow> log_from io (fst st) st' \<Longrightarrow> log_from io tw0 st'"
  unfolding log_from_def using logged_trans by blast

lemma log_from_refl: "log_from io (fst st) st"
  unfolding log_from_def using logged.nothing by blast

lemma restore_race_log:
  assumes "race_law pf" "log_from (pf_io pf) tw0 st"
  shows "log_from (pf_io pf) tw0 (snd (restore_race pf dm j lm st))"
  using assms written.keeps_restore_workspace[OF log_from_refl] log_from_trans
  unfolding race_law_def restore_race_def by blast

interpretation ran: job_log "pf_io pf" "\<lambda>st. race_law pf \<longrightarrow> log_from (pf_io pf) tw0 st" "restore_race pf dm j"
  for pf tw0 dm j
  by unfold_locales (blast intro: log_from_keeps restore_race_log)+

lemma executed_log:
  assumes "race_law pf" "log_from (pf_io pf) tw0 st"
  shows "log_from (pf_io pf) tw0 (snd (prepare_and_execute pf dm j st))"
proof -
  have ex: "log_from (pf_io pf) tw0 st \<Longrightarrow> log_from (pf_io pf) tw0 (snd (execute pf ex (restore_race pf dm j) j st))" for st ex
    using ran.keeps_docker_execute[of pf tw0] ran.keeps_shell_execute[of pf tw0] assms(1) by (cases ex) auto
  have "log_from (pf_io pf) tw0 (fst st, w)" for w using assms(2) by (rule written.keeps_any)
  then show ?thesis using ex by (auto simp: prepare_and_execute_def split: prod.splits sum.splits)
qed

section \<open>The log of a job\<close>

definition hello :: "'w daemon \<Rightarrow> string" where
  "hello dm = ''Running with TurboCI '' @ bf_version (dm_facts dm) @ [nl]"

definition first_writer :: "('h, 'f, 'w) platform \<Rightarrow> 'w daemon \<Rightarrow> job \<Rightarrow> 'w \<Rightarrow> trace_writer" where
  "first_writer pf dm j w =
     trace_new (Some (dm_client dm)) (job_id j) (job_token j) (job_scrubber dm j) (http_now (pf_io pf) w)"

definition greeted :: "('h, 'f, 'w) platform \<Rightarrow> 'w daemon \<Rightarrow> job \<Rightarrow> 'w \<Rightarrow> 'w state" where
  "greeted pf dm j w = trace_write (pf_io pf) (hello dm) (first_writer pf dm j w, w)"

lemma greeted_logged: "logged (pf_io pf) (first_writer pf dm j w) [hello dm] (fst (greeted pf dm j w))"
  using logged.chunk[OF logged.nothing, of "pf_io pf" "first_writer pf dm j w" "hello dm" w] by (simp add: greeted_def)

lemma work_log:
  assumes "race_law pf" "work pf dm j w = (outcome, st)"
  shows "log_from (pf_io pf) (fst (greeted pf dm j w)) st"
proof -
  let ?st = "greeted pf dm j w" and ?ws = "executor_dir (dm_executor dm) j"
  let ?log = "log_from (pf_io pf) (fst ?st)"
  let ?w = "evict_workspaces pf dm (pf_use_workspace pf ?ws (snd ?st))"
  obtain o1 st1 where p: "prepare_and_execute pf dm j (fst ?st, ?w) = (o1, st1)" by (meson surj_pair)
  obtain o2 st3 where u: "(if tw_cancel (fst (look pf dm j st1)) = Aborted then (o1, look pf dm j st1)
      else upload_all pf dm j o1 (look pf dm j st1)) = (o2, st3)" by (meson surj_pair)
  have "?log (fst ?st, ?w)" by (rule written.keeps_any[OF log_from_refl])
  from executed_log[OF assms(1) this, of dm j] have "?log st1" unfolding p by simp
  then have look: "?log (look pf dm j st1)" by (rule written.keeps_look)
  have "?log (snd (upload_all pf dm j o1 (look pf dm j st1)))" by (rule written.keeps_uploads[OF look])
  then have "?log st3" using u look by (auto split: if_splits)
  then have "?log (fst st3, v)" for v by (rule written.keeps_any)
  moreover have "fst st = fst st3"
    using assms(2) p u by (auto simp: work_def Let_def greeted_def first_writer_def hello_def)
  ultimately show ?thesis by (metis prod.collapse)
qed

text \<open>All that is in the trace when a job is over: the greeting, then more, then the outcome.\<close>

lemma run_job_trace:
  assumes race: "race_law pf" and run: "run_job pf dm j w = (r, tw, w')"
  obtains outcome stopping ds st v v' where "stopping = stopped_by (pf_shutdown pf v)"
    "logged (pf_io pf) (first_writer pf dm j w)
       (hello dm # ds @ [final_text (job_scrubber dm j) (shutdown_outcome stopping outcome)]) (fst st)"
    "tw = fst (trace_finish (pf_io pf) st)"
    "if tw_cancel tw = Aborted \<and> \<not> stopping then r = Inr ()
     else report (pf_io pf) (dm_client dm) j (shutdown_outcome stopping outcome) v' = (r, w')"
proof -
  let ?sc = "job_scrubber dm j" and ?io = "pf_io pf"
  obtain outcome st where w: "work pf dm j w = (outcome, st)" by (meson surj_pair)
  let ?st1 = "look pf dm j st"
  define stopping where "stopping = stopped_by (pf_shutdown pf (snd ?st1))"
  let ?o = "shutdown_outcome stopping outcome"
  let ?st2 = "trace_write ?io (final_text ?sc ?o) ?st1"
  have c: "conclude pf dm j stopping ?o ?st1 = (r, tw, w')"
    using run w by (simp add: run_job_def stopping_def Let_def)
  obtain tw2 v' where fin: "trace_finish ?io ?st2 = (tw2, v')" by fastforce
  have tw: "tw = fst (trace_finish ?io ?st2)" and rep: "if tw_cancel tw = Aborted \<and> \<not> stopping then r = Inr ()
      else report ?io (dm_client dm) j ?o v' = (r, w')"
    using c fin by (auto simp: conclude_def Let_def split: if_splits prod.splits)
  have "log_from ?io (fst (greeted pf dm j w)) ?st1" using work_log[OF race w] by (rule written.keeps_look)
  then obtain ds where "logged ?io (fst (greeted pf dm j w)) ds (fst ?st1)" by (auto simp: log_from_def)
  from logged.chunk[OF logged_trans[OF this greeted_logged], of "final_text ?sc ?o" "snd ?st1"]
  have "logged ?io (first_writer pf dm j w) (hello dm # ds @ [final_text ?sc ?o]) (fst ?st2)" by simp
  from that[OF stopping_def this tw rep] show thesis .
qed

lemma logged_finish:
  assumes "logged (pf_io pf) (first_writer pf dm j w) cs (fst st)" "tw = fst (trace_finish (pf_io pf) st)"
  shows "holds (stream_output (job_scrubber dm j) cs) tw" "tw_limit tw = DEFAULT_LIMIT"
proof -
  have "written (job_scrubber dm j) [] (first_writer pf dm j w)" unfolding first_writer_def by (rule written_new)
  from logged_written[OF assms(1) this] have wr: "written (job_scrubber dm j) cs (fst st)" by simp
  show "holds (stream_output (job_scrubber dm j) cs) tw" using written_finish[OF wr] assms(2) by blast
  show "tw_limit tw = DEFAULT_LIMIT" using finish_limit[of "pf_io pf" st] wr assms(2) by (simp add: written_def)
qed



section \<open>A concrete daemon\<close>

text \<open>A restore or save runs to its end, GitLab cannot be reached, and every file operation works.\<close>

definition sample_read :: "string list read_fs" where
  "sample_read = \<lparr>rf_canonicalize = (\<lambda>p _. Inr p), rf_glob = (\<lambda>_ _. Inr []), rf_walk = (\<lambda>_ _. []),
     rf_lstat = (\<lambda>_ _. Inl ''gone''), rf_readlink = (\<lambda>_ _. Inl ''no link''), rf_read = (\<lambda>_ _. Inl ''gone'')\<rparr>"

definition sample_disk :: "string list disk" where
  "sample_disk = \<lparr>dk_mkdirs = (\<lambda>_ w. (Inr (), w)), dk_metadata = (\<lambda>_ _. Missing), dk_touch = (\<lambda>_ w. w),
     dk_read = (\<lambda>_ _. None), dk_write = (\<lambda>_ _ w. (Inr (), w)), dk_remove = (\<lambda>_ w. w),
     dk_persist = (\<lambda>_ _ w. (Inr (), w)), dk_entries = (\<lambda>_ _. Some []), dk_walk = (\<lambda>_ _. [])\<rparr>"

definition sample_dirs_fs :: "(unit, unit, string list) dir_fs" where
  "sample_dirs_fs = \<lparr>fs_mkdirs = (\<lambda>_ w. (Inr (), w)), fs_open = (\<lambda>_ w. (Inr (), w)),
     fs_openat = (\<lambda>_ _ w. (Inr (), w)), fs_mkdirat = (\<lambda>_ _ w. (Inr (), w)), fs_unlinkat = (\<lambda>_ _ w. (Inr (), w)),
     fs_create_excl = (\<lambda>_ _ w. (Inr (), w)), fs_symlinkat = (\<lambda>_ _ _ w. (Inr (), w)),
     fs_write = (\<lambda>_ _ w. (Inr (), w)), fs_fchmod = (\<lambda>_ _ w. (Inr (), w))\<rparr>"

definition sample_platform :: "(unit, unit, string list) platform" where
  "sample_platform = \<lparr>pf_io = sample_net, pf_docker = sample_api, pf_docker_host = sample_host,
     pf_shell = \<lparr>os_spawn = (\<lambda>_ _ _ w. (Inr [StdoutEof, StderrEof, ProcessExit (Some 0)], w)), os_kill_group = (\<lambda>w. w)\<rparr>,
     pf_git = (\<lambda>_ _ w. (Inr (True, [], []), w)), pf_mkdirs = (\<lambda>_ w. (Inr (), w)), pf_mkparent = (\<lambda>_ w. (Inr (), w)),
     pf_write = (\<lambda>_ _ w. (Inr (), w)), pf_rm = (\<lambda>_ w. (Removed, w)), pf_disk = sample_disk, pf_hash_hex = sample_hash,
     pf_archiver = \<lparr>av_read = sample_read, av_pattern = (\<lambda>_. None), av_encode = (\<lambda>_. []),
       av_stage = (\<lambda>_ w. (Inr ''/t'', w)), av_store = (\<lambda>_ _ w. (Inr (), w))\<rparr>,
     pf_fs = sample_dirs_fs, pf_open_zip = (\<lambda>_ w. (Inr (Inr []), w)), pf_glob_escape = (\<lambda>s. s),
     pf_stopped = (\<lambda>w. (False, w)), pf_beats = (\<lambda>w. ([BeatTick], w)), pf_shutdown = (\<lambda>_. RunningDaemon),
     pf_race = (\<lambda>lm act st. case act st of (r, st') \<Rightarrow> (RestoreEnded r, st')),
     pf_race_save = (\<lambda>act w. case act w of (r, w') \<Rightarrow> (Some r, w')),
     pf_use_workspace = (\<lambda>_ w. w), pf_unuse_workspace = (\<lambda>_ w. w), pf_last_eviction = (\<lambda>_. None),
     pf_set_eviction = (\<lambda>_ w. w), pf_spawn_eviction = (\<lambda>_ w. w)\<rparr>"

definition sample_daemon :: "string list daemon" where
  "sample_daemon = \<lparr>dm_cache = local_cache_new ''/c'', dm_config = runner_config_default, dm_client = sample_client,
     dm_executor = ShellExecutor (shell_new None), dm_scrubber = sample_scrubber,
     dm_facts = \<lparr>bf_version = ''1.0.0'', bf_revision = ''abcdef12'', bf_os = ''linux'', bf_arch = ''x86_64''\<rparr>\<rparr>"

lemma sample_race: "race_law sample_platform"
  by (simp add: race_law_def sample_platform_def case_prod_beta)



end
