(* ===== verification/Upgrade.thy ===== *)
theory Upgrade
  imports S3 Image
begin

text \<open>
  Replacing the binary with the latest release (\<open>upgrade\<close> and \<open>verify_checksum\<close> in \<open>src/main.rs\<close>).
  Downloads, JSON, files, running a binary and the hash are parameters. The binary is only ever replaced
  by the checked one of the latest release (\<open>upgrade_only_verified\<close>).
\<close>

text \<open>\<open>str::lines\<close>: split at newlines, without a carriage return before it and an empty last line.\<close>

definition chop_cr :: "string \<Rightarrow> string" where
  "chop_cr s = (if s \<noteq> [] \<and> last s = CHR 0x0D then butlast s else s)"

definition str_lines :: "string \<Rightarrow> string list" where
  "str_lines s =
     (let parts = split_on nl s; ended = butlast parts; rest = last parts in
      map chop_cr ended @ (if rest = [] then [] else [rest]))"

text \<open>\<open>split_once(char::is_whitespace)\<close>\<close>

definition split_once_ws :: "string \<Rightarrow> (string \<times> string) option" where
  "split_once_ws s = map_option (\<lambda>i. (take i s, drop (i + ws_len (drop i s)) s)) (find_ws s)"

definition expected_hash :: "string \<Rightarrow> string \<Rightarrow> string option" where
  "expected_hash sums asset =
     map_option (\<lambda>(hash, name). to_ascii_lowercase hash)
       (find (\<lambda>(hash, name). dropWhile ((=) (CHR ''*'')) (trim name) = asset)
          (filter_map split_once_ws (str_lines sums)))"

definition verify_checksum :: "(string \<Rightarrow> string) \<Rightarrow> string \<Rightarrow> string \<Rightarrow> string \<Rightarrow> (string, unit) result" where
  "verify_checksum sha256 data sums asset =
     (case expected_hash sums asset of
        None \<Rightarrow> Inl (''SHA256SUMS has no entry for '' @ asset)
      | Some expected \<Rightarrow>
          (let actual = hex (sha256 data) in
           if actual \<noteq> expected then
             Inl (''Checksum mismatch for '' @ asset @ '': expected '' @ expected @ '', got '' @ actual)
           else Inr ()))"

text \<open>\<open>Path::with_extension\<close>, for a path that ends with its file name as the one of the running binary does.\<close>

definition with_extension :: "string \<Rightarrow> string \<Rightarrow> string" where
  "with_extension p extension =
     (let i = (case rfind_char (CHR ''/'') p of None \<Rightarrow> 0 | Some i \<Rightarrow> i + 1);
          name = drop i p;
          stem = (case rfind_char (CHR ''.'') name of
                    None \<Rightarrow> name | Some j \<Rightarrow> if j = 0 then name else take j name)
      in take i p @ stem @ ''.'' @ extension)"

definition RELEASES_API :: string where
  "RELEASES_API = ''https://api.github.com/repos/ismoilovdevml/turboci/releases/latest''"

record 'w upgrade_io =
  ug_release :: "string \<Rightarrow> 'w \<Rightarrow> (string, json) result \<times> 'w"
  ug_download :: "string \<Rightarrow> 'w \<Rightarrow> (string, string) result \<times> 'w"
  ug_sha256 :: "string \<Rightarrow> string"
  ug_current_exe :: "'w \<Rightarrow> (string, string) result"
  ug_write :: "string \<Rightarrow> string \<Rightarrow> 'w \<Rightarrow> (string, unit) result \<times> 'w"
  ug_chmod :: "string \<Rightarrow> 'w \<Rightarrow> (string, unit) result \<times> 'w"
  ug_runs :: "string \<Rightarrow> 'w \<Rightarrow> bool \<times> 'w"
  ug_remove :: "string \<Rightarrow> 'w \<Rightarrow> 'w"
  ug_rename :: "string \<Rightarrow> string \<Rightarrow> 'w \<Rightarrow> (string, unit) result \<times> 'w"

text \<open>Installing a checked binary: written next to the running one, tried, and renamed over it.\<close>

definition install_binary :: "'w upgrade_io \<Rightarrow> string \<Rightarrow> 'w \<Rightarrow> (string, unit) result \<times> 'w" where
  "install_binary io binary w =
     (case ug_current_exe io w of
        Inl e \<Rightarrow> (Inl e, w)
      | Inr exe \<Rightarrow>
          (let temp_path = with_extension exe ''new'' in
           case ug_write io temp_path binary w of
             (Inl e, w1) \<Rightarrow> (Inl e, w1)
           | (Inr _, w1) \<Rightarrow>
               (case ug_chmod io temp_path w1 of
                  (Inl e, w2) \<Rightarrow> (Inl e, w2)
                | (Inr _, w2) \<Rightarrow>
                    (case ug_runs io temp_path w2 of
                       (runs, w3) \<Rightarrow>
                         if \<not> runs then
                           (Inl ''The downloaded binary does not run; keeping the current version'',
                            ug_remove io temp_path w3)
                         else ug_rename io temp_path exe w3))))"

definition download_release :: "'w upgrade_io \<Rightarrow> string \<Rightarrow> string \<Rightarrow> 'w \<Rightarrow> (string, string) result \<times> 'w" where
  "download_release io base asset w =
     (case ug_download io (base @ ''/'' @ asset) w of
        (Inl e, w1) \<Rightarrow> (Inl e, w1)
      | (Inr binary, w1) \<Rightarrow>
          (case ug_download io (base @ ''/SHA256SUMS'') w1 of
             (Inl e, w2) \<Rightarrow> (Inl (e @ '' (refusing to upgrade without checksums)''), w2)
           | (Inr sums, w2) \<Rightarrow>
               (rbind (verify_checksum (ug_sha256 io) binary (from_utf8_lossy sums) asset) (\<lambda>_. Inr binary), w2)))"

text \<open>The binary a release has for a platform; \<open>cfg!\<close> is a test of the constants \<open>OS\<close> and \<open>ARCH\<close>.\<close>

definition RELEASE_ASSET :: "string \<Rightarrow> string \<Rightarrow> string option" where
  "RELEASE_ASSET os arch =
     (if os = ''linux'' \<and> arch = ''x86_64'' then Some ''turboci-x86_64-unknown-linux-musl''
      else if os = ''linux'' \<and> arch = ''aarch64'' then Some ''turboci-aarch64-unknown-linux-musl''
      else if os = ''macos'' \<and> arch = ''aarch64'' then Some ''turboci-aarch64-apple-darwin''
      else None)"

definition release_base :: "string \<Rightarrow> string" where
  "release_base tag = ''https://github.com/ismoilovdevml/turboci/releases/download/'' @ tag"

definition upgrade :: "'w upgrade_io \<Rightarrow> string \<Rightarrow> string option \<Rightarrow> 'w \<Rightarrow> (string, unit) result \<times> 'w" where
  "upgrade io current_version release_asset w =
     (case ug_release io RELEASES_API w of
        (Inl e, w1) \<Rightarrow> (Inl e, w1)
      | (Inr release, w1) \<Rightarrow>
          (case json_str (json_index release ''tag_name'') of
             None \<Rightarrow> (Inl ''Latest release has no tag'', w1)
           | Some tag \<Rightarrow>
               if current_version = dropWhile ((=) (CHR ''v'')) tag then (Inr (), w1)
               else
                 (case release_asset of
                    None \<Rightarrow> (Inl ''Unsupported platform for auto-upgrade'', w1)
                  | Some asset \<Rightarrow>
                      (case download_release io
                          (release_base tag) asset w1 of
                         (Inl e, w2) \<Rightarrow> (Inl e, w2)
                       | (Inr binary, w2) \<Rightarrow> install_binary io binary w2))))"

lemma verify_checksum_ok:
  "verify_checksum sha256 data sums asset = Inr () \<longleftrightarrow> expected_hash sums asset = Some (hex (sha256 data))"
  by (auto simp: verify_checksum_def Let_def split: option.splits)

section \<open>Only a verified binary is installed\<close>

text \<open>
  What the system calls are documented to do to the contents of files: requests, the file mode and
  \<open>--version\<close> change none, a removed or failed file is its own affair, and a rename puts the source's content in
  the target's place at once or fails without touching it.
\<close>

definition upgrade_law :: "'w upgrade_io \<Rightarrow> ('w \<Rightarrow> string \<Rightarrow> string) \<Rightarrow> bool" where
  "upgrade_law io content \<longleftrightarrow>
     (\<forall>u w. content (snd (ug_release io u w)) = content w) \<and>
     (\<forall>u w. content (snd (ug_download io u w)) = content w) \<and>
     (\<forall>p b w r w'. ug_write io p b w = (r, w') \<longrightarrow>
        (\<forall>q. q \<noteq> p \<longrightarrow> content w' q = content w q) \<and> (r = Inr () \<longrightarrow> content w' p = b)) \<and>
     (\<forall>p w. content (snd (ug_chmod io p w)) = content w) \<and>
     (\<forall>p w. content (snd (ug_runs io p w)) = content w) \<and>
     (\<forall>p w q. q \<noteq> p \<longrightarrow> content (ug_remove io p w) q = content w q) \<and>
     (\<forall>p t w r w'. ug_rename io p t w = (r, w') \<longrightarrow>
        content w' t = (case r of Inl _ \<Rightarrow> content w t | Inr _ \<Rightarrow> content w p))"

text \<open>What a checked download is: the bytes of the asset, whose hash is the asset's in SHA256SUMS.\<close>

definition verified_download :: "'w upgrade_io \<Rightarrow> string \<Rightarrow> string \<Rightarrow> 'w \<Rightarrow> string \<Rightarrow> bool" where
  "verified_download io base asset w binary \<longleftrightarrow>
     (\<exists>sums. fst (ug_download io (base @ ''/'' @ asset) w) = Inr binary \<and>
        fst (ug_download io (base @ ''/SHA256SUMS'') (snd (ug_download io (base @ ''/'' @ asset) w))) = Inr sums \<and>
        expected_hash (from_utf8_lossy sums) asset = Some (hex (ug_sha256 io binary)))"

lemma download_release_verified:
  assumes law: "upgrade_law io content" and run: "download_release io base asset w = (r, w')"
  shows "content w' = content w" "r = Inr binary \<Longrightarrow> verified_download io base asset w binary"
proof -
  obtain d w1 where d: "ug_download io (base @ ''/'' @ asset) w = (d, w1)" by fastforce
  obtain s w2 where s: "ug_download io (base @ ''/SHA256SUMS'') w1 = (s, w2)" by fastforce
  have same: "content w1 = content w" "content w2 = content w"
    using law d s unfolding upgrade_law_def by (metis snd_conv)+
  have w': "w' = w1 \<or> w' = w2" using run d s by (auto simp: download_release_def split: sum.splits)
  then show "content w' = content w" using same by auto
  show "verified_download io base asset w binary" if "r = Inr binary"
    using run d s that
    by (auto simp: download_release_def verified_download_def rbind_Inr_conv verify_checksum_ok split: sum.splits)
qed

lemma install_binary_replaces:
  assumes law: "upgrade_law io content" and exe: "ug_current_exe io w = Inr exe" "with_extension exe ''new'' \<noteq> exe"
    and run: "install_binary io binary w = (r, w')"
  shows "content w' exe = (case r of Inl _ \<Rightarrow> content w exe | Inr _ \<Rightarrow> binary)"
proof -
  let ?t = "with_extension exe ''new''"
  obtain r1 w1 where written: "ug_write io ?t binary w = (r1, w1)" by fastforce
  have w1: "content w1 exe = content w exe" "r1 = Inr () \<Longrightarrow> content w1 ?t = binary"
    using law written exe(2) unfolding upgrade_law_def by metis+
  obtain r2 w2 where chmod: "ug_chmod io ?t w1 = (r2, w2)" by fastforce
  obtain b w3 where runs: "ug_runs io ?t w2 = (b, w3)" by fastforce
  have w3: "content w2 = content w1" "content w3 = content w1"
    using law chmod runs unfolding upgrade_law_def by (metis snd_conv)+
  have remove: "content (ug_remove io ?t w3) exe = content w1 exe"
    using law exe(2) w3 unfolding upgrade_law_def by metis
  have rename: "content w4 exe = (case r4 of Inl _ \<Rightarrow> content w1 exe | Inr _ \<Rightarrow> content w1 ?t)"
    if "ug_rename io ?t exe w3 = (r4, w4)" for r4 w4
    using law that w3 unfolding upgrade_law_def by metis
  show ?thesis
    using run w1 w3 remove rename
    by (auto simp: install_binary_def Let_def exe(1) written chmod runs split: sum.splits if_splits)
qed

lemma upgrade_cases:
  assumes "upgrade io version asset w = (r, w')"
  obtains (kept) "w' = snd (ug_release io RELEASES_API w)"
  | (failed) tag a where "w' = snd (download_release io (release_base tag) a (snd (ug_release io RELEASES_API w)))"
  | (installed) release tag a binary w2 where "fst (ug_release io RELEASES_API w) = Inr release" "asset = Some a"
      "json_str (json_index release ''tag_name'') = Some tag" "version \<noteq> dropWhile ((=) (CHR ''v'')) tag"
      "download_release io (release_base tag) a (snd (ug_release io RELEASES_API w)) = (Inr binary, w2)"
      "install_binary io binary w2 = (r, w')"
proof -
  obtain x w1 where w1: "ug_release io RELEASES_API w = (x, w1)" by fastforce
  show thesis
  proof (cases "\<exists>release tag a. x = Inr release \<and> json_str (json_index release ''tag_name'') = Some tag \<and>
      version \<noteq> dropWhile ((=) (CHR ''v'')) tag \<and> asset = Some a")
    case True
    then obtain release tag a where x: "x = Inr release" "json_str (json_index release ''tag_name'') = Some tag"
      "version \<noteq> dropWhile ((=) (CHR ''v'')) tag" "asset = Some a" by blast
    obtain d w2 where d: "download_release io (release_base tag) a w1 = (d, w2)" by fastforce
    show thesis
    proof (cases d)
      case (Inl e)
      then show thesis using failed[of tag a] assms w1 x d by (simp add: upgrade_def)
    next
      case (Inr binary)
      then show thesis using installed[of release a tag binary w2] assms w1 x d by (simp add: upgrade_def)
    qed
  next
    case False
    then have "w' = w1" using assms w1 by (auto simp: upgrade_def split: sum.splits option.splits if_splits)
    then show thesis using kept w1 by simp
  qed
qed

text \<open>
  C26: an upgrade leaves the running binary as it is or replaces it by the binary that the latest release
  has for this platform, whose version is another one and whose SHA-256 is the one SHA256SUMS of that
  release names for it. When the upgrade fails the binary is the old one.
\<close>

theorem upgrade_only_verified:
  assumes law: "upgrade_law io content"
    and exe: "\<And>w. ug_current_exe io w = Inr exe" "with_extension exe ''new'' \<noteq> exe"
    and run: "upgrade io version (RELEASE_ASSET os arch) w = (r, w')"
  shows "content w' exe = content w exe \<or>
    r = Inr () \<and>
    (\<exists>release tag asset. fst (ug_release io RELEASES_API w) = Inr release \<and>
       json_str (json_index release ''tag_name'') = Some tag \<and> version \<noteq> dropWhile ((=) (CHR ''v'')) tag \<and>
       RELEASE_ASSET os arch = Some asset \<and>
       verified_download io (release_base tag) asset
         (snd (ug_release io RELEASES_API w)) (content w' exe))"
proof -
  have release: "content (snd (ug_release io RELEASES_API w)) = content w" using law by (simp add: upgrade_law_def)
  show ?thesis using run
  proof (cases rule: upgrade_cases)
    case kept
    then show ?thesis by (simp add: release)
  next
    case (failed tag a)
    then show ?thesis using download_release_verified(1)[OF law] release by (metis prod.collapse)
  next
    case (installed release tag a binary w2)
    note inst = install_binary_replaces[OF law exe(1,2) installed(6)]
    show ?thesis
    proof (cases r)
      case Inl
      then show ?thesis using inst download_release_verified(1)[OF law installed(5)] release by simp
    next
      case (Inr u)
      then show ?thesis
        using inst installed(1-4) download_release_verified(2)[OF law installed(5) refl] by auto
    qed
  qed
qed

text \<open>A host with two files, its own binary and the one next to it; the release is newer.\<close>

definition sample_host :: "(string \<times> string) upgrade_io" where
  "sample_host = \<lparr>
     ug_release = (\<lambda>_ w. (Inr (JObj [(''tag_name'', JStr ''v2.0.0'')]), w)),
     ug_download = (\<lambda>u w. (Inr (if suffix ''SHA256SUMS'' u then ''6e6577  turboci-x86_64-unknown-linux-musl'' @ [nl]
                               else ''new''), w)),
     ug_sha256 = id, ug_current_exe = (\<lambda>_. Inr ''/bin/turboci''),
     ug_write = (\<lambda>p b w. if p = ''/bin/turboci'' then (Inr (), (b, snd w))
                        else if p = ''/bin/turboci.new'' then (Inr (), (fst w, b)) else (Inl ''denied'', w)),
     ug_chmod = (\<lambda>_ w. (Inr (), w)), ug_runs = (\<lambda>_ w. (True, w)), ug_remove = (\<lambda>_ w. w),
     ug_rename = (\<lambda>p t w. if p = ''/bin/turboci.new'' \<and> t = ''/bin/turboci'' then (Inr (), (snd w, []))
                         else (Inl ''denied'', w))\<rparr>"

definition sample_content :: "string \<times> string \<Rightarrow> string \<Rightarrow> string" where
  "sample_content w p = (if p = ''/bin/turboci'' then fst w else if p = ''/bin/turboci.new'' then snd w else [])"

lemma sample_host_law: "upgrade_law sample_host sample_content"
  by (auto simp: upgrade_law_def sample_host_def sample_content_def fun_eq_iff)

lemma upgrade_only_verified_witness:
  "\<exists>w'. upgrade sample_host ''1.0.0'' (RELEASE_ASSET ''linux'' ''x86_64'') (''old'', []) = (Inr (), w') \<and>
     sample_content w' ''/bin/turboci'' = ''new'' \<and>
     (\<exists>tag asset. verified_download sample_host (release_base tag)
        asset (''old'', []) ''new'')"
proof -
  have run: "upgrade sample_host ''1.0.0'' (RELEASE_ASSET ''linux'' ''x86_64'') (''old'', []) = (Inr (), (''new'', []))"
    by code_simp
  have ext: "with_extension ''/bin/turboci'' ''new'' \<noteq> ''/bin/turboci''" by code_simp
  have "ug_current_exe sample_host w = Inr ''/bin/turboci''" for w by (simp add: sample_host_def)
  moreover have "sample_content (''new'', []) ''/bin/turboci'' = ''new''"
    "sample_content (''old'', []) ''/bin/turboci'' = ''old''"
    "snd (ug_release sample_host RELEASES_API (''old'', [])) = (''old'', [])"
    by (simp_all add: sample_content_def sample_host_def)
  ultimately have "\<exists>release tag asset. verified_download sample_host (release_base tag) asset (''old'', []) ''new''"
    using upgrade_only_verified[OF sample_host_law _ ext run] by auto
  then show ?thesis using run by (auto simp: sample_content_def)
qed

end
