(* ===== verification/Command_Line.thy ===== *)
theory Command_Line
  imports Startup Upgrade
begin

text \<open>
  The four commands of the program (\<open>Commands\<close> and \<open>main\<close> in \<open>src/main.rs\<close>), once \<open>clap\<close> has read the
  arguments. A command ends with an error, with text for the user, with the upgraded binary, or as a
  running daemon: its jobs are those of \<open>Main_Loop\<close>.
\<close>

datatype commands =
  RunnerStart string | InitRunner string | RunnerStats string | Upgrade

datatype 'w outcome = Started "'w daemon" | Printed string | Upgraded

record ('c, 'w) program_io =
  po_startup :: "('c, 'w) startup_io"
  po_signals :: "'w \<Rightarrow> (string, unit) result"
  po_to_toml :: "runner_config \<Rightarrow> (string, string) result"
  po_write_file :: "string \<Rightarrow> string \<Rightarrow> 'w \<Rightarrow> (string, unit) result \<times> 'w"
  po_disk :: "'w disk"
  po_upgrade :: "'w upgrade_io"

text \<open>\<open>println!\<close>\<close>

definition println :: "string list \<Rightarrow> string" where
  "println ls = concat (map (\<lambda>l. l @ [nl]) ls)"

definition next_steps :: "string \<Rightarrow> string" where
  "next_steps output = println
     [[nl, CHR 0xF0, CHR 0x9F, CHR 0x92, CHR 0xA1] @ '' Next steps:'',
      ''  1. Edit '' @ output @ '' and configure your GitLab token'',
      ''  2. Make sure Docker is installed (default executor)'',
      ''  3. Run: turboci runner-start -c '' @ output]"

definition statistics :: "string \<Rightarrow> nat \<times> nat \<Rightarrow> string" where
  "statistics cache_dir counts = println
     [[nl, CHR 0xF0, CHR 0x9F, CHR 0x93, CHR 0x8A] @ '' TurboCI Runner Statistics:'',
      ''  Cache directory: '' @ cache_dir,
      ''  Cache archives:  '' @ dec (fst counts),
      ''  Cache size:      '' @ mb_text (snd counts) @ '' MB'']"

definition runner_stats :: "('c, 'w) program_io \<Rightarrow> string \<Rightarrow> 'w \<Rightarrow> (chain, string) result" where
  "runner_stats io config w =
     (let su = po_startup io in
      rbind (config_load (su_parse_url su) (su_read_ca su) (su_from_toml su) (su_read_file su) config) (\<lambda>c.
        Inr (statistics (rc_cache_dir c) (stats (po_disk io) (local_cache_new (rc_cache_dir c)) w))))"

definition main :: "('c, 'w) program_io \<Rightarrow> commands \<Rightarrow> 'w \<Rightarrow> (chain, 'w outcome) result \<times> 'w" where
  "main io command w =
     (case command of
        RunnerStart config \<Rightarrow>
          (case runner_start (po_startup io) config w of
             (Inl e, w1) \<Rightarrow> (Inl e, w1)
           | (Inr dm, w1) \<Rightarrow>
               (case po_signals io w1 of Inl e \<Rightarrow> (Inl [e], w1) | Inr _ \<Rightarrow> (Inr (Started dm), w1)))
      | InitRunner output \<Rightarrow>
          (case create_example (po_to_toml io) (po_write_file io) output w of
             (Inl e, w1) \<Rightarrow> (Inl e, w1)
           | (Inr _, w1) \<Rightarrow> (Inr (Printed (next_steps output)), w1))
      | RunnerStats config \<Rightarrow> (map_sum id Printed (runner_stats io config w), w)
      | Upgrade \<Rightarrow>
          (let facts = su_facts (po_startup io) in
           case upgrade (po_upgrade io) (bf_version facts) (RELEASE_ASSET (bf_os facts) (bf_arch facts)) w of
             (Inl e, w1) \<Rightarrow> (Inl [e], w1)
           | (Inr _, w1) \<Rightarrow> (Inr Upgraded, w1)))"

section \<open>The check of dockerd in the background\<close>

text \<open>\<open>DockerExecutor::daemon_warnings\<close>: what the runner logs about dockerd's settings once it has started.\<close>

definition docker_warnings ::
  "(string \<Rightarrow> addr_family \<Rightarrow> (string, (string, ip_addr) result list) result) \<Rightarrow> (string \<Rightarrow> bool) \<Rightarrow>
     docker_executor \<Rightarrow> bool \<Rightarrow> (string, system_info) result \<Rightarrow> string list" where
  "docker_warnings getaddrinfo exists_path dx proxy info =
     (case info of
        Inl e \<Rightarrow> [''Cannot read the Docker daemon'' @ [sq] @ ''s settings: '' @ e]
      | Inr info \<Rightarrow>
          (let resolve = (\<lambda>host. case lookup getaddrinfo host of Inl _ \<Rightarrow> [] | Inr addrs \<Rightarrow> addrs)
           in daemon_warnings info (dx_config dx) proxy ''/etc/docker/certs.d'' exists_path resolve))"

text \<open>A dockerd that has its proxy, trusts every registry by name and has every CA is not warned about.\<close>

lemma docker_warnings_none:
  assumes "\<And>reg. reg \<in> set (dc_insecure_registries (dx_config dx)) \<Longrightarrow> listed_insecure info reg"
    and "\<And>reg path. (reg, path) \<in> set (dc_registry_ca (dx_config dx)) \<Longrightarrow>
      exists_path (path_join (path_join ''/etc/docker/certs.d'' reg) ''ca.crt'')"
    and "proxy \<Longrightarrow> or_empty (sy_http_proxy info) \<noteq> [] \<or> or_empty (sy_https_proxy info) \<noteq> []"
  shows "docker_warnings getaddrinfo exists_path dx proxy (Inr info) = []"
  using assms by (auto simp: docker_warnings_def daemon_warnings_def Let_def filter_empty_conv)

section \<open>What the commands do\<close>

text \<open>Only \<open>RunnerStart\<close> starts a daemon, and only \<open>Upgrade\<close> touches the binary.\<close>

lemma main_started:
  "main io command w = (Inr (Started dm), w') \<longleftrightarrow>
     (\<exists>config. command = RunnerStart config \<and> runner_start (po_startup io) config w = (Inr dm, w') \<and>
        po_signals io w' = Inr ())"
  by (cases command) (auto simp: main_def Let_def map_sum_def split: sum.splits prod.splits)

lemma main_upgraded:
  "main io command w = (Inr Upgraded, w') \<longleftrightarrow>
     command = Upgrade \<and>
     upgrade (po_upgrade io) (bf_version (su_facts (po_startup io)))
       (RELEASE_ASSET (bf_os (su_facts (po_startup io))) (bf_arch (su_facts (po_startup io)))) w = (Inr (), w')"
  by (cases command) (auto simp: main_def Let_def map_sum_def split: sum.splits prod.splits)

text \<open>The statistics count the archives and their bytes, whatever else is in the cache.\<close>

lemma stats_archives:
  "stats dk lc w =
     (let archives = [(p, f, len) \<leftarrow> dk_walk dk (lc_root lc) w. f \<and> path_extension p = Some ''zip'']
      in (length archives, sum_list (map (\<lambda>(p, f, len). case len of None \<Rightarrow> 0 | Some n \<Rightarrow> n) archives)))"
proof -
  have "foldl (\<lambda>(count, bytes) (path, is_file, len). (count + 1, bytes + (case len of Some n \<Rightarrow> n | None \<Rightarrow> 0)))
      (c, b) zs = (c + length zs, b + sum_list (map (\<lambda>(p, f, len). case len of None \<Rightarrow> 0 | Some n \<Rightarrow> n) zs))"
    for c b :: nat and zs :: "(string \<times> bool \<times> nat option) list"
    by (induction zs arbitrary: c b) (auto split: option.splits)
  from this[of 0 0] show ?thesis by (simp add: stats_def Let_def)
qed

end
