(* ===== verification/Tests_Base.thy ===== *)
theory Tests_Base
  imports Gitlab_Client "HOL-Library.Code_Target_Numeral"
begin

text \<open>
  What the unit tests of the repository share when they are run on the model: the values that
  \<open>serde_json\<close> makes of the literals in the tests, and a server of mocks (the \<open>wiremock\<close> crate) for the
  tests that talk to one. Numbers are computed with the library's binary implementation.
\<close>

definition is_err :: "('e, 'a) result \<Rightarrow> bool" where
  "is_err r = (case r of Inl _ \<Rightarrow> True | Inr _ \<Rightarrow> False)"

definition is_ok :: "('e, 'a) result \<Rightarrow> bool" where
  "is_ok r \<longleftrightarrow> \<not> is_err r"

text \<open>A job with nothing but an ID and a token, and variables that only have a name and a value.\<close>

definition bare_job :: "nat \<Rightarrow> string \<Rightarrow> job" where
  "bare_job jid token = \<lparr>job_id = jid, job_token = token, job_allow_git_fetch = False, job_job_info = None,
     job_git_info = None, job_runner_info = None, job_variables = [], job_steps = [], job_image = None,
     job_services = [], job_artifacts = None, job_cache = [], job_credentials = [], job_dependencies = [],
     job_timeout = 0, job_hooks = [], job_project_slot = 0\<rparr>"

definition var :: "string \<Rightarrow> string \<Rightarrow> variable" where
  "var key v = \<lparr>var_key = key, var_value = Some v, var_public = False, var_masked = False, var_raw = False,
     var_file = False, var_internal = False\<rparr>"

section \<open>A server of mocks\<close>

text \<open>
  A mock answers the requests it matches, at most so many times; the first one that may answer does, and
  a request none answers gets a 404. The world is how often each mock answered and what was received.
\<close>

record mock =
  mk_matches :: "request \<Rightarrow> bool"
  mk_up_to :: "nat option"
  mk_response :: response

type_synonym mock_world = "nat list \<times> request list"

definition template :: "nat \<Rightarrow> response" where
  "template status = \<lparr>rsp_status = status, rsp_headers = [], rsp_chunks = []\<rparr>"

definition insert_header :: "string \<Rightarrow> string \<Rightarrow> response \<Rightarrow> response" where
  "insert_header name v r = r\<lparr>rsp_headers := rsp_headers r @ [(name, v)]\<rparr>"

definition set_body :: "string \<Rightarrow> response \<Rightarrow> response" where
  "set_body text r = r\<lparr>rsp_chunks := [Inr text]\<rparr>"

fun serve :: "mock list \<Rightarrow> nat list \<Rightarrow> request \<Rightarrow> response \<times> nat list" where
  "serve (m # ms) (hit # hits) rq =
     (if mk_matches m rq \<and> (case mk_up_to m of None \<Rightarrow> True | Some n \<Rightarrow> hit < n)
      then (mk_response m, Suc hit # hits)
      else (case serve ms hits rq of (r, hits') \<Rightarrow> (r, hit # hits')))"
| "serve ms hits rq = (template 404, hits)"

definition mock_http :: "mock list \<Rightarrow> mock_world http" where
  "mock_http ms = \<lparr>
     http_send = (\<lambda>rq (hits, received). case serve ms hits rq of (r, hits') \<Rightarrow> (Inr r, (hits', received @ [rq]))),
     http_sleep = (\<lambda>_ w. w), http_open = (\<lambda>_ w. (Inr (), w)), http_create = (\<lambda>_ w. (Inr (), w)),
     http_write = (\<lambda>_ _ w. (Inr (), w)), http_status_text = dec, http_now = (\<lambda>_. 0), http_unix_secs = (\<lambda>_. 0)\<rparr>"

definition mounted :: "mock list \<Rightarrow> mock_world" where
  "mounted ms = (map (\<lambda>_. 0) ms, [])"

definition url_path :: "string \<Rightarrow> string" where
  "url_path p = ''http://mock'' @ p"

definition given :: "http_method \<Rightarrow> string \<Rightarrow> response \<Rightarrow> mock" where
  "given m p r = \<lparr>mk_matches = (\<lambda>rq. rq_method rq = m \<and> rq_url rq = url_path p), mk_up_to = None, mk_response = r\<rparr>"

definition given_method :: "http_method \<Rightarrow> response \<Rightarrow> mock" where
  "given_method m r = \<lparr>mk_matches = (\<lambda>rq. rq_method rq = m), mk_up_to = None, mk_response = r\<rparr>"

definition and_matches :: "(request \<Rightarrow> bool) \<Rightarrow> mock \<Rightarrow> mock" where
  "and_matches p m = m\<lparr>mk_matches := (\<lambda>rq. mk_matches m rq \<and> p rq)\<rparr>"

definition up_to_n_times :: "nat \<Rightarrow> mock \<Rightarrow> mock" where
  "up_to_n_times n m = m\<lparr>mk_up_to := Some n\<rparr>"

text \<open>\<open>body_partial_json\<close>: objects may hold more than what is expected.\<close>

fun json_includes :: "json \<Rightarrow> json \<Rightarrow> bool" where
  "json_includes (JObj expected) (JObj actual) \<longleftrightarrow>
     list_all (\<lambda>kv. case map_of actual (fst kv) of None \<Rightarrow> False | Some v \<Rightarrow> json_includes (snd kv) v) expected"
| "json_includes expected actual \<longleftrightarrow> expected = actual"

definition partial_json :: "json \<Rightarrow> request \<Rightarrow> bool" where
  "partial_json expected rq = (case rq_body rq of JsonBody actual \<Rightarrow> json_includes expected actual | _ \<Rightarrow> False)"

definition has_header :: "string \<Rightarrow> string \<Rightarrow> request \<Rightarrow> bool" where
  "has_header name v rq \<longleftrightarrow> (name, v) \<in> set (rq_headers rq)"

definition has_query :: "string \<Rightarrow> string \<Rightarrow> request \<Rightarrow> bool" where
  "has_query name v rq \<longleftrightarrow> (name, v) \<in> set (rq_query rq)"

definition mock_client :: gitlab_client where
  "mock_client = \<lparr>gl_url = ''http://mock'', gl_system_id = ''s_1'', gl_executor = ''docker'', gl_version = ''1'',
     gl_os = ''linux'', gl_arch = ''amd64''\<rparr>"

end
