(* ===== verification/Tests_Image.thy ===== *)
theory Tests_Image
  imports Image Tests_Base
begin

text \<open>
  The unit tests of \<open>src/runner_daemon/image.rs\<close>, run on the model: each definition is a test with its
  assertions, each lemma says that the model passes it.
\<close>

definition cred :: "string \<Rightarrow> credential" where
  "cred url = \<lparr>cred_type = ''registry'', cred_url = url, cred_username = ''u'', cred_password = ''p''\<rparr>"

text \<open>What the JSON parser and the base64 decoder return for the inputs of the tests.\<close>

definition auths_json :: "(string \<times> json) list \<Rightarrow> json" where
  "auths_json entries = JObj [(''auths'', JObj entries)]"

definition auth_entry :: "string \<Rightarrow> json" where
  "auth_entry text = JObj [(''auth'', JStr text)]"

definition hub_entry :: "string \<times> json" where
  "hub_entry = (''https://index.docker.io/v1/'', auth_entry ''aHViOnB3'')"

definition tests_b64 :: "string \<Rightarrow> string option" where
  "tests_b64 s = map_of [(''dXNlcjpzZWNyZXQ='', ''user:secret''), (''aHViOnB3'', ''hub:pw'')] s"

definition splits_repository_and_registry :: bool where
  "splits_repository_and_registry \<longleftrightarrow>
     repository ''postgres:16'' = ''postgres'' \<and>
     repository ''postgres'' = ''postgres'' \<and>
     repository ''localhost:5000/app:1.0'' = ''localhost:5000/app'' \<and>
     repository ''reg.io/g/app@sha256:abc'' = ''reg.io/g/app'' \<and>
     registry ''postgres:16'' = ''docker.io'' \<and>
     registry ''bitnami/redis'' = ''docker.io'' \<and>
     registry ''registry.gitlab.com/g/app:1'' = ''registry.gitlab.com'' \<and>
     registry ''localhost:5000/app'' = ''localhost:5000'' \<and>
     registry ''Myhost/app'' = ''Myhost'' \<and>
     docker_config_auth (\<lambda>_. Some (auths_json [hub_entry])) tests_b64 [] ''Myhost/app'' = None"

lemma test_splits: "splits_repository_and_registry"
  by code_simp

definition pulls_latest_when_no_tag_is_given :: bool where
  "pulls_latest_when_no_tag_is_given \<longleftrightarrow>
     with_default_tag ''alpine'' = ''alpine:latest'' \<and>
     with_default_tag ''alpine:3.20'' = ''alpine:3.20'' \<and>
     with_default_tag ''localhost:5000/app'' = ''localhost:5000/app:latest'' \<and>
     with_default_tag ''app@sha256:abc'' = ''app@sha256:abc''"

lemma test_default_tag: "pulls_latest_when_no_tag_is_given"
  by code_simp

definition service_aliases_match_gitlab_runner :: bool where
  "service_aliases_match_gitlab_runner \<longleftrightarrow>
     service_aliases ''postgres:16'' None = [''postgres''] \<and>
     service_aliases ''registry.example.com/group/cache:7'' (Some ''cache, redis'') =
       [''registry.example.com__group__cache'', ''registry.example.com-group-cache'', ''cache'', ''redis'']"

lemma test_aliases: "service_aliases_match_gitlab_runner"
  by code_simp

definition recognises_dind_images :: bool where
  "recognises_dind_images \<longleftrightarrow>
     list_all is_dind [''docker:dind'', ''docker:27-dind'', ''harbor.corp:5000/library/docker:dind-rootless''] \<and>
     list_all (\<lambda>img. \<not> is_dind img) [''docker:27-cli'', ''postgres:16'', ''alpine'']"

lemma test_dind: "recognises_dind_images"
  by code_simp

definition dind_command_appends_insecure_registries_once :: bool where
  "dind_command_appends_insecure_registries_once \<longleftrightarrow>
     (let insecure = [''harbor.corp'', ''10.0.0.5:5000''];
          given = [''--tls=false'', ''--insecure-registry=harbor.corp''] in
      dind_command (Some given) insecure =
        Some [''--tls=false'', ''--insecure-registry=harbor.corp'', ''--insecure-registry=10.0.0.5:5000''] \<and>
      dind_command None (take 1 insecure) = Some [''--insecure-registry=harbor.corp''] \<and>
      dind_command None [] = None \<and>
      dind_command (Some given) [] = Some given)"

lemma test_dind_command: "dind_command_appends_insecure_registries_once"
  by code_simp

definition matches_ips_against_cidrs :: bool where
  "matches_ips_against_cidrs \<longleftrightarrow>
     (let ip = (\<lambda>s. the (parse_ip s)) in
      ip_in_cidr (ip ''10.0.0.5'') ''10.0.0.0/8'' \<and>
      ip_in_cidr (ip ''127.0.0.1'') ''127.0.0.0/8'' \<and>
      \<not> ip_in_cidr (ip ''192.168.1.5'') ''10.0.0.0/8'' \<and>
      ip_in_cidr (ip ''::1'') ''::1/128'' \<and>
      \<not> ip_in_cidr (ip ''10.0.0.5'') ''::1/128'' \<and>
      \<not> ip_in_cidr (ip ''10.0.0.5'') ''garbage'')"

lemma test_cidrs: "matches_ips_against_cidrs"
  by code_simp

definition explains_tls_pull_errors :: bool where
  "explains_tls_pull_errors \<longleftrightarrow>
     (case registry_pull_hint ''Get \"https://harbor.corp/v2/\": x509: certificate signed by unknown authority''
        ''harbor.corp'' of
        None \<Rightarrow> False | Some hint \<Rightarrow> contains hint ''registry_ca'' \<and> contains hint ''harbor.corp'') \<and>
     registry_pull_hint ''http: server gave HTTP response to HTTPS client'' ''h'' \<noteq> None \<and>
     registry_pull_hint ''manifest unknown'' ''h'' = None \<and>
     (case registry_pull_hint
        ''Get \"https://registry-1.docker.io/v2/\": x509: certificate signed by unknown authority'' ''docker.io'' of
        None \<Rightarrow> False | Some hub \<Rightarrow> contains hub ''trust store'' \<and> \<not> contains hub ''registry_ca'')"

lemma test_hints: "explains_tls_pull_errors"
  by code_simp

definition reads_registry_logins_from_docker_config :: bool where
  "reads_registry_logins_from_docker_config \<longleftrightarrow>
     (let config = auths_json [(''https://harbor.example.com'', auth_entry ''dXNlcjpzZWNyZXQ=''), hub_entry,
            (''plain.example.com'', JObj [(''username'', JStr ''u''), (''password'', JStr ''p'')])];
          auth = docker_config_auth (\<lambda>_. Some config) tests_b64 [] in
      auth ''harbor.example.com/library/app:1'' = Some (''user'', ''secret'') \<and>
      auth ''postgres:16'' = Some (''hub'', ''pw'') \<and>
      auth ''plain.example.com/x'' = Some (''u'', ''p'') \<and>
      auth ''quay.io/org/app'' = None \<and>
      docker_config_auth (\<lambda>_. None) tests_b64 ''not json'' ''postgres'' = None)"

lemma test_logins: "reads_registry_logins_from_docker_config"
  by code_simp

definition picks_credentials_of_the_image_registry :: bool where
  "picks_credentials_of_the_image_registry \<longleftrightarrow>
     (let creds = [cred ''https://registry.gitlab.com'', cred ''https://index.docker.io/v1/''] in
      map_option cred_url (credentials_for ''registry.gitlab.com/g/app:1'' creds) = Some ''https://registry.gitlab.com'' \<and>
      map_option cred_url (credentials_for ''postgres:16'' creds) = Some ''https://index.docker.io/v1/'' \<and>
      credentials_for ''quay.io/org/app'' creds = None)"

lemma test_credentials: "picks_credentials_of_the_image_registry"
  by code_simp

definition job_pull_policy_limited_to_allowed_policies :: bool where
  "job_pull_policy_limited_to_allowed_policies \<longleftrightarrow>
     pull_policy_resolve [] ''if-not-present'' [] = Inr IfNotPresent \<and>
     is_err (pull_policy_resolve [''never''] ''always'' []) \<and>
     is_err (pull_policy_resolve [''if-not-present''] ''always'' []) \<and>
     pull_policy_resolve [''always''] ''always'' [] = Inr Always \<and>
     pull_policy_resolve [''never'', ''if-not-present''] ''always'' [''always'', ''if-not-present''] = Inr IfNotPresent"

lemma test_pull_policy: "job_pull_policy_limited_to_allowed_policies"
  by code_simp

end
