(* ===== verification/Tests_Gitlab.thy ===== *)
theory Tests_Gitlab
  imports Tests_Base
begin

text \<open>
  The unit tests of \<open>src/gitlab/mod.rs\<close> that talk to a server, run on the client of the model. A test
  with \<open>expect\<close> also says how often its mock answered. Left out are the tests of the certificate
  parser, of the redirects \<open>reqwest\<close> follows, and of the parsers \<open>serde\<close> derives.
\<close>

definition answered :: "mock_world \<Rightarrow> nat list" where
  "answered w = fst w"

text \<open>What the tests' JSON parser, date parser and job parsers return.\<close>

definition tests_token :: "string \<Rightarrow> (string, token_response) result" where
  "tests_token text =
     (if text = ''verified'' then
        Inr \<lparr>tr_token = Some ''glrt-old'', tr_token_expires_at = Some ''2026-10-01T00:00:00.000Z''\<rparr>
      else if text = ''reset'' then Inr \<lparr>tr_token = Some ''glrt-new'', tr_token_expires_at = None\<rparr>
      else Inl ''no JSON'')"

definition tests_rfc3339 :: "string \<Rightarrow> int option" where
  "tests_rfc3339 text = map_of [(''2026-10-01T00:00:00.000Z'', 1790812800)] text"

definition verifies_and_resets_the_runner_token :: bool where
  "verifies_and_resets_the_runner_token \<longleftrightarrow>
     (let old_token = partial_json (JObj [(''token'', JStr ''glrt-old'')]);
          ms = [and_matches old_token (given POST ''/api/v4/runners/verify'' (set_body ''verified'' (template 200))),
                and_matches old_token
                  (given POST ''/api/v4/runners/reset_authentication_token'' (set_body ''reset'' (template 201)))];
          io = mock_http ms in
      case verify_runner io tests_token tests_rfc3339 mock_client ''glrt-old'' (mounted ms) of (verified, w1) \<Rightarrow>
      case reset_runner_token io tests_token tests_rfc3339 mock_client ''glrt-old'' w1 of (reset, w2) \<Rightarrow>
      verified = Inr (Some 1790812800) \<and> reset = Inr (''glrt-new'', None) \<and>
      is_err (fst (verify_runner io tests_token tests_rfc3339 mock_client ''glrt-unknown'' w2)))"

lemma test_runner_token: "verifies_and_resets_the_runner_token"
  by code_simp

definition no_parse :: "string \<Rightarrow> (parse_error, job) result" where
  "no_parse text = Inl \<lparr>pe_category = ''data'', pe_line = 1, pe_column = 1\<rparr>"

definition request_job_returns_none_when_no_job :: bool where
  "request_job_returns_none_when_no_job \<longleftrightarrow>
     (let ms = [and_matches (partial_json (JObj [(''token'', JStr ''runner-token'')]))
            (given POST ''/api/v4/jobs/request'' (template 204))] in
      case request_job (mock_http ms) no_parse (\<lambda>_. None) mock_client ''runner-token'' (mounted ms) of (r, w) \<Rightarrow>
      r = Inr None \<and> answered w = [1])"

lemma test_no_job: "request_job_returns_none_when_no_job"
  by code_simp

definition request_job_parses_assigned_job :: bool where
  "request_job_parses_assigned_job \<longleftrightarrow>
     (let ms = [given POST ''/api/v4/jobs/request'' (set_body ''job 42'' (template 201))];
          parser = (\<lambda>text. if text = ''job 42'' then Inr (bare_job 42 ''job-token'') else no_parse text) in
      case fst (request_job (mock_http ms) parser (\<lambda>_. None) mock_client ''runner-token'' (mounted ms)) of
        Inr (Some j) \<Rightarrow> job_id j = 42 \<and> job_token j = ''job-token''
      | _ \<Rightarrow> False)"

lemma test_assigned_job: "request_job_parses_assigned_job"
  by code_simp

definition request_job_sends_same_system_id_on_every_poll :: bool where
  "request_job_sends_same_system_id_on_every_poll \<longleftrightarrow>
     (let ms = [and_matches (partial_json (JObj [(''system_id'', JStr ''s_0123456789ab'')]))
            (given POST ''/api/v4/jobs/request'' (template 204))];
          client = with_system_id mock_client ''s_0123456789ab'';
          poll = request_job (mock_http ms) no_parse (\<lambda>_. None) client ''runner-token'' in
      answered (snd (poll (snd (poll (mounted ms))))) = [2])"

lemma test_system_id: "request_job_sends_same_system_id_on_every_poll"
  by code_simp

text \<open>No request carries the value, neither in the trace nor in the update.\<close>

definition mentions :: "string \<Rightarrow> request \<Rightarrow> bool" where
  "mentions secret rq =
     (case rq_body rq of RawBody text \<Rightarrow> contains text secret | JsonBody j \<Rightarrow> contains (json_text j) secret | _ \<Rightarrow> False)"

definition unparseable_job_is_reported_failed_without_echoing_values :: bool where
  "unparseable_job_is_reported_failed_without_echoing_values \<longleftrightarrow>
     (let ms = [given POST ''/api/v4/jobs/request'' (set_body ''super-secret-value'' (template 201)),
                and_matches (partial_json (JObj [(''token'', JStr ''job-token''), (''state'', JStr ''failed'')]))
                  (given PUT ''/api/v4/jobs/77'' (template 200))] in
      case request_job (mock_http ms) no_parse (\<lambda>_. Some (77, ''job-token'')) mock_client ''runner-token''
          (mounted ms) of
        (Inl e, w) \<Rightarrow> \<not> contains e ''super-secret-value'' \<and> answered w = [1, 1] \<and>
          list_all (\<lambda>rq. \<not> mentions ''super-secret-value'' rq) (snd w)
      | (Inr _, w) \<Rightarrow> False)"

lemma test_unparseable_job: "unparseable_job_is_reported_failed_without_echoing_values"
  by code_simp

definition request_job_reports_executor_and_only_implemented_features :: bool where
  "request_job_reports_executor_and_only_implemented_features \<longleftrightarrow>
     (let features = JObj (map (\<lambda>(k, b). (k, JBool b))
            [(''variables'', True), (''refspecs'', True), (''masking'', True), (''return_exit_code'', True),
             (''image'', False), (''services'', False), (''trace_checksum'', False), (''trace_reset'', False),
             (''artifacts_exclude'', True)]);
          expected = JObj [(''info'', JObj [(''executor'', JStr ''shell''), (''features'', features)])];
          ms = [and_matches (partial_json expected) (given POST ''/api/v4/jobs/request'' (template 204))] in
      case request_job (mock_http ms) no_parse (\<lambda>_. None) (with_executor mock_client ''shell'') ''runner-token''
          (mounted ms) of
        (r, w) \<Rightarrow> is_ok r \<and> answered w = [1])"

lemma test_features: "request_job_reports_executor_and_only_implemented_features"
  by code_simp

definition trace_and_touch_report_remote_cancellation :: bool where
  "trace_and_touch_report_remote_cancellation \<longleftrightarrow>
     (let ms = [given_method PATCH (insert_header ''Job-Status'' ''canceling'' (template 202)),
                given_method PUT (insert_header ''Job-Status'' ''canceled'' (template 200))] in
      case patch_trace (mock_http ms) mock_client 7 ''t'' ''x'' 0 (mounted ms) of
        (Inr patch, w) \<Rightarrow> tp_remote patch = Canceling \<and> tp_offset patch = 1 \<and>
          fst (touch_job (mock_http ms) mock_client 7 ''t'' w) = Inr Aborted
      | _ \<Rightarrow> False)"

lemma test_remote_cancellation: "trace_and_touch_report_remote_cancellation"
  by code_simp

definition trace_forbidden_means_job_is_gone :: bool where
  "trace_forbidden_means_job_is_gone \<longleftrightarrow>
     (let ms = [given_method PATCH (template 403)] in
      case patch_trace (mock_http ms) mock_client 7 ''t'' ''x'' 0 (mounted ms) of
        (Inr patch, w) \<Rightarrow> tp_remote patch = Aborted \<and> tp_offset patch = 0 \<and> answered w = [1]
      | _ \<Rightarrow> False)"

lemma test_trace_forbidden: "trace_forbidden_means_job_is_gone"
  by code_simp

definition request_job_fails_on_forbidden :: bool where
  "request_job_fails_on_forbidden \<longleftrightarrow>
     (let ms = [given POST ''/api/v4/jobs/request'' (template 403)] in
      is_err (fst (request_job (mock_http ms) no_parse (\<lambda>_. None) mock_client ''bad-token'' (mounted ms))))"

lemma test_request_forbidden: "request_job_fails_on_forbidden"
  by code_simp

definition patch_trace_sends_inclusive_content_range_and_job_token :: bool where
  "patch_trace_sends_inclusive_content_range_and_job_token \<longleftrightarrow>
     (let ms = [and_matches (has_header ''JOB-TOKEN'' ''job-token'') (and_matches (has_header ''Content-Range'' ''10-14'')
            (given PATCH ''/api/v4/jobs/7/trace'' (template 202)))] in
      case patch_trace (mock_http ms) mock_client 7 ''job-token'' ''hello'' 10 (mounted ms) of
        (Inr next, w) \<Rightarrow> tp_offset next = 15 \<and> tp_remote next = Running \<and> answered w = [1]
      | _ \<Rightarrow> False)"

lemma test_content_range: "patch_trace_sends_inclusive_content_range_and_job_token"
  by code_simp

definition patch_trace_returns_server_offset_on_range_mismatch :: bool where
  "patch_trace_returns_server_offset_on_range_mismatch \<longleftrightarrow>
     (let ms = [given PATCH ''/api/v4/jobs/7/trace'' (insert_header ''Range'' ''0-3'' (template 416))] in
      case fst (patch_trace (mock_http ms) mock_client 7 ''job-token'' ''hello'' 10 (mounted ms)) of
        Inr next \<Rightarrow> tp_offset next = 3 | Inl _ \<Rightarrow> False)"

lemma test_range_mismatch: "patch_trace_returns_server_offset_on_range_mismatch"
  by code_simp

definition update_job_sends_token_and_state :: bool where
  "update_job_sends_token_and_state \<longleftrightarrow>
     (let ms = [and_matches (partial_json (JObj [(''token'', JStr ''job-token''), (''state'', JStr ''success'')]))
            (given PUT ''/api/v4/jobs/7'' (template 200))] in
      case update_job (mock_http ms) mock_client 7 ''job-token'' Success None None (mounted ms) of
        (r, w) \<Rightarrow> r = Inr () \<and> answered w = [1])"

lemma test_update_job: "update_job_sends_token_and_state"
  by code_simp

text \<open>The form's encoding is the HTTP library's; the request names the file, its length and its name.\<close>

definition upload_artifacts_sends_multipart_file_with_query_parameters :: bool where
  "upload_artifacts_sends_multipart_file_with_query_parameters \<longleftrightarrow>
     (let ms = [and_matches (has_header ''JOB-TOKEN'' ''job-token'')
            (and_matches (has_query ''artifact_format'' ''zip'') (and_matches (has_query ''artifact_type'' ''archive'')
            (and_matches (has_query ''expire_in'' ''1 week'') (given POST ''/api/v4/jobs/7/artifacts'' (template 201)))))];
          u = \<lparr>up_path = ''/staged'', up_len = 12, up_file_name = ''artifacts.zip'', up_format = ''zip'',
               up_artifact_type = ''archive'', up_expire_in = Some ''1 week''\<rparr> in
      case upload_artifacts (mock_http ms) mock_client 7 ''job-token'' u (mounted ms) of
        (r, w) \<Rightarrow> r = Inr () \<and> answered w = [1] \<and>
          map rq_body (snd w) = [FilePart ''/staged'' 12 ''artifacts.zip''])"

lemma test_upload: "upload_artifacts_sends_multipart_file_with_query_parameters"
  by code_simp

definition rejected_artifact_upload_is_not_retried :: bool where
  "rejected_artifact_upload_is_not_retried \<longleftrightarrow>
     (let ms = [given_method POST (template 413)];
          u = \<lparr>up_path = ''/staged'', up_len = 3, up_file_name = ''a.zip'', up_format = ''zip'',
               up_artifact_type = ''archive'', up_expire_in = None\<rparr> in
      case upload_artifacts (mock_http ms) mock_client 7 ''t'' u (mounted ms) of
        (r, w) \<Rightarrow> is_err r \<and> answered w = [1])"

lemma test_upload_rejected: "rejected_artifact_upload_is_not_retried"
  by code_simp

definition update_job_sends_failure_reason_and_exit_code :: bool where
  "update_job_sends_failure_reason_and_exit_code \<longleftrightarrow>
     (let ms = [and_matches (partial_json (JObj [(''state'', JStr ''failed''),
              (''failure_reason'', JStr ''script_failure''), (''exit_code'', JNum ''3'')]))
            (given PUT ''/api/v4/jobs/7'' (template 200))] in
      case update_job (mock_http ms) mock_client 7 ''job-token'' Failed (Some ScriptFailure) (Some 3) (mounted ms) of
        (r, w) \<Rightarrow> r = Inr () \<and> answered w = [1])"

lemma test_failure_reason: "update_job_sends_failure_reason_and_exit_code"
  by code_simp

definition update_job_retries_while_accepted_and_on_server_error :: bool where
  "update_job_retries_while_accepted_and_on_server_error \<longleftrightarrow>
     (let ms = [up_to_n_times 1 (given_method PUT (template 202)), up_to_n_times 1 (given_method PUT (template 502)),
                given_method PUT (template 200)] in
      case update_job (mock_http ms) mock_client 7 ''job-token'' Success None None (mounted ms) of
        (r, w) \<Rightarrow> r = Inr () \<and> answered w = [1, 1, 1])"

lemma test_update_retries: "update_job_retries_while_accepted_and_on_server_error"
  by code_simp

definition update_job_gives_up_when_job_is_gone :: bool where
  "update_job_gives_up_when_job_is_gone \<longleftrightarrow>
     (let ms = [given_method PUT (template 403)] in
      case update_job (mock_http ms) mock_client 7 ''job-token'' Success None None (mounted ms) of
        (r, w) \<Rightarrow> is_err r \<and> answered w = [1])"

lemma test_update_gives_up: "update_job_gives_up_when_job_is_gone"
  by code_simp

end
