(* ===== verification/Tests_Script.thy ===== *)
theory Tests_Script
  imports Script Git Net Token System_Id Tests_Base
begin

text \<open>
  The unit tests of \<open>script.rs\<close>, \<open>git.rs\<close>, \<open>net.rs\<close>, \<open>token.rs\<close> and \<open>system_id.rs\<close> that need no shell, no
  git and no network, run on the model. Durations are proved in general in \<open>Duration\<close>.
\<close>

section \<open>Scripts and the environment of a job\<close>

definition with_clone_path :: "string \<Rightarrow> job" where
  "with_clone_path v = (bare_job 1 ''t'')\<lparr>job_variables := [var ''CI_PROJECT_PATH'' ''group/app'', var ''GIT_CLONE_PATH'' v]\<rparr>"

definition clone_path_stays_inside_the_builds_dir :: bool where
  "clone_path_stays_inside_the_builds_dir \<longleftrightarrow>
     project_subdir (with_clone_path []) = Inr ''project'' \<and>
     project_subdir (with_clone_path ''$CI_BUILDS_DIR/$CI_PROJECT_PATH'') = Inr ''group/app'' \<and>
     project_subdir (with_clone_path ''${CI_BUILDS_DIR}/src'') = Inr ''src'' \<and>
     list_all (\<lambda>bad. is_err (project_subdir (with_clone_path bad)))
       [''/tmp/x'', ''$CI_BUILDS_DIR/../etc'', ''$CI_BUILDS_DIR/a//b'', ''$CI_BUILDS_DIR/a b'']"

lemma test_clone_path: "clone_path_stays_inside_the_builds_dir"
  by code_simp

text \<open>What sh makes of the quoted line: the arguments, uninterpreted.\<close>

definition argv_script_does_not_interpret_arguments :: bool where
  "argv_script_does_not_interpret_arguments \<longleftrightarrow>
     (let evil = ''x'' @ [sq] @ ''; touch /tmp/pwned #'' in
      argv_script [[''echo'', evil, ''$(id)'']] = shell_prelude @ argv_line [''echo'', evil, ''$(id)''] @ [nl] \<and>
      sh_words (argv_line [''echo'', evil, ''$(id)'']) = Some [''echo'', evil, ''$(id)''])"

lemma test_argv_script: "argv_script_does_not_interpret_arguments"
  by code_simp

definition job_with :: "variable list \<Rightarrow> job" where
  "job_with vars = (bare_job 1 ''t'')\<lparr>job_variables := vars\<rparr>"

definition job_env_sets_dirs_expands_and_writes_file_variables :: bool where
  "job_env_sets_dirs_expands_and_writes_file_variables \<longleftrightarrow>
     (let j = job_with [var ''HOST'' ''db'', var ''URL'' ''postgres://${HOST}:5432/$DB_NAME'', var ''DB_NAME'' ''app'',
            (var ''LITERAL'' ''a$HOST'')\<lparr>var_raw := True\<rparr>, var ''PRICE'' ''$$5'',
            (var ''KUBECONFIG'' ''apiVersion: v1'')\<lparr>var_file := True\<rparr>,
            (var ''../../etc/evil'' ''x'')\<lparr>var_file := True\<rparr>];
          env = make_job_env j ''/builds'' ''/host/job-1'' runner_vars_default in
      env_get env ''CI_PROJECT_DIR'' = Some ''/builds/project'' \<and>
      env_get env ''URL'' = Some ''postgres://db:5432/app'' \<and>
      env_get env ''LITERAL'' = Some ''a$HOST'' \<and>
      env_get env ''PRICE'' = Some ''$5'' \<and>
      env_get env ''KUBECONFIG'' = Some ''/builds/project.tmp/KUBECONFIG'' \<and>
      je_files env = [(''/host/job-1/project.tmp/KUBECONFIG'', ''apiVersion: v1'')] \<and>
      env_get env ''../../etc/evil'' = None)"

lemma test_job_env: "job_env_sets_dirs_expands_and_writes_file_variables"
  by code_simp

definition runner_adds_predefined_and_tls_variables :: bool where
  "runner_adds_predefined_and_tls_variables \<longleftrightarrow>
     (let pem = ''-----BEGIN CERTIFICATE-----'';
          env = make_job_env (job_with []) ''/builds'' ''/h'' \<lparr>rv_disposable = True, rv_ca_pem = Some pem\<rparr>;
          shell = make_job_env (job_with []) ''/b'' ''/h'' runner_vars_default in
      env_get env ''CI_SERVER'' = Some ''yes'' \<and>
      env_get env ''CI_JOB_TIMEOUT'' = Some ''3600'' \<and>
      env_get env ''CI_DISPOSABLE_ENVIRONMENT'' = Some ''true'' \<and>
      env_get env ''CI_SERVER_TLS_CA_FILE'' = Some ''/builds/project.tmp/CI_SERVER_TLS_CA_FILE'' \<and>
      env_get env ''GIT_SSL_CAINFO'' = env_get env ''CI_SERVER_TLS_CA_FILE'' \<and>
      je_files env = [(''/h/project.tmp/CI_SERVER_TLS_CA_FILE'', pem)] \<and>
      env_get shell ''CI_SHARED_ENVIRONMENT'' = Some ''true'')"

lemma test_runner_variables: "runner_adds_predefined_and_tls_variables"
  by code_simp

definition later_variables_override_earlier_ones :: bool where
  "later_variables_override_earlier_ones \<longleftrightarrow>
     (let env = make_job_env (job_with [var ''MODE'' ''instance'', var ''MODE'' ''job'']) ''/builds'' ''/h''
            runner_vars_default in
      env_get env ''MODE'' = Some ''job'' \<and> length (filter (\<lambda>kv. fst kv = ''MODE'') (je_vars env)) = 1)"

lemma test_override: "later_variables_override_earlier_ones"
  by code_simp

section \<open>Git commands\<close>

definition git_info_of :: "string \<Rightarrow> string \<Rightarrow> string list \<Rightarrow> nat option \<Rightarrow> git_info" where
  "git_info_of url sha refspecs depth = \<lparr>gi_repo_url = url, gi_ref_name = ''main'', gi_ref_type = ''branch'',
     gi_sha = sha, gi_before_sha = replicate 40 (CHR ''0''), gi_depth = depth, gi_refspecs = refspecs,
     gi_repo_object_format = None, gi_protected = None\<rparr>"

definition sha_of :: "char \<Rightarrow> string" where
  "sha_of c = replicate 40 c"

definition rejects_option_like_refspec_and_bad_sha :: bool where
  "rejects_option_like_refspec_and_bad_sha \<longleftrightarrow>
     is_err (checkout_commands (git_info_of ''https://x/r.git'' (sha_of (CHR ''a'')) [''--upload-pack=touch /tmp/p''] None) [] ''/w'') \<and>
     is_err (checkout_commands (git_info_of ''--upload-pack=x'' (sha_of (CHR ''a'')) [] None) [] ''/w'') \<and>
     is_err (checkout_commands (git_info_of ''https://x/r.git'' ''main; rm -rf /'' [] None) [] ''/w'')"

lemma test_bad_refspec: "rejects_option_like_refspec_and_bad_sha"
  by code_simp

definition ok_commands :: "(string, string list list) result \<Rightarrow> (string list list \<Rightarrow> bool) \<Rightarrow> bool" where
  "ok_commands r p = (case r of Inl _ \<Rightarrow> False | Inr cmds \<Rightarrow> p cmds)"

definition depth_and_submodules_follow_variables :: bool where
  "depth_and_submodules_follow_variables \<longleftrightarrow>
     (let info = git_info_of ''https://x/r.git'' (sha_of (CHR ''b'')) [''+refs/heads/main:refs/remotes/origin/main''] (Some 20);
          vars = [var ''GIT_DEPTH'' ''0'', var ''GIT_SUBMODULE_STRATEGY'' ''recursive''] in
      ok_commands (checkout_commands info [] ''/w'')
        (\<lambda>cmds. ''--depth=20'' \<in> set (cmds ! 2) \<and> length cmds = 4) \<and>
      ok_commands (checkout_commands info vars ''/w'')
        (\<lambda>cmds. \<not> list_ex (prefix ''--depth'') (cmds ! 2) \<and>
          last cmds = [''git'', ''-c'', ''safe.directory=/w'', ''-C'', ''/w'', ''submodule'', ''update'', ''--init'', ''--recursive'']))"

lemma test_depth: "depth_and_submodules_follow_variables"
  by code_simp

definition submodule_depth_flags_and_paths_follow_variables :: bool where
  "submodule_depth_flags_and_paths_follow_variables \<longleftrightarrow>
     (let info = git_info_of ''https://x/r.git'' (sha_of (CHR ''d'')) [] (Some 10);
          vars = [var ''GIT_SUBMODULE_STRATEGY'' ''normal'', var ''GIT_SUBMODULE_DEPTH'' ''1'',
            var ''GIT_SUBMODULE_UPDATE_FLAGS'' ''--remote --jobs 4'', var ''GIT_SUBMODULE_PATHS'' ''libs/a :(exclude)libs/b''];
          bad = [var ''GIT_SUBMODULE_STRATEGY'' ''normal'', var ''GIT_SUBMODULE_PATHS'' '':(exclude) libs/b''] in
      ok_commands (checkout_commands info vars ''/w'')
        (\<lambda>cmds. drop 5 (last cmds) = [''submodule'', ''update'', ''--init'', ''--depth=1'', ''--remote'', ''--jobs'', ''4'',
            ''--'', ''libs/a'', '':(exclude)libs/b''] \<and>
          drop 5 (cmds ! (length cmds - 3)) = [''submodule'', ''init'']) \<and>
      ok_commands (checkout_commands info (take 1 vars) ''/w'') (\<lambda>cmds. ''--depth=10'' \<in> set (last cmds)) \<and>
      is_err (checkout_commands info bad ''/w''))"

lemma test_submodules: "submodule_depth_flags_and_paths_follow_variables"
  by code_simp

definition checkout_and_fetch_flags_follow_variables :: bool where
  "checkout_and_fetch_flags_follow_variables \<longleftrightarrow>
     ok_commands (checkout_commands (git_info_of ''https://x/r.git'' (sha_of (CHR ''c'')) [] None)
         [var ''GIT_CHECKOUT'' ''false'', var ''GIT_FETCH_EXTRA_FLAGS'' ''--filter=blob:none --prune-tags''] ''/w'')
       (\<lambda>cmds. \<not> list_ex (\<lambda>argv. ''checkout'' \<in> set argv) cmds \<and>
          ''--filter=blob:none'' \<in> set (cmds ! 2) \<and> ''--prune-tags'' \<in> set (cmds ! 2))"

lemma test_flags: "checkout_and_fetch_flags_follow_variables"
  by code_simp

definition clean_flags_follow_the_variable :: bool where
  "clean_flags_follow_the_variable \<longleftrightarrow>
     (let info = git_info_of ''https://g/r.git'' (sha_of (CHR ''a'')) [] None in
      ok_commands (update_commands info [] ''/w'') (list_ex (suffix [''clean'', ''-q'', ''-ffdx''])) \<and>
      ok_commands (update_commands info [var ''GIT_CLEAN_FLAGS'' ''-ffd -e node_modules/''] ''/w'')
        (list_ex (suffix [''-ffd'', ''-e'', ''node_modules/''])) \<and>
      ok_commands (update_commands info [var ''GIT_CLEAN_FLAGS'' ''none''] ''/w'')
        (\<lambda>cmds. \<not> list_ex (\<lambda>c. ''clean'' \<in> set c) cmds))"

lemma test_clean_flags: "clean_flags_follow_the_variable"
  by code_simp

definition strategy_from_variables :: bool where
  "strategy_from_variables \<longleftrightarrow>
     strategy [] True = GitFetch \<and> strategy [] False = GitClone \<and>
     strategy [var ''GIT_STRATEGY'' ''clone''] True = GitClone \<and>
     strategy [var ''GIT_STRATEGY'' ''fetch''] False = GitFetch \<and>
     strategy [var ''GIT_STRATEGY'' ''none''] True = GitNone \<and>
     strategy [var ''GIT_STRATEGY'' ''empty''] True = GitEmpty"

lemma test_strategy: "strategy_from_variables"
  by code_simp

section \<open>The network, the token and the system ID\<close>

definition effective_no_proxy_adds_loopback_and_services_once :: bool where
  "effective_no_proxy_adds_loopback_and_services_once \<longleftrightarrow>
     effective_no_proxy (Some '' .corp.local, localhost ,10.0.0.0/8'') [''docker'', ''postgres'', ''docker''] =
       ''.corp.local,localhost,10.0.0.0/8,127.0.0.1,::1,docker,postgres'' \<and>
     effective_no_proxy None [] = ''localhost,127.0.0.1,::1''"

lemma test_no_proxy: "effective_no_proxy_adds_loopback_and_services_once"
  by code_simp

text \<open>The parsers of proxy URLs and PEM files refuse the tests' texts.\<close>

definition rejects_bad_proxy_and_ca :: bool where
  "rejects_bad_proxy_and_ca \<longleftrightarrow>
     (let builder = network_client_builder (\<lambda>u. if u = ''not a url'' then Inl ''relative URL'' else Inr ()) (\<lambda>_. None)
            (\<lambda>pem. if pem = ''no pem here'' then Inr [] else Inr [pem]) in
      is_err (builder \<lparr>nw_proxy = Some ''not a url'', nw_no_proxy = None, nw_ca_pem = None\<rparr>) \<and>
      is_err (builder \<lparr>nw_proxy = None, nw_no_proxy = None, nw_ca_pem = Some ''no pem here''\<rparr>))"

lemma test_bad_proxy: "rejects_bad_proxy_and_ca"
  by code_simp

text \<open>
  A directory of files with their modes and contents. A stored token is written as its four fields with
  blanks between them, and a key is derived by taking its text.
\<close>

type_synonym file_list = "(string \<times> nat \<times> string) list"

definition change_file :: "string \<Rightarrow> (nat \<times> string \<Rightarrow> nat \<times> string) \<Rightarrow> file_list \<Rightarrow> file_list" where
  "change_file p f w = map (\<lambda>file. if fst file = p then (p, f (snd file)) else file) w"

definition rename_file :: "string \<Rightarrow> string \<Rightarrow> file_list \<Rightarrow> file_list" where
  "rename_file p q w = map (\<lambda>file. if fst file = p then (q, snd file) else file) (filter (\<lambda>file. fst file \<noteq> q) w)"

definition token_text :: "stored_token \<Rightarrow> string" where
  "token_text s = join '' '' [st_replaces s, st_token s, dec (nat (st_obtained_at s)),
     (case st_expires_at s of None \<Rightarrow> ''-'' | Some e \<Rightarrow> dec (nat e))]"

definition text_token :: "string \<Rightarrow> stored_token option" where
  "text_token text =
     (case split_on (CHR '' '') text of
        [r, t, ob, e] \<Rightarrow> Some \<lparr>st_replaces = r, st_token = t, st_obtained_at = int (digits_val ob),
          st_expires_at = (if e = ''-'' then None else Some (int (digits_val e)))\<rparr>
      | _ \<Rightarrow> None)"

definition tests_token_io :: "file_list token_io" where
  "tests_token_io = \<lparr>tk_read = (\<lambda>p w. map_option snd (map_of w p)), tk_from_json = text_token, tk_to_json = token_text,
     tk_stage = (\<lambda>dir w. (Inr (dir @ ''/.tmp''), w @ [(dir @ ''/.tmp'', 384, [])])),
     tk_chmod = (\<lambda>p mode w. (Inr (), change_file p (\<lambda>(_, text). (mode, text)) w)),
     tk_write = (\<lambda>p text w. (Inr (), change_file p (\<lambda>(mode, old). (mode, old @ text)) w)),
     tk_sync = (\<lambda>_ w. (Inr (), w)), tk_persist = (\<lambda>p q w. (Inr (), rename_file p q w))\<rparr>"

definition stored_token_is_used_until_the_config_token_changes :: bool where
  "stored_token_is_used_until_the_config_token_changes \<longleftrightarrow>
     (let store = token_store_new id ''/state'' ''glrt-config'';
          saved = token_save tests_token_io store ''glrt-rotated'' 100 (Some 200) [] in
      token_load tests_token_io store [] = None \<and>
      fst saved = Inr () \<and>
      map_option (\<lambda>s. (st_token s, st_obtained_at s, st_expires_at s)) (token_load tests_token_io store (snd saved)) =
        Some (''glrt-rotated'', 100, Some 200) \<and>
      map_option fst (map_of (snd saved) (ts_path store)) = Some 384 \<and>
      token_load tests_token_io (token_store_new id ''/state'' ''glrt-new'') (snd saved) = None)"

lemma test_stored_token: "stored_token_is_used_until_the_config_token_changes"
  by code_simp

definition resets_after_three_quarters_of_the_lifetime :: bool where
  "resets_after_three_quarters_of_the_lifetime \<longleftrightarrow> reset_time 1000 2000 = 1750 \<and> reset_time 1000 900 = 1000"

lemma test_reset_time: "resets_after_three_quarters_of_the_lifetime"
  by (simp add: resets_after_three_quarters_of_the_lifetime_def reset_time_exact)

text \<open>The ID's file in a directory that can be written, or in none; the key of a text is its first six bytes.\<close>

definition write_id :: "string \<Rightarrow> string \<Rightarrow> file_list \<Rightarrow> file_list" where
  "write_id p i w = (p, 384, i) # filter (\<lambda>file. fst file \<noteq> p) w"

definition load_id :: "(string \<Rightarrow> string \<Rightarrow> file_list \<Rightarrow> file_list) \<Rightarrow> file_list \<Rightarrow> string \<times> file_list" where
  "load_id write w = load_or_create (take 6) (\<lambda>p w. map_option snd (map_of w p)) (\<lambda>_. ''0123456789abcdef'') write
     ''/s/.runner_system_id'' [] w"

definition machine_derived_id_is_stable_and_well_formed :: bool where
  "machine_derived_id_is_stable_and_well_formed \<longleftrightarrow>
     (let a = from_machine_id (take 6) ''0123456789abcdef'' in
      a = from_machine_id (take 6) ''0123456789abcdef'' \<and> a \<noteq> from_machine_id (take 6) ''fedcba9876543210'' \<and>
      id_is_valid a \<and> id_is_valid (random_id ''0123456789abcdef''))"

lemma test_machine_id: "machine_derived_id_is_stable_and_well_formed"
  by code_simp

definition creates_state_file_and_reuses_it :: bool where
  "creates_state_file_and_reuses_it \<longleftrightarrow>
     (let first = load_id write_id []; second = load_id write_id (snd first) in
      id_is_valid (fst first) \<and> fst first = fst second \<and>
      map_option snd (map_of (snd second) ''/s/.runner_system_id'') = Some (fst first))"

lemma test_state_file: "creates_state_file_and_reuses_it"
  by code_simp

definition keeps_existing_valid_id_and_replaces_garbage :: bool where
  "keeps_existing_valid_id_and_replaces_garbage \<longleftrightarrow>
     (let replaced = load_id write_id [(''/s/.runner_system_id'', 384, ''not-an-id'')] in
      fst (load_id write_id [(''/s/.runner_system_id'', 384, ''r_AbC123xyz789'' @ [nl])]) = ''r_AbC123xyz789'' \<and>
      id_is_valid (fst replaced) \<and>
      map_option snd (map_of (snd replaced) ''/s/.runner_system_id'') = Some (fst replaced))"

lemma test_existing_id: "keeps_existing_valid_id_and_replaces_garbage"
  by code_simp

definition unwritable_location_still_returns_valid_id :: bool where
  "unwritable_location_still_returns_valid_id \<longleftrightarrow> id_is_valid (fst (load_id (\<lambda>_ _ w. w) []))"

lemma test_unwritable: "unwritable_location_still_returns_valid_id"
  by code_simp

end
