(* ===== verification/Tests_Trace.thy ===== *)
theory Tests_Trace
  imports Trace Patterns Tests_Base
begin

text \<open>
  The unit tests of \<open>src/runner_daemon/trace.rs\<close>, run on the writer of the model with a server of mocks.
  Each call is evaluated from the state the last one left; a test with a clock sets the time of the last
  flush as the test of the repository does.
\<close>

definition patches :: "mock_world \<Rightarrow> (string option \<times> string) list" where
  "patches w = filter_map (\<lambda>rq. case (rq_method rq, rq_body rq) of
     (PATCH, RawBody text) \<Rightarrow> Some (map_of (rq_headers rq) ''Content-Range'', text) | _ \<Rightarrow> None) (snd w)"

definition bodies :: "mock_world \<Rightarrow> string" where
  "bodies w = concat (map snd (patches w))"

definition writer :: "string list \<Rightarrow> mock list \<Rightarrow> trace_writer \<times> mock_world" where
  "writer secrets ms = (trace_new (Some mock_client) 7 ''job-token'' (scrubber_new secrets) 0, mounted ms)"

definition offline :: "trace_writer \<times> mock_world" where
  "offline = (trace_new None 7 ''job-token'' (scrubber_new []) 0, mounted [])"

definition flush_now :: "mock_world http \<Rightarrow> trace_writer \<times> mock_world \<Rightarrow> trace_writer \<times> mock_world" where
  "flush_now io st = snd (trace_flush io st)"

definition accepting :: "mock list" where
  "accepting = [given PATCH ''/api/v4/jobs/7/trace'' (template 202)]"

definition sends_consecutive_ranges_and_whole_trace :: bool where
  "sends_consecutive_ranges_and_whole_trace \<longleftrightarrow>
     (let io = mock_http accepting;
          st = trace_finish io (trace_write io (''step output'' @ [nl])
                 (flush_now io (trace_write io (''Preparing...'' @ [nl]) (writer [] accepting))));
          sent = patches (snd st) in
      bodies (snd st) = ''Preparing...'' @ [nl] @ ''step output'' @ [nl] \<and>
      map fst sent = [Some ''0-12'', Some ''13-24''])"

lemma test_ranges: "sends_consecutive_ranges_and_whole_trace"
  by code_simp

definition resends_from_server_offset_after_range_mismatch :: bool where
  "resends_from_server_offset_after_range_mismatch \<longleftrightarrow>
     (let ms = up_to_n_times 1 (given PATCH ''/api/v4/jobs/7/trace'' (insert_header ''Range'' ''0-4'' (template 416))) # accepting;
          io = mock_http ms in
      patches (snd (trace_finish io (trace_write io ''0123456789'' (writer [] ms)))) =
        [(Some ''0-9'', ''0123456789''), (Some ''4-9'', ''456789'')])"

lemma test_resend: "resends_from_server_offset_after_range_mismatch"
  by code_simp

text \<open>The clock stands 31 seconds after the last flush when the writer is due.\<close>

definition at_time :: "nat \<Rightarrow> mock_world http \<Rightarrow> mock_world http" where
  "at_time now io = io\<lparr>http_now := (\<lambda>_. now)\<rparr>"

definition follows_the_update_interval_gitlab_asks_for :: bool where
  "follows_the_update_interval_gitlab_asks_for \<longleftrightarrow>
     (let ms = [given_method PATCH (insert_header ''X-GitLab-Trace-Update-Interval'' ''30'' (template 202))];
          io = mock_http ms; start = writer [] ms;
          first = flush_now io (trace_write io (''first'' @ [nl]) start);
          second = trace_flush_if_due io (trace_write io (''second'' @ [nl]) first) in
      tw_update_interval (fst start) = DEFAULT_UPDATE_INTERVAL \<and>
      tw_update_interval (fst first) = 30 * nanos \<and>
      length (patches (snd second)) = 1 \<and>
      length (patches (snd (trace_flush_if_due (at_time (31 * nanos) io) second))) = 2)"

lemma test_update_interval: "follows_the_update_interval_gitlab_asks_for"
  by code_simp

definition sections_use_gitlab_markers :: bool where
  "sections_use_gitlab_markers \<longleftrightarrow>
     (let io = mock_http [];
          st = trace_finish io (section_end io ''get_sources'' (trace_write io (''fetched'' @ [nl])
                 (section_start io ''get_sources'' ''Getting source'' offline)));
          text = tw_trace (fst st) in
      case split_once [cr] text of
        None \<Rightarrow> False
      | Some (start, rest) \<Rightarrow>
          prefix ''section_start:'' start \<and> suffix '':get_sources'' start \<and>
          prefix ([esc] @ ''[0K'' @ [esc] @ ''[36;1mGetting source'' @ [esc] @ ''[0;m'' @ [nl] @ ''fetched'' @ [nl] @
            ''section_end:'') rest \<and>
          suffix ('':get_sources'' @ [cr, esc] @ ''[0K'') text)"

lemma test_sections: "sections_use_gitlab_markers"
  by code_simp

definition never_sends_secrets :: bool where
  "never_sends_secrets \<longleftrightarrow>
     (let ms = [given_method PATCH (template 202)]; io = mock_http ms;
          st = trace_finish io (trace_write io (''password ok'' @ [nl])
                 (flush_now io (trace_write io ''pass=hunter2-'' (writer [''hunter2-password''] ms)))) in
      bodies (snd st) = ''pass=[MASKED] ok'' @ [nl])"

lemma test_no_secrets: "never_sends_secrets"
  by code_simp

definition stops_collecting_at_limit :: bool where
  "stops_collecting_at_limit \<longleftrightarrow>
     (let io = mock_http []; limited = ((fst offline)\<lparr>tw_limit := 100\<rparr>, snd offline);
          st = trace_finish io (trace_write io '' tail'' (trace_write io (replicate 150 (CHR ''x'')) limited));
          text = tw_trace (fst st) in
      take 100 text = replicate 100 (CHR ''x'') \<and>
      prefix ([nl] @ ''Job'' @ [sq] @ ''s log exceeded limit of 100 bytes.'') (drop 100 text) \<and>
      \<not> contains text ''tail'')"

lemma test_limit: "stops_collecting_at_limit"
  by code_simp

end
