(* ===== verification/Tests_Docker.thy ===== *)
theory Tests_Docker
  imports Docker Tests_Base
begin

text \<open>
  The unit tests of \<open>src/runner_daemon/executor/docker.rs\<close> that need no Docker daemon, run on the model:
  the ports of services and what the runner says about dockerd's settings.
\<close>

definition ports_config :: "string list \<Rightarrow> string list \<Rightarrow> container_config" where
  "ports_config env ports = \<lparr>cc_labels = None, cc_env = Some env, cc_exposed_ports = Some ports\<rparr>"

definition service_ports_follow_gitlab_runner :: bool where
  "service_ports_follow_gitlab_runner \<longleftrightarrow>
     service_ports (Some (ports_config [] [''2376/tcp'', ''2375/tcp'', ''53/udp''])) = [2375, 2376] \<and>
     service_ports (Some (ports_config [''HEALTHCHECK_TCP_PORT=8080''] [''80/tcp''])) = [8080] \<and>
     service_ports None = []"

lemma test_service_ports: "service_ports_follow_gitlab_runner"
  by code_simp

text \<open>Masks of network addresses, evaluated without a shift.\<close>

lemma mask_shl_eval [code]: "(mask_shl n :: 'a::len word) = (if n < LENGTH('a) then word_of_int (- (2 ^ n)) else 0)"
proof -
  have "word_of_int (- (2 ^ n)) = (- (2 ^ n) :: 'a word)" by simp
  then show ?thesis by (simp add: mask_shl_def minus_exp_eq_not_mask push_bit_minus_one_eq_not_mask del: of_int_minus)
qed

definition no_dns :: "string \<Rightarrow> ip_addr list" where
  "no_dns host = []"

text \<open>An address a test resolver answers with.\<close>

definition addr :: "string \<Rightarrow> ip_addr list" where
  "addr s = opt_list (parse_ip s)"

definition bare_info :: system_info where
  "bare_info = \<lparr>sy_http_proxy = None, sy_https_proxy = None, sy_index_secure = Map.empty, sy_insecure_cidrs = []\<rparr>"

definition with_insecure_cidrs :: "string list \<Rightarrow> system_info" where
  "with_insecure_cidrs cidrs = bare_info\<lparr>sy_insecure_cidrs := cidrs\<rparr>"

definition insecure :: "string list \<Rightarrow> docker_config" where
  "insecure regs = docker_config_default\<lparr>dc_insecure_registries := regs\<rparr>"

text \<open>\<open>daemon_warnings\<close> on a certificate directory without files.\<close>

definition warnings :: "system_info \<Rightarrow> docker_config \<Rightarrow> bool \<Rightarrow> (string \<Rightarrow> ip_addr list) \<Rightarrow> string list" where
  "warnings info config proxy resolve =
     daemon_warnings info config proxy ''/nonexistent'' (\<lambda>_. False) resolve"

definition warns_when_dockerd_has_no_proxy :: bool where
  "warns_when_dockerd_has_no_proxy \<longleftrightarrow>
     (let with_proxy = bare_info\<lparr>sy_https_proxy := Some ''http://proxy.corp:3128''\<rparr>;
          ws = warnings bare_info docker_config_default True no_dns
      in length ws = 1 \<and> contains (hd ws) ''docker.service.d'' \<and>
         warnings with_proxy docker_config_default True no_dns = [] \<and>
         warnings bare_info docker_config_default False no_dns = [])"

lemma test_dockerd_proxy: "warns_when_dockerd_has_no_proxy"
  by code_simp

definition registry_names_resolving_into_an_insecure_cidr_do_not_warn :: bool where
  "registry_names_resolving_into_an_insecure_cidr_do_not_warn \<longleftrightarrow>
     warnings (with_insecure_cidrs [''127.0.0.0/8'', ''10.0.0.0/8'', ''fd00::/8''])
       (insecure [''localhost:5000'', ''mirror.corp'', ''[fd00::5]:5000'']) False
       (\<lambda>host. if host = ''localhost'' then addr ''127.0.0.1''
               else if host = ''mirror.corp'' then addr ''192.168.1.9'' @ addr ''10.1.2.3'' else []) = []"

lemma test_resolving_inside: "registry_names_resolving_into_an_insecure_cidr_do_not_warn"
  by code_simp

text \<open>
  The resolver of this test panics. Here the test is a statement about a resolver, and it holds of
  every one: what it would answer is not used.
\<close>

definition registry_names_are_not_resolved_when_listed_or_without_cidrs :: "(string \<Rightarrow> ip_addr list) \<Rightarrow> bool" where
  "registry_names_are_not_resolved_when_listed_or_without_cidrs never \<longleftrightarrow>
     (let info = (with_insecure_cidrs [''127.0.0.0/8''])\<lparr>sy_index_secure := [''listed.corp:5000'' \<mapsto> Some False]\<rparr>;
          ws = warnings (with_insecure_cidrs []) (insecure [''registry.corp:5000'']) False never
      in warnings info (insecure [''listed.corp:5000'']) False never = [] \<and>
         length ws = 1 \<and> contains (hd ws) ''registry.corp:5000'')"

lemma test_not_resolved: "registry_names_are_not_resolved_when_listed_or_without_cidrs never"
proof -
  have "\<not> in_insecure_cidr never (with_insecure_cidrs []) reg" for reg
    by (simp add: in_insecure_cidr_def with_insecure_cidrs_def Let_def list_ex_iff)
  then have "warnings (with_insecure_cidrs []) (insecure [''registry.corp:5000'']) False never =
      warnings (with_insecure_cidrs []) (insecure [''registry.corp:5000'']) False no_dns"
    by (simp add: warnings_def daemon_warnings_def)
      (simp add: in_insecure_cidr_def with_insecure_cidrs_def Let_def list_ex_iff)
  moreover have "length (warnings (with_insecure_cidrs []) (insecure [''registry.corp:5000'']) False no_dns) = 1 \<and>
      contains (hd (warnings (with_insecure_cidrs []) (insecure [''registry.corp:5000'']) False no_dns)) ''registry.corp:5000''"
    by code_simp
  moreover have "warnings ((with_insecure_cidrs [''127.0.0.0/8''])\<lparr>sy_index_secure := [''listed.corp:5000'' \<mapsto> Some False]\<rparr>)
      (insecure [''listed.corp:5000'']) False never = []"
    by (simp add: warnings_def daemon_warnings_def listed_insecure_def insecure_def docker_config_default_def)
  ultimately show ?thesis
    by (simp add: registry_names_are_not_resolved_when_listed_or_without_cidrs_def Let_def)
qed

definition registry_names_resolving_outside_the_insecure_cidrs_warn :: bool where
  "registry_names_resolving_outside_the_insecure_cidrs_warn \<longleftrightarrow>
     (let ws = warnings (with_insecure_cidrs [''127.0.0.0/8'', ''10.0.0.0/8'']) (insecure [''registry.corp:5000'']) False
        (\<lambda>host. if host = ''registry.corp'' then addr ''192.168.1.10'' else [])
      in length ws = 1 \<and> contains (hd ws) ''registry.corp:5000'' \<and> contains (hd ws) ''daemon.json'')"

lemma test_resolving_outside: "registry_names_resolving_outside_the_insecure_cidrs_warn"
  by code_simp

definition warns_about_registries_dockerd_does_not_trust :: bool where
  "warns_about_registries_dockerd_does_not_trust \<longleftrightarrow>
     (let config = (insecure [''insecure.ok'', ''10.0.0.5:5000'', ''missing.insecure''])\<lparr>dc_registry_ca :=
            [(''harbor.missing'', ''/y.pem''), (''harbor.ok'', ''/x.pem'')]\<rparr>;
          info = (with_insecure_cidrs [''10.0.0.0/8''])\<lparr>sy_index_secure := [''insecure.ok'' \<mapsto> Some False]\<rparr>;
          ws = daemon_warnings info config False ''/certs'' (\<lambda>p. p = ''/certs/harbor.ok/ca.crt'') no_dns
      in length ws = 2 \<and>
         contains (hd ws) ''missing.insecure'' \<and> contains (hd ws) ''daemon.json'' \<and>
         contains (ws ! 1) ''harbor.missing'' \<and> contains (ws ! 1) ''install -D'')"

lemma test_untrusted: "warns_about_registries_dockerd_does_not_trust"
  by code_simp

definition dind_ca_mounts_keep_ports_in_the_target :: bool where
  "dind_ca_mounts_keep_ports_in_the_target \<longleftrightarrow>
     dind_ca_mounts [(''harbor.corp:8443'', ''/etc/turboci-registry-ca/harbor.corp:8443.pem'')] =
       [\<lparr>mt_target = ''/etc/docker/certs.d/harbor.corp:8443/ca.crt'',
         mt_source = ''/etc/turboci-registry-ca/harbor.corp:8443.pem'', mt_read_only = True\<rparr>]"

lemma test_dind_mounts: "dind_ca_mounts_keep_ports_in_the_target"
  by code_simp

end
