(* ===== verification/Host_Files.thy ===== *)
theory Host_Files
  imports Artifacts "HOL-Library.AList"
begin

text \<open>
  A host's file system, to run the archive code of \<open>Artifacts\<close> on: a map from absolute paths (lists of
  names) to nodes. It provides the operations on directory handles and the reads that \<open>Artifacts\<close> has
  as parameters, and it keeps the law the extraction relies on (\<open>host_confined\<close>): what is proved
  there from the law holds of an extraction into this file system. A handle is the directory's path, so
  nothing here renames a directory. \<open>mkdirs\<close> does not go through links.
\<close>

datatype node = Dir | File nat string | Link string | Fifo

type_synonym host = "(string list \<times> node) list"

definition node_at :: "host \<Rightarrow> string list \<Rightarrow> node option" where
  "node_at w p = (if p = [] then Some Dir else map_of w p)"

definition set_node :: "string list \<Rightarrow> node \<Rightarrow> host \<Rightarrow> host" where
  "set_node p x w = AList.update p x w"

definition del_node :: "string list \<Rightarrow> host \<Rightarrow> host" where
  "del_node p w = AList.delete p w"

text \<open>The names of an absolute path and back.\<close>

definition names_of :: "string \<Rightarrow> string list" where
  "names_of path = filter_map (\<lambda>c. case c of Normal n \<Rightarrow> Some n | _ \<Rightarrow> None) (components path)"

definition text_of :: "string list \<Rightarrow> string" where
  "text_of p = (if p = [] then ''/'' else concat (map (\<lambda>n. ''/'' @ n) p))"

definition parent_is_dir :: "host \<Rightarrow> string list \<Rightarrow> bool" where
  "parent_is_dir w p \<longleftrightarrow> p \<noteq> [] \<and> node_at w (butlast p) = Some Dir"

text \<open>A new node at a free path.\<close>

definition add_node :: "string list \<Rightarrow> node \<Rightarrow> host \<Rightarrow> (errno, unit) result \<times> host" where
  "add_node p x w =
     (if \<not> parent_is_dir w p then (Inl NOENT, w)
      else if node_at w p \<noteq> None then (Inl EXIST, w)
      else (Inr (), set_node p x w))"

definition open_dir :: "string list \<Rightarrow> host \<Rightarrow> (errno, string list) result" where
  "open_dir p w =
     (case node_at w p of
        None \<Rightarrow> Inl NOENT
      | Some Dir \<Rightarrow> Inr p
      | _ \<Rightarrow> Inl (Errno ''Not a directory (os error 20)''))"

fun make_dirs :: "string list \<Rightarrow> string list \<Rightarrow> host \<Rightarrow> (string, unit) result \<times> host" where
  "make_dirs at [] w = (Inr (), w)"
| "make_dirs at (n # ns) w =
     (case node_at w (at @ [n]) of
        None \<Rightarrow> make_dirs (at @ [n]) ns (set_node (at @ [n]) Dir w)
      | Some Dir \<Rightarrow> make_dirs (at @ [n]) ns w
      | _ \<Rightarrow> (Inl ''Not a directory (os error 20)'', w))"

definition remove_file :: "string list \<Rightarrow> host \<Rightarrow> (errno, unit) result \<times> host" where
  "remove_file p w =
     (case node_at w p of
        None \<Rightarrow> (Inl NOENT, w)
      | Some Dir \<Rightarrow> (Inl (Errno ''Is a directory (os error 21)''), w)
      | _ \<Rightarrow> (Inr (), del_node p w))"

definition append_file :: "string list \<Rightarrow> string \<Rightarrow> host \<Rightarrow> (string, unit) result \<times> host" where
  "append_file p data w =
     (case node_at w p of
        Some (File mode content) \<Rightarrow> (Inr (), set_node p (File mode (content @ data)) w)
      | _ \<Rightarrow> (Inl ''Bad file descriptor (os error 9)'', w))"

definition set_file_mode :: "string list \<Rightarrow> nat \<Rightarrow> host \<Rightarrow> (errno, unit) result \<times> host" where
  "set_file_mode p mode w =
     (case node_at w p of
        Some (File _ content) \<Rightarrow> (Inr (), set_node p (File mode content) w)
      | _ \<Rightarrow> (Inl (Errno ''Bad file descriptor (os error 9)''), w))"

definition host_fs :: "(string list, string list, host) dir_fs" where
  "host_fs = \<lparr>
     fs_mkdirs = (\<lambda>path. make_dirs [] (names_of path)),
     fs_open = (\<lambda>path w. (open_dir (names_of path) w, w)),
     fs_openat = (\<lambda>d n w. (open_dir (if n = ''.'' then d else d @ [n]) w, w)),
     fs_mkdirat = (\<lambda>d n. add_node (d @ [n]) Dir),
     fs_unlinkat = (\<lambda>d n. remove_file (d @ [n])),
     fs_create_excl = (\<lambda>d n w. case add_node (d @ [n]) (File 420 []) w of
        (Inl e, w1) \<Rightarrow> (Inl e, w1) | (Inr _, w1) \<Rightarrow> (Inr (d @ [n]), w1)),
     fs_symlinkat = (\<lambda>target d n. add_node (d @ [n]) (Link target)),
     fs_write = append_file,
     fs_fchmod = set_file_mode\<rparr>"

section \<open>It keeps the law of the extraction\<close>

text \<open>
  What is outside a directory \<open>ws\<close>: all nodes but those below it, the directory itself and the ones on
  the way to it (which \<open>mkdirs\<close> may make).
\<close>

definition size_of :: "node option \<Rightarrow> nat" where
  "size_of x = (case x of Some (File _ content) \<Rightarrow> length content | _ \<Rightarrow> 0)"

definition outside_of :: "string list \<Rightarrow> host \<Rightarrow> string list \<Rightarrow> node option" where
  "outside_of ws w p = (if prefix ws p \<or> prefix p ws then None else map_of w p)"

definition bytes_in :: "string list \<Rightarrow> host \<Rightarrow> nat" where
  "bytes_in ws w = (\<Sum>p\<in>{p \<in> fst ` set w. prefix ws p}. size_of (map_of w p))"

definition host_view :: "string \<Rightarrow> (string list, string list, string list \<Rightarrow> node option, host) view" where
  "host_view ws = \<lparr>vw_inside = prefix (names_of ws), vw_file = prefix (names_of ws),
     vw_obs = outside_of (names_of ws), vw_bytes = bytes_in (names_of ws)\<rparr>"

text \<open>Setting or deleting a node inside changes nothing outside, and the bytes by that node's.\<close>

lemma outside_of_set: "prefix ws p \<or> prefix p ws \<Longrightarrow> outside_of ws (set_node p x w) = outside_of ws w"
  by (auto simp: outside_of_def set_node_def update_conv' fun_eq_iff)

lemma outside_of_del: "prefix ws p \<or> prefix p ws \<Longrightarrow> outside_of ws (del_node p w) = outside_of ws w"
  by (auto simp: outside_of_def del_node_def delete_conv' fun_eq_iff)

lemma bytes_in_sum:
  assumes "finite A" "fst ` set w \<subseteq> A"
  shows "bytes_in ws w = (\<Sum>p\<in>{p \<in> A. prefix ws p}. size_of (map_of w p))"
  unfolding bytes_in_def
  using assms
  by (intro sum.mono_neutral_left)
    (auto simp: size_of_def split: option.splits node.splits dest: map_of_SomeD intro: rev_image_eqI)

lemma bytes_in_update:
  assumes "map_of w' = (map_of w)(p := y)"
  shows "bytes_in ws w' \<le> bytes_in ws w + (size_of y - size_of (map_of w p))"
proof -
  let ?A = "insert p (fst ` set w \<union> fst ` set w')"
  have sums: "bytes_in ws w = (\<Sum>q\<in>{q \<in> ?A. prefix ws q}. size_of (map_of w q))"
    "bytes_in ws w' = (\<Sum>q\<in>{q \<in> ?A. prefix ws q}. size_of (map_of w' q))"
    by (rule bytes_in_sum; auto)+
  have "(\<Sum>q\<in>{q \<in> ?A. prefix ws q}. size_of (map_of w' q)) \<le>
      (\<Sum>q\<in>{q \<in> ?A. prefix ws q}. size_of (map_of w q) + (if q = p then size_of y - size_of (map_of w p) else 0))"
    by (rule sum_mono) (auto simp: assms)
  also have "\<dots> \<le> (\<Sum>q\<in>{q \<in> ?A. prefix ws q}. size_of (map_of w q)) + (size_of y - size_of (map_of w p))"
    by (simp add: sum.distrib sum.delta)
  finally show ?thesis unfolding sums .
qed

lemma set_node_grown:
  assumes "prefix ws p \<or> prefix p ws" "size_of (Some x) \<le> size_of (map_of w p) + n"
  shows "grown (outside_of ws) (bytes_in ws) n w (set_node p x w)"
  using bytes_in_update[of "set_node p x w" w p "Some x" ws] assms outside_of_set
  by (fastforce simp: grown_def set_node_def update_conv')

lemma del_node_grown:
  assumes "prefix ws p \<or> prefix p ws"
  shows "grown (outside_of ws) (bytes_in ws) n w (del_node p w)"
proof -
  have "map_of (del_node p w) = (map_of w)(p := None)" by (simp add: del_node_def delete_conv')
  from bytes_in_update[OF this, of ws] show ?thesis
    by (simp add: grown_def outside_of_del[OF assms] size_of_def)
qed

lemma add_node_grown:
  assumes "add_node p x w = (r, w')" "prefix ws p" "size_of (Some x) = 0"
  shows "grown (outside_of ws) (bytes_in ws) n w w'"
  using assms set_node_grown[of ws p x w n] by (auto simp: add_node_def grown_refl split: if_splits)

lemma make_dirs_grown:
  "make_dirs at ns w = (r, w') \<Longrightarrow> prefix (at @ ns) ws \<Longrightarrow> grown (outside_of ws) (bytes_in ws) 0 w w'"
proof (induction at ns w rule: make_dirs.induct)
  case (2 at n ns w)
  have p: "prefix (at @ [n]) ws" using "2.prems"(2) by (metis append_Cons append_Nil append_assoc append_prefixD)
  show ?case
  proof (cases "node_at w (at @ [n])")
    case None
    have "grown (outside_of ws) (bytes_in ws) 0 w (set_node (at @ [n]) Dir w)"
      by (rule set_node_grown) (use p in \<open>auto simp: size_of_def\<close>)
    with "2.IH"(1)[OF None] "2.prems" None grown_0_trans show ?thesis by fastforce
  next
    case (Some x)
    then show ?thesis using "2.IH"(2)[OF Some] "2.prems" by (cases x) (auto simp: grown_refl)
  qed
qed (simp add: grown_refl)

lemma file_ops_grown:
  assumes "prefix ws p"
  shows "remove_file p w = (r, w') \<Longrightarrow> grown (outside_of ws) (bytes_in ws) 0 w w'"
    and "append_file p data w = (u, w') \<Longrightarrow> grown (outside_of ws) (bytes_in ws) (length data) w w'"
    and "set_file_mode p mode w = (r, w') \<Longrightarrow> grown (outside_of ws) (bytes_in ws) 0 w w'"
proof -
  have p: "prefix ws p \<or> prefix p ws" using assms ..
  have here: "map_of w p = Some (File m c)" if "node_at w p = Some (File m c)" for m c
    using that by (auto simp: node_at_def split: if_splits)
  show "remove_file p w = (r, w') \<Longrightarrow> grown (outside_of ws) (bytes_in ws) 0 w w'"
    using del_node_grown[OF p, of 0 w]
    by (auto simp: remove_file_def grown_refl split: option.splits node.splits)
  show "append_file p data w = (u, w') \<Longrightarrow> grown (outside_of ws) (bytes_in ws) (length data) w w'"
    using set_node_grown[OF p, of "File _ (_ @ data)" w "length data"] here
    by (auto simp: append_file_def grown_refl size_of_def split: option.splits node.splits)
  show "set_file_mode p mode w = (r, w') \<Longrightarrow> grown (outside_of ws) (bytes_in ws) 0 w w'"
    using set_node_grown[OF p, of "File _ _" w 0] here
    by (auto simp: set_file_mode_def grown_refl size_of_def split: option.splits node.splits)
qed

lemma host_openat_grown:
  "fs_openat host_fs d n w = (h, w') \<Longrightarrow> prefix ws d \<Longrightarrow>
     grown (outside_of ws) (bytes_in ws) 0 w w' \<and> pred_sum (\<lambda>_. True) (prefix ws) h"
  by (auto simp: host_fs_def open_dir_def grown_refl split: option.splits node.splits if_splits)

lemma host_create_grown:
  "fs_create_excl host_fs d n w = (f, w') \<Longrightarrow> prefix ws d \<Longrightarrow>
     grown (outside_of ws) (bytes_in ws) 0 w w' \<and> pred_sum (\<lambda>_. True) (prefix ws) f"
  using add_node_grown[of "d @ [n]" "File 420 []" w _ _ ws 0]
  by (auto simp: host_fs_def size_of_def split: prod.splits sum.splits)

lemma host_ops_grown:
  assumes "prefix ws d"
  shows "fs_mkdirat host_fs d n w = (r, w') \<Longrightarrow> grown (outside_of ws) (bytes_in ws) 0 w w'"
    and "fs_unlinkat host_fs d n w = (r, w') \<Longrightarrow> grown (outside_of ws) (bytes_in ws) 0 w w'"
    and "fs_symlinkat host_fs target d n w = (r, w') \<Longrightarrow> grown (outside_of ws) (bytes_in ws) 0 w w'"
proof -
  have "prefix ws (d @ [n])" using assms by (auto simp: prefix_def)
  note below = this
  show "fs_mkdirat host_fs d n w = (r, w') \<Longrightarrow> grown (outside_of ws) (bytes_in ws) 0 w w'"
    using add_node_grown[OF _ below, of Dir w r w' 0] by (simp add: host_fs_def size_of_def)
  show "fs_unlinkat host_fs d n w = (r, w') \<Longrightarrow> grown (outside_of ws) (bytes_in ws) 0 w w'"
    using file_ops_grown(1)[OF below] by (simp add: host_fs_def)
  show "fs_symlinkat host_fs target d n w = (r, w') \<Longrightarrow> grown (outside_of ws) (bytes_in ws) 0 w w'"
    using add_node_grown[OF _ below, of "Link target" w r w' 0] by (simp add: host_fs_def size_of_def)
qed

lemma host_open_grown:
  "fs_mkdirs host_fs ws w = (u, w') \<Longrightarrow> grown (outside_of (names_of ws)) (bytes_in (names_of ws)) 0 w w'"
  "fs_open host_fs ws w = (h, w') \<Longrightarrow>
     grown (outside_of (names_of ws)) (bytes_in (names_of ws)) 0 w w' \<and> pred_sum (\<lambda>_. True) (prefix (names_of ws)) h"
  using make_dirs_grown[of "[]" "names_of ws"]
  by (auto simp: host_fs_def open_dir_def grown_refl split: option.splits node.splits)

lemma host_file_grown:
  "prefix ws f \<Longrightarrow> fs_fchmod host_fs f mode w = (r, w') \<Longrightarrow> grown (outside_of ws) (bytes_in ws) 0 w w'"
  "prefix ws f \<Longrightarrow> fs_write host_fs f data w = (u, w') \<Longrightarrow> grown (outside_of ws) (bytes_in ws) (length data) w w'"
  using file_ops_grown(2,3) by (simp_all add: host_fs_def)

theorem host_confined: "confined_fs host_fs (\<lambda>w. (False, w)) ws (host_view ws)"
  unfolding confined_fs_def host_view_def view.select_convs
  apply (intro conjI)
  subgoal by (simp add: grown_refl)
  subgoal using host_open_grown(1) by blast
  subgoal using host_open_grown(2) by blast
  subgoal using host_openat_grown by blast
  subgoal using host_ops_grown(1) by blast
  subgoal using host_ops_grown(2) by blast
  subgoal using host_ops_grown(3) by blast
  subgoal using host_create_grown by blast
  subgoal using host_file_grown(1) by blast
  subgoal using host_file_grown(2) by blast
  done

end
