(* ===== verification/Tests_Artifacts.thy ===== *)
theory Tests_Artifacts
  imports Host_Files Tests_Base
begin

text \<open>
  The unit tests of \<open>src/runner_daemon/artifacts.rs\<close>, run on the model with the file system of
  \<open>Host_Files\<close>. The ZIP format is a list of fields here, and \<open>glob\<close> matches names with \<open>*\<close> and \<open>**\<close>.
  Left out are the test that renames a directory under an open handle and the one that needs 4 MB.
\<close>

section \<open>Reading the host's files\<close>

text \<open>Resolving a path, links followed as often as the fuel allows (\<open>ELOOP\<close>).\<close>

fun real_path :: "nat \<Rightarrow> host \<Rightarrow> string list \<Rightarrow> component list \<Rightarrow> string list option" where
  "real_path k w at cs =
     (if k = 0 then None
      else
        (case cs of
           [] \<Rightarrow> Some at
         | Normal n # cs' \<Rightarrow>
             (case node_at w (at @ [n]) of
                None \<Rightarrow> None
              | Some (Link target) \<Rightarrow>
                  real_path (k - 1) w (if path_absolute target then [] else at) (components target @ cs')
              | Some Dir \<Rightarrow> real_path (k - 1) w (at @ [n]) cs'
              | Some _ \<Rightarrow> if cs' = [] then Some (at @ [n]) else None)
         | ParentDir # cs' \<Rightarrow> real_path (k - 1) w (butlast at) cs'
         | CurDir # cs' \<Rightarrow> real_path (k - 1) w at cs'
         | RootDir # cs' \<Rightarrow> real_path (k - 1) w [] cs'))"

declare real_path.simps [simp del]

abbreviation no_such_file :: string where
  "no_such_file \<equiv> ''No such file or directory (os error 2)''"

definition resolved :: "host \<Rightarrow> string \<Rightarrow> (string, string list) result" where
  "resolved w path = (case real_path 40 w [] (components path) of None \<Rightarrow> Inl no_such_file | Some p \<Rightarrow> Inr p)"

text \<open>The node a path names itself, its last name not followed when it is a link.\<close>

definition lstat_at :: "host \<Rightarrow> string \<Rightarrow> (string, string list) result" where
  "lstat_at w path =
     (case rev (components path) of
        Normal n # up \<Rightarrow>
          (case real_path 40 w [] (rev up) of
             None \<Rightarrow> Inl no_such_file
           | Some d \<Rightarrow> if node_at w (d @ [n]) = None then Inl no_such_file else Inr (d @ [n]))
      | _ \<Rightarrow> resolved w path)"

fun kind_of :: "node \<Rightarrow> file_kind" where
  "kind_of Dir = DirectoryFile"
| "kind_of (File _ _) = RegularFile"
| "kind_of (Link _) = SymlinkFile"
| "kind_of Fifo = OtherFile"

fun position :: "string list \<Rightarrow> host \<Rightarrow> nat" where
  "position p [] = 0"
| "position p ((q, _) # w) = (if p = q then 0 else Suc (position p w))"

definition meta_at :: "host \<Rightarrow> string list \<Rightarrow> file_meta" where
  "meta_at w p =
     (let x = (case node_at w p of Some x \<Rightarrow> x | None \<Rightarrow> Dir) in
      \<lparr>fm_kind = kind_of x, fm_mode = (case x of File m _ \<Rightarrow> m | _ \<Rightarrow> 493), fm_inode = (0, position p w)\<rparr>)"

definition read_at :: "host \<Rightarrow> string list \<Rightarrow> (string, string) result" where
  "read_at w p = (case node_at w p of Some (File _ content) \<Rightarrow> Inr content | _ \<Rightarrow> Inl ''not a file'')"

text \<open>Names and paths against patterns.\<close>

fun wild :: "string \<Rightarrow> string \<Rightarrow> bool" where
  "wild [] s \<longleftrightarrow> s = []"
| "wild (c # ps) s \<longleftrightarrow>
     (if c = CHR ''*'' then wild ps s \<or> (case s of [] \<Rightarrow> False | _ # s' \<Rightarrow> wild (c # ps) s')
      else (case s of [] \<Rightarrow> False | d # s' \<Rightarrow> c = d \<and> wild ps s'))"

fun wild_names :: "string list \<Rightarrow> string list \<Rightarrow> bool" where
  "wild_names [] ns \<longleftrightarrow> ns = []"
| "wild_names (p # ps) ns \<longleftrightarrow>
     (if p = ''**'' then wild_names ps ns \<or> (case ns of [] \<Rightarrow> False | _ # ns' \<Rightarrow> wild_names (p # ps) ns')
      else (case ns of [] \<Rightarrow> False | n # ns' \<Rightarrow> wild p n \<and> wild_names ps ns'))"

text \<open>The names in a directory, through links to it.\<close>

definition names_in :: "host \<Rightarrow> string list \<Rightarrow> string list" where
  "names_in w p =
     (case resolved w (text_of p) of
        Inl _ \<Rightarrow> []
      | Inr d \<Rightarrow> filter_map (\<lambda>(q, _). if q \<noteq> [] \<and> butlast q = d then Some (last q) else None) w)"

fun glob_names :: "host \<Rightarrow> string list \<Rightarrow> string list \<Rightarrow> string list list" where
  "glob_names w at [] = [at]"
| "glob_names w at (p # ps) =
     concat (map (\<lambda>n. glob_names w (at @ [n]) ps) (filter (wild p) (names_in w at)))"

definition host_read :: "host read_fs" where
  "host_read = \<lparr>
     rf_canonicalize = (\<lambda>path w. map_sum id text_of (resolved w path)),
     rf_glob = (\<lambda>pattern w. Inr (map (\<lambda>p. Inr (text_of p)) (glob_names w [] (names_of pattern)))),
     rf_walk = (\<lambda>path w. case resolved w path of
        Inl e \<Rightarrow> [Inl e]
      | Inr d \<Rightarrow> filter_map (\<lambda>(q, x). if prefix d q
          then Some (Inr (path @ (if q = d then [] else text_of (drop (length d) q)), x = Dir)) else None) w),
     rf_lstat = (\<lambda>path w. map_sum id (meta_at w) (lstat_at w path)),
     rf_readlink = (\<lambda>path w. rbind (lstat_at w path) (\<lambda>p.
        case node_at w p of Some (Link t) \<Rightarrow> Inr t | _ \<Rightarrow> Inl ''Invalid argument (os error 22)'')),
     rf_read = (\<lambda>path w. rbind (resolved w path) (\<lambda>p. rbind (read_at w p) (\<lambda>s. Inr (meta_at w p, [Inr s]))))\<rparr>"

section \<open>Archives\<close>

text \<open>The bytes of an archive in the tests: fields that end with a zero byte.\<close>

definition field :: "string \<Rightarrow> string" where
  "field s = s @ [CHR 0x00]"

fun member_fields :: "zip_member \<Rightarrow> string" where
  "member_fields (ZipSymlink name target) = field ''l'' @ field name @ field target"
| "member_fields (ZipFile name mode content) = field ''f'' @ field name @ field content"

fun encode :: "archive_content \<Rightarrow> string" where
  "encode (Zip zstd ms) = field (if zstd then ''zstd'' else ''deflate'') @ concat (map member_fields ms)"
| "encode (Gzip contents) = concat contents"
| "encode (Raw content) = content"

fun members :: "string list \<Rightarrow> (string \<times> string \<times> string) list" where
  "members (k # n # c # fs) = (k, n, c) # members fs"
| "members _ = []"

definition zip_names :: "string \<Rightarrow> string list" where
  "zip_names data = map (fst \<circ> snd) (members (tl (split_on (CHR 0x00) data)))"

definition method_of :: "string \<Rightarrow> string" where
  "method_of data = hd (split_on (CHR 0x00) data)"

text \<open>\<open>enclosed_name\<close> of the zip library: no absolute path and none that goes above its start.\<close>

definition enclosed :: "string \<Rightarrow> string option" where
  "enclosed name = (if \<not> path_absolute name \<and> stays_inside 0 (components name) then Some name else None)"

definition entry :: "string \<Rightarrow> bool \<Rightarrow> string \<Rightarrow> nat \<Rightarrow> (string, zip_entry) result" where
  "entry name link content mode = Inr \<lparr>ze_name = name, ze_enclosed_name = enclosed name, ze_is_dir = False,
     ze_is_symlink = link, ze_reads = [Inr content], ze_unix_mode = Some mode\<rparr>"

definition zip_of :: "(string \<times> string \<times> nat) list \<Rightarrow> (string, zip_entry) result list" where
  "zip_of entries = map (\<lambda>(name, content, mode). entry name False content mode) entries"

definition unzip :: "string \<Rightarrow> (string, zip_entry) result list" where
  "unzip data = map (\<lambda>(k, n, c). entry n (k = ''l'') c 420) (members (tl (split_on (CHR 0x00) data)))"

definition extract_zip_with_limits ::
  "(string, zip_entry) result list \<Rightarrow> string \<Rightarrow> extract_limits \<Rightarrow> host \<Rightarrow> (chain, unit) result \<times> host" where
  "extract_zip_with_limits entries ws lm w = extract_zip_reader host_fs (\<lambda>w. (False, w)) (Inr entries) ws lm w"

definition extract_zip_to_workspace ::
  "(string, zip_entry) result list \<Rightarrow> string \<Rightarrow> host \<Rightarrow> (chain, unit) result \<times> host" where
  "extract_zip_to_workspace entries ws w = extract_zip_with_limits entries ws extract_limits_default w"

section \<open>Extraction\<close>

text \<open>Directories and files of a test: \<open>/t\<close> holds the workspace \<open>/t/ws\<close> and a directory outside it.\<close>

definition at_node :: "host \<Rightarrow> string \<Rightarrow> node option" where
  "at_node w path = node_at w (names_of path)"

definition host_with :: "(string \<times> node) list \<Rightarrow> host" where
  "host_with nodes = map (\<lambda>(p, x). (names_of p, x))
     ([(''/t'', Dir), (''/t/ws'', Dir), (''/t/out'', Dir), (''/t/staging'', Dir)] @ nodes)"

definition extract_writes_regular_nested_files :: bool where
  "extract_writes_regular_nested_files \<longleftrightarrow>
     (let (r, w) = extract_zip_to_workspace (zip_of [(''dir/sub/a.txt'', ''hello'', 420)]) ''/t/ws'' (host_with [])
      in is_ok r \<and> read_at w (names_of ''/t/ws/dir/sub/a.txt'') = Inr ''hello'')"

lemma test_nested: "extract_writes_regular_nested_files"
  by code_simp

definition extract_rejects_parent_traversal :: bool where
  "extract_rejects_parent_traversal \<longleftrightarrow>
     (let (r, w) = extract_zip_to_workspace (zip_of [(''../escaped.txt'', ''pwned'', 420)]) ''/t/ws'' (host_with [])
      in is_err r \<and> at_node w ''/t/escaped.txt'' = None)"

lemma test_traversal: "extract_rejects_parent_traversal"
  by code_simp

definition extract_rejects_absolute_path :: bool where
  "extract_rejects_absolute_path \<longleftrightarrow>
     (let (r, w) = extract_zip_to_workspace (zip_of [(''/t/out/abs.txt'', ''pwned'', 420)]) ''/t/ws'' (host_with [])
      in is_err r \<and> at_node w ''/t/out/abs.txt'' = None)"

lemma test_absolute: "extract_rejects_absolute_path"
  by code_simp

definition extract_strips_setuid_bits :: bool where
  "extract_strips_setuid_bits \<longleftrightarrow>
     (let (r, w) = extract_zip_to_workspace (zip_of [(''tool'', ''#!/bin/sh'', 2541)]) ''/t/ws'' (host_with [])
      in is_ok r \<and> at_node w ''/t/ws/tool'' = Some (File 493 ''#!/bin/sh''))"

lemma test_setuid: "extract_strips_setuid_bits"
  by code_simp

definition extract_does_not_write_through_existing_symlink :: bool where
  "extract_does_not_write_through_existing_symlink \<longleftrightarrow>
     (let (r, w) = extract_zip_to_workspace (zip_of [(''link/pwned.txt'', ''pwned'', 420)]) ''/t/ws''
        (host_with [(''/t/ws/link'', Link ''/t/out'')])
      in is_err r \<and> at_node w ''/t/out/pwned.txt'' = None)"

lemma test_existing_symlink: "extract_does_not_write_through_existing_symlink"
  by code_simp

definition extract_skips_symlink_entry_pointing_outside :: bool where
  "extract_skips_symlink_entry_pointing_outside \<longleftrightarrow>
     (let (r, w) = extract_zip_to_workspace [entry ''evil'' True ''/etc'' 511, entry ''ok'' True ''sub/file'' 511]
        ''/t/ws'' (host_with [])
      in is_ok r \<and> at_node w ''/t/ws/evil'' = None \<and> at_node w ''/t/ws/ok'' = Some (Link ''sub/file''))"

lemma test_outside_symlink: "extract_skips_symlink_entry_pointing_outside"
  by code_simp

text \<open>The files of the next test are long, so it is run with their contents as a variable.\<close>

lemma limits_evaluated:
  "names_of ''/t/ws'' = [''t'', ''ws'']" "names_of ''/t'' = [''t'']" "names_of ''/t/out'' = [''t'', ''out'']"
  "names_of ''/t/staging'' = [''t'', ''staging'']"
  "enclosed ''a'' = Some ''a''" "enclosed ''b'' = Some ''b''"
  "split_leaf ''a'' = Inr ([], ''a'')" "split_leaf ''b'' = Inr ([], ''b'')"
  by code_simp+

lemma second_file_too_big:
  assumes "length big = 4096"
  shows "is_err (fst (extract_zip_with_limits (zip_of [(''a'', big, 420), (''b'', big, 420)]) ''/t/ws''
    \<lparr>el_max_entries = 10, el_max_total_bytes = 5000\<rparr> (host_with [])))"
  using assms
  by (simp add: extract_zip_with_limits_def zip_of_def entry_def extract_zip_reader_def limits_evaluated host_with_def
      open_root_def host_fs_def open_dir_def node_at_def stop_check_def extract_entry_def open_dirs_def extract_file_def
      create_file_def clear_leaf_def remove_file_def add_node_def parent_is_dir_def set_node_def append_file_def
      set_file_mode_def u64_max_def is_err_def Let_def)

definition extract_enforces_size_and_entry_limits :: bool where
  "extract_enforces_size_and_entry_limits \<longleftrightarrow>
     (let big = replicate 4096 (CHR 0x00);
          data = zip_of [(''a'', big, 420), (''b'', big, 420)];
          too_big = \<lparr>el_max_entries = 10, el_max_total_bytes = 5000\<rparr>;
          too_many = \<lparr>el_max_entries = 1, el_max_total_bytes = u64_max\<rparr>
      in is_err (fst (extract_zip_with_limits data ''/t/ws'' too_big (host_with []))) \<and>
         is_err (fst (extract_zip_with_limits data ''/t/ws'' too_many (host_with []))))"

lemma test_extract_limits: "extract_enforces_size_and_entry_limits"
  by (simp add: extract_enforces_size_and_entry_limits_def Let_def second_file_too_big)
    (simp add: extract_zip_with_limits_def zip_of_def extract_zip_reader_def is_err_def)

section \<open>Collection\<close>

definition archiver_on :: "host archiver" where
  "archiver_on = \<lparr>av_read = host_read,
     av_pattern = (\<lambda>p. Some (\<lambda>s. wild_names (split_on (CHR ''/'') p) (split_on (CHR ''/'') s))),
     av_encode = encode,
     av_stage = (\<lambda>dir w. (Inr (path_join dir ''archive''), set_node (names_of (path_join dir ''archive'')) (File 384 []) w)),
     av_store = (\<lambda>path data w. (Inr (), set_node (names_of path) (File 384 data) w))\<rparr>"

text \<open>The content of the archive a test made; \<open>None\<close> when it failed or no file matched.\<close>

definition bytes :: "(chain, archive option) result \<times> host \<Rightarrow> string option" where
  "bytes rw =
     (case rw of
        (Inr (Some ar), w) \<Rightarrow>
          (case node_at w (names_of (ar_file ar)) of Some (File _ content) \<Rightarrow> Some content | _ \<Rightarrow> None)
      | _ \<Rightarrow> None)"

definition archive_of :: "(string \<times> node) list \<Rightarrow> string list \<Rightarrow> string list \<Rightarrow> string \<Rightarrow>
     (chain, archive option) result \<times> host" where
  "archive_of nodes patterns exclude format =
     create_archive archiver_on ''/t/ws'' patterns exclude format ''/t/staging'' (host_with nodes)"

definition cache_of :: "(string \<times> node) list \<Rightarrow> string list \<Rightarrow> (chain, archive option) result \<times> host" where
  "cache_of nodes patterns =
     create_cache_archive archiver_on ''/t/ws'' patterns ''/t/staging'' (host_with nodes)"

definition collect_includes_files_and_directories :: bool where
  "collect_includes_files_and_directories \<longleftrightarrow>
     map_option zip_names (bytes (cache_of
        [(''/t/ws/dist'', Dir), (''/t/ws/dist/js'', Dir), (''/t/ws/dist/js/app.js'', File 420 ''js''),
         (''/t/ws/report.xml'', File 420 ''xml'')]
        [''dist'', ''*.xml'', ''dist/js/*''])) = Some [''dist/js/app.js'', ''report.xml'']"

lemma test_collect: "collect_includes_files_and_directories"
  by code_simp

definition collect_skips_traversal_and_absolute_patterns :: bool where
  "collect_skips_traversal_and_absolute_patterns \<longleftrightarrow>
     fst (cache_of [(''/t/secret.toml'', File 420 ''token'')] [''../secret.toml'', ''/t/secret.toml'']) = Inr None"

lemma test_unsafe_patterns: "collect_skips_traversal_and_absolute_patterns"
  by code_simp

definition exclude_patterns_drop_matching_files :: bool where
  "exclude_patterns_drop_matching_files \<longleftrightarrow>
     map_option zip_names (bytes (archive_of
        [(''/t/ws/dist'', Dir), (''/t/ws/dist/js'', Dir), (''/t/ws/dist/tmp'', Dir), (''/t/ws/dist/tmp/deep'', Dir),
         (''/t/ws/dist/js/app.js'', File 420 ''js''), (''/t/ws/dist/js/app.js.map'', File 420 ''map''),
         (''/t/ws/dist/tmp/deep/scratch'', File 420 ''x'')]
        [''dist''] [''dist/**/*.map'', ''dist/tmp/**''] ''zip'')) = Some [''dist/js/app.js'']"

lemma test_exclude: "exclude_patterns_drop_matching_files"
  by code_simp

definition gzip_archive_holds_each_report_file :: bool where
  "gzip_archive_holds_each_report_file \<longleftrightarrow>
     bytes (archive_of [(''/t/ws/a.xml'', File 420 ''<a/>''), (''/t/ws/b.xml'', File 420 ''<b/>'')]
       [''*.xml''] [] ''gzip'') = Some ''<a/><b/>''"

lemma test_gzip: "gzip_archive_holds_each_report_file"
  by code_simp

definition raw_archive_refuses_symlinks_and_special_files :: bool where
  "raw_archive_refuses_symlinks_and_special_files \<longleftrightarrow>
     (let nodes = [(''/t/out/turboci-runner.toml'', File 420 ''runner_token = glrt-SECRET''),
                   (''/t/ws/gl-sast-report.json'', Link ''/t/out/turboci-runner.toml''),
                   (''/t/ws/report.json'', Fifo)]
      in is_err (fst (archive_of nodes [''gl-sast-report.json''] [] ''raw'')) \<and>
         is_err (fst (archive_of nodes [''report.json''] [] ''raw'')))"

lemma test_raw_special: "raw_archive_refuses_symlinks_and_special_files"
  by code_simp

definition raw_archive_requires_exactly_one_file :: bool where
  "raw_archive_requires_exactly_one_file \<longleftrightarrow>
     (let nodes = [(''/t/ws/report.json'', File 420 ''{}''), (''/t/ws/other.json'', File 420 ''[]'')]
      in bytes (archive_of nodes [''report.json''] [] ''raw'') = Some ''{}'' \<and>
         is_err (fst (archive_of nodes [''*.json''] [] ''raw'')))"

lemma test_raw_one: "raw_archive_requires_exactly_one_file"
  by code_simp

definition collect_stores_symlink_as_link_not_target_content :: bool where
  "collect_stores_symlink_as_link_not_target_content \<longleftrightarrow>
     (case bytes (cache_of [(''/t/out/secret.toml'', File 420 ''runner-token''), (''/t/ws/leak'', Link ''/t/out/secret.toml'')]
        [''leak'']) of
        None \<Rightarrow> False
      | Some data \<Rightarrow>
          (case members (tl (split_on (CHR 0x00) data)) of
             [(kind, name, content)] \<Rightarrow> name = ''leak'' \<and> kind = ''l'' \<and> \<not> contains content ''runner-token''
           | _ \<Rightarrow> False))"

lemma test_symlink_as_link: "collect_stores_symlink_as_link_not_target_content"
  by code_simp

definition collect_does_not_traverse_symlinked_directory :: bool where
  "collect_does_not_traverse_symlinked_directory \<longleftrightarrow>
     fst (cache_of [(''/t/out/passwd'', File 420 ''root:x:0:0''), (''/t/ws/etc'', Link ''/t/out'')] [''etc/*'']) = Inr None"

lemma test_symlinked_directory: "collect_does_not_traverse_symlinked_directory"
  by code_simp

end
