(* ===== verification/Tests_Cache.thy ===== *)
theory Tests_Cache
  imports Job_Cache Tests_S3 Tests_Artifacts
begin

text \<open>
  The unit tests of \<open>src/runner_daemon/job_cache.rs\<close>, run on the model: hosts share the file system of
  \<open>Host_Files\<close> and the mock bucket of \<open>Tests_S3\<close>. A file is either new or two days old.
\<close>

record cache_world =
  cw_host :: host
  cw_old :: "string list list"
  cw_s3 :: s3_world

abbreviation on_host :: "(host \<Rightarrow> 'a \<times> host) \<Rightarrow> cache_world \<Rightarrow> 'a \<times> cache_world" where
  "on_host f w \<equiv> (case f (cw_host w) of (r, h) \<Rightarrow> (r, w\<lparr>cw_host := h\<rparr>))"

abbreviation on_s3 :: "(s3_world \<Rightarrow> 'a \<times> s3_world) \<Rightarrow> cache_world \<Rightarrow> 'a \<times> cache_world" where
  "on_s3 f w \<equiv> (case f (cw_s3 w) of (r, h) \<Rightarrow> (r, w\<lparr>cw_s3 := h\<rparr>))"

definition content_at :: "string \<Rightarrow> cache_world \<Rightarrow> string option" where
  "content_at path w = (case node_at (cw_host w) (names_of path) of Some (File _ c) \<Rightarrow> Some c | _ \<Rightarrow> None)"

text \<open>A new file at a path, in place of what was there.\<close>

definition put_content :: "string \<Rightarrow> string \<Rightarrow> cache_world \<Rightarrow> cache_world" where
  "put_content path c w =
     w\<lparr>cw_host := set_node (names_of path) (File 384 c) (cw_host w), cw_old := filter ((\<noteq>) (names_of path)) (cw_old w)\<rparr>"

definition drop_path :: "string \<Rightarrow> cache_world \<Rightarrow> cache_world" where
  "drop_path path w = w\<lparr>cw_host := del_node (names_of path) (cw_host w)\<rparr>"

definition exists_at :: "string \<Rightarrow> cache_world \<Rightarrow> bool" where
  "exists_at path w \<longleftrightarrow> node_at (cw_host w) (names_of path) \<noteq> None"

definition age_of :: "cache_world \<Rightarrow> string list \<Rightarrow> nat" where
  "age_of w p = (if p \<in> set (cw_old w) then 2 * 86400 * nanos else 0)"

definition make_old :: "string \<Rightarrow> cache_world \<Rightarrow> cache_world" where
  "make_old path w = w\<lparr>cw_old := names_of path # cw_old w\<rparr>"

definition cache_disk :: "cache_world disk" where
  "cache_disk = \<lparr>
     dk_mkdirs = (\<lambda>dir. on_host (make_dirs [] (names_of dir))),
     dk_metadata = (\<lambda>path w. if exists_at path w then Found else Missing),
     dk_touch = (\<lambda>path w. w\<lparr>cw_old := filter ((\<noteq>) (names_of path)) (cw_old w)\<rparr>),
     dk_read = content_at,
     dk_write = (\<lambda>path c w. (Inr (), put_content path c w)),
     dk_remove = drop_path,
     dk_persist = (\<lambda>staged path w. case content_at staged w of
        None \<Rightarrow> (Inl ''No such file'', w) | Some c \<Rightarrow> (Inr (), put_content path c (drop_path staged w))),
     dk_entries = (\<lambda>dir w. Some (filter_map (\<lambda>(p, _).
        if p \<noteq> [] \<and> butlast p = names_of dir then Some (text_of p, Some (age_of w p)) else None) (cw_host w))),
     dk_walk = (\<lambda>dir w. filter_map (\<lambda>(p, x). if prefix (names_of dir) p
        then Some (text_of p, (case x of File _ _ \<Rightarrow> True | _ \<Rightarrow> False),
               (case x of File _ c \<Rightarrow> Some (length c) | _ \<Rightarrow> None)) else None) (cw_host w))\<rparr>"

definition cache_archiver :: "cache_world archiver" where
  "cache_archiver = \<lparr>
     av_read = \<lparr>
       rf_canonicalize = (\<lambda>p w. rf_canonicalize host_read p (cw_host w)),
       rf_glob = (\<lambda>p w. rf_glob host_read p (cw_host w)),
       rf_walk = (\<lambda>p w. rf_walk host_read p (cw_host w)),
       rf_lstat = (\<lambda>p w. rf_lstat host_read p (cw_host w)),
       rf_readlink = (\<lambda>p w. rf_readlink host_read p (cw_host w)),
       rf_read = (\<lambda>p w. rf_read host_read p (cw_host w))\<rparr>,
     av_pattern = av_pattern archiver_on, av_encode = encode,
     av_stage = (\<lambda>dir w. (Inr (dir @ ''/.tmp1''), put_content (dir @ ''/.tmp1'') [] w)),
     av_store = (\<lambda>path data w. (Inr (), put_content path data w))\<rparr>"

definition cache_fs :: "(string list, string list, cache_world) dir_fs" where
  "cache_fs = \<lparr>
     fs_mkdirs = (\<lambda>p. on_host (fs_mkdirs host_fs p)),
     fs_open = (\<lambda>p. on_host (fs_open host_fs p)),
     fs_openat = (\<lambda>d n. on_host (fs_openat host_fs d n)),
     fs_mkdirat = (\<lambda>d n. on_host (fs_mkdirat host_fs d n)),
     fs_unlinkat = (\<lambda>d n. on_host (fs_unlinkat host_fs d n)),
     fs_create_excl = (\<lambda>d n. on_host (fs_create_excl host_fs d n)),
     fs_symlinkat = (\<lambda>t d n. on_host (fs_symlinkat host_fs t d n)),
     fs_write = (\<lambda>f c. on_host (fs_write host_fs f c)),
     fs_fchmod = (\<lambda>f m. on_host (fs_fchmod host_fs f m))\<rparr>"

definition extract_on :: "bool \<Rightarrow> string \<Rightarrow> string \<Rightarrow> cache_world \<Rightarrow> (chain, unit) result \<times> cache_world" where
  "extract_on stop path ws w = extract_archive_file cache_fs (\<lambda>w. (stop, w))
     (\<lambda>p w. (case content_at p w of None \<Rightarrow> Inl ''No such file'' | Some c \<Rightarrow> Inr (Inr (unzip c)), w)) path ws w"

definition cache_s3 :: "s3_mock list \<Rightarrow> cache_world s3_io" where
  "cache_s3 mocks = (let io = mock_s3 mocks in \<lparr>
     si_send = (\<lambda>rq w. case si_send io rq (cw_s3 w) of (r, s) \<Rightarrow> (r, w\<lparr>cw_s3 := s\<rparr>)),
     si_sleep = (\<lambda>t w. w\<lparr>cw_s3 := si_sleep io t (cw_s3 w)\<rparr>),
     si_now = (\<lambda>w. si_now io (cw_s3 w)), si_amz_date = (\<lambda>w. si_amz_date io (cw_s3 w)),
     si_breaker = (\<lambda>w. si_breaker io (cw_s3 w)),
     si_set_breaker = (\<lambda>b w. w\<lparr>cw_s3 := si_set_breaker io b (cw_s3 w)\<rparr>),
     si_open_len = (\<lambda>p w. (case content_at p w of Some c \<Rightarrow> Inr (Inr (length c)) | None \<Rightarrow> Inl ''no file'', w)),
     si_metadata_len = (\<lambda>p w. (case content_at p w of Some c \<Rightarrow> Inr (length c) | None \<Rightarrow> Inl ''no file'', w)),
     si_read = (\<lambda>p w. (case content_at p w of Some c \<Rightarrow> Inr c | None \<Rightarrow> Inl ''no file'', w)),
     si_stage = (\<lambda>dir w. (Inr (dir @ ''/.tmp2''), put_content (dir @ ''/.tmp2'') [] w)),
     si_append = (\<lambda>p b w. case content_at p w of
        Some c \<Rightarrow> (Inr (), put_content p (c @ b) w) | None \<Rightarrow> (Inl ''no file'', w))\<rparr>)"

definition remote :: "s3_mock list \<Rightarrow> cache_world remote" where
  "remote mocks = s3_remote (cache_s3 mocks) tests_hashes (bucket_at ''http://mock/ci'')"

text \<open>\<open>Sha256\<close> of a long key: any 64 digits do.\<close>

definition key_hash :: "string \<Rightarrow> string" where
  "key_hash key = replicate 64 (CHR ''a'')"

text \<open>A workspace with vendor/lib.txt.\<close>

definition workspace_nodes :: "string \<Rightarrow> string \<Rightarrow> (string \<times> node) list" where
  "workspace_nodes dir content =
     [(dir, Dir), (dir @ ''/vendor'', Dir), (dir @ ''/vendor/lib.txt'', File 420 content)]"

definition world_with :: "(string \<times> node) list \<Rightarrow> cache_world" where
  "world_with nodes = \<lparr>cw_host = map (\<lambda>(p, x). (names_of p, x)) ([(''/a'', Dir), (''/b'', Dir), (''/c'', Dir)] @ nodes),
     cw_old = [], cw_s3 = s3_start\<rparr>"

definition cache_at :: "string \<Rightarrow> cache_world local_cache" where
  "cache_at dir = local_cache_new dir"

definition save :: "cache_world local_cache \<Rightarrow> nat \<Rightarrow> string \<Rightarrow> string \<Rightarrow> string list \<Rightarrow> cache_world \<Rightarrow>
     (chain, saved option) result \<times> cache_world" where
  "save lc project key ws paths w = cache_save cache_disk key_hash cache_archiver lc project key ws paths w"

definition restore_to :: "cache_world local_cache \<Rightarrow> nat \<Rightarrow> string list \<Rightarrow> string \<Rightarrow> cache_world \<Rightarrow>
     (chain, restore_outcome) result \<times> cache_world" where
  "restore_to lc project keys ws w =
     cache_restore cache_disk key_hash (\<lambda>w. (False, w)) (extract_on False) lc project keys ws w"

definition upload_of :: "(chain, saved option) result \<Rightarrow> (string, unit) result option" where
  "upload_of r = (case r of Inr (Some s) \<Rightarrow> sv_upload s | _ \<Rightarrow> None)"

definition hit_of :: "(chain, restore_outcome) result \<Rightarrow> (string \<times> source) option" where
  "hit_of r = (case r of Inr out \<Rightarrow> ro_hit out | Inl _ \<Rightarrow> None)"

definition warnings_of :: "(chain, restore_outcome) result \<Rightarrow> string list" where
  "warnings_of r = (case r of Inr out \<Rightarrow> ro_warnings out | Inl _ \<Rightarrow> [])"

definition v1 :: string where "v1 = [dq] @ ''v1'' @ [dq]"

definition ok_with :: "string option \<Rightarrow> string \<Rightarrow> send_event list" where
  "ok_with etag body = answers ((s3_template 200)\<lparr>sr_etag := etag, sr_chunks := [Chunk body]\<rparr>)"

section \<open>The disk alone\<close>

definition save_then_restore_round_trip_with_fallback :: bool where
  "save_then_restore_round_trip_with_fallback \<longleftrightarrow>
     (let cache = cache_at ''/a'';
          (saved, w1) = save cache 42 ''main'' ''/p'' [''vendor''] (world_with (workspace_nodes ''/p'' ''dep''));
          (restored, w2) = restore_to cache 42 [''feature-branch'', ''main''] ''/c'' w1;
          (miss, w3) = restore_to cache 7 [''main''] ''/c'' w2
      in is_ok saved \<and> map_option fst (hit_of restored) = Some ''main'' \<and>
         content_at ''/c/vendor/lib.txt'' w2 = Some ''dep'' \<and>
         is_ok miss \<and> hit_of miss = None \<and> fst (stats cache_disk cache w3) = 1)"

lemma test_round_trip: "save_then_restore_round_trip_with_fallback"
  by code_simp

definition caches_saved_by_older_versions_still_restore :: bool where
  "caches_saved_by_older_versions_still_restore \<longleftrightarrow>
     (let path = archive_path key_hash (cache_at ''/a'') 42 ''main'';
          w = put_content path (encode (Zip False [ZipFile ''vendor/lib.txt'' 420 ''old'']))
                (world_with [(''/a/project-42'', Dir)]);
          (restored, w1) = restore_to (cache_at ''/a'') 42 [''main''] ''/c'' w
      in hit_of restored \<noteq> None \<and> content_at ''/c/vendor/lib.txt'' w1 = Some ''old'')"

lemma test_older_versions: "caches_saved_by_older_versions_still_restore"
  by code_simp

definition key_cannot_escape_cache_directory :: bool where
  "key_cannot_escape_cache_directory \<longleftrightarrow>
     (let (saved, w) = save (cache_at ''/a/cache'') 1 ''../../escaped'' ''/p'' [''f'']
            (world_with [(''/p'', Dir), (''/p/f'', File 420 ''x'')])
      in is_ok saved \<and>
         names_in (cw_host w) [''a'', ''cache'', ''project-1''] = [''%2E%2E%2F%2E%2E%2Fescaped.zip''] \<and>
         \<not> exists_at ''/a/escaped.zip'' w)"

lemma test_key_cannot_escape: "key_cannot_escape_cache_directory"
  by code_simp

definition old_archives_are_evicted_on_save :: bool where
  "old_archives_are_evicted_on_save \<longleftrightarrow>
     (let cache = with_max_age_days (cache_at ''/a'') 1;
          stale = archive_path key_hash cache 1 ''stale''; leftover = ''/a/project-1/.tmpAbC123'';
          (saved, w1) = save cache 1 ''stale'' ''/p'' [''f''] (world_with [(''/p'', Dir), (''/p/f'', File 420 ''x'')]);
          (saved', w2) = save cache 1 ''fresh'' ''/p'' [''f'']
             (make_old stale (make_old leftover (put_content leftover ''partial'' w1)))
      in is_ok saved \<and> is_ok saved' \<and> \<not> exists_at stale w2 \<and> \<not> exists_at leftover w2 \<and>
         exists_at (archive_path key_hash cache 1 ''fresh'') w2)"

lemma test_eviction: "old_archives_are_evicted_on_save"
  by code_simp

definition eviction_removes_the_sidecar_with_its_archive :: bool where
  "eviction_removes_the_sidecar_with_its_archive \<longleftrightarrow>
     (let cache = with_max_age_days (cache_at ''/a'') 1; stale = archive_path key_hash cache 1 ''stale'';
          (saved, w1) = save cache 1 ''stale'' ''/p'' [''vendor''] (world_with (workspace_nodes ''/p'' ''x''));
          (saved', w2) = save cache 1 ''fresh'' ''/p'' [''vendor''] (make_old stale (put_content (sidecar stale) v1 w1))
      in is_ok saved \<and> is_ok saved' \<and> \<not> exists_at stale w2 \<and> \<not> exists_at (sidecar stale) w2)"

lemma test_sidecar_eviction: "eviction_removes_the_sidecar_with_its_archive"
  by code_simp

definition long_keys_are_hashed_into_short_file_names :: bool where
  "long_keys_are_hashed_into_short_file_names \<longleftrightarrow>
     (let name = encode_key key_hash (replicate 1000 (CHR ''k''))
      in starts_with name ''h-'' \<and> length name < 100 \<and> encode_key key_hash ''main'' = ''main'')"

lemma long_name: "encode_key key_hash (replicate 1000 (CHR ''k'')) = ''h-'' @ replicate 64 (CHR ''a'')"
proof -
  have "list_all key_char (replicate 1000 (CHR ''k''))" by (simp add: list_all_iff key_char_def ascii_defs)
  then have "encode_key_bytes (replicate 1000 (CHR ''k'')) = replicate 1000 (CHR ''k'')" by (rule key.encode_safe)
  then show ?thesis by (simp add: encode_key_def key_hash_def Let_def)
qed

lemma test_long_keys: "long_keys_are_hashed_into_short_file_names"
proof -
  have "encode_key key_hash ''main'' = ''main''" by code_simp
  then show ?thesis by (simp add: long_keys_are_hashed_into_short_file_names_def long_name starts_with_def Let_def)
qed

definition keys_are_expanded_and_default_when_empty :: bool where
  "keys_are_expanded_and_default_when_empty \<longleftrightarrow>
     (let vars = [''CI_COMMIT_REF_SLUG'' \<mapsto> ''main''] in
      resolve_key ''deps-$CI_COMMIT_REF_SLUG'' vars = ''deps-main'' \<and> resolve_key ''$UNSET'' vars = ''default'')"

lemma test_resolve_key: "keys_are_expanded_and_default_when_empty"
  by code_simp

section \<open>With S3\<close>

definition saves_upload_and_other_hosts_download :: bool where
  "saves_upload_and_other_hosts_download \<longleftrightarrow>
     (let puts = [(at_path ''PUT'' ''/ci/project-5/main.zip'', answers ((s3_template 200)\<lparr>sr_etag := Some v1\<rparr>))];
          (saved, w1) = save (with_remote (cache_at ''/a'') (remote puts)) 5 ''main'' ''/p'' [''vendor'']
             (world_with (workspace_nodes ''/p'' ''dep''));
          uploaded = (case map s3q_body (sw_received (cw_s3 w1)) of
             [Some path] \<Rightarrow> or_empty (content_at path w1) | _ \<Rightarrow> []);
          gets = [(at_path ''GET'' ''/ci/project-5/main.zip'', ok_with (Some v1) uploaded)];
          (restored, w2) = restore_to (with_remote (cache_at ''/b'') (remote gets)) 5 [''main''] ''/c'' w1
      in upload_of saved = Some (Inr ()) \<and> content_at ''/a/project-5/main.zip.etag'' w1 = Some v1 \<and>
         (case hit_of restored of Some (key, S3Downloaded _) \<Rightarrow> key = ''main'' | _ \<Rightarrow> False) \<and>
         content_at ''/c/vendor/lib.txt'' w2 = Some ''dep'' \<and> exists_at ''/b/project-5/main.zip'' w2)"

lemma test_other_hosts_download: "saves_upload_and_other_hosts_download"
  by code_simp

definition unchanged_objects_are_not_downloaded_again :: bool where
  "unchanged_objects_are_not_downloaded_again \<longleftrightarrow>
     (let mocks = [(\<lambda>rq. s3q_method rq = ''PUT'', answers ((s3_template 200)\<lparr>sr_etag := Some v1\<rparr>)),
                   (\<lambda>rq. s3q_method rq = ''GET'' \<and> sends ''if-none-match'' (Some v1) rq, answers (s3_template 304))];
          cache = with_remote (cache_at ''/a'') (remote mocks);
          (saved, w1) = save cache 5 ''main'' ''/p'' [''vendor''] (world_with (workspace_nodes ''/p'' ''dep''));
          (restored, w2) = restore_to cache 5 [''main''] ''/c'' w1
      in is_ok saved \<and> (case hit_of restored of Some (_, S3NotModified) \<Rightarrow> True | _ \<Rightarrow> False) \<and>
         warnings_of restored = [] \<and> content_at ''/c/vendor/lib.txt'' w2 = Some ''dep'')"

lemma test_unchanged: "unchanged_objects_are_not_downloaded_again"
  by code_simp

definition s3_error_falls_back_to_local_archive :: bool where
  "s3_error_falls_back_to_local_archive \<longleftrightarrow>
     (let mocks = [(\<lambda>rq. s3q_method rq = ''PUT'', answers denied), (\<lambda>rq. s3q_method rq = ''GET'', answers denied)];
          cache = with_remote (cache_at ''/a'') (remote mocks);
          (saved, w1) = save cache 5 ''main'' ''/p'' [''vendor''] (world_with (workspace_nodes ''/p'' ''dep''));
          (restored, w2) = restore_to cache 5 [''main''] ''/c'' w1
      in (case upload_of saved of Some (Inl e) \<Rightarrow> contains e ''AccessDenied'' | _ \<Rightarrow> False) \<and>
         \<not> exists_at ''/a/project-5/main.zip.etag'' w1 \<and>
         (case hit_of restored of Some (_, Local) \<Rightarrow> True | _ \<Rightarrow> False) \<and>
         (case warnings_of restored of [warning] \<Rightarrow> contains warning ''AccessDenied'' | _ \<Rightarrow> False))"

lemma test_s3_error: "s3_error_falls_back_to_local_archive"
  by code_simp

definition a_failed_upload_keeps_the_previous_etag :: bool where
  "a_failed_upload_keeps_the_previous_etag \<longleftrightarrow>
     (let nodes = workspace_nodes ''/old'' ''old'' @ workspace_nodes ''/new'' ''new'';
          (first, w1) = save (cache_at ''/a'') 5 ''main'' ''/old'' [''vendor''] (world_with nodes);
          archive = archive_path key_hash (cache_at ''/a'') 5 ''main'';
          w2 = put_content (sidecar archive) v1 w1;
          gets = [(\<lambda>rq. s3q_method rq = ''GET'' \<and> sends ''if-none-match'' (Some v1) rq, answers (s3_template 304)),
                  (\<lambda>rq. s3q_method rq = ''GET'', ok_with (Some v1) (or_empty (content_at archive w2)))];
          failing = with_remote (cache_at ''/a'') (remote ((\<lambda>rq. s3q_method rq = ''PUT'', answers denied) # gets));
          (saved, w3) = save failing 5 ''main'' ''/new'' [''vendor''] w2;
          (restored, w4) = restore_to failing 5 [''main''] ''/c'' w3;
          accepting = with_remote (cache_at ''/a'') (remote (gets @ [(\<lambda>rq. s3q_method rq = ''PUT'', answers (s3_template 200))]));
          (saved', w5) = save accepting 5 ''main'' ''/new'' [''vendor''] w4
      in is_ok first \<and>
         (case upload_of saved of Some (Inl e) \<Rightarrow> contains e ''AccessDenied'' | _ \<Rightarrow> False) \<and>
         content_at (sidecar archive) w3 = Some v1 \<and>
         (case hit_of restored of Some (_, S3NotModified) \<Rightarrow> True | _ \<Rightarrow> False) \<and>
         content_at ''/c/vendor/lib.txt'' w4 = Some ''new'' \<and>
         upload_of saved' = Some (Inr ()) \<and> \<not> exists_at (sidecar archive) w5)"

lemma test_previous_etag: "a_failed_upload_keeps_the_previous_etag"
  by code_simp

definition a_stopped_restore_does_not_call_s3 :: bool where
  "a_stopped_restore_does_not_call_s3 \<longleftrightarrow>
     (case cache_restore cache_disk key_hash (\<lambda>w. (True, w)) (extract_on True) (with_remote (cache_at ''/a'') (remote [])) 5
        [''main''] ''/c'' (world_with []) of
        (Inl (e # _), w) \<Rightarrow> starts_with e ''stopped'' \<and> sw_received (cw_s3 w) = []
      | _ \<Rightarrow> False)"

lemma test_stopped_restore: "a_stopped_restore_does_not_call_s3"
  by code_simp

definition fallback_keys_are_tried_in_s3 :: bool where
  "fallback_keys_are_tried_in_s3 \<longleftrightarrow>
     (let (saved, w1) = save (cache_at ''/b'') 5 ''main'' ''/p'' [''vendor''] (world_with (workspace_nodes ''/p'' ''from-main''));
          archive = or_empty (content_at ''/b/project-5/main.zip'' w1);
          mocks = [(at_path ''GET'' ''/ci/project-5/feature.zip'', answers (s3_template 404)),
                   (at_path ''GET'' ''/ci/project-5/main.zip'', ok_with None archive)];
          (restored, w2) = restore_to (with_remote (cache_at ''/a'') (remote mocks)) 5 [''feature'', ''main''] ''/c'' w1
      in is_ok saved \<and> map_option fst (hit_of restored) = Some ''main'' \<and>
         \<not> exists_at ''/a/project-5/main.zip.etag'' w2)"

lemma test_fallback_keys: "fallback_keys_are_tried_in_s3"
  by code_simp

definition downloads_evict_old_archives_without_a_save :: bool where
  "downloads_evict_old_archives_without_a_save \<longleftrightarrow>
     (let local = with_max_age_days (cache_at ''/a'') 1;
          (saved, w1) = save local 5 ''a'' ''/p'' [''vendor''] (world_with (workspace_nodes ''/p'' ''dep''));
          old = archive_path key_hash local 5 ''a'';
          mocks = [(at_path ''GET'' ''/ci/project-5/b.zip'', ok_with None (or_empty (content_at old w1)))];
          cache = with_remote local (remote mocks);
          (restored, w2) = restore_to cache 5 [''b''] ''/c'' (make_old old w1)
      in is_ok saved \<and> (case hit_of restored of Some (_, S3Downloaded _) \<Rightarrow> True | _ \<Rightarrow> False) \<and>
         \<not> exists_at old w2 \<and> exists_at (archive_path key_hash cache 5 ''b'') w2)"

lemma test_downloads_evict: "downloads_evict_old_archives_without_a_save"
  by code_simp

end
