(* ===== verification/Tests_Main.thy ===== *)
theory Tests_Main
  imports Command_Line Tests_Base
begin

text \<open>
  The unit tests of \<open>src/main.rs\<close>, and those of \<open>src/runner_daemon/mod.rs\<close> and
  \<open>src/runner_daemon/executor.rs\<close> that need neither processes nor threads, run on the model.
\<close>

section \<open>The upgrade\<close>

definition HELLO :: string where
  "HELLO = ''2cf24dba5fb0a30e26e83b2ac5b9e29e1b161e5c1fa7425e73043362938b9824''"

definition hex_digit :: "char \<Rightarrow> nat" where
  "hex_digit c = (let b = byte c in if b < 58 then b - 48 else b - 87)"

fun unhex :: "string \<Rightarrow> string" where
  "unhex (a # b # s) = char_of (16 * hex_digit a + hex_digit b) # unhex s"
| "unhex _ = []"

text \<open>SHA-256 where the tests need it: of \<open>hello\<close>; any other text has another hash.\<close>

definition tests_sha256 :: "string \<Rightarrow> string" where
  "tests_sha256 data = (if data = ''hello'' then unhex HELLO else replicate 32 (CHR 0x01))"

definition accepts_matching_checksum :: bool where
  "accepts_matching_checksum \<longleftrightarrow>
     (let listing = replicate 64 (CHR ''0'') @ ''  turboci'' @ [nl] @ HELLO @ ''  turboci-x86_64-unknown-linux-musl'' @ [nl]
      in is_ok (verify_checksum tests_sha256 ''hello'' listing ''turboci-x86_64-unknown-linux-musl''))"

lemma test_accepts_checksum: "accepts_matching_checksum"
  by code_simp

definition rejects_mismatch_and_missing_entry :: bool where
  "rejects_mismatch_and_missing_entry \<longleftrightarrow>
     (let listing = HELLO @ ''  turboci-x86_64-unknown-linux-musl'' @ [nl]; asset = ''turboci-x86_64-unknown-linux-musl''
      in is_err (verify_checksum tests_sha256 ''tampered'' listing asset) \<and>
         is_err (verify_checksum tests_sha256 ''hello'' listing ''turboci-other'') \<and>
         is_err (verify_checksum tests_sha256 ''<html>404</html>'' [] asset))"

lemma test_rejects_checksum: "rejects_mismatch_and_missing_entry"
  by code_simp

text \<open>The platforms of the CI that runs this test.\<close>

definition this_platform_has_a_release_asset :: bool where
  "this_platform_has_a_release_asset \<longleftrightarrow>
     list_all (\<lambda>(os, arch). case RELEASE_ASSET os arch of None \<Rightarrow> False | Some asset \<Rightarrow> contains asset arch)
       [(''linux'', ''x86_64''), (''linux'', ''aarch64''), (''macos'', ''aarch64'')]"

lemma test_release_asset: "this_platform_has_a_release_asset"
  by code_simp

section \<open>The daemon\<close>

text \<open>The constants of the platform: the test runs on each of them.\<close>

definition short_token_skips_prefixes :: bool where
  "short_token_skips_prefixes \<longleftrightarrow>
     short_token ''glrt-t1_AbCdEfGhIjKl'' = ''AbCdEfGhI'' \<and>
     short_token ''glrt-AbCdEfGhIjKl'' = ''AbCdEfGhI'' \<and>
     short_token ''t2_xyz'' = ''xyz'' \<and>
     list_all (\<lambda>(os, arch). CHR ''/'' \<in> set (executable_arch os arch) \<and>
         \<not> starts_with (executable_arch os arch) ''macos/'')
       [(''linux'', ''x86_64''), (''linux'', ''aarch64''), (''macos'', ''aarch64'')]"

lemma test_short_token: "short_token_skips_prefixes"
  by code_simp

definition concurrency_slots_reuse_the_lowest_free_ids :: bool where
  "concurrency_slots_reuse_the_lowest_free_ids \<longleftrightarrow>
     (let (a, slots1) = acquire no_slots 1; (b, slots2) = acquire slots1 1; (c, slots3) = acquire slots2 2;
          slots4 = release_slot slots3 1 a; (d, slots5) = acquire slots4 3; (e, slots6) = acquire slots5 1
      in (a, b, c) = ((0, 0), (1, 1), (2, 0)) \<and> d = (0, 0) \<and> e = (3, 0))"

lemma lowest_free_in:
  "lowest_free {||} = 0" "lowest_free {|0|} = 1" "lowest_free {|0, 1|} = 2" "lowest_free {|1, 0|} = 2"
  "lowest_free {|1|} = 0" "lowest_free {|2, 1|} = 0" "lowest_free {|0, 2, 1|} = 3"
  by (simp_all add: lowest_free_def free_from.simps[of _ 0] free_from.simps[of _ 1] free_from.simps[of _ 2]
      free_from.simps[of _ 3] del: One_nat_def)

lemma slots_left: "{|2, 1, 0|} |-| {|0|} = {|2, 1 :: nat|}" "{|1, 0|} |-| {|0|} = {|1 :: nat|}"
  by auto

lemma test_slots: "concurrency_slots_reuse_the_lowest_free_ids"
  by (simp add: concurrency_slots_reuse_the_lowest_free_ids_def acquire_def release_slot_def no_slots_def
      project_used_def lowest_free_in slots_left Let_def del: One_nat_def)

section \<open>The decoder of process output\<close>

definition utf8_decoder_keeps_characters_split_across_chunks :: bool where
  "utf8_decoder_keeps_characters_split_across_chunks \<longleftrightarrow>
     (let text = ''ok '' @ [CHR 0xE2, CHR 0x9C, CHR 0x93] @ '' done'';
          (out1, pending1) = decode [] (take 4 text);
          (out2, pending2) = decode pending1 (drop 4 text)
      in out1 @ out2 @ decode_finish pending2 = text)"

lemma test_decoder: "utf8_decoder_keeps_characters_split_across_chunks"
  by code_simp

end
