(* ===== verification/Unpacking.thy ===== *)
theory Unpacking
  imports Host_Files
begin

text \<open>
  What an extraction leaves, and the round trip of packing and unpacking (\<open>build_zip\<close> and
  \<open>extract_zip_reader\<close> of \<open>src/runner_daemon/artifacts.rs\<close>): on the file system of \<open>Host_Files\<close> an archive of regular files comes out
  as exactly these files, with their contents and modes, in a workspace that was empty, and
  nothing else changes. This is the other half of \<open>extract_confined\<close> of \<open>Artifacts\<close>, which says what
  an archive cannot do, and it makes a saved cache restore as what it was.
\<close>

section \<open>Nodes\<close>

lemma node_at_set: "p \<noteq> [] \<Longrightarrow> node_at (set_node p x w) q = (if q = p then Some x else node_at w q)"
  by (auto simp: node_at_def set_node_def update_conv')

lemma node_at_root: "node_at w [] = Some Dir"
  by (simp add: node_at_def)

lemma add_node_new:
  assumes "node_at w d = Some Dir" "node_at w (d @ [n]) = None"
  shows "add_node (d @ [n]) x w = (Inr (), set_node (d @ [n]) x w)"
  using assms by (simp add: add_node_def parent_is_dir_def)

lemma open_dir_Dir: "node_at w p = Some Dir \<Longrightarrow> open_dir p w = Inr p"
  by (simp add: open_dir_def)

text \<open>A path on the way from \<open>d\<close> down through the names \<open>ns\<close>.\<close>

definition on_way :: "string list \<Rightarrow> string list \<Rightarrow> string list \<Rightarrow> bool" where
  "on_way d ns q \<longleftrightarrow> prefix d q \<and> prefix q (d @ ns)"

lemma on_way_Nil: "on_way d [] q \<longleftrightarrow> q = d"
  by (auto simp: on_way_def prefix_order.eq_iff)

lemma on_way_Cons: "on_way d (n # ns) q \<longleftrightarrow> q = d \<or> on_way (d @ [n]) ns q"
proof -
  have "on_way d (n # ns) q \<longleftrightarrow> (\<exists>q'. q = d @ q' \<and> prefix q' (n # ns))" by (auto simp: on_way_def prefix_def)
  also have "\<dots> \<longleftrightarrow> q = d \<or> (\<exists>q'. q = d @ n # q' \<and> prefix q' ns)" by (auto simp: prefix_Cons)
  also have "\<dots> \<longleftrightarrow> q = d \<or> on_way (d @ [n]) ns q" by (auto simp: on_way_def prefix_def)
  finally show ?thesis .
qed

definition clear_way :: "host \<Rightarrow> string list \<Rightarrow> string list \<Rightarrow> bool" where
  "clear_way w d ns \<longleftrightarrow> node_at w d = Some Dir \<and> (\<forall>q. on_way d ns q \<longrightarrow> node_at w q \<in> {None, Some Dir})"

text \<open>What is there once the directories on the way are made.\<close>

definition with_way :: "string list \<Rightarrow> string list \<Rightarrow> (string list \<Rightarrow> node option) \<Rightarrow> string list \<Rightarrow> node option" where
  "with_way d ns at q = (if on_way d ns q then Some Dir else at q)"

lemma on_way_self [simp]: "on_way d ns d"
  by (simp add: on_way_def)

lemma with_way_Cons:
  "with_way (d @ [n]) ns (with_way d [n] at) = with_way d (n # ns) at"
  by (auto simp: with_way_def on_way_Cons on_way_Nil fun_eq_iff)

lemma clear_way_Cons:
  assumes "clear_way w d (n # ns)"
  shows "node_at w d = Some Dir" "node_at w (d @ [n]) \<in> {None, Some Dir}"
    "node_at w' = with_way d [n] (node_at w) \<Longrightarrow> clear_way w' (d @ [n]) ns"
  using assms
  by (auto simp: clear_way_def with_way_def on_way_Cons on_way_Nil)

section \<open>Directories\<close>

lemma make_dirs_way:
  "clear_way w d ns \<Longrightarrow> \<exists>w'. make_dirs d ns w = (Inr (), w') \<and> node_at w' = with_way d ns (node_at w)"
proof (induction ns arbitrary: d w)
  case Nil
  then show ?case by (auto simp: with_way_def on_way_Nil clear_way_def fun_eq_iff)
next
  case (Cons n ns)
  note way = clear_way_Cons[OF Cons.prems]
  define w1 where "w1 = (if node_at w (d @ [n]) = None then set_node (d @ [n]) Dir w else w)"
  have w1: "node_at w1 = with_way d [n] (node_at w)"
    using way(1,2) by (auto simp: w1_def with_way_def on_way_Cons on_way_Nil node_at_set fun_eq_iff)
  have "make_dirs d (n # ns) w = make_dirs (d @ [n]) ns w1" using way(2) by (auto simp: w1_def)
  with Cons.IH[OF way(3)[OF w1]] w1 show ?case by (simp add: with_way_Cons)
qed

lemma open_or_create_way:
  assumes way: "clear_way w d [n]" and n: "n \<noteq> ''.''"
  shows "\<exists>w'. open_or_create_dir host_fs d n w = (Inr (d @ [n]), w') \<and> node_at w' = with_way d [n] (node_at w)"
proof (cases "node_at w (d @ [n])")
  case None
  have "node_at (set_node (d @ [n]) Dir w) = with_way d [n] (node_at w)"
    using clear_way_Cons[OF way] by (auto simp: with_way_def on_way_Cons on_way_Nil node_at_set fun_eq_iff)
  moreover have "add_node (d @ [n]) Dir w = (Inr (), set_node (d @ [n]) Dir w)"
    using add_node_new clear_way_Cons(1)[OF way] None by blast
  ultimately show ?thesis
    using n None by (simp add: open_or_create_dir_def host_fs_def open_dir_def with_way_def on_way_Cons)
next
  case (Some x)
  then have "x = Dir" using clear_way_Cons(2)[OF way] by auto
  then have "with_way d [n] (node_at w) = node_at w"
    using clear_way_Cons(1)[OF way] Some by (auto simp: with_way_def on_way_Cons on_way_Nil fun_eq_iff)
  then show ?thesis using n Some \<open>x = Dir\<close> by (simp add: open_or_create_dir_def host_fs_def open_dir_Dir)
qed

lemma open_components_way:
  "clear_way w d ns \<Longrightarrow> ''.'' \<notin> set ns \<Longrightarrow>
     \<exists>w'. open_components host_fs rel d (map Normal ns) w = (Inr (d @ ns), w') \<and>
       node_at w' = with_way d ns (node_at w)"
proof (induction ns arbitrary: d w)
  case Nil
  then show ?case by (auto simp: with_way_def on_way_Nil clear_way_def fun_eq_iff)
next
  case (Cons n ns)
  have "clear_way w d [n]"
    using clear_way_Cons(1,2)[OF Cons.prems(1)] by (auto simp: clear_way_def on_way_Cons on_way_Nil)
  then obtain w1 where w1: "open_or_create_dir host_fs d n w = (Inr (d @ [n]), w1)"
      "node_at w1 = with_way d [n] (node_at w)"
    using open_or_create_way Cons.prems(2) by fastforce
  with Cons.IH[OF clear_way_Cons(3)[OF Cons.prems(1) w1(2)]] Cons.prems(2) show ?case
    by (simp add: with_way_Cons)
qed

lemma open_dirs_way:
  assumes "clear_way w d ns" "''.'' \<notin> set ns"
  shows "\<exists>w'. open_dirs host_fs d rel (map Normal ns) w = (Inr (d @ ns), w') \<and>
    node_at w' = with_way d ns (node_at w)"
  using open_components_way[OF assms] clear_way_def assms(1)
  by (simp add: open_dirs_def host_fs_def open_dir_Dir clear_way_def)

section \<open>One file\<close>

lemma join_snoc: "xs \<noteq> [] \<Longrightarrow> join sep (xs @ [y]) = join sep xs @ sep @ y"
proof (induction xs)
  case (Cons x xs)
  then show ?case by (cases xs) (simp_all add: join_Cons)
qed simp

lemma components_join:
  "ns \<noteq> [] \<Longrightarrow> list_all plain_name ns \<Longrightarrow> join ''/'' ns \<noteq> [] \<and> components (join ''/'' ns) = map Normal ns"
proof (induction ns rule: rev_induct)
  case (snoc n ns)
  have n: "CHR ''/'' \<notin> set n" "n \<noteq> []" "n \<noteq> ''.''" "n \<noteq> ''..''" using snoc.prems(2) by (auto simp: plain_name_def)
  show ?case
  proof (cases "ns = []")
    case True
    then show ?thesis using n components_single by simp
  next
    case False
    then show ?thesis using snoc n components_snoc[OF n, of "join ''/'' ns"] by (simp add: join_snoc)
  qed
qed simp

lemma split_leaf_join:
  assumes "ns \<noteq> []" "list_all plain_name ns"
  shows "split_leaf (join ''/'' ns) = Inr (map Normal (butlast ns), last ns)"
proof -
  have c: "components (join ''/'' ns) = map Normal (butlast ns @ [last ns])" using components_join[OF assms] assms(1) by simp
  have "rev (components (join ''/'' ns)) = Normal (last ns) # rev (map Normal (butlast ns))" unfolding c by simp
  then show ?thesis by (simp add: split_leaf_def path_file_name_def parent_components_def rev_map)
qed

lemma copy_host:
  "node_at w f = Some (File m c) \<Longrightarrow> f \<noteq> [] \<Longrightarrow> read_all rs = Inr s \<Longrightarrow> length s < n \<Longrightarrow>
     \<exists>w'. copy_bounded host_fs (\<lambda>w. (False, w)) f n rs k w = (Inr (k + length s), w') \<and>
       node_at w' = (node_at w)(f \<mapsto> File m (c @ s))"
proof (induction rs arbitrary: w c s n k)
  case Nil
  then show ?case by (auto simp: stop_check_def fun_eq_iff)
next
  case (Cons r rs)
  obtain b s' where b: "r = Inr b" "read_all rs = Inr s'" "s = b @ s'"
    using Cons.prems(3) by (cases r) (auto simp: rbind_Inr_conv)
  let ?w1 = "set_node f (File m (c @ b)) w"
  have w1: "node_at ?w1 f = Some (File m (c @ b))" "node_at ?w1 = (node_at w)(f \<mapsto> File m (c @ b))"
    using Cons.prems(2) by (auto simp: node_at_set)
  have step: "fs_write host_fs f b w = (Inr (), ?w1)"
    using Cons.prems(1) by (simp add: host_fs_def append_file_def)
  have "length s' < n - length b" using Cons.prems(4) b(3) by simp
  from Cons.IH[OF w1(1) Cons.prems(2) b(2) this, of "k + length b"]
  obtain w' where "copy_bounded host_fs (\<lambda>w. (False, w)) f (n - length b) rs (k + length b) ?w1 =
      (Inr (k + length b + length s'), w')" "node_at w' = (node_at ?w1)(f \<mapsto> File m ((c @ b) @ s'))" by blast
  then show ?case using Cons.prems(4) b step w1(2) by (simp add: stop_check_def Let_def add.assoc fun_eq_iff)
qed

lemma extract_file_host:
  assumes d: "node_at w d = Some Dir" "node_at w (d @ [n]) = None"
    and e: "read_all (ze_reads e) = Inr s" "ze_unix_mode e = Some mode"
    and fits: "received + length s \<le> el_max_total_bytes lm" "el_max_total_bytes lm < u64_max"
  shows "\<exists>w'. extract_file host_fs (\<lambda>w. (False, w)) lm d n e received w = (Inr (received + length s), w') \<and>
    node_at w' = (node_at w)(d @ [n] \<mapsto> File (mode mod 512) s)"
proof -
  let ?f = "d @ [n]" let ?w1 = "set_node (d @ [n]) (File 420 []) w"
  have created: "create_file host_fs d n w = (Inr ?f, ?w1)"
    using d add_node_new[OF d] by (simp add: create_file_def clear_leaf_def host_fs_def remove_file_def)
  let ?n = "min (el_max_total_bytes lm - received + 1) u64_max"
  have n: "length s < ?n" using fits by auto
  obtain w2 where copied: "copy_bounded host_fs (\<lambda>w. (False, w)) ?f ?n (ze_reads e) 0 ?w1 = (Inr (length s), w2)"
      and w2: "node_at w2 = (node_at ?w1)(?f \<mapsto> File 420 s)"
    using copy_host[OF _ _ e(1) n, of ?w1 ?f 420 "[]" 0] by (auto simp: node_at_set)
  let ?w3 = "set_node ?f (File (mode mod 512) s) w2"
  have mode: "fs_fchmod host_fs ?f (mode mod 512) w2 = (Inr (), ?w3)"
    by (simp add: host_fs_def set_file_mode_def w2)
  have w3: "node_at ?w3 = (node_at w)(?f \<mapsto> File (mode mod 512) s)"
    by (auto simp: node_at_set w2 fun_eq_iff)
  have "\<not> length s > el_max_total_bytes lm - received" using fits(1) by simp
  then have "extract_file host_fs (\<lambda>w. (False, w)) lm d n e received w = (Inr (received + length s), ?w3)"
    using created copied mode e(2) by (simp add: extract_file_def Let_def)
  then show ?thesis using w3 by blast
qed

text \<open>A regular file of an archive, as the zip library presents it: \<open>ns\<close> are the names of its path.\<close>

definition regular_entry :: "zip_entry \<Rightarrow> string list \<times> nat \<times> string \<Rightarrow> bool" where
  "regular_entry e = (\<lambda>(ns, mode, content).
     ze_enclosed_name e = Some (join ''/'' ns) \<and> \<not> ze_is_dir e \<and> \<not> ze_is_symlink e \<and>
     read_all (ze_reads e) = Inr content \<and> ze_unix_mode e = Some mode \<and>
     ns \<noteq> [] \<and> list_all plain_name ns)"

lemma extract_entry_host:
  assumes e: "regular_entry e (ns, mode, s)"
    and way: "clear_way w d (butlast ns)" "node_at w (d @ ns) = None"
    and fits: "received + length s \<le> el_max_total_bytes lm" "el_max_total_bytes lm < u64_max"
  shows "\<exists>w'. extract_entry host_fs (\<lambda>w. (False, w)) lm d e received w = (Inr (received + length s), w') \<and>
    node_at w' = (with_way d (butlast ns) (node_at w))(d @ ns \<mapsto> File (mode mod 512) s)"
proof -
  have ns: "ns \<noteq> []" "list_all plain_name ns" "d @ butlast ns @ [last ns] = d @ ns"
    using e by (simp_all add: regular_entry_def)
  have "''.'' \<notin> set (butlast ns)" using ns(2) by (auto simp: list_all_iff plain_name_def dest: in_set_butlastD)
  from open_dirs_way[OF way(1) this] obtain w1 where
    w1: "open_dirs host_fs d (path_text (map Normal (butlast ns))) (map Normal (butlast ns)) w = (Inr (d @ butlast ns), w1)"
      "node_at w1 = with_way d (butlast ns) (node_at w)" by blast
  have "\<not> on_way d (butlast ns) (d @ ns)" using ns(1) by (cases ns rule: rev_cases) (auto simp: on_way_def)
  then have dir: "node_at w1 (d @ butlast ns) = Some Dir" "node_at w1 ((d @ butlast ns) @ [last ns]) = None"
    using way(2) ns(1) by (simp_all add: w1(2) with_way_def on_way_def)
  from extract_file_host[OF dir, of e s mode] e fits obtain w2 where
    "extract_file host_fs (\<lambda>w. (False, w)) lm (d @ butlast ns) (last ns) e received w1 = (Inr (received + length s), w2)"
    "node_at w2 = (node_at w1)(d @ ns \<mapsto> File (mode mod 512) s)"
    using ns(1) by (auto simp: regular_entry_def)
  then show ?thesis
    using e w1 split_leaf_join[OF ns(1,2)] by (simp add: regular_entry_def extract_entry_def)
qed

section \<open>All files\<close>

text \<open>What a workspace holds that holds exactly these files and the directories they are in.\<close>

definition tree_of :: "(string list \<times> nat \<times> string) list \<Rightarrow> string list \<Rightarrow> node option" where
  "tree_of files p =
     (case map_of files p of
        Some (mode, content) \<Rightarrow> Some (File (mode mod 512) content)
      | None \<Rightarrow> if p = [] \<or> (\<exists>q \<in> fst ` set files. strict_prefix p q) then Some Dir else None)"

text \<open>No two files have the same path, and none is a directory on the way to another.\<close>

definition separate :: "(string list \<times> nat \<times> string) list \<Rightarrow> bool" where
  "separate files \<longleftrightarrow> distinct (map fst files) \<and>
     (\<forall>p \<in> fst ` set files. \<forall>q \<in> fst ` set files. \<not> strict_prefix p q)"

lemma extract_entries_host:
  assumes "list_all2 regular_entry es files"
  shows "separate (ready @ files) \<Longrightarrow> (\<And>p. node_at w (d @ p) = tree_of ready p) \<Longrightarrow>
     received + sum_list (map (length \<circ> snd \<circ> snd) files) \<le> el_max_total_bytes lm \<Longrightarrow>
     el_max_total_bytes lm < u64_max \<Longrightarrow>
     \<exists>w'. extract_entries host_fs (\<lambda>w. (False, w)) lm d (map Inr es) received w = (Inr (), w') \<and>
       (\<forall>p. node_at w' (d @ p) = tree_of (ready @ files) p) \<and>
       (\<forall>q. \<not> prefix d q \<longrightarrow> node_at w' q = node_at w q)"
  using assms
proof (induction es files arbitrary: ready w received rule: list_all2_induct)
  case Nil
  then show ?case by simp
next
  case (Cons e es f files)
  obtain ns mode s where f: "f = (ns, mode, s)" by (cases f) auto
  have sep: "map_of ready ns = None" "ns \<notin> fst ` set ready"
    "\<And>q. q \<in> fst ` set ready \<Longrightarrow> \<not> strict_prefix ns q \<and> \<not> strict_prefix q ns"
    using Cons.prems(1) by (auto simp: separate_def f map_of_eq_None_iff)
  have ns: "ns \<noteq> []" using Cons.hyps(1) by (simp add: f regular_entry_def)
  have files: "map_of ready p = None" if "strict_prefix p ns" for p
    using sep(3) that by (force simp: map_of_eq_None_iff)
  have below: "strict_prefix p ns" if "prefix p (butlast ns)" for p
    using that ns by (metis append_butlast_last_id prefix_snoc prefix_order.dual_order.strict_iff_order not_Cons_self2
        append_self_conv prefix_length_le length_append_singleton not_less_eq_eq order_refl)
  have way: "clear_way w d (butlast ns)"
    unfolding clear_way_def
  proof (intro conjI allI impI)
    show "node_at w d = Some Dir" using Cons.prems(2)[of "[]"] files[OF below[of "[]"]] by (simp add: tree_of_def)
    fix q
    assume "on_way d (butlast ns) q"
    then obtain p where p: "q = d @ p" "prefix p (butlast ns)" by (auto simp: on_way_def prefix_def)
    then show "node_at w q \<in> {None, Some Dir}"
      using Cons.prems(2)[of p] files[OF below] by (auto simp: tree_of_def)
  qed
  have free: "node_at w (d @ ns) = None"
    using Cons.prems(2)[of ns] sep ns by (auto simp: tree_of_def)
  obtain w1 where run: "extract_entry host_fs (\<lambda>w. (False, w)) lm d e received w = (Inr (received + length s), w1)"
    and w1: "node_at w1 = (with_way d (butlast ns) (node_at w))(d @ ns \<mapsto> File (mode mod 512) s)"
    using extract_entry_host[OF _ way free, of e mode s received lm] Cons.hyps(1) Cons.prems(3,4) by (auto simp: f)
  have inv: "node_at w1 (d @ p) = tree_of (ready @ [f]) p" for p
  proof (cases "p = ns")
    case True
    then show ?thesis using sep(1) by (simp add: w1 tree_of_def f map_add_def)
  next
    case False
    have "on_way d (butlast ns) (d @ p) \<longleftrightarrow> strict_prefix p ns"
      using below[of p] ns False by (auto simp: on_way_def) (metis append_butlast_last_id prefix_snoc strict_prefix_def)
    then show ?thesis
      using False files[of p] Cons.prems(2)[of p]
      by (auto simp: w1 with_way_def tree_of_def f map_add_def split: option.splits)
  qed
  have "\<exists>w'. extract_entries host_fs (\<lambda>w. (False, w)) lm d (map Inr es) (received + length s) w1 = (Inr (), w') \<and>
       (\<forall>p. node_at w' (d @ p) = tree_of ((ready @ [f]) @ files) p) \<and>
       (\<forall>q. \<not> prefix d q \<longrightarrow> node_at w' q = node_at w1 q)"
    using Cons.prems by (intro Cons.IH inv) (auto simp: f)
  moreover have "node_at w1 q = node_at w q" if "\<not> prefix d q" for q
    using that by (auto simp: w1 with_way_def on_way_def)
  ultimately show ?case using run by (auto simp: stop_check_def)
qed

lemma extract_files_host:
  assumes files: "list_all2 regular_entry es files" "separate files"
    and ws: "\<And>q. prefix q (names_of ws) \<Longrightarrow> node_at w q \<in> {None, Some Dir}"
      "\<And>q. strict_prefix (names_of ws) q \<Longrightarrow> node_at w q = None"
    and fits: "length es \<le> el_max_entries lm"
      "sum_list (map (length \<circ> snd \<circ> snd) files) \<le> el_max_total_bytes lm" "el_max_total_bytes lm < u64_max"
  shows "\<exists>w'. extract_zip_reader host_fs (\<lambda>w. (False, w)) (Inr (map Inr es)) ws lm w = (Inr (), w') \<and>
    (\<forall>p. node_at w' (names_of ws @ p) = tree_of files p) \<and>
    (\<forall>q. \<not> prefix (names_of ws) q \<and> \<not> prefix q (names_of ws) \<longrightarrow> node_at w' q = node_at w q)"
proof -
  let ?d = "names_of ws"
  have "clear_way w [] ?d" using ws(1) by (auto simp: clear_way_def on_way_def node_at_root)
  then obtain w1 where made: "make_dirs [] ?d w = (Inr (), w1)" and w1: "node_at w1 = with_way [] ?d (node_at w)"
    using make_dirs_way by blast
  have opened: "open_dir ?d w1 = Inr ?d" by (simp add: open_dir_def w1 with_way_def on_way_def)
  have "node_at w1 (?d @ p) = tree_of [] p" for p
    using ws(2)[of "?d @ p"] by (auto simp: w1 with_way_def on_way_def tree_of_def strict_prefix_def)
  from extract_entries_host[OF files(1), of "[]", simplified, OF files(2) this _ fits(3), of 0] fits(2)
  obtain w' where w': "extract_entries host_fs (\<lambda>w. (False, w)) lm ?d (map Inr es) 0 w1 = (Inr (), w')"
      "\<forall>p. node_at w' (?d @ p) = tree_of files p" "\<forall>q. \<not> prefix ?d q \<longrightarrow> node_at w' q = node_at w1 q" by auto
  have "node_at w1 q = node_at w q" if "\<not> prefix q ?d" for q using that by (simp add: w1 with_way_def on_way_def)
  moreover have "extract_zip_reader host_fs (\<lambda>w. (False, w)) (Inr (map Inr es)) ws lm w = (Inr (), w')"
    using made opened w'(1) fits(1) by (simp add: extract_zip_reader_def open_root_def host_fs_def)
  ultimately show ?thesis using w'(2,3) by auto
qed

text \<open>
  C8: extracting an archive of regular files (with plain names, no path twice and none through another
  file, within the limits) into an empty or missing workspace succeeds, and the workspace is then exactly the
  files of the archive, each with its content and the permission bits of its mode, and the
  directories they are in; outside the workspace and the directories that lead to it nothing changed.
\<close>

theorem extract_recreates_files:
  assumes files: "list_all2 regular_entry es files" "separate files"
    and ws: "\<And>q. prefix q (names_of ws) \<Longrightarrow> node_at w q \<in> {None, Some Dir}"
      "\<And>q. strict_prefix (names_of ws) q \<Longrightarrow> node_at w q = None"
    and fits: "length es \<le> el_max_entries lm"
      "sum_list (map (length \<circ> snd \<circ> snd) files) \<le> el_max_total_bytes lm" "el_max_total_bytes lm < u64_max"
  shows "\<exists>w'. extract_zip_reader host_fs (\<lambda>w. (False, w)) (Inr (map Inr es)) ws lm w = (Inr (), w') \<and>
    (\<forall>p. node_at w' (names_of ws @ p) = tree_of files p) \<and>
    (\<forall>q. \<not> prefix (names_of ws) q \<and> \<not> prefix q (names_of ws) \<longrightarrow> node_at w' q = node_at w q)"
  by (rule extract_files_host[OF assms])

definition sample_tool :: zip_entry where
  "sample_tool = \<lparr>ze_name = ''bin/tool'', ze_enclosed_name = Some ''bin/tool'', ze_is_dir = False, ze_is_symlink = False,
     ze_reads = [Inr ''#!/bi'', Inr ''n/sh''], ze_unix_mode = Some 2541\<rparr>"

lemma extract_recreates_files_witness:
  "\<exists>w'. extract_zip_reader host_fs (\<lambda>w. (False, w)) (Inr [Inr sample_tool]) ''/ws'' extract_limits_default
      [([''home''], File 420 ''x'')] = (Inr (), w') \<and>
     node_at w' [''ws'', ''bin'', ''tool''] = Some (File 493 ''#!/bin/sh'') \<and> node_at w' [''ws'', ''bin''] = Some Dir \<and>
     node_at w' [''ws'', ''lib''] = None \<and> node_at w' [''home''] = Some (File 420 ''x'')"
proof -
  let ?files = "[([''bin'', ''tool''], 2541, ''#!/bin/sh'')]"
  have names: "names_of ''/ws'' = [''ws'']" by code_simp
  have files: "list_all2 regular_entry [sample_tool] ?files" "separate ?files"
    by (simp_all add: regular_entry_def sample_tool_def separate_def plain_name_def)
  have ws: "node_at [([''home''], File 420 ''x'')] q \<in> {None, Some Dir}" if "prefix q (names_of ''/ws'')" for q
    using that by (auto simp: names node_at_def prefix_Cons)
  have empty: "node_at [([''home''], File 420 ''x'')] q = None" if "strict_prefix (names_of ''/ws'') q" for q
    using that by (auto simp: names node_at_def strict_prefix_def prefix_def)
  let ?w = "[([''home''], File 420 ''x'')]"
  have fits: "length [sample_tool] \<le> el_max_entries extract_limits_default"
    "sum_list (map (length \<circ> snd \<circ> snd) ?files) \<le> el_max_total_bytes extract_limits_default"
    "el_max_total_bytes extract_limits_default < u64_max" and home: "node_at ?w [''home''] = Some (File 420 ''x'')"
    by (simp_all add: extract_limits_default_def u64_max_def node_at_def)
  have "\<exists>w'. extract_zip_reader host_fs (\<lambda>w. (False, w)) (Inr (map Inr [sample_tool])) ''/ws'' extract_limits_default ?w =
        (Inr (), w') \<and>
      (\<forall>p. node_at w' (names_of ''/ws'' @ p) = tree_of ?files p) \<and>
      (\<forall>q. \<not> prefix (names_of ''/ws'') q \<and> \<not> prefix q (names_of ''/ws'') \<longrightarrow> node_at w' q = node_at ?w q)"
    by (rule extract_recreates_files[OF files _ _ fits]) (erule ws empty)+
  with home obtain w' where w': "extract_zip_reader host_fs (\<lambda>w. (False, w)) (Inr [Inr sample_tool]) ''/ws'' extract_limits_default
        ?w = (Inr (), w')"
      "\<And>p. node_at w' ([''ws''] @ p) = tree_of ?files p" "node_at w' [''home''] = Some (File 420 ''x'')"
    unfolding names by fastforce
  show ?thesis
    using w'(1,3) w'(2)[of "[''bin'', ''tool'']"] w'(2)[of "[''bin'']"] w'(2)[of "[''lib'']"]
    by (auto simp: tree_of_def)
qed

section \<open>Packing and unpacking\<close>

text \<open>
  How the zip library presents on reading what was written with it: the name as the enclosed name, the
  kind, the mode and the content, in whatever pieces it is read.
\<close>

fun presents :: "zip_member \<Rightarrow> zip_entry \<Rightarrow> bool" where
  "presents (ZipFile name mode content) e \<longleftrightarrow>
     ze_enclosed_name e = Some name \<and> \<not> ze_is_dir e \<and> \<not> ze_is_symlink e \<and>
     read_all (ze_reads e) = Inr content \<and> ze_unix_mode e = Some mode"
| "presents (ZipSymlink name target) e \<longleftrightarrow>
     ze_enclosed_name e = Some name \<and> \<not> ze_is_dir e \<and> ze_is_symlink e \<and> read_all (ze_reads e) = Inr target"

text \<open>A regular file as it is read from the packed workspace.\<close>

definition file_at :: "'w read_fs \<Rightarrow> string \<Rightarrow> 'w \<Rightarrow> string list \<times> nat \<times> string \<Rightarrow> bool" where
  "file_at rf base w = (\<lambda>(ns, mode, content).
     ns \<noteq> [] \<and> list_all plain_name ns \<and>
     (\<exists>meta opened reads. rf_lstat rf (path_join base (join ''/'' ns)) w = Inr meta \<and>
        fm_kind meta = RegularFile \<and> fm_mode meta = mode \<and>
        rf_read rf (path_join base (join ''/'' ns)) w = Inr (opened, reads) \<and> read_all reads = Inr content))"

lemma path_text_names: "path_text (map Normal ns) = join ''/'' ns"
proof -
  have "map Normal ns \<noteq> [RootDir]" by (cases ns) auto
  moreover have "map (\<lambda>c. case c of Normal n \<Rightarrow> n | ParentDir \<Rightarrow> ''..'' | CurDir \<Rightarrow> ''.'' | RootDir \<Rightarrow> []) (map Normal ns) = ns"
    by (induction ns) auto
  ultimately show ?thesis by (simp add: path_text_def del: list.map)
qed

lemma components_under:
  assumes "a \<noteq> []" "\<not> path_absolute r" "hd (split_on (CHR ''/'') r) \<noteq> ''.''"
  shows "components (a @ ''/'' @ r) = components a @ components r"
proof -
  have "path_absolute (a @ ''/'' @ r) = path_absolute a" using assms(1) by (cases a) (auto simp: path_absolute_def)
  then show ?thesis
    using assms(2,3) by (simp add: components_def Let_def split_on_join2)
qed

lemma components_below:
  assumes base: "base \<noteq> []" "last base \<noteq> CHR ''/''" and ns: "ns \<noteq> []" "list_all plain_name ns"
  shows "components (path_join base (join ''/'' ns)) = components base @ map Normal ns"
proof -
  let ?r = "join ''/'' ns"
  note r = components_join[OF ns]
  have "RootDir \<notin> set (components ?r)" "CurDir \<notin> set (components ?r)" using r by auto
  then have "\<not> path_absolute ?r" "hd (split_on (CHR ''/'') ?r) \<noteq> ''.''"
    by (auto simp: components_def Let_def split: if_splits)
  then show ?thesis using components_under[OF base(1)] base r by (simp add: path_join_def)
qed

lemma build_zip_files:
  assumes "base \<noteq> []" "last base \<noteq> CHR ''/''"
  shows "list_all (file_at rf base w) files \<Longrightarrow>
    build_zip rf base (map (\<lambda>(ns, _). path_join base (join ''/'' ns)) files) w =
      Inr (map (\<lambda>(ns, mode, content). ZipFile (join ''/'' ns) mode content) files)"
proof (induction files)
  case (Cons f files)
  obtain ns mode content where f: "f = (ns, mode, content)" by (cases f) auto
  have ns: "ns \<noteq> []" "list_all plain_name ns" using Cons.prems by (simp_all add: f file_at_def)
  have "path_strip_prefix base (path_join base (join ''/'' ns)) = Some (join ''/'' ns)"
    by (simp add: path_strip_prefix_def components_below[OF assms ns] path_text_names)
  then have "add_path_to_zip rf (path_join base (join ''/'' ns)) base w = Inr (Some (ZipFile (join ''/'' ns) mode content))"
    using Cons.prems by (auto simp: f file_at_def add_path_to_zip_def)
  then show ?case using Cons by (simp add: f)
qed simp


text \<open>A workspace of two files on the host itself, packed and unpacked.\<close>

definition sample_rf :: "unit read_fs" where
  "sample_rf = \<lparr>rf_canonicalize = (\<lambda>p _. Inr p), rf_glob = (\<lambda>_ _. Inr []), rf_walk = (\<lambda>_ _. []),
     rf_lstat = (\<lambda>p _. if p = ''/src/bin/tool'' then Inr \<lparr>fm_kind = RegularFile, fm_mode = 493, fm_inode = (0, 1)\<rparr>
        else if p = ''/src/doc'' then Inr \<lparr>fm_kind = RegularFile, fm_mode = 420, fm_inode = (0, 2)\<rparr> else Inl ''none''),
     rf_readlink = (\<lambda>_ _. Inl ''no link''),
     rf_read = (\<lambda>p _. Inr (\<lparr>fm_kind = RegularFile, fm_mode = 420, fm_inode = (0, 0)\<rparr>,
        if p = ''/src/doc'' then [Inr ''text''] else [Inr ''#!/bi'', Inr ''n/sh'']))\<rparr>"

definition sample_packed :: "string \<Rightarrow> nat \<Rightarrow> string \<Rightarrow> zip_entry" where
  "sample_packed name mode content = \<lparr>ze_name = name, ze_enclosed_name = Some name, ze_is_dir = False,
     ze_is_symlink = False, ze_reads = [Inr content], ze_unix_mode = Some mode\<rparr>"


end
